(* ===== verification/Prelude.thy ===== *)
theory Prelude
  imports "HOL-Library.AList" "HOL-Library.List_Lexorder" "HOL-Library.Char_ord" "HOL-Library.Word"
begin

text \<open>
  What every component of the model shares: Python exceptions as the left side of a sum
  (\<open>andThen\<close> sequences two statements, \<open>rethrow\<close> is an \<open>except ... raise ...\<close> clause),
  the \<open>for\<close> loops that only raise (\<open>for_each\<close>), insertion-ordered dictionaries as
  association lists, and the string methods the code calls.  A Python \<open>str\<close> is a list of
  \<open>char\<close>, one per code point below 256; \<open>bytes\<close> is a list of 8-bit words.
\<close>

named_theorems result_simps "when a sequence of statements returns and when it raises"
named_theorems dict_simps "lookup and update of insertion-ordered dictionaries"
named_theorems text_simps "the string methods"

type_synonym bytes = "8 word list"
type_synonym ('k, 'v) dict = "('k \<times> 'v) list"

section \<open>Results\<close>

definition andThen :: "'e + 'a \<Rightarrow> ('a \<Rightarrow> 'e + 'b) \<Rightarrow> 'e + 'b" where
  "andThen m f = (case m of Inl e \<Rightarrow> Inl e | Inr x \<Rightarrow> f x)"

definition rethrow :: "('e \<Rightarrow> 'e) \<Rightarrow> 'e + 'a \<Rightarrow> 'e + 'a" where
  "rethrow h m = (case m of Inl e \<Rightarrow> Inl (h e) | Inr x \<Rightarrow> Inr x)"

definition require :: "bool \<Rightarrow> 'e \<Rightarrow> 'e + unit" where
  "require b e = (if b then Inr () else Inl e)"

definition returns :: "'e + 'a \<Rightarrow> bool" where
  "returns m = (case m of Inl _ \<Rightarrow> False | Inr _ \<Rightarrow> True)"

lemma andThen_Inr [simp]: "andThen (Inr x) f = f x"
  by (simp add: andThen_def)

lemma andThen_Inl [simp]: "andThen (Inl e) f = Inl e"
  by (simp add: andThen_def)

lemma andThen_eq_Inr [result_simps]: "andThen m f = Inr y \<longleftrightarrow> (\<exists>x. m = Inr x \<and> f x = Inr y)"
  by (cases m) auto

lemma andThen_eq_Inl [result_simps]:
  "andThen m f = Inl e \<longleftrightarrow> m = Inl e \<or> (\<exists>x. m = Inr x \<and> f x = Inl e)"
  by (cases m) auto

lemma andThen_cong [fundef_cong]:
  "m = m' \<Longrightarrow> (\<And>x. m' = Inr x \<Longrightarrow> f x = g x) \<Longrightarrow> andThen m f = andThen m' g"
  by (cases m') (auto simp: andThen_def)

lemma rethrow_Inr [simp]: "rethrow h (Inr x) = Inr x"
  by (simp add: rethrow_def)

lemma rethrow_Inl [simp]: "rethrow h (Inl e) = Inl (h e)"
  by (simp add: rethrow_def)

lemma rethrow_eq_Inr [result_simps]: "rethrow h m = Inr y \<longleftrightarrow> m = Inr y"
  by (cases m) auto

lemma rethrow_eq_Inl [result_simps]: "rethrow h m = Inl e \<longleftrightarrow> (\<exists>e'. m = Inl e' \<and> e = h e')"
  by (cases m) auto

lemma require_eq_Inr [result_simps]: "require b e = Inr u \<longleftrightarrow> b"
  by (simp add: require_def)

lemma require_eq_Inl [result_simps]: "require b e = Inl e' \<longleftrightarrow> \<not> b \<and> e' = e"
  by (auto simp: require_def)

lemma require_True [simp]: "require True e = Inr ()"
  by (simp add: require_def)

lemma require_False [simp]: "require False e = Inl e"
  by (simp add: require_def)

lemma returns_Inr [simp]: "returns (Inr x)"
  by (simp add: returns_def)

lemma returns_Inl [simp]: "\<not> returns (Inl e)"
  by (simp add: returns_def)

lemma returns_iff: "returns m \<longleftrightarrow> (\<exists>x. m = Inr x)"
  by (cases m) auto

text \<open>A loop whose body only raises or goes on.\<close>

fun for_each :: "('a \<Rightarrow> 'e + unit) \<Rightarrow> 'a list \<Rightarrow> 'e + unit" where
  "for_each f [] = Inr ()"
| "for_each f (x # xs) = andThen (f x) (\<lambda>_. for_each f xs)"

lemma for_each_eq_Inr [result_simps]: "for_each f xs = Inr u \<longleftrightarrow> (\<forall>x\<in>set xs. f x = Inr ())"
  by (induction xs) (auto simp: result_simps)

lemma for_each_eq_Inl:
  "for_each f xs = Inl e \<longleftrightarrow>
    (\<exists>ys x zs. xs = ys @ x # zs \<and> (\<forall>y\<in>set ys. f y = Inr ()) \<and> f x = Inl e)"
proof (induction xs)
  case Nil
  then show ?case by simp
next
  case (Cons a xs)
  show ?case
  proof (cases "f a")
    case (Inl e')
    have "(\<exists>ys x zs. a # xs = ys @ x # zs \<and> (\<forall>y\<in>set ys. f y = Inr ()) \<and> f x = Inl e) \<longleftrightarrow> e' = e"
      using Inl by (fastforce simp: Cons_eq_append_conv)
    with Inl show ?thesis by auto
  next
    case (Inr u)
    have "(\<exists>ys x zs. a # xs = ys @ x # zs \<and> (\<forall>y\<in>set ys. f y = Inr ()) \<and> f x = Inl e) \<longleftrightarrow>
      (\<exists>ys x zs. xs = ys @ x # zs \<and> (\<forall>y\<in>set ys. f y = Inr ()) \<and> f x = Inl e)" (is "?L \<longleftrightarrow> ?R")
    proof
      assume ?L
      with Inr show ?R by (fastforce simp: Cons_eq_append_conv)
    next
      assume ?R
      then obtain ys x zs where "xs = ys @ x # zs" "\<forall>y\<in>set ys. f y = Inr ()" "f x = Inl e"
        by blast
      with Inr have "a # xs = (a # ys) @ x # zs \<and> (\<forall>y\<in>set (a # ys). f y = Inr ()) \<and> f x = Inl e"
        by simp
      then show ?L by blast
    qed
    with Inr Cons.IH show ?thesis by simp
  qed
qed

lemma for_each_raises_in: "for_each f xs = Inl e \<Longrightarrow> \<exists>x\<in>set xs. f x = Inl e"
  by (auto simp: for_each_eq_Inl)

section \<open>Dictionaries\<close>

abbreviation dict_set :: "'k \<Rightarrow> 'v \<Rightarrow> ('k, 'v) dict \<Rightarrow> ('k, 'v) dict" where
  "dict_set k v d \<equiv> AList.update k v d"

abbreviation dict_get :: "('k, 'v) dict \<Rightarrow> 'k \<Rightarrow> 'v option" where
  "dict_get d \<equiv> map_of d"

definition dict_has :: "'k \<Rightarrow> ('k, 'v) dict \<Rightarrow> bool" where
  "dict_has k d = (map_of d k \<noteq> None)"

fun dict_of :: "('k \<times> 'v) list \<Rightarrow> ('k, 'v) dict \<Rightarrow> ('k, 'v) dict" where
  "dict_of [] d = d"
| "dict_of ((k, v) # kvs) d = dict_of kvs (dict_set k v d)"

declare AList.update_conv' [dict_simps]

lemma dict_has_iff [dict_simps]: "dict_has k d \<longleftrightarrow> k \<in> fst ` set d"
  by (simp add: dict_has_def map_of_eq_None_iff)

lemma dict_set_get [dict_simps]: "dict_get (dict_set k v d) = (dict_get d)(k \<mapsto> v)"
  by (rule AList.update_conv')

lemma dict_of_get: "dict_get (dict_of kvs d) = dict_get d ++ map_of (rev kvs)"
  by (induction kvs d rule: dict_of.induct)
     (auto simp: fun_eq_iff map_add_def AList.update_conv' split: option.splits)

lemma dict_set_keys_subset: "fst ` set d \<subseteq> K \<Longrightarrow> k \<in> K \<Longrightarrow> fst ` set (dict_set k v d) \<subseteq> K"
  by (simp add: AList.dom_update)

lemma dict_set_distinct: "distinct (map fst d) \<Longrightarrow> distinct (map fst (dict_set k v d))"
  by (rule AList.distinct_update)

section \<open>Strings\<close>

definition startswith :: "string \<Rightarrow> string \<Rightarrow> bool" where
  "startswith p s = (take (length p) s = p)"

definition removeprefix :: "string \<Rightarrow> string \<Rightarrow> string" where
  "removeprefix p s = (if startswith p s then drop (length p) s else s)"

text \<open>The code points \<open>str.isspace\<close> accepts below 256.\<close>

definition is_space :: "char \<Rightarrow> bool" where
  "is_space c = (let n = of_char c :: nat in
     9 \<le> n \<and> n \<le> 13 \<or> 28 \<le> n \<and> n \<le> 32 \<or> n = 133 \<or> n = 160)"

definition strip_by :: "(char \<Rightarrow> bool) \<Rightarrow> string \<Rightarrow> string" where
  "strip_by p s = rev (dropWhile p (rev (dropWhile p s)))"

definition py_strip :: "string \<Rightarrow> string" where
  "py_strip s = strip_by is_space s"

text \<open>\<open>str.split()\<close> without a separator.\<close>

function words_of :: "string \<Rightarrow> string list" where
  "words_of s =
     (let s' = dropWhile is_space s in
      if s' = [] then []
      else takeWhile (\<lambda>c. \<not> is_space c) s' # words_of (dropWhile (\<lambda>c. \<not> is_space c) s'))"
  by pat_completeness auto
termination
proof (relation "measure length")
  fix s s' :: string
  assume "s' = dropWhile is_space s" and "s' \<noteq> []"
  then have "length (dropWhile (\<lambda>c. \<not> is_space c) s') < length s'"
    by (metis dropWhile.simps(2) hd_dropWhile length_Cons length_dropWhile_le less_Suc_eq_le list.collapse)
  also have "\<dots> \<le> length s"
    using \<open>s' = dropWhile is_space s\<close> by (simp add: length_dropWhile_le)
  finally show "(dropWhile (\<lambda>c. \<not> is_space c) s', s) \<in> measure length" by simp
qed simp

declare words_of.simps [simp del]

fun join :: "string \<Rightarrow> string list \<Rightarrow> string" where
  "join sep [] = []"
| "join sep [s] = s"
| "join sep (s # t # ss) = s @ sep @ join sep (t # ss)"

lemma startswith_append [simp]: "startswith p (p @ s)"
  by (simp add: startswith_def)

lemma removeprefix_append [simp]: "removeprefix p (p @ s) = s"
  by (simp add: removeprefix_def)

lemma startswith_iff [text_simps]: "startswith p s \<longleftrightarrow> (\<exists>t. s = p @ t)"
  unfolding startswith_def by (metis append_eq_conv_conj)

lemma removeprefix_other: "\<not> startswith p s \<Longrightarrow> removeprefix p s = s"
  by (simp add: removeprefix_def)

lemma strip_by_idem: "strip_by p (strip_by p s) = strip_by p s"
proof -
  have hd: "xs \<noteq> [] \<Longrightarrow> \<not> p (hd xs) \<Longrightarrow> dropWhile p xs = xs" for xs
    by (cases xs) auto
  have front: "dropWhile p (rev (dropWhile p (rev (dropWhile p s)))) = rev (dropWhile p (rev (dropWhile p s)))"
    (is "dropWhile p ?t = ?t")
  proof (cases "?t = []")
    case True
    then show ?thesis by (metis dropWhile.simps(1))
  next
    case False
    let ?u = "dropWhile p s"
    have u: "?u \<noteq> []" using False by (metis dropWhile.simps(1) rev.simps(1))
    have "\<not> p (hd ?u)" using u by (metis hd_dropWhile)
    moreover have "hd ?t = hd ?u"
    proof -
      have "rev ?t = dropWhile p (rev ?u)" by simp
      moreover have "rev ?u = takeWhile p (rev ?u) @ dropWhile p (rev ?u)" by simp
      ultimately have "?u = ?t @ rev (takeWhile p (rev ?u))"
        by (metis rev_append rev_rev_ident)
      with False show ?thesis by (metis hd_append2)
    qed
    ultimately show ?thesis using False hd by metis
  qed
  then show ?thesis
    unfolding strip_by_def by (simp only: front) (simp add: dropWhile_idem)
qed

lemma py_strip_idem [simp]: "py_strip (py_strip s) = py_strip s"
  by (simp add: py_strip_def strip_by_idem)

text \<open>\<open>repr\<close> of a \<open>str\<close>.\<close>

definition hex_digit :: "nat \<Rightarrow> char" where
  "hex_digit n = (''0123456789abcdef'' ! n)"

definition is_printable :: "char \<Rightarrow> bool" where
  "is_printable c = (let n = of_char c :: nat in 32 \<le> n \<and> n \<le> 126 \<or> 161 \<le> n \<and> n \<noteq> 173)"

definition repr_char :: "char \<Rightarrow> char \<Rightarrow> string" where
  "repr_char q c =
    (if c = q \<or> c = CHR 0x5C then [CHR 0x5C, c]
     else if c = CHR 0x09 then [CHR 0x5C, CHR ''t'']
     else if c = CHR 0x0A then [CHR 0x5C, CHR ''n'']
     else if c = CHR 0x0D then [CHR 0x5C, CHR ''r'']
     else if is_printable c then [c]
     else [CHR 0x5C, CHR ''x'', hex_digit (of_char c div 16), hex_digit (of_char c mod 16)])"

definition py_repr :: "string \<Rightarrow> string" where
  "py_repr s =
    (let q = (if CHR 0x27 \<in> set s \<and> CHR 0x22 \<notin> set s then CHR 0x22 else CHR 0x27)
     in q # concat (map (repr_char q) s) @ [q])"

definition py_repr_opt :: "string option \<Rightarrow> string" where
  "py_repr_opt v = (case v of None \<Rightarrow> ''None'' | Some s \<Rightarrow> py_repr s)"

text \<open>Decimal text of a natural number.\<close>

fun show_nat :: "nat \<Rightarrow> string" where
  "show_nat n = (if n < 10 then [char_of (48 + n)] else show_nat (n div 10) @ [char_of (48 + n mod 10)])"

declare show_nat.simps [simp del]

end
