(* ===== verification/Errors.thy ===== *)
theory Errors
  imports Prelude
begin

text \<open>
  \<^verbatim>\<open>as4/errors.py\<close>, \<^verbatim>\<open>as4/profiles/peppol/exceptions.py\<close> and the parse-error part of
  \<^verbatim>\<open>as4/core/serialisation.py\<close>: the classes of receiptable errors with their class
  attributes and inheritance, the other exceptions that matter to an \<open>except\<close> clause, the
  conversion of a pydantic validation error, and how an error is stored and restored.
\<close>

section \<open>The receiptable error classes\<close>

datatype receiptable_class =
    BaseAS4ReceiptableError
  | BaseFeatureNotSupportedException
  | BundledMessagesNotSupportedException
  | BaseValueInconsistentException
  | UserMessageNotFoundException
  | PayloadInfoNotFoundException
  | MessagingNotFoundException
  | MessageIdNotFoundException
  | PartyToNotFoundException
  | BaseProfileLevelException
  | BaseMimeInconsistencyException
  | PartInfoWithoutMimePartException
  | BaseInvalidHeaderException
  | DuplicateHeaderElementException
  | MalformedSoapEnvelopeException
  | SoapPartNotFoundException
  | PayloadPartNotFoundException
  | BaseDecompressionFailureException
  | DecompressionFailedException
  | DecompressedPayloadTooLargeException
  | BaseFailedAuthenticationException
  | DigestMismatchException
  | ReferenceTargetNotFoundException
  | DuplicateElementIdException
  | SignatureSecurityTokenReferenceNotFoundException
  | SignatureCoverageException
  | UntrustedSignerException
  | SignatureVerificationFailedException
  | BaseEncryptedDataReferenceException
  | EncryptedDataReferenceNotFoundException
  | EncryptedDataNotFoundException
  | CipherValueNotFoundException
  | CipherReferenceNotFoundException
  | EncryptedAttachmentNotFoundException
  | DecryptionFailedException
  | BasePolicyNoncomplianceException
  | SignatureRequiredException
  | EncryptionRequiredException
  | UnsupportedSecurityTokenTypeException
  | UnsupportedSignatureAlgorithmException
  | UnsupportedEncryptionAlgorithmException
  | UnsupportedTransformException
  | UnsupportedDigestAlgorithmException
  | PeppolSBDHException
  | PeppolPartyIdentifierException
  | PeppolNotServicedException

primrec class_name :: "receiptable_class \<Rightarrow> string" where
  "class_name BaseAS4ReceiptableError = ''BaseAS4ReceiptableError''"
| "class_name BaseFeatureNotSupportedException = ''BaseFeatureNotSupportedException''"
| "class_name BundledMessagesNotSupportedException = ''BundledMessagesNotSupportedException''"
| "class_name BaseValueInconsistentException = ''BaseValueInconsistentException''"
| "class_name UserMessageNotFoundException = ''UserMessageNotFoundException''"
| "class_name PayloadInfoNotFoundException = ''PayloadInfoNotFoundException''"
| "class_name MessagingNotFoundException = ''MessagingNotFoundException''"
| "class_name MessageIdNotFoundException = ''MessageIdNotFoundException''"
| "class_name PartyToNotFoundException = ''PartyToNotFoundException''"
| "class_name BaseProfileLevelException = ''BaseProfileLevelException''"
| "class_name BaseMimeInconsistencyException = ''BaseMimeInconsistencyException''"
| "class_name PartInfoWithoutMimePartException = ''PartInfoWithoutMimePartException''"
| "class_name BaseInvalidHeaderException = ''BaseInvalidHeaderException''"
| "class_name DuplicateHeaderElementException = ''DuplicateHeaderElementException''"
| "class_name MalformedSoapEnvelopeException = ''MalformedSoapEnvelopeException''"
| "class_name SoapPartNotFoundException = ''SoapPartNotFoundException''"
| "class_name PayloadPartNotFoundException = ''PayloadPartNotFoundException''"
| "class_name BaseDecompressionFailureException = ''BaseDecompressionFailureException''"
| "class_name DecompressionFailedException = ''DecompressionFailedException''"
| "class_name DecompressedPayloadTooLargeException = ''DecompressedPayloadTooLargeException''"
| "class_name BaseFailedAuthenticationException = ''BaseFailedAuthenticationException''"
| "class_name DigestMismatchException = ''DigestMismatchException''"
| "class_name ReferenceTargetNotFoundException = ''ReferenceTargetNotFoundException''"
| "class_name DuplicateElementIdException = ''DuplicateElementIdException''"
| "class_name SignatureSecurityTokenReferenceNotFoundException = ''SignatureSecurityTokenReferenceNotFoundException''"
| "class_name SignatureCoverageException = ''SignatureCoverageException''"
| "class_name UntrustedSignerException = ''UntrustedSignerException''"
| "class_name SignatureVerificationFailedException = ''SignatureVerificationFailedException''"
| "class_name BaseEncryptedDataReferenceException = ''BaseEncryptedDataReferenceException''"
| "class_name EncryptedDataReferenceNotFoundException = ''EncryptedDataReferenceNotFoundException''"
| "class_name EncryptedDataNotFoundException = ''EncryptedDataNotFoundException''"
| "class_name CipherValueNotFoundException = ''CipherValueNotFoundException''"
| "class_name CipherReferenceNotFoundException = ''CipherReferenceNotFoundException''"
| "class_name EncryptedAttachmentNotFoundException = ''EncryptedAttachmentNotFoundException''"
| "class_name DecryptionFailedException = ''DecryptionFailedException''"
| "class_name BasePolicyNoncomplianceException = ''BasePolicyNoncomplianceException''"
| "class_name SignatureRequiredException = ''SignatureRequiredException''"
| "class_name EncryptionRequiredException = ''EncryptionRequiredException''"
| "class_name UnsupportedSecurityTokenTypeException = ''UnsupportedSecurityTokenTypeException''"
| "class_name UnsupportedSignatureAlgorithmException = ''UnsupportedSignatureAlgorithmException''"
| "class_name UnsupportedEncryptionAlgorithmException = ''UnsupportedEncryptionAlgorithmException''"
| "class_name UnsupportedTransformException = ''UnsupportedTransformException''"
| "class_name UnsupportedDigestAlgorithmException = ''UnsupportedDigestAlgorithmException''"
| "class_name PeppolSBDHException = ''PeppolSBDHException''"
| "class_name PeppolPartyIdentifierException = ''PeppolPartyIdentifierException''"
| "class_name PeppolNotServicedException = ''PeppolNotServicedException''"

primrec parent_class :: "receiptable_class \<Rightarrow> receiptable_class option" where
  "parent_class BaseAS4ReceiptableError = None"
| "parent_class BaseFeatureNotSupportedException = Some BaseAS4ReceiptableError"
| "parent_class BundledMessagesNotSupportedException = Some BaseFeatureNotSupportedException"
| "parent_class BaseValueInconsistentException = Some BaseAS4ReceiptableError"
| "parent_class UserMessageNotFoundException = Some BaseValueInconsistentException"
| "parent_class PayloadInfoNotFoundException = Some BaseValueInconsistentException"
| "parent_class MessagingNotFoundException = Some BaseValueInconsistentException"
| "parent_class MessageIdNotFoundException = Some BaseValueInconsistentException"
| "parent_class PartyToNotFoundException = Some BaseValueInconsistentException"
| "parent_class BaseProfileLevelException = Some BaseAS4ReceiptableError"
| "parent_class BaseMimeInconsistencyException = Some BaseAS4ReceiptableError"
| "parent_class PartInfoWithoutMimePartException = Some BaseMimeInconsistencyException"
| "parent_class BaseInvalidHeaderException = Some BaseAS4ReceiptableError"
| "parent_class DuplicateHeaderElementException = Some BaseInvalidHeaderException"
| "parent_class MalformedSoapEnvelopeException = Some BaseInvalidHeaderException"
| "parent_class SoapPartNotFoundException = Some BaseInvalidHeaderException"
| "parent_class PayloadPartNotFoundException = Some BaseInvalidHeaderException"
| "parent_class BaseDecompressionFailureException = Some BaseAS4ReceiptableError"
| "parent_class DecompressionFailedException = Some BaseDecompressionFailureException"
| "parent_class DecompressedPayloadTooLargeException = Some BaseDecompressionFailureException"
| "parent_class BaseFailedAuthenticationException = Some BaseAS4ReceiptableError"
| "parent_class DigestMismatchException = Some BaseFailedAuthenticationException"
| "parent_class ReferenceTargetNotFoundException = Some BaseFailedAuthenticationException"
| "parent_class DuplicateElementIdException = Some BaseFailedAuthenticationException"
| "parent_class SignatureSecurityTokenReferenceNotFoundException = Some BaseFailedAuthenticationException"
| "parent_class SignatureCoverageException = Some BaseFailedAuthenticationException"
| "parent_class UntrustedSignerException = Some BaseFailedAuthenticationException"
| "parent_class SignatureVerificationFailedException = Some BaseFailedAuthenticationException"
| "parent_class BaseEncryptedDataReferenceException = Some BaseAS4ReceiptableError"
| "parent_class EncryptedDataReferenceNotFoundException = Some BaseEncryptedDataReferenceException"
| "parent_class EncryptedDataNotFoundException = Some BaseEncryptedDataReferenceException"
| "parent_class CipherValueNotFoundException = Some BaseEncryptedDataReferenceException"
| "parent_class CipherReferenceNotFoundException = Some BaseEncryptedDataReferenceException"
| "parent_class EncryptedAttachmentNotFoundException = Some BaseEncryptedDataReferenceException"
| "parent_class DecryptionFailedException = Some BaseEncryptedDataReferenceException"
| "parent_class BasePolicyNoncomplianceException = Some BaseAS4ReceiptableError"
| "parent_class SignatureRequiredException = Some BasePolicyNoncomplianceException"
| "parent_class EncryptionRequiredException = Some BasePolicyNoncomplianceException"
| "parent_class UnsupportedSecurityTokenTypeException = Some BasePolicyNoncomplianceException"
| "parent_class UnsupportedSignatureAlgorithmException = Some BasePolicyNoncomplianceException"
| "parent_class UnsupportedEncryptionAlgorithmException = Some BasePolicyNoncomplianceException"
| "parent_class UnsupportedTransformException = Some BasePolicyNoncomplianceException"
| "parent_class UnsupportedDigestAlgorithmException = Some BasePolicyNoncomplianceException"
| "parent_class PeppolSBDHException = Some BaseProfileLevelException"
| "parent_class PeppolPartyIdentifierException = Some BaseProfileLevelException"
| "parent_class PeppolNotServicedException = Some BaseProfileLevelException"

definition own_error_code :: "receiptable_class \<Rightarrow> string option" where
  \<open>own_error_code = map_of [
    (BaseFeatureNotSupportedException, ''EBMS:0002''),
    (BaseValueInconsistentException, ''EBMS:0003''),
    (BaseProfileLevelException, ''EBMS:0004''),
    (BaseMimeInconsistencyException, ''EBMS:0007''),
    (BaseInvalidHeaderException, ''EBMS:0009''),
    (BaseDecompressionFailureException, ''EBMS:0303''),
    (BaseFailedAuthenticationException, ''EBMS:0101''),
    (BaseEncryptedDataReferenceException, ''EBMS:0102''),
    (BasePolicyNoncomplianceException, ''EBMS:0103'')]\<close>

definition own_short_description :: "receiptable_class \<Rightarrow> string option" where
  \<open>own_short_description = map_of [
    (BaseFeatureNotSupportedException, ''FeatureNotSupported''),
    (BaseValueInconsistentException, ''ValueInconsistent''),
    (BaseProfileLevelException, ''Other''),
    (BaseMimeInconsistencyException, ''MimeInconsistency''),
    (BaseInvalidHeaderException, ''InvalidHeader''),
    (BaseDecompressionFailureException, ''DecompressionFailure''),
    (BaseFailedAuthenticationException, ''FailedAuthentication''),
    (BaseEncryptedDataReferenceException, ''FailedDecryption''),
    (BasePolicyNoncomplianceException, ''PolicyNoncompliance'')]\<close>

definition own_description :: "receiptable_class \<Rightarrow> string option" where
  \<open>own_description = map_of [
    (BaseFeatureNotSupportedException,
      ''Although the message document is well formed and schema valid, some element/attribute value cannot be processed as expected because the related feature is not supported by the MSH.''),
    (BaseValueInconsistentException,
      ''Although the message document is well formed and schema valid, some element/attribute value is inconsistent either with the content of other element/attribute, or with the processing mode of the MSH, or with the normative requirements of the ebMS specification.''),
    (BaseMimeInconsistencyException,
      ''The use of MIME is not consistent with the required usage in this specification.''),
    (BaseInvalidHeaderException,
      ''The ebMS header is either not valid against the ebMS packaging rules, or not conform to the processing mode of the MSH.''),
    (BaseDecompressionFailureException, ''An error occurred during the decompression.''),
    (BaseFailedAuthenticationException,
      ''The signature in the Security header intended for the "ebms" SOAP actor, could not be validated by the Security module.''),
    (BaseEncryptedDataReferenceException,
      ''The encrypted data reference the Security header intended for the "ebms" SOAP actor could not be decrypted by the Security Module.''),
    (BasePolicyNoncomplianceException,
      ''The processor determined that the message's security methods, parameters, scope or other security policy-level requirements or agreements were not satisfied.''),
    (PeppolSBDHException, ''Undefined SBDH error''),
    (PeppolPartyIdentifierException,
      ''Party identifier does not follow the Peppol AS4 profile''),
    (PeppolNotServicedException,
      ''The addressed participant is not serviced by this access point'')]\<close>

definition own_severity :: "receiptable_class \<Rightarrow> string option" where
  \<open>own_severity = map_of [
    (BaseFeatureNotSupportedException, ''warning''),
    (BaseValueInconsistentException, ''failure''),
    (BaseProfileLevelException, ''failure''),
    (BaseMimeInconsistencyException, ''failure''),
    (BaseInvalidHeaderException, ''failure''),
    (BaseDecompressionFailureException, ''failure''),
    (BaseFailedAuthenticationException, ''failure''),
    (BaseEncryptedDataReferenceException, ''failure''),
    (BasePolicyNoncomplianceException, ''failure'')]\<close>

definition own_category :: "receiptable_class \<Rightarrow> string option" where
  \<open>own_category = map_of [
    (BaseFeatureNotSupportedException, ''Content''),
    (BaseValueInconsistentException, ''Content''),
    (BaseProfileLevelException, ''Content''),
    (BaseMimeInconsistencyException, ''Unpackaging''),
    (BaseInvalidHeaderException, ''Unpackaging''),
    (BaseDecompressionFailureException, ''Communication''),
    (BaseFailedAuthenticationException, ''Processing''),
    (BaseEncryptedDataReferenceException, ''Processing''),
    (BasePolicyNoncomplianceException, ''Processing'')]\<close>

definition own_detail :: "receiptable_class \<Rightarrow> string option" where
  \<open>own_detail = map_of [
    (BaseAS4ReceiptableError, ''''),
    (BundledMessagesNotSupportedException, ''eb:Messaging bundles more than one message''),
    (UserMessageNotFoundException, ''Missing UserMessage in ebMS Messaging header''),
    (PayloadInfoNotFoundException, ''Missing PayloadInfo in UserMessage''),
    (DuplicateHeaderElementException,
      ''A header element permitted once appears more than once''),
    (MalformedSoapEnvelopeException, ''SOAP part is not well-formed XML''),
    (SoapPartNotFoundException,
      ''Message carries no readable application/soap+xml part''),
    (PayloadPartNotFoundException,
      ''Message carries no readable application/octet-stream part''),
    (DecompressionFailedException, ''Payload is not valid gzip''),
    (DecompressedPayloadTooLargeException,
      ''Decompressed payload exceeds the configured maximum size''),
    (SignatureSecurityTokenReferenceNotFoundException,
      ''Missing or empty SecurityTokenReference URI for Signature''),
    (UntrustedSignerException, ''Signing certificate rejected''),
    (SignatureVerificationFailedException,
      ''Signature does not verify against the signing certificate''),
    (EncryptedDataReferenceNotFoundException,
      ''Error processing the WSSecurity Header, cannot find a reference to the encrypted data''),
    (CipherValueNotFoundException,
      ''Error processing the WSSecurity Header, missing xenc:CipherData / xenc:CipherValue from EncryptedKey''),
    (CipherReferenceNotFoundException,
      ''Error processing the WSSecurity Header, missing xenc:CipherData / xenc:CipherReference from EncryptedData''),
    (DecryptionFailedException, ''Could not decrypt the message payload''),
    (SignatureRequiredException,
      ''SecurityPolicy requires a signature and the message carries no ds:Signature''),
    (EncryptionRequiredException,
      ''SecurityPolicy requires encryption and the message carries no xenc:EncryptedKey''),
    (PeppolNotServicedException, ''PEPPOL:NOT_SERVICED'')]\<close>

text \<open>\<open>class_tree\<close> is what \<open>__subclasses__\<close> shows of a class hierarchy.\<close>

datatype 'c class_tree = ClassTree (tree_class: 'c) (subclasses: "'c class_tree list")

primrec descendants :: "'c class_tree \<Rightarrow> 'c list" where
  "descendants (ClassTree c ts) = concat (map (\<lambda>t. tree_class t # descendants t) ts)"

definition receiptable_classes :: "receiptable_class class_tree" where
  "receiptable_classes =
    ClassTree BaseAS4ReceiptableError [
      ClassTree BaseFeatureNotSupportedException [
        ClassTree BundledMessagesNotSupportedException []],
      ClassTree BaseValueInconsistentException [
        ClassTree UserMessageNotFoundException [],
        ClassTree PayloadInfoNotFoundException [],
        ClassTree MessagingNotFoundException [],
        ClassTree MessageIdNotFoundException [],
        ClassTree PartyToNotFoundException []],
      ClassTree BaseProfileLevelException [
        ClassTree PeppolSBDHException [],
        ClassTree PeppolPartyIdentifierException [],
        ClassTree PeppolNotServicedException []],
      ClassTree BaseMimeInconsistencyException [
        ClassTree PartInfoWithoutMimePartException []],
      ClassTree BaseInvalidHeaderException [
        ClassTree DuplicateHeaderElementException [],
        ClassTree MalformedSoapEnvelopeException [],
        ClassTree SoapPartNotFoundException [],
        ClassTree PayloadPartNotFoundException []],
      ClassTree BaseDecompressionFailureException [
        ClassTree DecompressionFailedException [],
        ClassTree DecompressedPayloadTooLargeException []],
      ClassTree BaseFailedAuthenticationException [
        ClassTree DigestMismatchException [],
        ClassTree ReferenceTargetNotFoundException [],
        ClassTree DuplicateElementIdException [],
        ClassTree SignatureSecurityTokenReferenceNotFoundException [],
        ClassTree SignatureCoverageException [],
        ClassTree UntrustedSignerException [],
        ClassTree SignatureVerificationFailedException []],
      ClassTree BaseEncryptedDataReferenceException [
        ClassTree EncryptedDataReferenceNotFoundException [],
        ClassTree EncryptedDataNotFoundException [],
        ClassTree CipherValueNotFoundException [],
        ClassTree CipherReferenceNotFoundException [],
        ClassTree EncryptedAttachmentNotFoundException [],
        ClassTree DecryptionFailedException []],
      ClassTree BasePolicyNoncomplianceException [
        ClassTree SignatureRequiredException [],
        ClassTree EncryptionRequiredException [],
        ClassTree UnsupportedSecurityTokenTypeException [],
        ClassTree UnsupportedSignatureAlgorithmException [],
        ClassTree UnsupportedEncryptionAlgorithmException [],
        ClassTree UnsupportedTransformException [],
        ClassTree UnsupportedDigestAlgorithmException []]]"

text \<open>Attribute lookup follows the inheritance chain, as Python's does.\<close>

definition class_depth :: "receiptable_class \<Rightarrow> nat" where
  "class_depth c = (if parent_class c = None then 0
     else if parent_class c = Some BaseAS4ReceiptableError then 1 else 2)"

lemma parent_depth: "parent_class c = Some p \<Longrightarrow> class_depth p < class_depth c"
  by (cases c) (auto simp: class_depth_def)

function class_attr :: "(receiptable_class \<Rightarrow> string option) \<Rightarrow> receiptable_class \<Rightarrow> string option" where
  "class_attr own c =
     (case own c of
        Some v \<Rightarrow> Some v
      | None \<Rightarrow> (case parent_class c of None \<Rightarrow> None | Some p \<Rightarrow> class_attr own p))"
  by pat_completeness auto
termination
  by (relation "measure (\<lambda>(own, c). class_depth c)") (simp_all only: in_measure wf_measure prod.case parent_depth)

declare class_attr.simps [simp del]

section \<open>Error instances\<close>

record receiptable =
  error_class :: receiptable_class
  detail :: string

definition make_error :: "receiptable_class \<Rightarrow> string \<Rightarrow> receiptable" where
  "make_error c d =
     \<lparr>error_class = c,
      detail = (if d \<noteq> '''' then d else (case class_attr own_detail c of None \<Rightarrow> '''' | Some s \<Rightarrow> s))\<rparr>"

definition from_stored :: "receiptable_class \<Rightarrow> string \<Rightarrow> receiptable" where
  "from_stored c d = \<lparr>error_class = c, detail = d\<rparr>"

definition error_code :: "receiptable \<Rightarrow> string option" where
  "error_code e = class_attr own_error_code (error_class e)"

definition short_description :: "receiptable \<Rightarrow> string option" where
  "short_description e = class_attr own_short_description (error_class e)"

definition description :: "receiptable \<Rightarrow> string option" where
  "description e = class_attr own_description (error_class e)"

definition severity :: "receiptable \<Rightarrow> string option" where
  "severity e = class_attr own_severity (error_class e)"

definition category :: "receiptable \<Rightarrow> string option" where
  "category e = class_attr own_category (error_class e)"

text \<open>The constructors that build their own detail.\<close>

definition part_info_without_mime_part :: "string \<Rightarrow> receiptable" where
  "part_info_without_mime_part href =
     make_error PartInfoWithoutMimePartException
       (''eb:PartInfo/@href '' @ href @ '' names no MIME part in the message'')"

definition digest_mismatch :: "string \<Rightarrow> receiptable" where
  "digest_mismatch uri =
     make_error DigestMismatchException (''Digest mismatch for signature reference '' @ uri)"

definition reference_target_not_found :: "string \<Rightarrow> receiptable" where
  "reference_target_not_found uri =
     make_error ReferenceTargetNotFoundException (''Cannot resolve signature reference '' @ uri)"

definition duplicate_element_id :: "string \<Rightarrow> receiptable" where
  "duplicate_element_id identifier =
     make_error DuplicateElementIdException (''Duplicate element id '' @ identifier)"

definition signature_coverage_error :: "string list \<Rightarrow> receiptable" where
  "signature_coverage_error missing =
     make_error SignatureCoverageException (''Signature does not cover '' @ join '', '' missing)"

definition encrypted_data_not_found :: "string \<Rightarrow> receiptable" where
  "encrypted_data_not_found uri =
     make_error EncryptedDataNotFoundException
       (''Error processing the WSSecurity Header, cannot find the EncryptedData with the reference ''
        @ uri @ ''.'')"

definition encrypted_attachment_not_found :: "string \<Rightarrow> receiptable" where
  "encrypted_attachment_not_found attachment_id =
     make_error EncryptedAttachmentNotFoundException
       (''Error processing the WSSecurity Header, no MIME attachment matches cid:'' @ attachment_id)"

definition unsupported_security_token_type :: "string \<Rightarrow> receiptable" where
  "unsupported_security_token_type value_type =
     make_error UnsupportedSecurityTokenTypeException
       (''Unsupported security token value type '' @ value_type)"

definition unsupported_signature_algorithm :: "string \<Rightarrow> receiptable" where
  "unsupported_signature_algorithm algorithm =
     make_error UnsupportedSignatureAlgorithmException (''Unsupported signature algorithm '' @ algorithm)"

definition unsupported_encryption_algorithm :: "string \<Rightarrow> receiptable" where
  "unsupported_encryption_algorithm algorithm =
     make_error UnsupportedEncryptionAlgorithmException (''Unsupported encryption algorithm '' @ algorithm)"

definition unsupported_transform :: "string \<Rightarrow> receiptable" where
  "unsupported_transform algorithm =
     make_error UnsupportedTransformException (''Unsupported transform '' @ algorithm)"

definition unsupported_digest_algorithm :: "string \<Rightarrow> receiptable" where
  "unsupported_digest_algorithm algorithm =
     make_error UnsupportedDigestAlgorithmException (''Unsupported digest algorithm '' @ algorithm)"

definition peppol_party_identifier_type :: string where
  "peppol_party_identifier_type = ''urn:fdc:peppol.eu:2017:identifiers:ap''"

definition peppol_party_identifier_error :: "string \<Rightarrow> string option \<Rightarrow> receiptable" where
  "peppol_party_identifier_error element scheme =
     make_error PeppolPartyIdentifierException
       (''PartyInfo/'' @ element @ ''/PartyId/@type must be '' @ peppol_party_identifier_type
        @ '', not '' @ py_repr_opt scheme)"

section \<open>Every exception the model distinguishes\<close>

text \<open>One entry of \<open>pydantic_core.ValidationError.errors()\<close>.\<close>

datatype loc_item = LocName string | LocIndex nat

datatype context_error = CtxRepeatedElement | CtxOther

record error_details =
  loc :: "loc_item list"
  err_type :: string
  msg :: string
  ctx_error :: "context_error option"

datatype exn =
    Receiptable receiptable
  | XMLSyntaxError
  | ValidationError "error_details list"
  | RepeatedElement string
  | MismatchedLocalPartyError string string
  | ValueError string
  | UnknownProfileError string
  | UnknownReceiptableError string
  | UntrustedSignerError string
  | ParticipantNotServicedError string
  | RemotePartyNotVerifiedError string
  | ReceiptVerificationError string
  | SignerNotConfiguredError string
  | UnsupportedDigestAlgorithm string
  | UnsupportedTransform string
  | UnsupportedSignatureAlgorithm string
  | UnsupportedSecurityTokenType string
  | UnsupportedAlgorithm string
  | InvalidVersion string
  | InvalidSignature
  | InvalidTag
  | GzipOSError
  | GzipEOFError
  | ZlibError
  | IndexError
  | KeyError string
  | TypeError string
  | AttributeError string
  | AssertionError
  | NotImplementedError string
  | OtherError string

text \<open>What \<open>except ValueError\<close> catches: the class and its subclasses.\<close>

definition is_value_error :: "exn \<Rightarrow> bool" where
  "is_value_error e =
     (case e of
        ValueError _ \<Rightarrow> True
      | RepeatedElement _ \<Rightarrow> True
      | MismatchedLocalPartyError _ _ \<Rightarrow> True
      | ValidationError _ \<Rightarrow> True
      | _ \<Rightarrow> False)"

lemma is_value_error_ValueError [simp]: "is_value_error (ValueError s)"
  by (simp add: is_value_error_def)

section \<open>From a validation error to a receiptable error\<close>

fun loc_text :: "loc_item \<Rightarrow> string" where
  "loc_text (LocName s) = s"
| "loc_text (LocIndex n) = show_nat n"

definition error_location :: "error_details \<Rightarrow> string" where
  "error_location d = join ''/'' (map loc_text (loc d))"

definition from_pydantic_error :: "receiptable_class \<Rightarrow> error_details \<Rightarrow> receiptable" where
  "from_pydantic_error c d =
     (if err_type d = ''missing'' then make_error c (''Missing expected content at: '' @ error_location d)
      else make_error c (msg d @ '' at: '' @ error_location d))"

definition from_validation_error :: "error_details list \<Rightarrow> exn + receiptable" where
  "from_validation_error errors =
     (case errors of
        [] \<Rightarrow> Inl (ValueError ''not enough values to unpack (expected at least 1, got 0)'')
      | d # _ \<Rightarrow>
          if ctx_error d = Some CtxRepeatedElement
          then Inr (make_error DuplicateHeaderElementException (''Repeated element at: '' @ error_location d))
          else Inr (from_pydantic_error BaseValueInconsistentException d))"

section \<open>Storing and restoring a parse error\<close>

datatype stored_error = ErrorObject receiptable | ErrorDict "(string, string) dict"

definition errors_by_name :: "(string, receiptable_class) dict" where
  "errors_by_name = dict_of (map (\<lambda>c. (class_name c, c)) (descendants receiptable_classes)) []"

definition load_parse_error :: "stored_error \<Rightarrow> exn + receiptable" where
  "load_parse_error v =
     (case v of
        ErrorObject e \<Rightarrow> Inr e
      | ErrorDict d \<Rightarrow>
          (case dict_get d ''type'' of
             None \<Rightarrow> Inl (KeyError ''type'')
           | Some name \<Rightarrow>
               (case dict_get errors_by_name name of
                  None \<Rightarrow> Inl (UnknownReceiptableError name)
                | Some c \<Rightarrow>
                    (case dict_get d ''detail'' of
                       None \<Rightarrow> Inl (KeyError ''detail'')
                     | Some t \<Rightarrow> Inr (from_stored c t)))))"

definition dump_parse_error :: "receiptable \<Rightarrow> (string, string) dict" where
  "dump_parse_error e = [(''type'', class_name (error_class e)), (''detail'', detail e)]"

section \<open>What the tables hold\<close>

lemma errors_by_name_eq: "errors_by_name = map (\<lambda>c. (class_name c, c)) (descendants receiptable_classes)"
  by code_simp

text \<open>The names are told apart by a checksum, which is cheaper to compare than the names themselves.\<close>

definition checksum :: "string \<Rightarrow> int" where
  "checksum s = foldr (\<lambda>c n. of_char c + 31 * n) s 0"

lemma class_names_differ: "inj_on class_name (set (descendants receiptable_classes))"
proof -
  have "distinct (map (checksum \<circ> class_name) (descendants receiptable_classes))"
    by (simp add: receiptable_classes_def checksum_def)
  then have "inj_on (checksum \<circ> class_name) (set (descendants receiptable_classes))"
    by (simp only: distinct_map)
  then show ?thesis by (rule inj_on_imageI2)
qed

lemma descendants_all: "c \<noteq> BaseAS4ReceiptableError \<Longrightarrow> c \<in> set (descendants receiptable_classes)"
  by (cases c) (simp_all add: receiptable_classes_def)

lemma errors_by_name_class_name:
  assumes "c \<noteq> BaseAS4ReceiptableError"
  shows "dict_get errors_by_name (class_name c) = Some c"
proof -
  have "map_of (map (\<lambda>c. (class_name c, c)) cs) (class_name c) = Some c"
    if "c \<in> set cs" "inj_on class_name (set cs)" for cs
    using that by (induction cs) (auto simp: inj_on_def)
  with assms class_names_differ descendants_all show ?thesis by (simp add: errors_by_name_eq)
qed

lemma class_attr_root [simp]: "class_attr own BaseAS4ReceiptableError = own BaseAS4ReceiptableError"
  by (simp add: class_attr.simps split: option.splits)

lemma class_attr_parent:
  "parent_class c = Some p \<Longrightarrow> class_attr own c = (case own c of Some v \<Rightarrow> Some v | None \<Rightarrow> class_attr own p)"
  by (simp add: class_attr.simps [of own c] split: option.splits)

lemma own_error_code_leaf: "parent_class c = Some p \<Longrightarrow> p \<noteq> BaseAS4ReceiptableError \<Longrightarrow> own_error_code c = None"
  by (cases c) (simp_all add: own_error_code_def)

section \<open>Properties\<close>

text \<open>
  C39.  A parse error that is stored with its message is read back as it was, class and detail, except
  an instance of the root class itself, whose name is not among its descendants.
\<close>

theorem stored_parse_error_is_restored:
  "load_parse_error (ErrorDict (dump_parse_error err)) =
    (if error_class err = BaseAS4ReceiptableError then Inl (UnknownReceiptableError ''BaseAS4ReceiptableError'')
     else Inr err)"
proof (cases "error_class err = BaseAS4ReceiptableError")
  case True
  then show ?thesis
    by (simp add: load_parse_error_def dump_parse_error_def errors_by_name_eq receiptable_classes_def)
next
  case False
  then show ?thesis
    by (cases err) (simp add: load_parse_error_def dump_parse_error_def errors_by_name_class_name from_stored_def)
qed

text \<open>An error an error signal can be built from: every attribute the signal carries is set.\<close>

definition reportable :: "receiptable \<Rightarrow> bool" where
  "reportable err \<longleftrightarrow> error_code err \<noteq> None \<and> short_description err \<noteq> None \<and> description err \<noteq> None \<and>
     severity err \<noteq> None \<and> category err \<noteq> None"

lemma reportable_classes:
  "list_all (\<lambda>c. reportable \<lparr>error_class = c, detail = ''''\<rparr> = (c \<noteq> BaseProfileLevelException))
     (descendants receiptable_classes)"
  by code_simp

text \<open>
  Every error class declares or inherits all that an error signal carries, except the root and the
  bare profile level class, which has no description.
\<close>

lemma reportable_iff:
  "reportable err \<longleftrightarrow> error_class err \<notin> {BaseAS4ReceiptableError, BaseProfileLevelException}"
proof (cases "error_class err = BaseAS4ReceiptableError")
  case True
  then show ?thesis by (simp add: reportable_def error_code_def own_error_code_def)
next
  case False
  have "reportable err = reportable \<lparr>error_class = error_class err, detail = ''''\<rparr>"
    by (simp add: reportable_def error_code_def short_description_def description_def severity_def category_def)
  with False reportable_classes descendants_all show ?thesis by (auto simp: list_all_iff)
qed

end
