(* ===== verification/Base64.thy ===== *)
theory Base64
  imports Errors
begin

text \<open>
  The standard library's base64 as the code uses it (\<open>base64.b64encode\<close>, and
  \<open>base64.b64decode\<close> in both modes: without \<open>validate\<close> characters outside the alphabet are
  skipped, with it they are refused), and the certificate and bytes fields of
  \<^verbatim>\<open>as4/core/serialisation.py\<close> built on it.
\<close>

section \<open>The alphabet\<close>

definition b64_alphabet :: string where
  "b64_alphabet = ''ABCDEFGHIJKLMNOPQRSTUVWXYZabcdefghijklmnopqrstuvwxyz0123456789+/''"

definition b64_char :: "nat \<Rightarrow> char" where
  "b64_char n = b64_alphabet ! n"

definition b64_value :: "char \<Rightarrow> nat option" where
  "b64_value c =
     (let n = of_char c :: nat in
      if 65 \<le> n \<and> n \<le> 90 then Some (n - 65)
      else if 97 \<le> n \<and> n \<le> 122 then Some (n - 71)
      else if 48 \<le> n \<and> n \<le> 57 then Some (n + 4)
      else if n = 43 then Some 62
      else if n = 47 then Some 63
      else None)"

lemma b64_char_table:
  "list_all (\<lambda>n. b64_value (b64_char n) = Some n \<and> b64_char n \<noteq> CHR ''='' \<and> of_char (b64_char n) < (128::nat)) [0..<64]"
  by (simp add: upt_rec b64_char_def b64_alphabet_def b64_value_def Let_def)

lemma b64_value_char [simp]: "n < 64 \<Longrightarrow> b64_value (b64_char n) = Some n"
  and b64_char_not_pad [simp]: "n < 64 \<Longrightarrow> b64_char n \<noteq> CHR ''=''"
  and b64_char_ascii [simp]: "n < 64 \<Longrightarrow> of_char (b64_char n) < (128::nat)"
  using b64_char_table by (auto simp: list_all_iff)

section \<open>Encoding\<close>

fun b64encode :: "bytes \<Rightarrow> string" where
  "b64encode [] = []"
| "b64encode [a] =
     [b64_char (unat a div 4), b64_char (unat a mod 4 * 16), CHR ''='', CHR ''='']"
| "b64encode [a, b] =
     [b64_char (unat a div 4), b64_char (unat a mod 4 * 16 + unat b div 16),
      b64_char (unat b mod 16 * 4), CHR ''='']"
| "b64encode (a # b # c # rest) =
     [b64_char (unat a div 4), b64_char (unat a mod 4 * 16 + unat b div 16),
      b64_char (unat b mod 16 * 4 + unat c div 64), b64_char (unat c mod 64)] @ b64encode rest"

section \<open>Decoding\<close>

text \<open>
  \<open>binascii.a2b_base64\<close>: \<open>q\<close> is the position in the quad, \<open>l\<close> the bits carried over,
  \<open>pads\<close> the padding seen in the quad, \<open>started\<close> whether any padding was seen.
\<close>

fun a2b_base64 :: "bool \<Rightarrow> string \<Rightarrow> nat \<Rightarrow> nat \<Rightarrow> nat \<Rightarrow> bool \<Rightarrow> exn + bytes" where
  "a2b_base64 strict [] q l pads started =
     (if q = 0 then Inr []
      else if q = 1 then Inl (ValueError ''Invalid base64-encoded string'')
      else Inl (ValueError ''Incorrect padding''))"
| "a2b_base64 strict (ch # s) q l pads started =
     (if ch = CHR ''='' then
        (if 2 \<le> q \<and> 4 \<le> q + Suc pads then
           (if strict \<and> s \<noteq> [] then Inl (ValueError ''Excess data after padding'') else Inr [])
         else a2b_base64 strict s q l (if 2 \<le> q then Suc pads else pads) True)
      else
        (case b64_value ch of
           None \<Rightarrow>
             (if strict then Inl (ValueError ''Only base64 data is allowed'')
              else a2b_base64 strict s q l pads started)
         | Some v \<Rightarrow>
             (if strict \<and> started then Inl (ValueError ''Discontinuous padding not allowed'')
              else if q = 0 then a2b_base64 strict s 1 v 0 started
              else if q = 1 then
                andThen (a2b_base64 strict s 2 (v mod 16) 0 started)
                  (\<lambda>bs. Inr (word_of_nat (l * 4 + v div 16) # bs))
              else if q = 2 then
                andThen (a2b_base64 strict s 3 (v mod 4) 0 started)
                  (\<lambda>bs. Inr (word_of_nat (l * 16 + v div 4) # bs))
              else
                andThen (a2b_base64 strict s 0 0 0 started)
                  (\<lambda>bs. Inr (word_of_nat (l * 64 + v) # bs)))))"

definition is_ascii :: "string \<Rightarrow> bool" where
  "is_ascii s = list_all (\<lambda>c. of_char c < (128::nat)) s"

definition b64decode :: "bool \<Rightarrow> string \<Rightarrow> exn + bytes" where
  "b64decode validate s =
     (if \<not> is_ascii s then Inl (ValueError ''string argument should contain only ASCII characters'')
      else if validate \<and> startswith ''='' s then Inl (ValueError ''Leading padding not allowed'')
      else a2b_base64 validate s 0 0 0 False)"

section \<open>Round trip\<close>

lemma unat_byte: "unat (a :: 8 word) < 256"
  using unsigned_less [of a] by simp

lemma unat_bytes_inverse: "word_of_nat (unat a) = (a :: 8 word)"
  by simp

lemma byte_div: "unat (a :: 8 word) div 4 < 64" "unat a div 16 < 16" "unat a div 64 < 4"
  using unat_byte [of a] by (simp_all add: less_mult_imp_div_less)

lemma mod_bounds: "(x :: nat) mod 4 < 4" "x mod 16 < 16" "x mod 64 < 64"
  by simp_all

lemma sextets:
  fixes a b c :: "8 word"
  shows "unat a div 4 < 64" "unat a mod 4 * 16 < 64" "unat a mod 4 * 16 + unat b div 16 < 64"
    "unat b mod 16 * 4 < 64" "unat b mod 16 * 4 + unat c div 64 < 64" "unat c mod 64 < 64"
  using byte_div(1) [of a] byte_div(2) [of b] byte_div(3) [of c] mod_bounds(1) [of "unat a"]
    mod_bounds(2) [of "unat b"] mod_bounds(3) [of "unat c"] by linarith+

lemma byte_of_sextets:
  fixes a b c :: "8 word"
  shows "word_of_nat (unat a div 4 * 4 + (unat a mod 4 * 16 + unat b div 16) div 16) = a"
    and "word_of_nat (unat a div 4 * 4 + (unat a mod 4 * 16) div 16) = a"
    and "word_of_nat ((unat a mod 4 * 16 + unat b div 16) mod 16 * 16
           + (unat b mod 16 * 4 + unat c div 64) div 4) = b"
    and "word_of_nat ((unat a mod 4 * 16 + unat b div 16) mod 16 * 16 + (unat b mod 16 * 4) div 4) = b"
    and "word_of_nat ((unat b mod 16 * 4 + unat c div 64) mod 4 * 64 + unat c mod 64) = c"
proof -
  have "unat a div 4 * 4 + (unat a mod 4 * 16 + unat b div 16) div 16 = unat a"
    using div_mult_mod_eq [of "unat a" 4] byte_div(2) [of b] by simp
  then show "word_of_nat (unat a div 4 * 4 + (unat a mod 4 * 16 + unat b div 16) div 16) = a"
    by (simp only: unat_bytes_inverse)
  have "unat a div 4 * 4 + (unat a mod 4 * 16) div 16 = unat a"
    using div_mult_mod_eq [of "unat a" 4] by simp
  then show "word_of_nat (unat a div 4 * 4 + (unat a mod 4 * 16) div 16) = a"
    by (simp only: unat_bytes_inverse)
  have "(unat a mod 4 * 16 + unat b div 16) mod 16 * 16
     + (unat b mod 16 * 4 + unat c div 64) div 4 = unat b"
    using div_mult_mod_eq [of "unat b" 16] byte_div(2) [of b] byte_div(3) [of c] by simp
  then show "word_of_nat ((unat a mod 4 * 16 + unat b div 16) mod 16 * 16
     + (unat b mod 16 * 4 + unat c div 64) div 4) = b"
    by (simp only: unat_bytes_inverse)
  have "(unat a mod 4 * 16 + unat b div 16) mod 16 * 16 + (unat b mod 16 * 4) div 4 = unat b"
    using div_mult_mod_eq [of "unat b" 16] byte_div(2) [of b] by simp
  then show "word_of_nat ((unat a mod 4 * 16 + unat b div 16) mod 16 * 16 + (unat b mod 16 * 4) div 4) = b"
    by (simp only: unat_bytes_inverse)
  have "(unat b mod 16 * 4 + unat c div 64) mod 4 * 64 + unat c mod 64 = unat c"
    using div_mult_mod_eq [of "unat c" 64] byte_div(3) [of c] by simp
  then show "word_of_nat ((unat b mod 16 * 4 + unat c div 64) mod 4 * 64 + unat c mod 64) = c"
    by (simp only: unat_bytes_inverse)
qed

text \<open>One full quad is one group of three bytes.\<close>

lemma a2b_quad:
  assumes "v1 < 64" "v2 < 64" "v3 < 64" "v4 < 64"
  shows "a2b_base64 strict (b64_char v1 # b64_char v2 # b64_char v3 # b64_char v4 # s) 0 0 0 False =
    andThen (a2b_base64 strict s 0 0 0 False) (\<lambda>bs. Inr (word_of_nat (v1 * 4 + v2 div 16) #
      word_of_nat (v2 mod 16 * 16 + v3 div 4) # word_of_nat (v3 mod 4 * 64 + v4) # bs))"
  using assms by (cases "a2b_base64 strict s 0 0 0 False") simp_all

lemma a2b_b64encode: "a2b_base64 strict (b64encode bs) 0 0 0 False = Inr bs"
proof (induction bs rule: b64encode.induct)
  case 1
  then show ?case by simp
next
  case (2 a)
  then show ?case using sextets byte_of_sextets by simp
next
  case (3 a b)
  then show ?case using sextets byte_of_sextets by simp
next
  case (4 a b c rest)
  show ?case
    unfolding b64encode.simps append_Cons append_Nil
    by (subst a2b_quad [OF sextets(1,3,5,6)]) (simp only: "4.IH" byte_of_sextets andThen_Inr)
qed

lemma b64encode_ascii: "is_ascii (b64encode bs)"
  unfolding is_ascii_def
  by (induction bs rule: b64encode.induct) (simp_all add: sextets)

lemma b64encode_no_leading_pad: "\<not> startswith ''='' (b64encode bs)"
  by (cases bs rule: b64encode.cases) (simp_all add: startswith_def sextets)

lemma b64_roundtrip [simp]: "b64decode validate (b64encode bs) = Inr bs"
  by (simp add: b64decode_def b64encode_ascii b64encode_no_leading_pad a2b_b64encode)

lemma a2b_raises: "a2b_base64 strict s q l pads started = Inl e \<Longrightarrow> \<exists>t. e = ValueError t"
  by (induction strict s q l pads started rule: a2b_base64.induct)
     (auto simp: result_simps split: if_splits option.splits)

lemma b64decode_raises: "b64decode validate s = Inl e \<Longrightarrow> \<exists>t. e = ValueError t"
  by (auto simp: b64decode_def split: if_splits dest: a2b_raises)

lemma b64decode_raises_value_error: "b64decode validate s = Inl e \<Longrightarrow> is_value_error e"
  by (auto dest: b64decode_raises)

lemma b64_chars_not_space:
  "list_all (\<lambda>n. \<not> is_space (b64_char n)) [0..<64]"
  by (simp add: upt_rec b64_char_def b64_alphabet_def is_space_def Let_def)

lemma b64_char_not_space [simp]: "n < 64 \<Longrightarrow> \<not> is_space (b64_char n)"
  using b64_chars_not_space by (auto simp: list_all_iff)

lemma pad_not_space [simp]: "\<not> is_space (CHR ''='')"
  by (simp add: is_space_def Let_def)

lemma b64encode_no_space: "\<forall>c\<in>set (b64encode bs). \<not> is_space c"
  by (induction bs rule: b64encode.induct) (simp_all add: sextets)

lemma strip_by_none: "\<forall>c\<in>set s. \<not> p c \<Longrightarrow> strip_by p s = s"
  by (metis dropWhile_eq_self_iff hd_in_set rev_rev_ident set_rev strip_by_def)

lemma py_strip_b64encode [simp]: "py_strip (b64encode bs) = b64encode bs"
  by (simp add: py_strip_def strip_by_none b64encode_no_space)

section \<open>Certificates\<close>

text \<open>
  An \<open>x509.Certificate\<close> is the object the DER decoder makes of an encoding; two certificates are
  equal when their encodings are.  Everything read from one is a parameter (theory Trust).
\<close>

datatype certificate = Certificate (der: bytes)

type_synonym load_der = "bytes \<Rightarrow> exn + certificate"

section \<open>Serialised fields\<close>

datatype 'a stored = StoredText string | Loaded 'a

definition load_certificate :: "load_der \<Rightarrow> certificate stored \<Rightarrow> exn + certificate" where
  "load_certificate load_der_x509 v =
     (case v of
        StoredText s \<Rightarrow> andThen (b64decode False s) load_der_x509
      | Loaded c \<Rightarrow> Inr c)"

definition dump_certificate :: "certificate \<Rightarrow> string" where
  "dump_certificate c = b64encode (der c)"

definition load_bytes :: "bytes stored \<Rightarrow> exn + bytes" where
  "load_bytes v = (case v of StoredText s \<Rightarrow> b64decode False s | Loaded b \<Rightarrow> Inr b)"

definition dump_bytes :: "bytes \<Rightarrow> string" where
  "dump_bytes b = b64encode b"

end
