(* ===== verification/Xml.thy ===== *)
theory Xml
  imports Base64
begin

text \<open>
  Element trees: \<^verbatim>\<open>as4/utils/xml_parser.py\<close>, the namespaces of \<^verbatim>\<open>as4/models/common.py\<close> and
  \<open>index_elements_by_id\<close> of \<^verbatim>\<open>as4/core/common.py\<close>.  A tree carries what the ElementTree API shows of
  a node (tag, attributes in document order, text, children, tail); comments, processing
  instructions and entity references are nodes whose tag is no string.  Parsing, serialising and
  canonicalising are parameters (\<open>xml_lib\<close>); they see the tree up to the choice of prefixes.
\<close>

section \<open>Trees\<close>

datatype special_tag = CommentTag | ProcessingInstructionTag | EntityTag

datatype node_tag = Clark string | Special special_tag

datatype xml = Element
  (tag: node_tag)
  (attrib: "(string, string) dict")
  (text_of: "string option")
  (children: "xml list")
  (tail_of: "string option")

record xml_lib =
  fromstring :: "bytes \<Rightarrow> xml option"
  tostring :: "xml \<Rightarrow> bytes"
  exclusive_c14n :: "xml \<Rightarrow> string list \<Rightarrow> bytes"

definition parse_xml :: "'z xml_lib_scheme \<Rightarrow> bytes \<Rightarrow> exn + xml" where
  "parse_xml lib data =
     (case fromstring lib data of None \<Rightarrow> Inl XMLSyntaxError | Some e \<Rightarrow> Inr e)"

text \<open>\<open>iter\<close> visits the element and its descendants in document order.\<close>

fun iter :: "xml \<Rightarrow> xml list" where
  "iter (Element t a x cs after) = Element t a x cs after # concat (map iter cs)"

text \<open>\<open>find\<close> and \<open>findtext\<close> along a path of child tags: the first match in document order.\<close>

fun find_all :: "xml \<Rightarrow> string list \<Rightarrow> xml list" where
  "find_all e [] = [e]"
| "find_all e (t # ts) =
     concat (map (\<lambda>c. find_all c ts) (filter (\<lambda>c. tag c = Clark t) (children e)))"

definition find_first :: "xml \<Rightarrow> string list \<Rightarrow> xml option" where
  "find_first e path = (case find_all e path of [] \<Rightarrow> None | x # _ \<Rightarrow> Some x)"

definition find_text :: "xml \<Rightarrow> string list \<Rightarrow> string option" where
  "find_text e path =
     (case find_first e path of
        None \<Rightarrow> None
      | Some x \<Rightarrow> Some (case text_of x of None \<Rightarrow> '''' | Some s \<Rightarrow> s))"

section \<open>Namespaces\<close>

definition clark :: "string \<Rightarrow> string \<Rightarrow> string" where
  "clark ns local = ''{'' @ ns @ ''}'' @ local"

definition ns_S12 :: string where "ns_S12 = ''http://www.w3.org/2003/05/soap-envelope''"
definition ns_ds :: string where "ns_ds = ''http://www.w3.org/2000/09/xmldsig#''"
definition ns_eb3 :: string where
  "ns_eb3 = ''http://docs.oasis-open.org/ebxml-msg/ebms/v3.0/ns/core/200704/''"
definition ns_enc :: string where "ns_enc = ''http://www.w3.org/2001/04/xmlenc#''"
definition ns_wsr :: string where
  "ns_wsr = ''http://docs.oasis-open.org/wsrm/2004/06/ws-reliability-1.1.xsd''"
definition ns_wsrx :: string where "ns_wsrx = ''http://docs.oasis-open.org/ws-rx/wsrm/200702''"
definition ns_wsse :: string where
  "ns_wsse = ''http://docs.oasis-open.org/wss/2004/01/oasis-200401-wss-wssecurity-secext-1.0.xsd''"
definition ns_wsu :: string where
  "ns_wsu = ''http://docs.oasis-open.org/wss/2004/01/oasis-200401-wss-wssecurity-utility-1.0.xsd''"
definition ns_ebbpsig :: string where "ns_ebbpsig = ''http://docs.oasis-open.org/ebxml-bp/ebbp-signals-2.0''"
definition ns_wsse11 :: string where
  "ns_wsse11 = ''http://docs.oasis-open.org/wss/oasis-wss-wssecurity-secext-1.1.xsd''"
definition ns_enc11 :: string where "ns_enc11 = ''http://www.w3.org/2009/xmlenc11#''"
definition ns_xml :: string where "ns_xml = ''http://www.w3.org/XML/1998/namespace''"
definition ns_sbdh :: string where
  "ns_sbdh = ''http://www.unece.org/cefact/namespaces/StandardBusinessDocumentHeader''"
definition ns_exc_c14n :: string where "ns_exc_c14n = ''http://www.w3.org/2001/10/xml-exc-c14n#''"

definition NAMESPACES :: "(string, string) dict" where
  "NAMESPACES =
     [(''S12'', ns_S12), (''ds'', ns_ds), (''eb3'', ns_eb3), (''enc'', ns_enc), (''wsr'', ns_wsr),
      (''wsrx'', ns_wsrx), (''wsse'', ns_wsse), (''wsu'', ns_wsu), (''ebbpsig'', ns_ebbpsig)]"

text \<open>A step \<open>prefix:name\<close> of a path, with the prefix looked up in \<open>NAMESPACES\<close>.\<close>

definition step :: "string \<Rightarrow> string \<Rightarrow> string" where
  "step prefix local = clark (the (dict_get NAMESPACES prefix)) local"

section \<open>Elements by id\<close>

text \<open>\<open>etree.QName(key).localname\<close>: what follows the closing brace of a qualified name.\<close>

definition localname :: "string \<Rightarrow> string" where
  "localname key =
     (if startswith ''{'' key then tl (dropWhile (\<lambda>c. c \<noteq> CHR ''}'') key) else key)"

definition ids_of :: "xml \<Rightarrow> string list" where
  "ids_of e = [v. (k, v) \<leftarrow> attrib e, localname k = ''Id'']"

definition id_attributes :: "xml \<Rightarrow> (string \<times> xml) list" where
  "id_attributes e = concat (map (\<lambda>d. map (\<lambda>v. (v, d)) (ids_of d)) (iter e))"

fun index_ids :: "(string \<times> xml) list \<Rightarrow> (string, xml) dict \<Rightarrow> exn + (string, xml) dict" where
  "index_ids [] indexed = Inr indexed"
| "index_ids ((i, d) # rest) indexed =
     (if dict_has i indexed then Inl (Receiptable (duplicate_element_id i))
      else index_ids rest (dict_set i d indexed))"

definition index_elements_by_id :: "xml \<Rightarrow> exn + (string, xml) dict" where
  "index_elements_by_id e = index_ids (id_attributes e) []"

section \<open>What the index holds\<close>

lemma dict_set_fresh: "k \<notin> fst ` set d \<Longrightarrow> dict_set k v d = d @ [(k, v)]"
  by (induction d) auto

lemma index_ids_eq_Inr:
  "distinct (map fst d) \<Longrightarrow>
   index_ids ps d = Inr r \<longleftrightarrow> distinct (map fst (d @ ps)) \<and> r = d @ ps"
proof (induction ps d rule: index_ids.induct)
  case (1 indexed)
  then show ?case by auto
next
  case (2 i e rest indexed)
  then show ?case by (auto simp: dict_simps dict_set_fresh)
qed

lemma index_ids_eq_Inl:
  "distinct (map fst d) \<Longrightarrow>
   index_ids ps d = Inl x \<Longrightarrow>
   \<not> distinct (map fst (d @ ps)) \<and> (\<exists>i. i \<in> fst ` set ps \<and> x = Receiptable (duplicate_element_id i))"
proof (induction ps d rule: index_ids.induct)
  case (1 indexed)
  then show ?case by simp
next
  case (2 i e rest indexed)
  show ?case
  proof (cases "dict_has i indexed")
    case True
    with "2.prems" show ?thesis by (auto simp: dict_simps)
  next
    case False
    moreover from False have "distinct (map fst (dict_set i e indexed))"
      using "2.prems"(1) by (simp add: dict_set_distinct)
    ultimately show ?thesis using "2.IH" "2.prems" by (auto simp: dict_simps dict_set_fresh)
  qed
qed

lemma index_elements_by_id_eq_Inr [result_simps]:
  "index_elements_by_id e = Inr r \<longleftrightarrow> distinct (map fst (id_attributes e)) \<and> r = id_attributes e"
  by (simp add: index_elements_by_id_def index_ids_eq_Inr)

lemma index_elements_by_id_raises:
  assumes "index_elements_by_id e = Inl x"
  shows "\<not> distinct (map fst (id_attributes e)) \<and>
    (\<exists>i \<in> fst ` set (id_attributes e). x = Receiptable (duplicate_element_id i))"
  using index_ids_eq_Inl [of "[]" "id_attributes e" x] assms
  by (auto simp: index_elements_by_id_def)

lemma id_attributes_iff: "(i, d) \<in> set (id_attributes e) \<longleftrightarrow> d \<in> set (iter e) \<and> i \<in> set (ids_of d)"
  by (auto simp: id_attributes_def)

lemma index_lookup:
  assumes "index_elements_by_id e = Inr r"
  shows "dict_get r i = Some d \<longleftrightarrow> d \<in> set (iter e) \<and> i \<in> set (ids_of d)"
  using assms by (auto simp: result_simps id_attributes_iff)

lemma iter_self [simp]: "e \<in> set (iter e)"
  by (cases e) simp

lemma iter_child: "c \<in> set (children e) \<Longrightarrow> d \<in> set (iter c) \<Longrightarrow> d \<in> set (iter e)"
  by (cases e) auto

lemma find_all_iter: "x \<in> set (find_all e path) \<Longrightarrow> x \<in> set (iter e)"
  by (induction e path rule: find_all.induct) (auto intro: iter_child)

lemma find_first_iter: "find_first e path = Some x \<Longrightarrow> x \<in> set (iter e)"
  using find_all_iter [of x e path] by (auto simp: find_first_def split: list.splits)

lemma find_all_tag: "x \<in> set (find_all e (path @ [t])) \<Longrightarrow> tag x = Clark t"
  by (induction path arbitrary: e) auto

lemma find_first_tag: "find_first e (path @ [t]) = Some x \<Longrightarrow> tag x = Clark t"
  by (metis find_first_def find_all_tag list.case_eq_if list.set_sel(1) option.inject option.simps(3))

end
