(* ===== verification/Elements.thy ===== *)
theory Elements
  imports Xml
begin

text \<open>
  \<^verbatim>\<open>as4/models/common.py\<close>: the base of every element model.  \<open>element_to_dict\<close> turns a tree into
  the dictionary that pydantic validates, \<open>exactly_one\<close> is the validator behind \<open>Singular\<close>,
  \<open>dump_to_xml\<close> writes a model back as a tree by walking its declared fields.  A model is seen
  through what that walk reads: the alias, the annotation and the content of each field, and the
  wildcard elements.
\<close>

section \<open>Validators\<close>

datatype 'a elems = Elems "'a list" | Elem 'a

definition exactly_one :: "'a elems \<Rightarrow> exn + 'a" where
  "exactly_one elems =
     (case elems of
        Elems xs \<Rightarrow>
          if 1 < length xs then
            Inl (RepeatedElement (''expected exactly one element, got '' @ show_nat (length xs)))
          else (case xs of
                  [] \<Rightarrow> Inl (ValueError ''expected exactly one element, got 0'')
                | x # _ \<Rightarrow> Inr x)
      | Elem x \<Rightarrow> Inr x)"

definition sorted_strings :: "string list \<Rightarrow> string list" where
  "sorted_strings xs = sort xs"

section \<open>Wildcards\<close>

record wildcard_specification =
  max_occurs :: int
  min_occurs :: int
  namespace :: string
  choices :: "string list option"

text \<open>\<open>tag.split("}")\<close>, and the name of a Clark tag with its namespace when it has one.\<close>

fun split_on :: "char \<Rightarrow> string \<Rightarrow> string list" where
  "split_on c [] = [[]]"
| "split_on c (x # xs) =
     (if x = c then [] # split_on c xs
      else (case split_on c xs of [] \<Rightarrow> [[x]] | s # ss \<Rightarrow> (x # s) # ss))"

definition split_clark_tag :: "string \<Rightarrow> string list" where
  "split_clark_tag t =
     (let parts = split_on (CHR ''}'') t; namespaces = butlast parts; name = last parts
      in if namespaces \<noteq> [] then [tl (hd namespaces), name] else [name])"

definition filter_by_namespace :: "wildcard_specification \<Rightarrow> xml list \<Rightarrow> xml list" where
  "filter_by_namespace spec elements = elements"

definition filter_by_choices :: "wildcard_specification \<Rightarrow> xml list \<Rightarrow> xml list" where
  "filter_by_choices spec elements =
     (case choices spec of
        None \<Rightarrow> elements
      | Some cs \<Rightarrow> filter (\<lambda>e. \<exists>c\<in>set cs. tag e = Clark c) elements)"

definition get_content_from_element ::
  "wildcard_specification \<Rightarrow> xml option \<Rightarrow> string list \<Rightarrow> xml list" where
  "get_content_from_element spec element existing_tags =
     (case element of
        None \<Rightarrow> []
      | Some e \<Rightarrow>
          filter_by_choices spec
            (filter_by_namespace spec
              (filter (\<lambda>c. \<not> (\<exists>t\<in>set existing_tags. tag c = Clark t)) (children e))))"

definition wildcard :: "string \<Rightarrow> string list option \<Rightarrow> wildcard_specification" where
  "wildcard ns cs = \<lparr>max_occurs = 0, min_occurs = 0, namespace = ns, choices = cs\<rparr>"

section \<open>From a tree to the dictionary that is validated\<close>

datatype dict_key = Key string | SpecialKey special_tag

datatype pyvalue =
    PyElement xml
  | PyStr string
  | PyDicts "(dict_key \<times> pyvalue) list list"

fun tag_key :: "node_tag \<Rightarrow> dict_key" where
  "tag_key (Clark s) = Key s"
| "tag_key (Special t) = SpecialKey t"

text \<open>\<open>setdefault(tag, []).append(child)\<close> over the children.\<close>

fun group_by_tag :: "(node_tag \<times> 'a) list \<Rightarrow> (node_tag, 'a list) dict \<Rightarrow> (node_tag, 'a list) dict" where
  "group_by_tag [] groups = groups"
| "group_by_tag ((t, c) # rest) groups =
     group_by_tag rest
       (dict_set t ((case dict_get groups t of None \<Rightarrow> [] | Some cs \<Rightarrow> cs) @ [c]) groups)"

fun element_to_dict :: "xml \<Rightarrow> (dict_key, pyvalue) dict" where
  "element_to_dict (Element t a x cs after) =
     (let start = [(Key ''*etree_element'', PyElement (Element t a x cs after))];
          groups = group_by_tag (map (\<lambda>c. (tag c, element_to_dict c)) cs) [];
          with_children = dict_of (map (\<lambda>(g, ds). (tag_key g, PyDicts ds)) groups) start;
          with_attributes = dict_of (map (\<lambda>(k, v). (Key (''@'' @ k), PyStr v)) a) with_children
      in case x of
           None \<Rightarrow> with_attributes
         | Some s \<Rightarrow>
             if py_strip s \<noteq> '''' then dict_set (Key ''#text'') (PyStr (py_strip s)) with_attributes
             else with_attributes)"

section \<open>From a model to a tree\<close>

type_synonym datetime = int  \<comment> \<open>microseconds since the epoch, in UTC\<close>

datatype extra = Base64Encoded | OtherMetadata

datatype annotation =
    AnnStr | AnnDatetime | AnnBool | AnnInt | AnnBytes | AnnNone | AnnEnum
  | AnnModel
  | AnnUnion "annotation list"
  | AnnAnnotated annotation "extra list"
  | AnnList annotation

datatype content =
    CNone
  | CStr string
  | CDatetime datetime
  | CBool bool
  | CInt int
  | CBytes bytes
  | CList "content list"
  | CModel model
and model = Model (model_fields: "(string option \<times> annotation option \<times> content) list")
  (wildcard_content: "xml list")

datatype serialiser =
    SerStr | SerIsoformat | SerBool | SerDump | SerB64 | SerList serialiser

fun determine_serialiser_method :: "annotation \<Rightarrow> serialiser" where
  "determine_serialiser_method AnnStr = SerStr"
| "determine_serialiser_method AnnDatetime = SerIsoformat"
| "determine_serialiser_method AnnBool = SerBool"
| "determine_serialiser_method AnnModel = SerDump"
| "determine_serialiser_method (AnnUnion args) =
     (case args of [] \<Rightarrow> SerStr | arg # _ \<Rightarrow> determine_serialiser_method arg)"
| "determine_serialiser_method (AnnAnnotated inner extras) =
     (if inner = AnnBytes \<and> Base64Encoded \<in> set extras then SerB64
      else if inner = AnnModel then SerDump
      else SerStr)"
| "determine_serialiser_method (AnnList inner) = SerList (determine_serialiser_method inner)"
| "determine_serialiser_method _ = SerStr"

text \<open>\<open>str\<close> of the scalar contents; \<open>str\<close> and \<open>isoformat\<close> of a datetime are parameters.\<close>

record datetime_lib =
  isoformat_milliseconds :: "datetime \<Rightarrow> string"
  str_datetime :: "datetime \<Rightarrow> string"

definition show_int :: "int \<Rightarrow> string" where
  "show_int i = (if i < 0 then ''-'' @ show_nat (nat (- i)) else show_nat (nat i))"

definition repr_bytes :: "bytes \<Rightarrow> string" where
  "repr_bytes bs =
     (let s = map (\<lambda>b. char_of (unat b)) bs;
          q = (if CHR 0x27 \<in> set s \<and> CHR 0x22 \<notin> set s then CHR 0x22 else CHR 0x27);
          out = (\<lambda>c. if of_char c < (127::nat) then repr_char q c
                     else [CHR 0x5C, CHR ''x'', hex_digit (of_char c div 16), hex_digit (of_char c mod 16)])
      in CHR ''b'' # q # concat (map out s) @ [q])"

fun py_str :: "datetime_lib \<Rightarrow> content \<Rightarrow> string option" where
  "py_str lib (CStr s) = Some s"
| "py_str lib (CInt i) = Some (show_int i)"
| "py_str lib (CBool b) = Some (if b then ''True'' else ''False'')"
| "py_str lib (CBytes bs) = Some (repr_bytes bs)"
| "py_str lib (CDatetime d) = Some (str_datetime lib d)"
| "py_str lib _ = None"

text \<open>What a serialiser hands back: a text, an element it has appended, or \<open>None\<close>.\<close>

datatype serialised = OutText string | OutElement | OutNone

definition append_child :: "xml \<Rightarrow> xml \<Rightarrow> xml" where
  "append_child e c = Element (tag e) (attrib e) (text_of e) (children e @ [c]) (tail_of e)"

definition set_attribute :: "string \<Rightarrow> string \<Rightarrow> xml \<Rightarrow> xml" where
  "set_attribute k v e = Element (tag e) (dict_set k v (attrib e)) (text_of e) (children e) (tail_of e)"

definition set_text :: "string option \<Rightarrow> xml \<Rightarrow> xml" where
  "set_text s e = Element (tag e) (attrib e) s (children e) (tail_of e)"

definition store_serialised :: "string \<Rightarrow> serialised \<Rightarrow> xml \<Rightarrow> exn + xml" where
  "store_serialised field_alias out e =
     (case out of
        OutText s \<Rightarrow>
          if startswith ''@'' field_alias \<and> s \<noteq> '''' then Inr (set_attribute (tl field_alias) s e)
          else if field_alias = ''#text'' then Inr (set_text (Some s) e)
          else Inr e
      | OutNone \<Rightarrow> if field_alias = ''#text'' then Inr (set_text None e) else Inr e
      | OutElement \<Rightarrow>
          if startswith ''@'' field_alias \<or> field_alias = ''#text''
          then Inl (TypeError ''Argument must be bytes or unicode'') else Inr e)"

fun dump_to_xml :: "datetime_lib \<Rightarrow> string \<Rightarrow> model \<Rightarrow> exn + xml"
and dump_fields :: "datetime_lib \<Rightarrow> (string option \<times> annotation option \<times> content) list \<Rightarrow> xml \<Rightarrow> exn + xml"
and serialise :: "datetime_lib \<Rightarrow> string \<Rightarrow> serialiser \<Rightarrow> content \<Rightarrow> xml \<Rightarrow> exn + (xml \<times> serialised)"
and serialise_all :: "datetime_lib \<Rightarrow> string \<Rightarrow> serialiser \<Rightarrow> content list \<Rightarrow> xml \<Rightarrow> exn + xml"
where
  "dump_to_xml lib clark_name (Model fs ws) =
     andThen (dump_fields lib fs (Element (Clark clark_name) [] None [] None))
       (\<lambda>e. Inr (foldl append_child e ws))"
| "dump_fields lib [] e = Inr e"
| "dump_fields lib ((field_alias, ann, c) # fs) e =
     (case field_alias of
        None \<Rightarrow> dump_fields lib fs e
      | Some a \<Rightarrow>
          if a = ''*etree_element'' then dump_fields lib fs e
          else if c = CNone then dump_fields lib fs e
          else
            (case ann of
               None \<Rightarrow> dump_fields lib fs e
             | Some t \<Rightarrow>
                 andThen (serialise lib a (determine_serialiser_method t) c e)
                   (\<lambda>(e', out). andThen (store_serialised a out e') (dump_fields lib fs))))"
| "serialise lib a SerStr c e =
     (case py_str lib c of
        Some s \<Rightarrow> Inr (e, OutText s)
      | None \<Rightarrow> Inl (OtherError ''str of a container''))"
| "serialise lib a SerIsoformat c e =
     (case c of
        CDatetime d \<Rightarrow> Inr (e, OutText (isoformat_milliseconds lib d))
      | _ \<Rightarrow> Inl (AttributeError ''isoformat''))"
| "serialise lib a SerBool c e =
     (case c of
        CBool b \<Rightarrow> Inr (e, OutText (if b then ''true'' else ''false''))
      | _ \<Rightarrow> Inl (OtherError ''truth value of a container''))"
| "serialise lib a SerB64 c e =
     (case c of
        CBytes bs \<Rightarrow> Inr (e, OutText (b64encode bs))
      | _ \<Rightarrow> Inl (TypeError ''a bytes-like object is required''))"
| "serialise lib a SerDump c e =
     (case c of
        CModel m \<Rightarrow> andThen (dump_to_xml lib a m) (\<lambda>child. Inr (append_child e child, OutElement))
      | _ \<Rightarrow> Inl (AttributeError ''model_fields''))"
| "serialise lib a (SerList s) c e =
     (case c of
        CList cs \<Rightarrow> andThen (serialise_all lib a s cs e) (\<lambda>e'. Inr (e', OutNone))
      | _ \<Rightarrow> Inl (TypeError ''object is not iterable''))"
| "serialise_all lib a s [] e = Inr e"
| "serialise_all lib a s (c # cs) e =
     andThen (serialise lib a s c e) (\<lambda>(e', _). serialise_all lib a s cs e')"

section \<open>Declared fields\<close>

text \<open>How a model class shows itself to that walk: one entry per declared field, in order.\<close>

record base_element =
  etree_element :: "xml option"

definition declared ::
  "string \<Rightarrow> annotation \<Rightarrow> content \<Rightarrow> string option \<times> annotation option \<times> content" where
  "declared field_alias ann c = (Some field_alias, Some ann, c)"

abbreviation AnnOptional :: "annotation \<Rightarrow> annotation" where
  "AnnOptional a \<equiv> AnnUnion [a, AnnNone]"

definition opt_content :: "('a \<Rightarrow> content) \<Rightarrow> 'a option \<Rightarrow> content" where
  "opt_content f v = (case v of None \<Rightarrow> CNone | Some x \<Rightarrow> f x)"

definition model_content :: "('a \<Rightarrow> model) \<Rightarrow> 'a \<Rightarrow> content" where
  "model_content f x = CModel (f x)"

definition model_list :: "('a \<Rightarrow> model) \<Rightarrow> 'a list \<Rightarrow> content" where
  "model_list f xs = CList (map (\<lambda>x. CModel (f x)) xs)"

section \<open>What the dictionary holds\<close>

lemma exactly_one_eq_Inr [result_simps]:
  "exactly_one es = Inr x \<longleftrightarrow> es = Elems [x] \<or> es = Elem x"
  by (auto simp: exactly_one_def split: elems.splits list.splits)

lemma exactly_one_repeated:
  "(\<exists>s. exactly_one es = Inl (RepeatedElement s)) \<longleftrightarrow> (\<exists>a b cs. es = Elems (a # b # cs))"
proof (cases es)
  case (Elems xs)
  then show ?thesis by (cases xs rule: remdups_adj.cases) (simp_all add: exactly_one_def)
next
  case (Elem x)
  then show ?thesis by (simp add: exactly_one_def)
qed

lemma group_by_tag_get:
  "dict_get (group_by_tag ps groups) t =
    (if \<exists>p\<in>set ps. fst p = t
     then Some ((case dict_get groups t of None \<Rightarrow> [] | Some cs \<Rightarrow> cs) @ map snd (filter (\<lambda>p. fst p = t) ps))
     else dict_get groups t)"
  by (induction ps groups rule: group_by_tag.induct) (auto simp: dict_simps split: option.splits)

lemma group_by_tag_distinct: "distinct (map fst g) \<Longrightarrow> distinct (map fst (group_by_tag ps g))"
  by (induction ps g rule: group_by_tag.induct) (auto simp: dict_set_distinct)

text \<open>Keys that no attribute, text or tree entry uses: every name a well-formed tag can have.\<close>

definition plain_tag :: "string \<Rightarrow> bool" where
  "plain_tag s = (s = [] \<or> hd s \<notin> {CHR ''@'', CHR ''#'', CHR ''*''})"

lemma map_of_other_key: "k \<notin> fst ` set d \<Longrightarrow> map_of d k = None"
  by (simp add: map_of_eq_None_iff)

lemma tag_key_inj [simp]: "tag_key a = tag_key b \<longleftrightarrow> a = b"
  by (cases a; cases b) auto

lemma map_of_tag_key:
  "map_of (map (\<lambda>(g, ds). (tag_key g, f ds)) gs) (tag_key t) = map_option f (map_of gs t)"
  by (induction gs) auto

lemma map_of_rev_distinct: "distinct (map fst xs) \<Longrightarrow> map_of (rev xs) = map_of xs"
  by (rule map_of_inject_set [THEN iffD2]) (simp_all add: rev_map [symmetric])

lemma tagged_children:
  "map snd (filter (\<lambda>p. fst p = t) (map (\<lambda>c. (tag c, f c)) cs)) = map f (filter (\<lambda>c. tag c = t) cs)"
  by (induction cs) auto

lemma with_children_get:
  "map_of (dict_of (map (\<lambda>(g, ds). (tag_key g, PyDicts ds)) (group_by_tag (map (\<lambda>c. (tag c, f c)) cs) [])) d)
     (tag_key t) =
   (if \<exists>c\<in>set cs. tag c = t then Some (PyDicts (map f (filter (\<lambda>c. tag c = t) cs)))
    else map_of d (tag_key t))"
proof -
  let ?g = "group_by_tag (map (\<lambda>c. (tag c, f c)) cs) []"
  have "distinct (map fst ?g)" by (rule group_by_tag_distinct) simp
  then have "distinct (map fst (map (\<lambda>(g, ds). (tag_key g, PyDicts ds)) ?g))"
    by (simp add: distinct_map inj_on_def case_prod_beta)
  then show ?thesis
    by (auto simp: dict_of_get map_of_rev_distinct map_of_tag_key map_add_def group_by_tag_get
        tagged_children split: option.splits)
qed

lemma with_attributes_get:
  "map_of (dict_of (map (\<lambda>(k, v). (Key (CHR ''@'' # k), PyStr v)) a) d) (Key (CHR ''@'' # k)) =
     (case map_of (rev a) k of Some v \<Rightarrow> Some (PyStr v) | None \<Rightarrow> map_of d (Key (CHR ''@'' # k)))"
proof -
  have "map_of (map (\<lambda>(k, v). (Key (CHR ''@'' # k), PyStr v)) a') (Key (CHR ''@'' # k)) =
      map_option PyStr (map_of a' k)" for a'
    by (induction a') auto
  then show ?thesis
    by (simp add: dict_of_get rev_map map_add_def split: option.splits)
qed

lemma with_attributes_other:
  "\<forall>k. key \<noteq> Key (CHR ''@'' # k) \<Longrightarrow>
   map_of (dict_of (map (\<lambda>(k, v). (Key (CHR ''@'' # k), PyStr v)) a) d) key = map_of d key"
  by (auto simp: dict_of_get map_add_def map_of_eq_None_iff split: option.splits)
     (auto dest!: map_of_SomeD)

lemma element_to_dict_child:
  assumes "plain_tag s"
  shows "dict_get (element_to_dict e) (Key s) =
    (if \<exists>c\<in>set (children e). tag c = Clark s
     then Some (PyDicts (map element_to_dict (filter (\<lambda>c. tag c = Clark s) (children e)))) else None)"
proof -
  obtain t a x cs after where e: "e = Element t a x cs after" by (cases e)
  from assms have "s \<noteq> ''*etree_element''" "s \<noteq> ''#text''" "\<forall>k. Key s \<noteq> Key (CHR ''@'' # k)"
    by (auto simp: plain_tag_def)
  then show ?thesis
    using with_children_get [of element_to_dict cs _ "Clark s"]
    by (simp add: e Let_def with_attributes_other AList.update_conv' split: option.splits)
qed

lemma element_to_dict_attribute:
  assumes "\<forall>c\<in>set (children e). tag c \<noteq> Clark (CHR ''@'' # k)"
  shows "dict_get (element_to_dict e) (Key (CHR ''@'' # k)) = map_option PyStr (map_of (rev (attrib e)) k)"
proof -
  obtain t a x cs after where e: "e = Element t a x cs after" by (cases e)
  then show ?thesis
    using with_children_get [of element_to_dict cs _ "Clark (CHR ''@'' # k)"] assms
    by (simp add: Let_def with_attributes_get AList.update_conv' split: option.splits)
qed

lemma element_to_dict_text:
  assumes "\<forall>c\<in>set (children e). tag c \<noteq> Clark ''#text''"
  shows "dict_get (element_to_dict e) (Key ''#text'') =
    (case text_of e of None \<Rightarrow> None
     | Some s \<Rightarrow> if py_strip s \<noteq> '''' then Some (PyStr (py_strip s)) else None)"
proof -
  obtain t a x cs after where e: "e = Element t a x cs after" by (cases e)
  then show ?thesis
    using with_children_get [of element_to_dict cs _ "Clark ''#text''"] assms
    by (simp add: Let_def with_attributes_other AList.update_conv' split: option.splits)
qed

text \<open>The tree a dictionary was made of is in it.\<close>

lemma element_to_dict_tree:
  assumes "\<forall>c\<in>set (children e). tag c \<noteq> Clark ''*etree_element''"
  shows "dict_get (element_to_dict e) (Key ''*etree_element'') = Some (PyElement e)"
proof -
  obtain t a x cs after where e: "e = Element t a x cs after" by (cases e)
  then show ?thesis
    using with_children_get [of element_to_dict cs _ "Clark ''*etree_element''"] assms
    by (simp add: Let_def with_attributes_other AList.update_conv' split: option.splits)
qed

section \<open>What \<open>dump_to_xml\<close> writes\<close>

lemma append_child_simps [simp]:
  "tag (append_child e c) = tag e" "attrib (append_child e c) = attrib e" "text_of (append_child e c) = text_of e"
  "children (append_child e c) = children e @ [c]"
  by (simp_all add: append_child_def)

lemma set_attribute_simps [simp]:
  "tag (set_attribute k v e) = tag e" "attrib (set_attribute k v e) = dict_set k v (attrib e)"
  "children (set_attribute k v e) = children e"
  by (simp_all add: set_attribute_def)

lemma set_text_simps [simp]:
  "tag (set_text s e) = tag e" "attrib (set_text s e) = attrib e" "children (set_text s e) = children e"
  by (simp_all add: set_text_def)

text \<open>One element extends another: the same tag and attributes, and further children.\<close>

definition extends :: "xml \<Rightarrow> xml \<Rightarrow> bool" where
  "extends e e' \<longleftrightarrow> tag e' = tag e \<and> attrib e' = attrib e \<and> (\<exists>cs. children e' = children e @ cs)"

lemma extends_refl [simp]: "extends e e"
  by (simp add: extends_def)

lemma extends_trans: "extends a b \<Longrightarrow> extends b c \<Longrightarrow> extends a c"
  by (auto simp: extends_def)

lemma serialise_extends: "serialise lib a s c e = Inr (e', out) \<Longrightarrow> extends e e'"
proof (induction s arbitrary: c e e' out)
  case (SerList s)
  have all: "serialise_all lib a s cs e = Inr e'' \<Longrightarrow> extends e e''" for cs e e''
    by (induction cs arbitrary: e) (auto simp: result_simps intro: extends_trans dest!: SerList.IH)
  from SerList.prems show ?case
    by (auto simp: result_simps split: content.splits dest: all)
qed (auto simp: result_simps extends_def split: option.splits content.splits)

lemma serialise_all_extends: "serialise_all lib a s cs e = Inr e' \<Longrightarrow> extends e e'"
proof (induction cs arbitrary: e)
  case Nil
  then show ?case by simp
next
  case (Cons c cs)
  then obtain e1 out where one: "serialise lib a s c e = Inr (e1, out)" "serialise_all lib a s cs e1 = Inr e'"
    by (auto simp: andThen_eq_Inr)
  from serialise_extends [OF one(1)] Cons.IH [OF one(2)] show ?case by (rule extends_trans)
qed

lemma store_serialised_frame:
  "store_serialised a out e = Inr e' \<Longrightarrow> tag e' = tag e \<and> children e' = children e \<and>
     (\<forall>k. a \<noteq> CHR ''@'' # k \<longrightarrow> dict_get (attrib e') k = dict_get (attrib e) k)"
  by (cases a) (auto simp: store_serialised_def startswith_def dict_simps split: serialised.splits if_splits)

definition attribute_aliases :: "(string option \<times> annotation option \<times> content) list \<Rightarrow> string set" where
  "attribute_aliases fs = {k. Some (CHR ''@'' # k) \<in> fst ` set fs}"

text \<open>One declared field, written.\<close>

definition dump_field ::
  "datetime_lib \<Rightarrow> string option \<times> annotation option \<times> content \<Rightarrow> xml \<Rightarrow> exn + xml" where
  "dump_field lib f e = dump_fields lib [f] e"

lemma dump_fields_Cons: "dump_fields lib (f # fs) e = andThen (dump_field lib f e) (dump_fields lib fs)"
  unfolding dump_field_def
  by (cases f) (auto simp: andThen_def split: option.splits sum.splits)

declare dump_fields.simps(2) [simp del]

lemma dump_field_frame:
  assumes "dump_field lib f e = Inr e'"
  shows "tag e' = tag e \<and> (\<exists>cs. children e' = children e @ cs) \<and>
    (\<forall>k. fst f \<noteq> Some (CHR ''@'' # k) \<longrightarrow> dict_get (attrib e') k = dict_get (attrib e) k)"
proof -
  obtain field_alias ann c where f: "f = (field_alias, ann, c)" by (cases f)
  from assms consider "e' = e" | a s e1 out where "field_alias = Some a"
    "serialise lib a s c e = Inr (e1, out)" "store_serialised a out e1 = Inr e'"
    by (auto simp: dump_field_def f dump_fields.simps result_simps split: option.splits if_splits)
  then show ?thesis
  proof cases
    case 1
    then show ?thesis by simp
  next
    case (2 a s e1 out)
    from serialise_extends [OF 2(2)] store_serialised_frame [OF 2(3)] 2(1) f show ?thesis
      by (auto simp: extends_def)
  qed
qed

lemma dump_fields_frame:
  "dump_fields lib fs e = Inr e' \<Longrightarrow> tag e' = tag e \<and> (\<exists>cs. children e' = children e @ cs) \<and>
    (\<forall>k. k \<notin> attribute_aliases fs \<longrightarrow> dict_get (attrib e') k = dict_get (attrib e) k)"
proof (induction fs arbitrary: e)
  case Nil
  then show ?case by simp
next
  case (Cons f fs)
  then obtain e1 where one: "dump_field lib f e = Inr e1" and rest: "dump_fields lib fs e1 = Inr e'"
    by (auto simp: dump_fields_Cons result_simps)
  from dump_field_frame [OF one] Cons.IH [OF rest] show ?case
    by (auto simp: attribute_aliases_def)
qed

lemma dump_fields_append:
  "dump_fields lib (fs @ gs) e = andThen (dump_fields lib fs e) (dump_fields lib gs)"
proof (induction fs arbitrary: e)
  case Nil
  show ?case by simp
next
  case (Cons f fs)
  then show ?case by (cases "dump_field lib f e") (auto simp: dump_fields_Cons)
qed

lemma dump_fields_at:
  assumes "dump_fields lib fs e = Inr e'" and "f \<in> set fs" and "distinct (map fst fs)"
  obtains e0 e1 where "dump_field lib f e0 = Inr e1" "set (children e1) \<subseteq> set (children e')"
    "\<forall>k. fst f = Some (CHR ''@'' # k) \<longrightarrow> dict_get (attrib e') k = dict_get (attrib e1) k"
proof -
  from assms(2) obtain ys zs where fs: "fs = ys @ f # zs" by (auto simp: in_set_conv_decomp)
  with assms(1) obtain e0 e1 where "dump_fields lib ys e = Inr e0" "dump_field lib f e0 = Inr e1"
    and rest: "dump_fields lib zs e1 = Inr e'"
    by (auto simp: dump_fields_append dump_fields_Cons result_simps)
  moreover from assms(3) fs have "fst f = Some (CHR ''@'' # k) \<Longrightarrow> k \<notin> attribute_aliases zs" for k
    by (auto simp: attribute_aliases_def)
  ultimately show ?thesis using dump_fields_frame [OF rest] by (intro that [of e0 e1]) auto
qed

lemma dump_field_child:
  assumes "dump_field lib (declared a t (CModel m)) e = Inr e'" and "determine_serialiser_method t = SerDump"
    and "a \<noteq> ''*etree_element''"
  shows "\<exists>c\<in>set (children e'). dump_to_xml lib a m = Inr c"
  using assms
  by (auto simp: dump_field_def declared_def dump_fields.simps result_simps dest: store_serialised_frame)

lemma dump_field_children:
  assumes "dump_field lib (declared a t (CList (map CModel ms))) e = Inr e'"
    and "determine_serialiser_method t = SerList SerDump" and "a \<noteq> ''*etree_element''" and "m \<in> set ms"
  shows "\<exists>c\<in>set (children e'). dump_to_xml lib a m = Inr c"
proof -
  have all: "serialise_all lib a SerDump (map CModel ms) e = Inr e1 \<Longrightarrow> m \<in> set ms \<Longrightarrow>
      \<exists>c\<in>set (children e1). dump_to_xml lib a m = Inr c" for ms e e1
  proof (induction ms arbitrary: e)
    case Nil
    then show ?case by simp
  next
    case (Cons x xs)
    then obtain c where c: "dump_to_xml lib a x = Inr c"
      "serialise_all lib a SerDump (map CModel xs) (append_child e c) = Inr e1"
      by (auto simp: result_simps)
    from serialise_all_extends [OF c(2)] have "c \<in> set (children e1)" by (auto simp: extends_def)
    with Cons c show ?case by auto
  qed
  from assms show ?thesis
    by (auto simp: dump_field_def declared_def dump_fields.simps result_simps dest!: all store_serialised_frame)
qed

lemma dump_field_attribute:
  assumes "dump_field lib (declared (CHR ''@'' # k) t (CStr v)) e = Inr e'"
    and "determine_serialiser_method t = SerStr" and "v \<noteq> ''''"
  shows "dict_get (attrib e') k = Some v"
  using assms
  by (auto simp: dump_field_def declared_def dump_fields.simps result_simps store_serialised_def startswith_def
      dict_simps)

lemma foldl_append_child [simp]:
  "tag (foldl append_child e ws) = tag e" "attrib (foldl append_child e ws) = attrib e"
  "children (foldl append_child e ws) = children e @ ws"
  by (induction ws arbitrary: e) simp_all

lemma dump_to_xml_tag: "dump_to_xml lib clark_name m = Inr e \<Longrightarrow> tag e = Clark clark_name"
  by (cases m) (auto simp: result_simps dest!: dump_fields_frame)

lemma dump_to_xml_field:
  assumes "dump_to_xml lib clark_name (Model fs ws) = Inr e" and "f \<in> set fs" and "distinct (map fst fs)"
  obtains e0 e1 where "dump_field lib f e0 = Inr e1" "set (children e1) \<subseteq> set (children e)"
    "\<forall>k. fst f = Some (CHR ''@'' # k) \<longrightarrow> dict_get (attrib e) k = dict_get (attrib e1) k"
proof -
  from assms(1) obtain e' where e': "dump_fields lib fs (Element (Clark clark_name) [] None [] None) = Inr e'"
    and e: "e = foldl append_child e' ws"
    by (auto simp: result_simps)
  from dump_fields_at [OF e' assms(2,3)] obtain e0 e1 where "dump_field lib f e0 = Inr e1"
    "set (children e1) \<subseteq> set (children e')"
    "\<forall>k. fst f = Some (CHR ''@'' # k) \<longrightarrow> dict_get (attrib e') k = dict_get (attrib e1) k" .
  with e show ?thesis by (intro that [of e0 e1]) auto
qed

lemma dump_to_xml_child:
  assumes "dump_to_xml lib clark_name (Model fs ws) = Inr e" and "declared a t (CModel m) \<in> set fs"
    and "distinct (map fst fs)" and "determine_serialiser_method t = SerDump" and "a \<noteq> ''*etree_element''"
  obtains c where "c \<in> set (children e)" "dump_to_xml lib a m = Inr c"
proof -
  obtain e0 e1 where "dump_field lib (declared a t (CModel m)) e0 = Inr e1" "set (children e1) \<subseteq> set (children e)"
    using dump_to_xml_field [OF assms(1-3)] by metis
  with dump_field_child [OF _ assms(4,5)] that show ?thesis by blast
qed

lemma dump_to_xml_attribute:
  assumes "dump_to_xml lib clark_name (Model fs ws) = Inr e"
    and "declared (CHR ''@'' # k) t (CStr v) \<in> set fs"
    and "distinct (map fst fs)" and "determine_serialiser_method t = SerStr" and "v \<noteq> ''''"
  shows "dict_get (attrib e) k = Some v"
proof -
  obtain e0 e1 where "dump_field lib (declared (CHR ''@'' # k) t (CStr v)) e0 = Inr e1"
    "dict_get (attrib e) k = dict_get (attrib e1) k"
    using dump_to_xml_field [OF assms(1-3)] by (metis declared_def fst_conv)
  with dump_field_attribute [OF _ assms(4,5)] show ?thesis by simp
qed

section \<open>Dumped models are found again\<close>

lemma serialise_tags:
  "serialise lib a s c e = Inr (e', out) \<Longrightarrow> \<exists>cs. children e' = children e @ cs \<and> (\<forall>x\<in>set cs. tag x = Clark a)"
proof (induction s arbitrary: c e e' out)
  case (SerList s)
  have all: "serialise_all lib a s cs e = Inr e'' \<Longrightarrow>
      \<exists>xs. children e'' = children e @ xs \<and> (\<forall>x\<in>set xs. tag x = Clark a)" for cs e e''
  proof (induction cs arbitrary: e)
    case Nil
    then show ?case by simp
  next
    case (Cons c cs)
    then obtain e1 out where one: "serialise lib a s c e = Inr (e1, out)" "serialise_all lib a s cs e1 = Inr e''"
      by (auto simp: andThen_eq_Inr)
    from SerList.IH [OF one(1)] Cons.IH [OF one(2)] show ?case by fastforce
  qed
  from SerList.prems show ?case by (auto simp: result_simps split: content.splits dest: all)
qed (auto simp: result_simps dump_to_xml_tag split: option.splits content.splits)

lemma dump_field_tags:
  assumes "dump_field lib f e = Inr e'"
  shows "\<exists>cs. children e' = children e @ cs \<and> (\<forall>x\<in>set cs. \<exists>a. fst f = Some a \<and> tag x = Clark a)"
proof -
  obtain field_alias ann c where f: "f = (field_alias, ann, c)" by (cases f)
  from assms consider "e' = e" | a s e1 out where "field_alias = Some a"
    "serialise lib a s c e = Inr (e1, out)" "store_serialised a out e1 = Inr e'"
    by (auto simp: dump_field_def f dump_fields.simps result_simps split: option.splits if_splits)
  then show ?thesis
  proof cases
    case 1
    then show ?thesis by simp
  next
    case (2 a s e1 out)
    from serialise_tags [OF 2(2)] store_serialised_frame [OF 2(3)] 2(1) f show ?thesis by auto
  qed
qed

lemma dump_fields_tags:
  "dump_fields lib fs e = Inr e' \<Longrightarrow>
    \<exists>cs. children e' = children e @ cs \<and> (\<forall>x\<in>set cs. \<exists>a. Some a \<in> fst ` set fs \<and> tag x = Clark a)"
proof (induction fs arbitrary: e)
  case Nil
  then show ?case by simp
next
  case (Cons f fs)
  then obtain e1 where one: "dump_field lib f e = Inr e1" and rest: "dump_fields lib fs e1 = Inr e'"
    by (auto simp: dump_fields_Cons result_simps)
  from dump_field_tags [OF one] obtain cs where cs: "children e1 = children e @ cs"
    "\<forall>x\<in>set cs. \<exists>a. fst f = Some a \<and> tag x = Clark a" by blast
  from Cons.IH [OF rest] obtain ds where ds: "children e' = children e1 @ ds"
    "\<forall>x\<in>set ds. \<exists>a. Some a \<in> fst ` set fs \<and> tag x = Clark a" by blast
  from cs(2) have "\<exists>a. Some a \<in> fst ` set (f # fs) \<and> tag x = Clark a" if "x \<in> set cs" for x
    using that by (metis image_insert insertI1 list.simps(15))
  moreover from ds(2) have "\<exists>a. Some a \<in> fst ` set (f # fs) \<and> tag x = Clark a" if "x \<in> set ds" for x
    using that by (metis image_insert insertI2 list.simps(15))
  ultimately show ?case using cs(1) ds(1) by (intro exI [of _ "cs @ ds"]) auto
qed

lemma dump_fields_other:
  assumes "dump_fields lib fs e = Inr e'" and "Some a \<notin> fst ` set fs"
  shows "filter (\<lambda>x. tag x = Clark a) (children e') = filter (\<lambda>x. tag x = Clark a) (children e)"
proof -
  from dump_fields_tags [OF assms(1)] obtain cs where cs: "children e' = children e @ cs"
    "\<forall>x\<in>set cs. \<exists>b. Some b \<in> fst ` set fs \<and> tag x = Clark b" by blast
  from cs(2) assms(2) have "filter (\<lambda>x. tag x = Clark a) cs = []"
    by (metis (mono_tags, lifting) filter_False node_tag.inject(1))
  with cs(1) show ?thesis by simp
qed

text \<open>The models a field holds, when its serialiser dumps models.\<close>

fun field_models :: "serialiser \<Rightarrow> content \<Rightarrow> model list option" where
  "field_models SerDump (CModel m) = Some [m]"
| "field_models (SerList SerDump) (CList cs) =
     those (map (\<lambda>c. case c of CModel m \<Rightarrow> Some m | _ \<Rightarrow> None) cs)"
| "field_models _ _ = None"

lemma dump_field_models:
  assumes "dump_field lib (declared a t c) e = Inr e'" and "a \<noteq> ''*etree_element''"
    and "field_models (determine_serialiser_method t) c = Some ms"
  shows "\<exists>cs. children e' = children e @ cs \<and> list_all2 (\<lambda>m x. dump_to_xml lib a m = Inr x) ms cs"
proof -
  have all: "serialise_all lib a SerDump cs e = Inr e1 \<Longrightarrow>
      those (map (\<lambda>c. case c of CModel m \<Rightarrow> Some m | _ \<Rightarrow> None) cs) = Some ms \<Longrightarrow>
      \<exists>xs. children e1 = children e @ xs \<and> list_all2 (\<lambda>m x. dump_to_xml lib a m = Inr x) ms xs" for cs ms e e1
  proof (induction cs arbitrary: e ms)
    case Nil
    then show ?case by simp
  next
    case (Cons c cs)
    then obtain m ms' x where "c = CModel m" "ms = m # ms'" "dump_to_xml lib a m = Inr x"
      "serialise_all lib a SerDump cs (append_child e x) = Inr e1"
      "those (map (\<lambda>c. case c of CModel m \<Rightarrow> Some m | _ \<Rightarrow> None) cs) = Some ms'"
      by (auto simp: result_simps split: content.splits option.splits)
    with Cons.IH [of "append_child e x" ms'] show ?case by auto
  qed
  from assms show ?thesis
    by (cases "(determine_serialiser_method t, c)" rule: field_models.cases)
       (auto simp: dump_field_def declared_def dump_fields.simps result_simps dest!: all store_serialised_frame)
qed

lemma dump_models_read:
  assumes "dump_to_xml lib clark_name (Model fs ws) = Inr e" and "distinct (map fst fs)"
    and "declared a t c \<in> set fs" and "field_models (determine_serialiser_method t) c = Some ms" and "ms \<noteq> []"
    and "plain_tag a" and "\<forall>w\<in>set ws. tag w \<noteq> Clark a"
  shows "\<exists>xs. list_all2 (\<lambda>m x. dump_to_xml lib a m = Inr x) ms xs \<and>
    dict_get (element_to_dict e) (Key a) = Some (PyDicts (map element_to_dict xs))"
proof -
  let ?is = "\<lambda>x. tag x = Clark a"
  from assms(1) obtain e1 where e1: "dump_fields lib fs (Element (Clark clark_name) [] None [] None) = Inr e1"
    and e: "e = foldl append_child e1 ws" by (auto simp: result_simps)
  from assms(3) obtain ys zs where fs: "fs = ys @ declared a t c # zs" by (auto simp: in_set_conv_decomp)
  with e1 obtain e2 e3 where steps: "dump_fields lib ys (Element (Clark clark_name) [] None [] None) = Inr e2"
    "dump_field lib (declared a t c) e2 = Inr e3" "dump_fields lib zs e3 = Inr e1"
    by (auto simp: dump_fields_append dump_fields_Cons result_simps)
  from assms(2) fs have other: "Some a \<notin> fst ` set ys" "Some a \<notin> fst ` set zs"
    by (auto simp: declared_def)
  from assms(6) have "a \<noteq> ''*etree_element''" by (auto simp: plain_tag_def)
  with dump_field_models [OF steps(2) _ assms(4)] obtain xs where
    xs: "children e3 = children e2 @ xs" "list_all2 (\<lambda>m x. dump_to_xml lib a m = Inr x) ms xs" by blast
  from dump_fields_other [OF steps(1) other(1)] dump_fields_other [OF steps(3) other(2)] xs(1)
  have kept: "filter ?is (children e1) = filter ?is xs" by simp
  have tags: "\<forall>x\<in>set xs. ?is x"
    using xs(2) by (auto simp: list_all2_conv_all_nth in_set_conv_nth) (metis dump_to_xml_tag)
  with e kept assms(7) have same: "filter ?is (children e) = xs" by simp
  from xs(2) assms(5) obtain x where "x \<in> set xs" by (cases xs) auto
  with same have "x \<in> set (filter ?is (children e))" by simp
  then have "\<exists>x\<in>set (children e). ?is x" by auto
  with element_to_dict_child [OF assms(6), of e] same xs(2) show ?thesis by auto
qed

text \<open>
  C38.  The models a field holds come out of the dump as the children with the field's alias, all of
  them and in order, and nothing else does: the dictionary a reader validates has exactly their
  dictionaries under that alias.
\<close>

theorem dumped_models_are_read_back:
  assumes "dump_to_xml lib clark_name (Model fs ws) = Inr e" and "distinct (map fst fs)"
    and "declared a t c \<in> set fs" and "field_models (determine_serialiser_method t) c = Some ms" and "ms \<noteq> []"
    and "plain_tag a" and "\<forall>w\<in>set ws. tag w \<noteq> Clark a"
  shows "\<exists>xs. list_all2 (\<lambda>m x. dump_to_xml lib a m = Inr x) ms xs \<and>
    dict_get (element_to_dict e) (Key a) = Some (PyDicts (map element_to_dict xs))"
  using assms by (rule dump_models_read)

end
