(* ===== verification/Dsig.thy ===== *)
theory Dsig
  imports Elements
begin

text \<open>
  XML signatures: \<^verbatim>\<open>as4/models/dsig\<close> and \<^verbatim>\<open>as4/models/wsse/security_token_reference.py\<close>.  The
  element models with their declared fields, the digest of a reference over an element or over
  attachment bytes, the comparable form of a reference, and the verification of a signature value.
  Hash functions, the public key of a certificate and RSA PKCS#1 v1.5 are parameters (\<open>dsig_lib\<close>).
\<close>

section \<open>The element models\<close>

record transform = base_element +
  tr_algorithm :: "string option"

definition transform_model :: "transform \<Rightarrow> model" where
  "transform_model x =
     Model
       [declared ''@Algorithm'' (AnnOptional AnnStr) (opt_content CStr (tr_algorithm x))]
       (get_content_from_element (wildcard ''##any'' None) (etree_element x)
        [''@Algorithm''])"

record transforms = base_element +
  trs_transforms :: "transform list"

definition transforms_model :: "transforms \<Rightarrow> model" where
  "transforms_model x =
     Model
       [declared (clark ns_ds ''Transform'') (AnnList AnnModel) (model_list transform_model (trs_transforms x))]
       []"

record digest_method = base_element +
  dm_algorithm :: "string"

definition digest_method_model :: "digest_method \<Rightarrow> model" where
  "digest_method_model x =
     Model
       [declared ''@Algorithm'' AnnStr (CStr (dm_algorithm x))]
       []"

record digest_value = base_element +
  dv_text :: "string"

definition digest_value_model :: "digest_value \<Rightarrow> model" where
  "digest_value_model x =
     Model
       [declared ''#text'' AnnStr (CStr (dv_text x))]
       []"

record dsig_reference = base_element +
  ref_transforms :: "transforms"
  ref_digest_method :: "digest_method"
  ref_digest_value :: "digest_value"
  ref_id :: "string option"
  ref_uri :: "string option"
  ref_type_value :: "string option"

definition dsig_reference_model :: "dsig_reference \<Rightarrow> model" where
  "dsig_reference_model x =
     Model
       [declared (clark ns_ds ''Transforms'') AnnModel (CModel (transforms_model (ref_transforms x))),
        declared (clark ns_ds ''DigestMethod'') AnnModel (CModel (digest_method_model (ref_digest_method x))),
        declared (clark ns_ds ''DigestValue'') AnnModel (CModel (digest_value_model (ref_digest_value x))),
        declared ''@Id'' (AnnOptional AnnStr) (opt_content CStr (ref_id x)),
        declared ''@URI'' (AnnOptional AnnStr) (opt_content CStr (ref_uri x)),
        declared ''@Type'' (AnnOptional AnnStr) (opt_content CStr (ref_type_value x))]
       []"

record wsse_reference = base_element +
  wref_uri :: "string option"
  wref_value_type :: "string option"

definition wsse_reference_model :: "wsse_reference \<Rightarrow> model" where
  "wsse_reference_model x =
     Model
       [declared ''@URI'' (AnnOptional AnnStr) (opt_content CStr (wref_uri x)),
        declared ''@ValueType'' (AnnOptional AnnStr) (opt_content CStr (wref_value_type x))]
       (get_content_from_element (wildcard ''##any'' None) (etree_element x)
        [''@URI'', ''@ValueType''])"

record security_token_reference = base_element +
  str_security_token_reference_id :: "string option"
  str_usage :: "string"
  str_reference :: "wsse_reference"
  str_token_type :: "string option"

definition security_token_reference_model :: "security_token_reference \<Rightarrow> model" where
  "security_token_reference_model x =
     Model
       [declared (''@'' @ clark ns_wsu ''Id'') (AnnOptional AnnStr) (opt_content CStr (str_security_token_reference_id x)),
        declared (''@'' @ clark ns_wsse ''Usage'') AnnStr (CStr (str_usage x)),
        declared (clark ns_wsse ''Reference'') AnnModel (CModel (wsse_reference_model (str_reference x))),
        declared (''@'' @ clark ns_wsse11 ''TokenType'') (AnnOptional AnnStr) (opt_content CStr (str_token_type x))]
       (get_content_from_element (wildcard ''##any'' None) (etree_element x)
        [''@'' @ clark ns_wsu ''Id'', ''@'' @ clark ns_wsse ''Usage'', clark ns_wsse ''Reference'', ''@'' @ clark ns_wsse11 ''TokenType''])"

record crypto_binary = base_element +
  cb_text :: "bytes"

definition crypto_binary_model :: "crypto_binary \<Rightarrow> model" where
  "crypto_binary_model x =
     Model
       [declared ''#text'' AnnBytes (CBytes (cb_text x))]
       []"

type_synonym key_value = base_element

definition key_value_model :: "key_value \<Rightarrow> model" where
  "key_value_model x =
     Model
       []
       (get_content_from_element (wildcard ''##any'' (Some [clark ns_ds ''DSAKeyValue'', clark ns_ds ''RSAKeyValue''])) (etree_element x)
        [])"

record key_name = base_element +
  kn_text :: "string"

definition key_name_model :: "key_name \<Rightarrow> model" where
  "key_name_model x =
     Model
       [declared ''#text'' AnnStr (CStr (kn_text x))]
       []"

record retrieval_method = base_element +
  rm_transforms :: "transforms list"
  rm_uri :: "string option"
  rm_type_value :: "string option"

definition retrieval_method_model :: "retrieval_method \<Rightarrow> model" where
  "retrieval_method_model x =
     Model
       [declared (clark ns_ds ''Transforms'') (AnnList AnnModel) (model_list transforms_model (rm_transforms x)),
        declared ''@URI'' (AnnOptional AnnStr) (opt_content CStr (rm_uri x)),
        declared ''@Type'' (AnnOptional AnnStr) (opt_content CStr (rm_type_value x))]
       []"

record x509_issuer_name = base_element +
  xin_text :: "string"

definition x509_issuer_name_model :: "x509_issuer_name \<Rightarrow> model" where
  "x509_issuer_name_model x =
     Model
       [declared ''#text'' AnnStr (CStr (xin_text x))]
       []"

record x509_serial_number = base_element +
  xsn_text :: "int"

definition x509_serial_number_model :: "x509_serial_number \<Rightarrow> model" where
  "x509_serial_number_model x =
     Model
       [declared ''#text'' AnnInt (CInt (xsn_text x))]
       []"

record x509_issuer_serial = base_element +
  xis_x509_issuer_name :: "x509_issuer_name"
  xis_x509_serial_number :: "x509_serial_number"

definition x509_issuer_serial_model :: "x509_issuer_serial \<Rightarrow> model" where
  "x509_issuer_serial_model x =
     Model
       [declared (clark ns_ds ''X509IssuerName'') AnnModel (CModel (x509_issuer_name_model (xis_x509_issuer_name x))),
        declared (clark ns_ds ''X509SerialNumber'') AnnModel (CModel (x509_serial_number_model (xis_x509_serial_number x)))]
       []"

record x509_ski = base_element +
  xski_text :: "bytes"

definition x509_ski_model :: "x509_ski \<Rightarrow> model" where
  "x509_ski_model x =
     Model
       [declared ''#text'' AnnBytes (CBytes (xski_text x))]
       []"

record x509_subject_name = base_element +
  xsubj_text :: "string"

definition x509_subject_name_model :: "x509_subject_name \<Rightarrow> model" where
  "x509_subject_name_model x =
     Model
       [declared ''#text'' AnnStr (CStr (xsubj_text x))]
       []"

record x509_certificate_element = base_element +
  xcert_text :: "bytes"

definition x509_certificate_element_model :: "x509_certificate_element \<Rightarrow> model" where
  "x509_certificate_element_model x =
     Model
       [declared ''#text'' AnnBytes (CBytes (xcert_text x))]
       []"

record x509_crl = base_element +
  xcrl_text :: "bytes"

definition x509_crl_model :: "x509_crl \<Rightarrow> model" where
  "x509_crl_model x =
     Model
       [declared ''#text'' AnnBytes (CBytes (xcrl_text x))]
       []"

record x509_data = base_element +
  xd_x509_issuer_serial :: "x509_issuer_serial list"
  xd_x509_ski :: "x509_ski list"
  xd_x509_subject_name :: "x509_subject_name list"
  xd_x509_certificate :: "x509_certificate_element list"
  xd_x509_crl :: "x509_crl list"

definition x509_data_model :: "x509_data \<Rightarrow> model" where
  "x509_data_model x =
     Model
       [declared (clark ns_ds ''X509IssuerSerial'') (AnnList AnnModel) (model_list x509_issuer_serial_model (xd_x509_issuer_serial x)),
        declared (clark ns_ds ''X509SKI'') (AnnList AnnModel) (model_list x509_ski_model (xd_x509_ski x)),
        declared (clark ns_ds ''X509SubjectName'') (AnnList AnnModel) (model_list x509_subject_name_model (xd_x509_subject_name x)),
        declared (clark ns_ds ''X509Certificate'') (AnnList AnnModel) (model_list x509_certificate_element_model (xd_x509_certificate x)),
        declared (clark ns_ds ''X509CRL'') (AnnList AnnModel) (model_list x509_crl_model (xd_x509_crl x))]
       []"

record pgp_data = base_element +
  pgp_pgpkey_id :: "crypto_binary"
  pgp_pgpkey_packet :: "crypto_binary list"

definition pgp_data_model :: "pgp_data \<Rightarrow> model" where
  "pgp_data_model x =
     Model
       [declared (clark ns_ds ''PGPKeyID'') AnnModel (CModel (crypto_binary_model (pgp_pgpkey_id x))),
        declared (clark ns_ds ''PGPKeyPacket'') (AnnList AnnModel) (model_list crypto_binary_model (pgp_pgpkey_packet x))]
       []"

record spki_data = base_element +
  spki_spkisexp :: "crypto_binary list"

definition spki_data_model :: "spki_data \<Rightarrow> model" where
  "spki_data_model x =
     Model
       [declared (clark ns_ds ''SPKISexp'') (AnnList AnnModel) (model_list crypto_binary_model (spki_spkisexp x))]
       []"

record mgmt_data = base_element +
  mgmt_text :: "string"

definition mgmt_data_model :: "mgmt_data \<Rightarrow> model" where
  "mgmt_data_model x =
     Model
       [declared ''#text'' AnnStr (CStr (mgmt_text x))]
       []"

record key_info = base_element +
  ki_key_info_id :: "string option"
  ki_key_name :: "key_name list"
  ki_key_value :: "key_value list"
  ki_retrieval_method :: "retrieval_method list"
  ki_x509_data :: "x509_data list"
  ki_pgp_data :: "pgp_data list"
  ki_spki_data :: "spki_data list"
  ki_mgmt_data :: "mgmt_data list"
  ki_security_token_reference :: "security_token_reference list"

definition key_info_model :: "key_info \<Rightarrow> model" where
  "key_info_model x =
     Model
       [declared ''@Id'' (AnnOptional AnnStr) (opt_content CStr (ki_key_info_id x)),
        declared (clark ns_ds ''KeyName'') (AnnList AnnModel) (model_list key_name_model (ki_key_name x)),
        declared (clark ns_ds ''KeyValue'') (AnnList AnnModel) (model_list key_value_model (ki_key_value x)),
        declared (clark ns_ds ''RetrievalMethod'') (AnnList AnnModel) (model_list retrieval_method_model (ki_retrieval_method x)),
        declared (clark ns_ds ''X509Data'') (AnnList AnnModel) (model_list x509_data_model (ki_x509_data x)),
        declared (clark ns_ds ''PGPData'') (AnnList AnnModel) (model_list pgp_data_model (ki_pgp_data x)),
        declared (clark ns_ds ''SPKIData'') (AnnList AnnModel) (model_list spki_data_model (ki_spki_data x)),
        declared (clark ns_ds ''MgmtData'') (AnnList AnnModel) (model_list mgmt_data_model (ki_mgmt_data x)),
        declared (clark ns_wsse ''SecurityTokenReference'') (AnnList AnnModel) (model_list security_token_reference_model (ki_security_token_reference x))]
       []"

record canonicalization_method = base_element +
  cm_algorithm :: "string option"

definition canonicalization_method_model :: "canonicalization_method \<Rightarrow> model" where
  "canonicalization_method_model x =
     Model
       [declared ''@Algorithm'' (AnnOptional AnnStr) (opt_content CStr (cm_algorithm x))]
       (get_content_from_element (wildcard ''##any'' None) (etree_element x)
        [''@Algorithm''])"

record signature_method = base_element +
  sm_algorithm :: "string"

definition signature_method_model :: "signature_method \<Rightarrow> model" where
  "signature_method_model x =
     Model
       [declared ''@Algorithm'' AnnStr (CStr (sm_algorithm x))]
       (get_content_from_element (wildcard ''##any'' (Some [clark ns_ds ''HMACOutputLength''])) (etree_element x)
        [''@Algorithm''])"

record signed_info = base_element +
  si_canonicalization_method :: "canonicalization_method"
  si_signature_method :: "signature_method"
  si_references :: "dsig_reference list"
  si_id :: "string option"

definition signed_info_model :: "signed_info \<Rightarrow> model" where
  "signed_info_model x =
     Model
       [declared (clark ns_ds ''CanonicalizationMethod'') AnnModel (CModel (canonicalization_method_model (si_canonicalization_method x))),
        declared (clark ns_ds ''SignatureMethod'') AnnModel (CModel (signature_method_model (si_signature_method x))),
        declared (clark ns_ds ''Reference'') (AnnList AnnModel) (model_list dsig_reference_model (si_references x)),
        declared ''@Id'' (AnnOptional AnnStr) (opt_content CStr (si_id x))]
       []"

record dsig_object = base_element +
  obj_id :: "string option"
  obj_mime_type :: "string option"
  obj_encoding :: "string option"

definition dsig_object_model :: "dsig_object \<Rightarrow> model" where
  "dsig_object_model x =
     Model
       [declared ''@Id'' (AnnOptional AnnStr) (opt_content CStr (obj_id x)),
        declared ''@MimeType'' (AnnOptional AnnStr) (opt_content CStr (obj_mime_type x)),
        declared ''@Encoding'' (AnnOptional AnnStr) (opt_content CStr (obj_encoding x))]
       (get_content_from_element (wildcard ''##any'' None) (etree_element x)
        [''@Id'', ''@MimeType'', ''@Encoding''])"

record signature_value = base_element +
  sv_value :: "bytes option"
  sv_id :: "string option"

definition signature_value_model :: "signature_value \<Rightarrow> model" where
  "signature_value_model x =
     Model
       [declared ''#text'' (AnnOptional (AnnAnnotated AnnBytes [Base64Encoded])) (opt_content CBytes (sv_value x)),
        declared ''@Id'' (AnnOptional AnnStr) (opt_content CStr (sv_id x))]
       []"

record signature = base_element +
  sig_signed_info :: "signed_info"
  sig_signature_value :: "signature_value"
  sig_key_info :: "key_info"
  sig_object_value :: "dsig_object list"
  sig_signature_id :: "string option"

definition signature_model :: "signature \<Rightarrow> model" where
  "signature_model x =
     Model
       [declared (clark ns_ds ''SignedInfo'') AnnModel (CModel (signed_info_model (sig_signed_info x))),
        declared (clark ns_ds ''SignatureValue'') AnnModel (CModel (signature_value_model (sig_signature_value x))),
        declared (clark ns_ds ''KeyInfo'') AnnModel (CModel (key_info_model (sig_key_info x))),
        declared (clark ns_ds ''Object'') (AnnList AnnModel) (model_list dsig_object_model (sig_object_value x)),
        declared ''@Id'' (AnnOptional AnnStr) (opt_content CStr (sig_signature_id x))]
       []"

section \<open>Algorithms\<close>

definition EXCLUSIVE_C14N :: string where
  "EXCLUSIVE_C14N = ''http://www.w3.org/2001/10/xml-exc-c14n#''"

definition ATTACHMENT_CONTENT_SIGNATURE :: string where
  "ATTACHMENT_CONTENT_SIGNATURE =
     ''http://docs.oasis-open.org/wss/oasis-wss-SwAProfile-1.1#Attachment-Content-Signature-Transform''"

definition SHA256 :: string where "SHA256 = ''http://www.w3.org/2001/04/xmlenc#sha256''"
definition SHA384 :: string where "SHA384 = ''http://www.w3.org/2001/04/xmldsig-more#sha384''"
definition SHA512 :: string where "SHA512 = ''http://www.w3.org/2001/04/xmlenc#sha512''"

datatype hash_algorithm = HashSHA256 | HashSHA384 | HashSHA512

datatype rsa_public_key = RSAPublicKey (modulus: int) (exponent: int)

datatype public_key = RSA rsa_public_key | OtherKey (key_type_name: string)

record dsig_lib = xml_lib +
  hash_bytes :: "hash_algorithm \<Rightarrow> bytes \<Rightarrow> bytes"
  cert_public_key :: "certificate \<Rightarrow> exn + public_key"
  load_der_x509 :: load_der
  rsa_pkcs1_verify :: "rsa_public_key \<Rightarrow> hash_algorithm \<Rightarrow> bytes \<Rightarrow> bytes \<Rightarrow> bool"
    \<comment> \<open>key, hash, signature, data\<close>

definition DIGEST_ALGORITHM_MAP :: "(string, hash_algorithm) dict" where
  "DIGEST_ALGORITHM_MAP = [(SHA256, HashSHA256), (SHA384, HashSHA384), (SHA512, HashSHA512)]"

definition SIGNATURE_ALGORITHMS :: "(string, hash_algorithm) dict" where
  "SIGNATURE_ALGORITHMS =
     [(''http://www.w3.org/2001/04/xmldsig-more#rsa-sha256'', HashSHA256),
      (''http://www.w3.org/2001/04/xmldsig-more#rsa-sha384'', HashSHA384),
      (''http://www.w3.org/2001/04/xmldsig-more#rsa-sha512'', HashSHA512)]"

section \<open>Inclusive namespaces\<close>

text \<open>The prefixes of every \<open>InclusiveNamespaces\<close> child the wildcard of the element picks up.\<close>

definition prefix_list :: "xml list \<Rightarrow> string list" where
  "prefix_list items =
     concat (map (\<lambda>item. words_of (case dict_get (attrib item) ''PrefixList'' of None \<Rightarrow> '''' | Some s \<Rightarrow> s))
       (filter (\<lambda>item. tag item = Clark (clark ns_exc_c14n ''InclusiveNamespaces'')) items))"

definition transform_inclusive_namespaces :: "transform \<Rightarrow> string list" where
  "transform_inclusive_namespaces t = prefix_list (wildcard_content (transform_model t))"

definition canonicalization_inclusive_namespaces :: "canonicalization_method \<Rightarrow> string list" where
  "canonicalization_inclusive_namespaces m = prefix_list (wildcard_content (canonicalization_method_model m))"

definition reference_inclusive_namespaces :: "dsig_reference \<Rightarrow> string list" where
  "reference_inclusive_namespaces r =
     (case filter (\<lambda>t. tr_algorithm t = Some EXCLUSIVE_C14N) (trs_transforms (ref_transforms r)) of
        [] \<Rightarrow> []
      | t # _ \<Rightarrow> transform_inclusive_namespaces t)"

section \<open>Digests\<close>

definition compute_digest :: "'z dsig_lib_scheme \<Rightarrow> string \<Rightarrow> bytes \<Rightarrow> exn + string" where
  "compute_digest lib digest_algorithm content =
     (case dict_get DIGEST_ALGORITHM_MAP digest_algorithm of
        None \<Rightarrow> Inl (UnsupportedDigestAlgorithm digest_algorithm)
      | Some h \<Rightarrow> Inr (b64encode (hash_bytes lib h content)))"

definition canonicalize :: "'z dsig_lib_scheme \<Rightarrow> xml \<Rightarrow> string list \<Rightarrow> bytes" where
  "canonicalize lib element inclusive_ns_prefixes = exclusive_c14n lib element inclusive_ns_prefixes"

definition new_transform :: "string \<Rightarrow> transform" where
  "new_transform alg = \<lparr>etree_element = None, tr_algorithm = Some alg\<rparr>"

definition new_reference :: "string \<Rightarrow> string \<Rightarrow> string \<Rightarrow> string \<Rightarrow> dsig_reference" where
  "new_reference uri transform_algorithm digest_algorithm digest =
     \<lparr>etree_element = None,
      ref_transforms = \<lparr>etree_element = None, trs_transforms = [new_transform transform_algorithm]\<rparr>,
      ref_digest_method = \<lparr>etree_element = None, dm_algorithm = digest_algorithm\<rparr>,
      ref_digest_value = \<lparr>etree_element = None, dv_text = digest\<rparr>,
      ref_id = None, ref_uri = Some uri, ref_type_value = None\<rparr>"

definition for_element :: "'z dsig_lib_scheme \<Rightarrow> string \<Rightarrow> xml \<Rightarrow> string \<Rightarrow> exn + dsig_reference" where
  "for_element lib uri element digest_algorithm =
     andThen (compute_digest lib digest_algorithm (canonicalize lib element []))
       (\<lambda>d. Inr (new_reference uri EXCLUSIVE_C14N digest_algorithm d))"

definition for_bytes ::
  "'z dsig_lib_scheme \<Rightarrow> string \<Rightarrow> bytes \<Rightarrow> string \<Rightarrow> string \<Rightarrow> exn + dsig_reference" where
  "for_bytes lib uri content digest_algorithm transform_algorithm =
     andThen (compute_digest lib digest_algorithm content)
       (\<lambda>d. Inr (new_reference uri transform_algorithm digest_algorithm d))"

definition digest_bytes :: "'z dsig_lib_scheme \<Rightarrow> dsig_reference \<Rightarrow> bytes \<Rightarrow> exn + string" where
  "digest_bytes lib r content = compute_digest lib (dm_algorithm (ref_digest_method r)) content"

definition digest :: "'z dsig_lib_scheme \<Rightarrow> dsig_reference \<Rightarrow> xml \<Rightarrow> exn + string" where
  "digest lib r element =
     digest_bytes lib r (canonicalize lib element (reference_inclusive_namespaces r))"

text \<open>\<open>str\<close> of an optional algorithm, in the message of the error.\<close>

definition algorithm_text :: "string option \<Rightarrow> string" where
  "algorithm_text a = (case a of None \<Rightarrow> ''None'' | Some s \<Rightarrow> s)"

definition transform_algorithms :: "dsig_reference \<Rightarrow> string option list" where
  "transform_algorithms r = map tr_algorithm (trs_transforms (ref_transforms r))"

definition require_transforms :: "string set \<Rightarrow> dsig_reference \<Rightarrow> exn + unit" where
  "require_transforms allowed r =
     (let algorithms = remdups (transform_algorithms r);
          named = join '', '' (sorted_strings (map algorithm_text algorithms))
      in require (algorithms \<noteq> [] \<and> set algorithms \<subseteq> Some ` allowed)
           (UnsupportedTransform (if named \<noteq> '''' then named else ''none'')))"

definition digest_matches :: "'z dsig_lib_scheme \<Rightarrow> dsig_reference \<Rightarrow> xml \<Rightarrow> exn + bool" where
  "digest_matches lib r element =
     andThen (require_transforms {EXCLUSIVE_C14N} r)
       (\<lambda>_. andThen (digest lib r element) (\<lambda>d. Inr (d = py_strip (dv_text (ref_digest_value r)))))"

definition digest_matches_bytes :: "'z dsig_lib_scheme \<Rightarrow> dsig_reference \<Rightarrow> bytes \<Rightarrow> exn + bool" where
  "digest_matches_bytes lib r content =
     andThen (require_transforms {ATTACHMENT_CONTENT_SIGNATURE} r)
       (\<lambda>_. andThen (digest_bytes lib r content) (\<lambda>d. Inr (d = py_strip (dv_text (ref_digest_value r)))))"

section \<open>References as they are compared\<close>

record comparable_reference =
  cmp_uri :: string
  cmp_transform_algorithms :: "string list"
  cmp_digest_algorithm :: string
  cmp_digest_value :: string

definition or_empty :: "string option \<Rightarrow> string" where
  "or_empty v = (case v of None \<Rightarrow> '''' | Some s \<Rightarrow> s)"

definition from_reference :: "dsig_reference \<Rightarrow> comparable_reference" where
  "from_reference r =
     \<lparr>cmp_uri = or_empty (ref_uri r),
      cmp_transform_algorithms =
        sorted_strings [s. Some s \<leftarrow> transform_algorithms r, s \<noteq> ''''],
      cmp_digest_algorithm = dm_algorithm (ref_digest_method r),
      cmp_digest_value = py_strip (dv_text (ref_digest_value r))\<rparr>"

section \<open>Signatures\<close>

definition signed_info_canonicalized :: "'z dsig_lib_scheme \<Rightarrow> signed_info \<Rightarrow> bytes" where
  "signed_info_canonicalized lib si =
     (case etree_element si of
        None \<Rightarrow> []
      | Some e \<Rightarrow>
          exclusive_c14n lib e (canonicalization_inclusive_namespaces (si_canonicalization_method si)))"

definition signature_bytes :: "signature \<Rightarrow> exn + bytes" where
  "signature_bytes s =
     (case sv_value (sig_signature_value s) of
        None \<Rightarrow> Inl (ValueError ''No signature bytes found for signature'')
      | Some b \<Rightarrow> Inr b)"

definition require_exclusive_canonicalization :: "string option \<Rightarrow> exn + unit" where
  "require_exclusive_canonicalization canonicalization =
     require (canonicalization = Some EXCLUSIVE_C14N) (UnsupportedTransform (algorithm_text canonicalization))"

definition require_rsa_public_key ::
  "'z dsig_lib_scheme \<Rightarrow> certificate \<Rightarrow> string \<Rightarrow> exn + rsa_public_key" where
  "require_rsa_public_key lib certificate algorithm =
     andThen (cert_public_key lib certificate)
       (\<lambda>key. case key of
          RSA k \<Rightarrow> Inr k
        | OtherKey name \<Rightarrow> Inl (UnsupportedSignatureAlgorithm (algorithm @ '' with a '' @ name)))"

definition signature_verify :: "'z dsig_lib_scheme \<Rightarrow> signature \<Rightarrow> certificate \<Rightarrow> exn + unit" where
  "signature_verify lib s certificate =
     (let si = sig_signed_info s;
          signature_algorithm = sm_algorithm (si_signature_method si)
      in andThen (require_exclusive_canonicalization (cm_algorithm (si_canonicalization_method si)))
        (\<lambda>_. case dict_get SIGNATURE_ALGORITHMS signature_algorithm of
               None \<Rightarrow> Inl (UnsupportedSignatureAlgorithm signature_algorithm)
             | Some algorithm \<Rightarrow>
                 andThen (require_rsa_public_key lib certificate signature_algorithm)
                   (\<lambda>key. andThen (signature_bytes s)
                     (\<lambda>sig. require
                        (rsa_pkcs1_verify lib key algorithm sig (signed_info_canonicalized lib si))
                        InvalidSignature))))"

section \<open>When digests and signatures verify\<close>

lemma compute_digest_eq_Inr [result_simps]:
  "compute_digest lib alg content = Inr d \<longleftrightarrow>
    (\<exists>h. dict_get DIGEST_ALGORITHM_MAP alg = Some h \<and> d = b64encode (hash_bytes lib h content))"
  by (auto simp: compute_digest_def split: option.splits)

lemma compute_digest_raises:
  "compute_digest lib alg content = Inl e \<longleftrightarrow>
    dict_get DIGEST_ALGORITHM_MAP alg = None \<and> e = UnsupportedDigestAlgorithm alg"
  by (auto simp: compute_digest_def split: option.splits)

definition only_transforms :: "string \<Rightarrow> dsig_reference \<Rightarrow> bool" where
  "only_transforms alg r \<longleftrightarrow>
     trs_transforms (ref_transforms r) \<noteq> [] \<and> (\<forall>t\<in>set (trs_transforms (ref_transforms r)). tr_algorithm t = Some alg)"

lemma require_transforms_eq_Inr [result_simps]:
  "require_transforms {alg} r = Inr u \<longleftrightarrow> only_transforms alg r"
  by (auto simp: require_transforms_def only_transforms_def transform_algorithms_def Let_def result_simps)

lemma require_transforms_raises:
  "require_transforms {alg} r = Inl e \<Longrightarrow> \<not> only_transforms alg r \<and> (\<exists>s. e = UnsupportedTransform s)"
  by (auto simp: require_transforms_def only_transforms_def transform_algorithms_def Let_def result_simps
      split: if_splits)

text \<open>The digest of a reference over an element or over bytes, when its algorithm is supported.\<close>

definition element_digest :: "'z dsig_lib_scheme \<Rightarrow> dsig_reference \<Rightarrow> xml \<Rightarrow> string option" where
  "element_digest lib r e =
     map_option (\<lambda>h. b64encode (hash_bytes lib h (canonicalize lib e (reference_inclusive_namespaces r))))
       (dict_get DIGEST_ALGORITHM_MAP (dm_algorithm (ref_digest_method r)))"

definition content_digest :: "'z dsig_lib_scheme \<Rightarrow> dsig_reference \<Rightarrow> bytes \<Rightarrow> string option" where
  "content_digest lib r content =
     map_option (\<lambda>h. b64encode (hash_bytes lib h content))
       (dict_get DIGEST_ALGORITHM_MAP (dm_algorithm (ref_digest_method r)))"

lemma digest_matches_eq_Inr [result_simps]:
  "digest_matches lib r e = Inr b \<longleftrightarrow>
    only_transforms EXCLUSIVE_C14N r \<and>
    (\<exists>d. element_digest lib r e = Some d \<and> b = (d = py_strip (dv_text (ref_digest_value r))))"
  by (auto simp: digest_matches_def digest_def digest_bytes_def element_digest_def result_simps)

lemma digest_matches_bytes_eq_Inr [result_simps]:
  "digest_matches_bytes lib r content = Inr b \<longleftrightarrow>
    only_transforms ATTACHMENT_CONTENT_SIGNATURE r \<and>
    (\<exists>d. content_digest lib r content = Some d \<and> b = (d = py_strip (dv_text (ref_digest_value r))))"
  by (auto simp: digest_matches_bytes_def digest_bytes_def content_digest_def result_simps)

lemma digest_matches_raises:
  "digest_matches lib r e = Inl x \<Longrightarrow> (\<exists>s. x = UnsupportedTransform s) \<or> (\<exists>s. x = UnsupportedDigestAlgorithm s)"
  by (auto simp: digest_matches_def digest_def digest_bytes_def result_simps compute_digest_raises
      dest: require_transforms_raises)

lemma digest_matches_bytes_raises:
  "digest_matches_bytes lib r c = Inl x \<Longrightarrow> (\<exists>s. x = UnsupportedTransform s) \<or> (\<exists>s. x = UnsupportedDigestAlgorithm s)"
  by (auto simp: digest_matches_bytes_def digest_bytes_def result_simps compute_digest_raises
      dest: require_transforms_raises)

lemma require_rsa_public_key_eq_Inr [result_simps]:
  "require_rsa_public_key lib c alg = Inr key \<longleftrightarrow> cert_public_key lib c = Inr (RSA key)"
  by (cases "cert_public_key lib c") (auto simp: require_rsa_public_key_def split: public_key.splits)

lemma require_rsa_public_key_raises:
  "require_rsa_public_key lib c alg = Inl e \<Longrightarrow>
    cert_public_key lib c = Inl e \<or> (\<exists>t. e = UnsupportedSignatureAlgorithm t)"
  by (cases "cert_public_key lib c") (auto simp: require_rsa_public_key_def split: public_key.splits)

lemma signature_verify_eq_Inr [result_simps]:
  "signature_verify lib s c = Inr u \<longleftrightarrow>
    cm_algorithm (si_canonicalization_method (sig_signed_info s)) = Some EXCLUSIVE_C14N \<and>
    (\<exists>h key v. dict_get SIGNATURE_ALGORITHMS (sm_algorithm (si_signature_method (sig_signed_info s))) = Some h \<and>
       cert_public_key lib c = Inr (RSA key) \<and> sv_value (sig_signature_value s) = Some v \<and>
       rsa_pkcs1_verify lib key h v (signed_info_canonicalized lib (sig_signed_info s)))"
  by (auto simp: signature_verify_def require_exclusive_canonicalization_def
      signature_bytes_def result_simps Let_def split: option.splits)

lemma signature_verify_raises:
  "signature_verify lib s c = Inl e \<Longrightarrow>
    (\<exists>t. e = UnsupportedTransform t) \<or> (\<exists>t. e = UnsupportedSignatureAlgorithm t) \<or> e = InvalidSignature \<or>
    sv_value (sig_signature_value s) = None \<and> (\<exists>t. e = ValueError t) \<or> cert_public_key lib c = Inl e"
  by (auto simp: signature_verify_def require_exclusive_canonicalization_def
      signature_bytes_def result_simps Let_def split: option.splits dest!: require_rsa_public_key_raises)

text \<open>A reference the code builds matches what it was built from.\<close>

lemma new_reference_inclusive [simp]: "reference_inclusive_namespaces (new_reference u t a d) = []"
  by (simp add: reference_inclusive_namespaces_def new_reference_def new_transform_def
      transform_inclusive_namespaces_def transform_model_def get_content_from_element_def prefix_list_def)

lemma new_reference_only [simp]: "only_transforms alg (new_reference u t a d) \<longleftrightarrow> t = alg"
  by (simp add: only_transforms_def new_reference_def new_transform_def)

lemma new_reference_fields [simp]:
  "ref_uri (new_reference u t a d) = Some u"
  "dm_algorithm (ref_digest_method (new_reference u t a d)) = a"
  "dv_text (ref_digest_value (new_reference u t a d)) = d"
  "transform_algorithms (new_reference u t a d) = [Some t]"
  by (simp_all add: new_reference_def new_transform_def transform_algorithms_def)

lemma for_element_matches:
  "for_element lib uri e alg = Inr r \<Longrightarrow> digest_matches lib r e = Inr True \<and> ref_uri r = Some uri"
  by (auto simp: for_element_def result_simps element_digest_def)

lemma for_bytes_matches:
  "for_bytes lib uri content alg ATTACHMENT_CONTENT_SIGNATURE = Inr r \<Longrightarrow>
    digest_matches_bytes lib r content = Inr True \<and> ref_uri r = Some uri"
  by (auto simp: for_bytes_def result_simps content_digest_def)


end
