(* ===== verification/Ebms.thy ===== *)
theory Ebms
  imports Dsig
begin

text \<open>
  The ebMS header: \<^verbatim>\<open>as4/models/ebms\<close> and \<^verbatim>\<open>as4/models/ebbp\<close>.  The element models, the
  message properties, the decompression of a payload part within a size cap, and the rule that
  an \<open>eb:Messaging\<close> carries at most one message of each kind.  Reading a gzip stream is a
  parameter (\<open>gzip_lib\<close>).
\<close>

section \<open>The element models\<close>

record message_part_nr_information = base_element +
  mpnri_references :: "dsig_reference list"

definition message_part_nr_information_model :: "message_part_nr_information \<Rightarrow> model" where
  "message_part_nr_information_model x =
     Model
       [declared (clark ns_ds ''Reference'') (AnnList AnnModel) (model_list dsig_reference_model (mpnri_references x))]
       []"

record non_repudiation_information = base_element +
  nri_message_part_nr_information :: "message_part_nr_information list"

definition non_repudiation_information_model :: "non_repudiation_information \<Rightarrow> model" where
  "non_repudiation_information_model x =
     Model
       [declared (clark ns_ebbpsig ''MessagePartNRInformation'') (AnnList AnnModel) (model_list message_part_nr_information_model (nri_message_part_nr_information x))]
       []"

record description_element = base_element +
  desc_value :: "string"
  desc_lang :: "string option"

definition description_element_model :: "description_element \<Rightarrow> model" where
  "description_element_model x =
     Model
       [declared ''#text'' AnnStr (CStr (desc_value x)),
        declared (''@'' @ clark ns_xml ''lang'') (AnnUnion [AnnStr, AnnEnum, AnnNone]) (opt_content CStr (desc_lang x))]
       []"

record error_detail_element = base_element +
  ed_value :: "string"

definition error_detail_element_model :: "error_detail_element \<Rightarrow> model" where
  "error_detail_element_model x =
     Model
       [declared ''#text'' AnnStr (CStr (ed_value x))]
       []"

record timestamp = base_element +
  ts_value :: "datetime"

definition timestamp_model :: "timestamp \<Rightarrow> model" where
  "timestamp_model x =
     Model
       [declared ''#text'' AnnDatetime (CDatetime (ts_value x))]
       []"

record message_id_element = base_element +
  mid_value :: "string"

definition message_id_element_model :: "message_id_element \<Rightarrow> model" where
  "message_id_element_model x =
     Model
       [declared ''#text'' AnnStr (CStr (mid_value x))]
       []"

record ref_to_message_id = base_element +
  rtm_value :: "string"

definition ref_to_message_id_model :: "ref_to_message_id \<Rightarrow> model" where
  "ref_to_message_id_model x =
     Model
       [declared ''#text'' AnnStr (CStr (rtm_value x))]
       []"

record message_info = base_element +
  mi_timestamp :: "timestamp"
  mi_message_id :: "message_id_element"
  mi_ref_to_message_id :: "ref_to_message_id option"

definition message_info_model :: "message_info \<Rightarrow> model" where
  "message_info_model x =
     Model
       [declared (clark ns_eb3 ''Timestamp'') AnnModel (CModel (timestamp_model (mi_timestamp x))),
        declared (clark ns_eb3 ''MessageId'') AnnModel (CModel (message_id_element_model (mi_message_id x))),
        declared (clark ns_eb3 ''RefToMessageId'') (AnnOptional (AnnAnnotated AnnModel [OtherMetadata])) (opt_content (model_content ref_to_message_id_model) (mi_ref_to_message_id x))]
       []"

record agreement_ref = base_element +
  ar_value :: "string"
  ar_type_value :: "string option"
  ar_pmode :: "string option"

definition agreement_ref_model :: "agreement_ref \<Rightarrow> model" where
  "agreement_ref_model x =
     Model
       [declared ''#text'' AnnStr (CStr (ar_value x)),
        declared ''@type'' (AnnOptional AnnStr) (opt_content CStr (ar_type_value x)),
        declared ''@pmode'' (AnnOptional AnnStr) (opt_content CStr (ar_pmode x))]
       []"

record party_id = base_element +
  pid_value :: "string"
  pid_type_value :: "string option"

definition party_id_model :: "party_id \<Rightarrow> model" where
  "party_id_model x =
     Model
       [declared ''#text'' AnnStr (CStr (pid_value x)),
        declared ''@type'' (AnnOptional AnnStr) (opt_content CStr (pid_type_value x))]
       []"

record role = base_element +
  role_value :: "string"

definition role_model :: "role \<Rightarrow> model" where
  "role_model x =
     Model
       [declared ''#text'' AnnStr (CStr (role_value x))]
       []"

record party_from = base_element +
  pf_party_id :: "party_id"
  pf_role :: "role"

definition party_from_model :: "party_from \<Rightarrow> model" where
  "party_from_model x =
     Model
       [declared (clark ns_eb3 ''PartyId'') AnnModel (CModel (party_id_model (pf_party_id x))),
        declared (clark ns_eb3 ''Role'') AnnModel (CModel (role_model (pf_role x)))]
       []"

record party_to = base_element +
  pt_party_id :: "party_id"
  pt_role :: "role"

definition party_to_model :: "party_to \<Rightarrow> model" where
  "party_to_model x =
     Model
       [declared (clark ns_eb3 ''PartyId'') AnnModel (CModel (party_id_model (pt_party_id x))),
        declared (clark ns_eb3 ''Role'') AnnModel (CModel (role_model (pt_role x)))]
       []"

record party_info = base_element +
  pi_party_from :: "party_from"
  pi_party_to :: "party_to"

definition party_info_model :: "party_info \<Rightarrow> model" where
  "party_info_model x =
     Model
       [declared (clark ns_eb3 ''From'') AnnModel (CModel (party_from_model (pi_party_from x))),
        declared (clark ns_eb3 ''To'') AnnModel (CModel (party_to_model (pi_party_to x)))]
       []"

record property = base_element +
  prop_property_type :: "string option"
  prop_value :: "string"
  prop_name :: "string"

definition property_model :: "property \<Rightarrow> model" where
  "property_model x =
     Model
       [declared ''@type'' (AnnOptional AnnStr) (opt_content CStr (prop_property_type x)),
        declared ''#text'' AnnStr (CStr (prop_value x)),
        declared ''@name'' AnnStr (CStr (prop_name x))]
       []"

record service = base_element +
  svc_value :: "string"
  svc_type_value :: "string option"

definition service_model :: "service \<Rightarrow> model" where
  "service_model x =
     Model
       [declared ''#text'' AnnStr (CStr (svc_value x)),
        declared ''@type'' (AnnOptional AnnStr) (opt_content CStr (svc_type_value x))]
       []"

record action = base_element +
  act_value :: "string"

definition action_model :: "action \<Rightarrow> model" where
  "action_model x =
     Model
       [declared ''#text'' AnnStr (CStr (act_value x))]
       []"

record conversation_id_element = base_element +
  cid_value :: "string"

definition conversation_id_element_model :: "conversation_id_element \<Rightarrow> model" where
  "conversation_id_element_model x =
     Model
       [declared ''#text'' AnnStr (CStr (cid_value x))]
       []"

record collaboration_info = base_element +
  ci_agreement_ref :: "agreement_ref option"
  ci_service :: "service"
  ci_action :: "action"
  ci_conversation_id :: "conversation_id_element"

definition collaboration_info_model :: "collaboration_info \<Rightarrow> model" where
  "collaboration_info_model x =
     Model
       [declared (clark ns_eb3 ''AgreementRef'') (AnnOptional (AnnAnnotated AnnModel [OtherMetadata])) (opt_content (model_content agreement_ref_model) (ci_agreement_ref x)),
        declared (clark ns_eb3 ''Service'') AnnModel (CModel (service_model (ci_service x))),
        declared (clark ns_eb3 ''Action'') AnnModel (CModel (action_model (ci_action x))),
        declared (clark ns_eb3 ''ConversationId'') AnnModel (CModel (conversation_id_element_model (ci_conversation_id x)))]
       []"

record message_properties = base_element +
  mp_properties :: "property list"

definition message_properties_model :: "message_properties \<Rightarrow> model" where
  "message_properties_model x =
     Model
       [declared (clark ns_eb3 ''Property'') (AnnList AnnModel) (model_list property_model (mp_properties x))]
       []"

record schema = base_element +
  sch_location :: "string"
  sch_version :: "string option"
  sch_namespace :: "string option"

definition schema_model :: "schema \<Rightarrow> model" where
  "schema_model x =
     Model
       [declared ''@location'' AnnStr (CStr (sch_location x)),
        declared ''@version'' (AnnOptional AnnStr) (opt_content CStr (sch_version x)),
        declared ''@namespace'' (AnnOptional AnnStr) (opt_content CStr (sch_namespace x))]
       []"

record part_properties = base_element +
  pp_properties :: "property list"

definition part_properties_model :: "part_properties \<Rightarrow> model" where
  "part_properties_model x =
     Model
       [declared (clark ns_eb3 ''Property'') (AnnList AnnModel) (model_list property_model (pp_properties x))]
       []"

record part_info = base_element +
  part_part_schema :: "schema list"
  part_description :: "description_element list"
  part_part_properties :: "part_properties"
  part_href :: "string option"

definition part_info_model :: "part_info \<Rightarrow> model" where
  "part_info_model x =
     Model
       [declared (clark ns_eb3 ''Schema'') (AnnList AnnModel) (model_list schema_model (part_part_schema x)),
        declared (clark ns_eb3 ''Description'') (AnnList AnnModel) (model_list description_element_model (part_description x)),
        declared (clark ns_eb3 ''PartProperties'') AnnModel (CModel (part_properties_model (part_part_properties x))),
        declared ''@href'' (AnnOptional AnnStr) (opt_content CStr (part_href x))]
       []"

record payload_info = base_element +
  pl_part_info :: "part_info list"

definition payload_info_model :: "payload_info \<Rightarrow> model" where
  "payload_info_model x =
     Model
       [declared (clark ns_eb3 ''PartInfo'') (AnnList AnnModel) (model_list part_info_model (pl_part_info x))]
       []"

record user_message = base_element +
  um_message_info :: "message_info"
  um_party_info :: "party_info"
  um_collaboration_info :: "collaboration_info"
  um_message_properties :: "message_properties option"
  um_payload_info :: "payload_info option"
  um_mpc :: "string option"

definition user_message_model :: "user_message \<Rightarrow> model" where
  "user_message_model x =
     Model
       [declared (clark ns_eb3 ''MessageInfo'') AnnModel (CModel (message_info_model (um_message_info x))),
        declared (clark ns_eb3 ''PartyInfo'') AnnModel (CModel (party_info_model (um_party_info x))),
        declared (clark ns_eb3 ''CollaborationInfo'') AnnModel (CModel (collaboration_info_model (um_collaboration_info x))),
        declared (clark ns_eb3 ''MessageProperties'') (AnnOptional (AnnAnnotated AnnModel [OtherMetadata])) (opt_content (model_content message_properties_model) (um_message_properties x)),
        declared (clark ns_eb3 ''PayloadInfo'') (AnnOptional (AnnAnnotated AnnModel [OtherMetadata])) (opt_content (model_content payload_info_model) (um_payload_info x)),
        declared ''@mpc'' (AnnOptional AnnStr) (opt_content CStr (um_mpc x))]
       []"

record pull_request = base_element +
  pr_mpc :: "string option"

definition pull_request_model :: "pull_request \<Rightarrow> model" where
  "pull_request_model x =
     Model
       [declared ''@mpc'' (AnnOptional AnnStr) (opt_content CStr (pr_mpc x))]
       (get_content_from_element (wildcard ''##other'' None) (etree_element x)
        [''@mpc''])"

record receipt_element = base_element +
  rcpt_non_repudiation_information :: "non_repudiation_information option"

definition receipt_element_model :: "receipt_element \<Rightarrow> model" where
  "receipt_element_model x =
     Model
       [declared (clark ns_ebbpsig ''NonRepudiationInformation'') (AnnOptional (AnnAnnotated AnnModel [OtherMetadata])) (opt_content (model_content non_repudiation_information_model) (rcpt_non_repudiation_information x))]
       (get_content_from_element (wildcard ''##other'' None) (etree_element x)
        [clark ns_ebbpsig ''NonRepudiationInformation''])"

record error_element = base_element +
  err_description :: "description_element option"
  err_error_detail :: "error_detail_element option"
  err_category :: "string option"
  err_ref_to_message_in_error :: "string option"
  err_error_code :: "string"
  err_origin :: "string option"
  err_severity :: "string"
  err_short_description :: "string option"

definition error_element_model :: "error_element \<Rightarrow> model" where
  "error_element_model x =
     Model
       [declared (clark ns_eb3 ''Description'') (AnnOptional (AnnAnnotated AnnModel [OtherMetadata])) (opt_content (model_content description_element_model) (err_description x)),
        declared (clark ns_eb3 ''ErrorDetail'') (AnnOptional (AnnAnnotated AnnModel [OtherMetadata])) (opt_content (model_content error_detail_element_model) (err_error_detail x)),
        declared ''@category'' (AnnOptional AnnStr) (opt_content CStr (err_category x)),
        declared ''@refToMessageInError'' (AnnOptional AnnStr) (opt_content CStr (err_ref_to_message_in_error x)),
        declared ''@errorCode'' AnnStr (CStr (err_error_code x)),
        declared ''@origin'' (AnnOptional AnnStr) (opt_content CStr (err_origin x)),
        declared ''@severity'' AnnStr (CStr (err_severity x)),
        declared ''@shortDescription'' (AnnOptional AnnStr) (opt_content CStr (err_short_description x))]
       []"

record signal_message = base_element +
  sgm_message_info :: "message_info"
  sgm_pull_request :: "pull_request option"
  sgm_receipt :: "receipt_element option"
  sgm_errors :: "error_element list"

definition signal_message_model :: "signal_message \<Rightarrow> model" where
  "signal_message_model x =
     Model
       [declared (clark ns_eb3 ''MessageInfo'') AnnModel (CModel (message_info_model (sgm_message_info x))),
        declared (clark ns_eb3 ''PullRequest'') (AnnOptional (AnnAnnotated AnnModel [OtherMetadata])) (opt_content (model_content pull_request_model) (sgm_pull_request x)),
        declared (clark ns_eb3 ''Receipt'') (AnnOptional (AnnAnnotated AnnModel [OtherMetadata])) (opt_content (model_content receipt_element_model) (sgm_receipt x)),
        declared (clark ns_eb3 ''Error'') (AnnList AnnModel) (model_list error_element_model (sgm_errors x))]
       (get_content_from_element (wildcard ''##other'' None) (etree_element x)
        [clark ns_eb3 ''MessageInfo'', clark ns_eb3 ''PullRequest'', clark ns_eb3 ''Receipt'', clark ns_eb3 ''Error''])"

record messaging = base_element +
  msg_signal_messages :: "signal_message list"
  msg_user_messages :: "user_message list"
  msg_messaging_id :: "string option"
  msg_w3_org_2003_05_soap_envelope_must_understand :: "bool option"

definition messaging_model :: "messaging \<Rightarrow> model" where
  "messaging_model x =
     Model
       [declared (clark ns_eb3 ''SignalMessage'') (AnnList AnnModel) (model_list signal_message_model (msg_signal_messages x)),
        declared (clark ns_eb3 ''UserMessage'') (AnnList AnnModel) (model_list user_message_model (msg_user_messages x)),
        declared (''@'' @ clark ns_wsu ''Id'') (AnnOptional AnnStr) (opt_content CStr (msg_messaging_id x)),
        declared (''@'' @ clark ns_S12 ''mustUnderstand'') (AnnOptional AnnBool) (opt_content CBool (msg_w3_org_2003_05_soap_envelope_must_understand x))]
       (get_content_from_element (wildcard ''##other'' None) (etree_element x)
        [clark ns_eb3 ''SignalMessage'', clark ns_eb3 ''UserMessage'', ''@'' @ clark ns_wsu ''Id'', ''@'' @ clark ns_S12 ''mustUnderstand''])"

section \<open>Constants\<close>

definition ORIGINAL_SENDER :: string where "ORIGINAL_SENDER = ''originalSender''"
definition FINAL_RECIPIENT :: string where "FINAL_RECIPIENT = ''finalRecipient''"
definition INITIATOR :: string where
  "INITIATOR = ''http://docs.oasis-open.org/ebxml-msg/ebms/v3.0/ns/core/200704/initiator''"
definition RESPONDER :: string where
  "RESPONDER = ''http://docs.oasis-open.org/ebxml-msg/ebms/v3.0/ns/core/200704/responder''"

section \<open>Properties and parts\<close>

text \<open>\<open>next(... , None)\<close> over a list: the first element that satisfies a test.\<close>

definition get_property :: "string \<Rightarrow> message_properties \<Rightarrow> property option" where
  "get_property name ps = find (\<lambda>p. prop_name p = name) (mp_properties ps)"

definition original_sender :: "message_properties \<Rightarrow> property option" where
  "original_sender ps = get_property ORIGINAL_SENDER ps"

definition final_recipient :: "message_properties \<Rightarrow> property option" where
  "final_recipient ps = get_property FINAL_RECIPIENT ps"

definition get_part_info :: "string \<Rightarrow> payload_info \<Rightarrow> part_info option" where
  "get_part_info part_cid pl = find (\<lambda>p. part_href p = Some part_cid) (pl_part_info pl)"

definition compression_type :: "part_properties \<Rightarrow> string option" where
  "compression_type pp =
     map_option prop_value (find (\<lambda>p. prop_name p = ''CompressionType'') (pp_properties pp))"

text \<open>
  \<open>gzip_read\<close> is \<open>GzipFile(fileobj=BytesIO(content)).read(size)\<close>: at most \<open>size\<close> bytes, or one of
  the errors the code catches.  A negative size, which a negative cap makes, reads everything.
\<close>

record gzip_lib = dsig_lib +
  gzip_read :: "bytes \<Rightarrow> int \<Rightarrow> exn + bytes"

definition is_gzip_error :: "exn \<Rightarrow> bool" where
  "is_gzip_error e = (e = GzipOSError \<or> e = GzipEOFError \<or> e = ZlibError)"

definition decompress :: "'z gzip_lib_scheme \<Rightarrow> part_properties \<Rightarrow> bytes \<Rightarrow> int \<Rightarrow> exn + bytes" where
  "decompress lib pp decrypted_part_content maximum_size =
     (if compression_type pp \<noteq> Some ''application/gzip'' then Inr decrypted_part_content
      else
        andThen
          (rethrow (\<lambda>e. if is_gzip_error e then Receiptable (make_error DecompressionFailedException '''') else e)
            (gzip_read lib decrypted_part_content (maximum_size + 1)))
          (\<lambda>decompressed.
             if maximum_size < int (length decompressed)
             then Inl (Receiptable (make_error DecompressedPayloadTooLargeException ''''))
             else Inr decompressed))"

section \<open>One message per eb:Messaging\<close>

definition only_one :: "'a list \<Rightarrow> string \<Rightarrow> exn + 'a option" where
  "only_one messages element_name =
     (case messages of
        [] \<Rightarrow> Inr None
      | [only] \<Rightarrow> Inr (Some only)
      | _ \<Rightarrow> Inl (Receiptable (make_error BundledMessagesNotSupportedException
               (''found '' @ show_nat (length messages) @ '' '' @ element_name
                @ '' elements, bundling is not supported''))))"

definition get_signal_message :: "messaging \<Rightarrow> exn + signal_message option" where
  "get_signal_message m = only_one (msg_signal_messages m) ''eb:SignalMessage''"

definition get_user_message :: "messaging \<Rightarrow> exn + user_message option" where
  "get_user_message m = only_one (msg_user_messages m) ''eb:UserMessage''"

definition signal_error :: "signal_message \<Rightarrow> error_element option" where
  "signal_error s = (case sgm_errors s of [] \<Rightarrow> None | e # _ \<Rightarrow> Some e)"

section \<open>What these operations guarantee\<close>

lemma find_Some_in: "find P xs = Some x \<Longrightarrow> x \<in> set xs \<and> P x"
  by (auto simp: find_Some_iff)

lemma only_one_eq_Inr [result_simps]:
  "only_one ms name = Inr r \<longleftrightarrow> (ms = [] \<and> r = None) \<or> (\<exists>m. ms = [m] \<and> r = Some m)"
  by (auto simp: only_one_def split: list.splits)

lemma only_one_raises:
  "only_one ms name = Inl e \<Longrightarrow>
    1 < length ms \<and> (\<exists>d. e = Receiptable (make_error BundledMessagesNotSupportedException d))"
  by (auto simp: only_one_def split: list.splits)

lemma decompress_within_cap:
  assumes "decompress lib pp content cap = Inr out" and "compression_type pp = Some ''application/gzip''"
  shows "int (length out) \<le> cap"
  using assms by (auto simp: decompress_def result_simps split: if_splits)

lemma decompress_eq_Inr:
  "decompress lib pp content cap = Inr out \<longleftrightarrow>
    (if compression_type pp = Some ''application/gzip''
     then gzip_read lib content (cap + 1) = Inr out \<and> int (length out) \<le> cap
     else out = content)"
  by (cases "gzip_read lib content (cap + 1)") (auto simp: decompress_def)

end
