(* ===== verification/Wsse.thy ===== *)
theory Wsse
  imports Ebms
begin

text \<open>
  The WS-Security header and the SOAP envelope: \<^verbatim>\<open>as4/models/xenc\<close>, \<^verbatim>\<open>as4/models/wsse\<close> and
  \<^verbatim>\<open>as4/models/soap\<close>.  The element models, the certificate a security token carries and the lookup
  of an \<open>EncryptedData\<close> by its id.
\<close>

section \<open>The element models\<close>

record xenc_reference = base_element +
  xref_uri :: "string option"

definition xenc_reference_model :: "xenc_reference \<Rightarrow> model" where
  "xenc_reference_model x =
     Model
       [declared ''@URI'' (AnnOptional AnnStr) (opt_content CStr (xref_uri x))]
       (get_content_from_element (wildcard ''##other'' None) (etree_element x)
        [''@URI''])"

record reference_list = base_element +
  rl_data_reference :: "xenc_reference list"
  rl_key_reference :: "xenc_reference list"

definition reference_list_model :: "reference_list \<Rightarrow> model" where
  "reference_list_model x =
     Model
       [declared (clark ns_enc ''DataReference'') (AnnList AnnModel) (model_list xenc_reference_model (rl_data_reference x)),
        declared (clark ns_enc ''KeyReference'') (AnnList AnnModel) (model_list xenc_reference_model (rl_key_reference x))]
       []"

record mgf = base_element +
  mgf_algorithm :: "string"

definition mgf_model :: "mgf \<Rightarrow> model" where
  "mgf_model x =
     Model
       [declared ''@Algorithm'' AnnStr (CStr (mgf_algorithm x))]
       []"

record encryption_method = base_element +
  em_algorithm :: "string"
  em_digest_method :: "digest_method option"
  em_mgf :: "mgf option"

definition encryption_method_model :: "encryption_method \<Rightarrow> model" where
  "encryption_method_model x =
     Model
       [declared ''@Algorithm'' AnnStr (CStr (em_algorithm x)),
        declared (clark ns_ds ''DigestMethod'') (AnnOptional (AnnAnnotated AnnModel [OtherMetadata])) (opt_content (model_content digest_method_model) (em_digest_method x)),
        declared (clark ns_enc11 ''MGF'') (AnnOptional (AnnAnnotated AnnModel [OtherMetadata])) (opt_content (model_content mgf_model) (em_mgf x))]
       (get_content_from_element (wildcard ''##any'' (Some [clark ns_ds ''KeySize'', clark ns_ds ''OAEPparams''])) (etree_element x)
        [''@Algorithm'', clark ns_ds ''DigestMethod'', clark ns_enc11 ''MGF''])"

record xenc_transforms = base_element +
  xtrs_transforms :: "transform list"

definition xenc_transforms_model :: "xenc_transforms \<Rightarrow> model" where
  "xenc_transforms_model x =
     Model
       [declared (clark ns_ds ''Transform'') (AnnList AnnModel) (model_list transform_model (xtrs_transforms x))]
       []"

record cipher_reference = base_element +
  cr_transforms :: "xenc_transforms"
  cr_uri :: "string option"

definition cipher_reference_model :: "cipher_reference \<Rightarrow> model" where
  "cipher_reference_model x =
     Model
       [declared (clark ns_enc ''Transforms'') AnnModel (CModel (xenc_transforms_model (cr_transforms x))),
        declared ''@URI'' (AnnOptional AnnStr) (opt_content CStr (cr_uri x))]
       []"

record cipher_value = base_element +
  cv_value :: "string option"

definition cipher_value_model :: "cipher_value \<Rightarrow> model" where
  "cipher_value_model x =
     Model
       [declared ''#text'' (AnnOptional AnnStr) (opt_content CStr (cv_value x))]
       []"

record cipher_data = base_element +
  cd_cipher_value :: "cipher_value option"
  cd_cipher_reference :: "cipher_reference option"

definition cipher_data_model :: "cipher_data \<Rightarrow> model" where
  "cipher_data_model x =
     Model
       [declared (clark ns_enc ''CipherValue'') (AnnOptional (AnnAnnotated AnnModel [OtherMetadata])) (opt_content (model_content cipher_value_model) (cd_cipher_value x)),
        declared (clark ns_enc ''CipherReference'') (AnnOptional (AnnAnnotated AnnModel [OtherMetadata])) (opt_content (model_content cipher_reference_model) (cd_cipher_reference x))]
       []"

record encryption_property = base_element +
  ep_target :: "string option"
  ep_id :: "string option"

definition encryption_property_model :: "encryption_property \<Rightarrow> model" where
  "encryption_property_model x =
     Model
       [declared ''@Target'' (AnnOptional AnnStr) (opt_content CStr (ep_target x)),
        declared ''@Id'' (AnnOptional AnnStr) (opt_content CStr (ep_id x))]
       (get_content_from_element (wildcard ''##any'' None) (etree_element x)
        [''@Target'', ''@Id''])"

record encryption_properties = base_element +
  eps_encryption_property :: "encryption_property list"
  eps_id :: "string option"

definition encryption_properties_model :: "encryption_properties \<Rightarrow> model" where
  "encryption_properties_model x =
     Model
       [declared (clark ns_enc ''EncryptionProperty'') (AnnList AnnModel) (model_list encryption_property_model (eps_encryption_property x)),
        declared ''@Id'' (AnnOptional AnnStr) (opt_content CStr (eps_id x))]
       []"

record encrypted_type = base_element +
  et_encryption_method :: "encryption_method"
  et_key_info :: "key_info"
  et_cipher_data :: "cipher_data"
  et_encryption_properties :: "encryption_properties list"
  et_encrypted_type_id :: "string option"
  et_type_value :: "string option"
  et_mime_type :: "string option"
  et_encoding :: "string option"

definition encrypted_type_fields :: "'a encrypted_type_scheme \<Rightarrow> (string option \<times> annotation option \<times> content) list" where
  "encrypted_type_fields x =
       [declared (clark ns_enc ''EncryptionMethod'') AnnModel (CModel (encryption_method_model (et_encryption_method x))),
        declared (clark ns_ds ''KeyInfo'') AnnModel (CModel (key_info_model (et_key_info x))),
        declared (clark ns_enc ''CipherData'') AnnModel (CModel (cipher_data_model (et_cipher_data x))),
        declared (clark ns_enc ''EncryptionProperties'') (AnnList AnnModel) (model_list encryption_properties_model (et_encryption_properties x)),
        declared ''@Id'' (AnnOptional AnnStr) (opt_content CStr (et_encrypted_type_id x)),
        declared ''@Type'' (AnnOptional AnnStr) (opt_content CStr (et_type_value x)),
        declared ''@MimeType'' (AnnOptional AnnStr) (opt_content CStr (et_mime_type x)),
        declared ''@Encoding'' (AnnOptional AnnStr) (opt_content CStr (et_encoding x))]"

definition encrypted_type_model :: "encrypted_type \<Rightarrow> model" where
  "encrypted_type_model x = Model (encrypted_type_fields x) []"

record carried_key_name = base_element +
  ckn_text :: "string option"

definition carried_key_name_model :: "carried_key_name \<Rightarrow> model" where
  "carried_key_name_model x =
     Model
       [declared ''#text'' (AnnOptional AnnStr) (opt_content CStr (ckn_text x))]
       []"

record encrypted_key = encrypted_type +
  ek_reference_list :: "reference_list"
  ek_carried_key_name :: "carried_key_name list"
  ek_recipient :: "string option"

definition encrypted_key_model :: "encrypted_key \<Rightarrow> model" where
  "encrypted_key_model x =
     Model (encrypted_type_fields x @
       [declared (clark ns_enc ''ReferenceList'') AnnModel (CModel (reference_list_model (ek_reference_list x))),
        declared (clark ns_enc ''CarriedKeyName'') (AnnList AnnModel) (model_list carried_key_name_model (ek_carried_key_name x)),
        declared ''@Recipient'' (AnnOptional AnnStr) (opt_content CStr (ek_recipient x))])
       []"

record binary_security_token = base_element +
  bst_encoding_type :: "string"
  bst_value_type :: "string"
  bst_bst_id :: "string"
  bst_value :: "string"

definition binary_security_token_model :: "binary_security_token \<Rightarrow> model" where
  "binary_security_token_model x =
     Model
       [declared ''@EncodingType'' AnnStr (CStr (bst_encoding_type x)),
        declared ''@ValueType'' AnnStr (CStr (bst_value_type x)),
        declared (''@'' @ clark ns_wsu ''Id'') AnnStr (CStr (bst_bst_id x)),
        declared ''#text'' AnnStr (CStr (bst_value x))]
       []"

record security = base_element +
  sec_binary_security_tokens :: "binary_security_token list"
  sec_encrypted_key :: "encrypted_key option"
  sec_encrypted_data :: "encrypted_type list option"
  sec_signature :: "signature option"
  sec_must_understand :: "bool"

definition security_model :: "security \<Rightarrow> model" where
  "security_model x =
     Model
       [declared (clark ns_wsse ''BinarySecurityToken'') (AnnList AnnModel) (model_list binary_security_token_model (sec_binary_security_tokens x)),
        declared (clark ns_enc ''EncryptedKey'') (AnnOptional (AnnAnnotated AnnModel [OtherMetadata])) (opt_content (model_content encrypted_key_model) (sec_encrypted_key x)),
        declared (clark ns_enc ''EncryptedData'') (AnnOptional (AnnList AnnModel)) (opt_content (model_list encrypted_type_model) (sec_encrypted_data x)),
        declared (clark ns_ds ''Signature'') (AnnOptional (AnnAnnotated AnnModel [OtherMetadata])) (opt_content (model_content signature_model) (sec_signature x)),
        declared (''@'' @ clark ns_S12 ''mustUnderstand'') AnnBool (CBool (sec_must_understand x))]
       []"

record header = base_element +
  hdr_security :: "security"
  hdr_messaging :: "messaging"

definition header_model :: "header \<Rightarrow> model" where
  "header_model x =
     Model
       [declared (clark ns_wsse ''Security'') AnnModel (CModel (security_model (hdr_security x))),
        declared (clark ns_eb3 ''Messaging'') AnnModel (CModel (messaging_model (hdr_messaging x)))]
       []"

record body = base_element +
  body_body_id :: "string option"

definition body_model :: "body \<Rightarrow> model" where
  "body_model x =
     Model
       [declared (''@'' @ clark ns_wsu ''Id'') (AnnOptional AnnStr) (opt_content CStr (body_body_id x))]
       (get_content_from_element (wildcard ''##any'' None) (etree_element x)
        [''@'' @ clark ns_wsu ''Id''])"

record envelope = base_element +
  env_header :: "header"
  env_body :: "body"

definition envelope_model :: "envelope \<Rightarrow> model" where
  "envelope_model x =
     Model
       [declared (clark ns_S12 ''Header'') AnnModel (CModel (header_model (env_header x))),
        declared (clark ns_S12 ''Body'') AnnModel (CModel (body_model (env_body x)))]
       []"

section \<open>Security tokens and encrypted data\<close>

definition X509_TOKEN_PROFILE :: string where
  "X509_TOKEN_PROFILE = ''http://docs.oasis-open.org/wss/2004/01/oasis-200401-wss-x509-token-profile-1.0''"

definition RSA_OAEP :: string where "RSA_OAEP = ''http://www.w3.org/2009/xmlenc11#rsa-oaep''"
definition AES128_GCM :: string where "AES128_GCM = ''http://www.w3.org/2009/xmlenc11#aes128-gcm''"

definition token_certificate :: "'z dsig_lib_scheme \<Rightarrow> binary_security_token \<Rightarrow> exn + certificate" where
  "token_certificate lib bst =
     (if bst_value_type bst \<noteq> X509_TOKEN_PROFILE @ ''#X509v3''
      then Inl (UnsupportedSecurityTokenType (bst_value_type bst))
      else andThen (b64decode False (bst_value bst)) (load_der_x509 lib))"

definition get_encrypted_data :: "security \<Rightarrow> string \<Rightarrow> encrypted_type option" where
  "get_encrypted_data s encrypted_data_id =
     (case sec_encrypted_data s of
        None \<Rightarrow> None
      | Some eds \<Rightarrow> find (\<lambda>d. et_encrypted_type_id d = Some encrypted_data_id) eds)"

lemma get_encrypted_data_Some:
  "get_encrypted_data s i = Some d \<Longrightarrow>
    \<exists>eds. sec_encrypted_data s = Some eds \<and> d \<in> set eds \<and> et_encrypted_type_id d = Some i"
  by (auto simp: get_encrypted_data_def split: option.splits dest: find_Some_in)

lemma token_certificate_eq_Inr [result_simps]:
  "token_certificate lib bst = Inr c \<longleftrightarrow>
    bst_value_type bst = X509_TOKEN_PROFILE @ ''#X509v3'' \<and>
    (\<exists>bs. b64decode False (bst_value bst) = Inr bs \<and> load_der_x509 lib bs = Inr c)"
  by (auto simp: token_certificate_def result_simps)

end
