(* ===== verification/Context.thy ===== *)
theory Context
  imports Wsse
begin

text \<open>
  Parties, credentials and the security policy: \<^verbatim>\<open>as4/core/common.py\<close> and
  \<^verbatim>\<open>as4/core/context.py\<close>.  A private key is what its abstract class promises, an operation that
  signs and one that decrypts; a signer resolver and a participant acceptor are functions that may
  raise.
\<close>

section \<open>Parties\<close>

record party_identity =
  identity_party_id :: string
  identity_party_type :: "string option"

definition identity_from_party :: "party_id \<Rightarrow> party_identity" where
  "identity_from_party p = \<lparr>identity_party_id = pid_value p, identity_party_type = pid_type_value p\<rparr>"

definition identity_of_from :: "party_from \<Rightarrow> party_identity" where
  "identity_of_from p = identity_from_party (pf_party_id p)"

definition identity_of_to :: "party_to \<Rightarrow> party_identity" where
  "identity_of_to p = identity_from_party (pt_party_id p)"

definition new_party_id :: "party_identity \<Rightarrow> party_id" where
  "new_party_id i =
     \<lparr>etree_element = None, pid_value = identity_party_id i, pid_type_value = identity_party_type i\<rparr>"

definition to_party_from :: "party_identity \<Rightarrow> party_from" where
  "to_party_from i =
     \<lparr>etree_element = None, pf_party_id = new_party_id i,
      pf_role = \<lparr>etree_element = None, role_value = INITIATOR\<rparr>\<rparr>"

definition to_party_to :: "party_identity \<Rightarrow> party_to" where
  "to_party_to i =
     \<lparr>etree_element = None, pt_party_id = new_party_id i,
      pt_role = \<lparr>etree_element = None, role_value = RESPONDER\<rparr>\<rparr>"

text \<open>The paddings the code asks a key for.\<close>

datatype padding = PKCS1v15 | OAEP (mgf1_hash: hash_algorithm) (oaep_hash: hash_algorithm)

record private_key =
  key_sign :: "bytes \<Rightarrow> padding \<Rightarrow> hash_algorithm \<Rightarrow> exn + bytes"
  key_decrypt :: "bytes \<Rightarrow> padding \<Rightarrow> exn + bytes"

text \<open>\<open>AS4LocalPrivateKey\<close> hands both calls to the wrapped key.\<close>

definition local_private_key ::
  "(bytes \<Rightarrow> padding \<Rightarrow> hash_algorithm \<Rightarrow> exn + bytes) \<Rightarrow> (bytes \<Rightarrow> padding \<Rightarrow> exn + bytes) \<Rightarrow> private_key" where
  "local_private_key rsa_sign rsa_decrypt =
     \<lparr>key_sign = (\<lambda>data pad alg. rsa_sign data pad alg),
      key_decrypt = (\<lambda>ciphertext pad. rsa_decrypt ciphertext pad)\<rparr>"

record base_credentials =
  certificate_of :: certificate

record internal_credentials = base_credentials +
  private_key_of :: private_key

record internal_party =
  ip_identity :: party_identity
  ip_credentials :: internal_credentials

record external_party =
  xp_identity :: party_identity
  xp_credentials :: base_credentials

definition credentials_rsa_public_key ::
  "'z dsig_lib_scheme \<Rightarrow> 'c base_credentials_scheme \<Rightarrow> exn + rsa_public_key" where
  "credentials_rsa_public_key lib c =
     andThen (cert_public_key lib (certificate_of c))
       (\<lambda>key. case key of RSA k \<Rightarrow> Inr k | OtherKey _ \<Rightarrow> Inl AssertionError)"

section \<open>Security policy\<close>

type_synonym signer_resolver = "party_from \<Rightarrow> certificate option \<Rightarrow> exn + certificate"
type_synonym participant_acceptor = "string \<Rightarrow> exn + unit"

definition MAXIMUM_DECOMPRESSED_SIZE :: int where
  "MAXIMUM_DECOMPRESSED_SIZE = 1024 ^ 3"

definition signer_resolver_not_configured :: signer_resolver where
  "signer_resolver_not_configured party_from embedded =
     Inl (SignerNotConfiguredError
       ''SecurityPolicy.signer_resolver is unset, so no certificate can be trusted to have signed this message'')"

record security_policy =
  sign_required :: bool
  encrypt_required :: bool
  policy_signer_resolver :: signer_resolver
  required_coverage :: "string set"
  verify_digests :: bool
  maximum_decompressed_size :: int
  verify_participants :: bool

definition default_security_policy :: security_policy where
  "default_security_policy =
     \<lparr>sign_required = True, encrypt_required = True,
      policy_signer_resolver = signer_resolver_not_configured,
      required_coverage = {''messaging'', ''body'', ''payloads''},
      verify_digests = True, maximum_decompressed_size = MAXIMUM_DECOMPRESSED_SIZE,
      verify_participants = True\<rparr>"

record parse_context =
  ctx_local_party :: internal_party
  ctx_accept_participant :: "participant_acceptor option"
  ctx_security_policy :: security_policy

lemma identity_to_from [simp]: "identity_of_from (to_party_from i) = i"
  by (simp add: identity_of_from_def to_party_from_def identity_from_party_def new_party_id_def)

lemma identity_to_to [simp]: "identity_of_to (to_party_to i) = i"
  by (simp add: identity_of_to_def to_party_to_def identity_from_party_def new_party_id_def)

end
