(* ===== verification/Trust.thy ===== *)
theory Trust
  imports Context
begin

text \<open>
  Which certificate may sign for a sender: \<^verbatim>\<open>as4/core/trust.py\<close> and the wrapper
  \<open>certificate_names_the_sender\<close> of \<^verbatim>\<open>as4/profiles/peppol/profile.py\<close>.  Reading a certificate and
  checking one signature in a chain are parameters (\<open>x509_lib\<close>).  The locale \<open>trusting_resolver\<close> is
  the interface the message layer relies on; the three resolvers of the code are its
  interpretations.
\<close>

section \<open>Operations\<close>

record x509_lib =
  rfc4514_subject :: "certificate \<Rightarrow> string"
  common_names :: "certificate \<Rightarrow> string list"
  fingerprint :: "certificate \<Rightarrow> bytes"
  basic_constraints_ca :: "certificate \<Rightarrow> bool option"  \<comment> \<open>None: the extension is absent\<close>
  key_usage_cert_sign :: "certificate \<Rightarrow> bool option"
  verify_directly_issued_by :: "certificate \<Rightarrow> certificate \<Rightarrow> exn + unit"
  not_valid_before :: "certificate \<Rightarrow> datetime"
  not_valid_after :: "certificate \<Rightarrow> datetime"

definition MAXIMUM_CHAIN_DEPTH :: int where
  "MAXIMUM_CHAIN_DEPTH = 8"

definition no_certificate :: exn where
  "no_certificate = UntrustedSignerError ''no certificate accompanied the signature''"

text \<open>Each factory returns the inner function \<open>resolve\<close>, here a definition of its own.\<close>

definition pinned_resolve :: "x509_lib \<Rightarrow> certificate list \<Rightarrow> signer_resolver" where
  "pinned_resolve lib certificates party_from embedded =
     (let configured = dict_of (map (\<lambda>c. (fingerprint lib c, c)) certificates) []
      in case embedded of
           None \<Rightarrow> Inl no_certificate
         | Some e \<Rightarrow>
             (case dict_get configured (fingerprint lib e) of
                None \<Rightarrow> Inl (UntrustedSignerError
                  (rfc4514_subject lib e @ '' is not pinned for '' @ pid_value (pf_party_id party_from)))
              | Some c \<Rightarrow> Inr c))"

definition pinned_certificates :: "x509_lib \<Rightarrow> certificate list \<Rightarrow> exn + signer_resolver" where
  "pinned_certificates lib certificates =
     (if certificates = [] then Inl (ValueError ''pinned_certificates requires at least one certificate'')
      else Inr (pinned_resolve lib certificates))"

definition can_issue_certificates :: "x509_lib \<Rightarrow> certificate \<Rightarrow> bool" where
  "can_issue_certificates lib c =
     (case basic_constraints_ca lib c of
        None \<Rightarrow> False
      | Some ca \<Rightarrow>
          if \<not> ca then False
          else (case key_usage_cert_sign lib c of None \<Rightarrow> True | Some b \<Rightarrow> b))"

definition is_issue_refusal :: "exn \<Rightarrow> bool" where
  "is_issue_refusal e = (is_value_error e \<or> (\<exists>s. e = TypeError s) \<or> e = InvalidSignature)"

lemma is_issue_refusal_code [code]:
  "is_issue_refusal e = (is_value_error e \<or> (case e of TypeError _ \<Rightarrow> True | _ \<Rightarrow> False) \<or> e = InvalidSignature)"
  by (cases e) (auto simp: is_issue_refusal_def)

fun issuer_of :: "x509_lib \<Rightarrow> certificate \<Rightarrow> certificate list \<Rightarrow> exn + certificate option" where
  "issuer_of lib c [] = Inr None"
| "issuer_of lib c (candidate # candidates) =
     (if \<not> can_issue_certificates lib candidate then issuer_of lib c candidates
      else
        (case verify_directly_issued_by lib c candidate of
           Inl e \<Rightarrow> if is_issue_refusal e then issuer_of lib c candidates else Inl e
         | Inr _ \<Rightarrow> Inr (Some candidate)))"

function path_loop ::
  "x509_lib \<Rightarrow> certificate \<Rightarrow> certificate list \<Rightarrow> certificate list \<Rightarrow> int \<Rightarrow> certificate list \<Rightarrow>
   exn + certificate list" where
  "path_loop lib leaf anchors intermediates maximum_depth path =
     (if int (length path) < maximum_depth then
        andThen (issuer_of lib (last path) anchors)
          (\<lambda>anchor.
             case anchor of
               Some a \<Rightarrow> Inr (path @ [a])
             | None \<Rightarrow>
                 andThen (issuer_of lib (last path) (filter (\<lambda>c. c \<notin> set path) intermediates))
                   (\<lambda>intermediate.
                      case intermediate of
                        None \<Rightarrow> Inl (UntrustedSignerError
                          (rfc4514_subject lib leaf @ '' does not chain to a configured anchor''))
                      | Some c \<Rightarrow> path_loop lib leaf anchors intermediates maximum_depth (path @ [c])))
      else Inl (UntrustedSignerError (rfc4514_subject lib leaf @ '' exceeds the maximum chain depth'')))"
  by pat_completeness auto
termination
  by (relation "measure (\<lambda>(lib, leaf, anchors, intermediates, d, path). nat (d - int (length path)))") auto

declare path_loop.simps [simp del]

definition path_to_anchor ::
  "x509_lib \<Rightarrow> certificate \<Rightarrow> certificate list \<Rightarrow> certificate list \<Rightarrow> int \<Rightarrow> exn + certificate list" where
  "path_to_anchor lib leaf anchors intermediates maximum_depth =
     path_loop lib leaf anchors intermediates maximum_depth [leaf]"

text \<open>The checks on one certificate of the path; \<open>now\<close> is the clock when the resolver is called.\<close>

definition check_path_certificate ::
  "x509_lib \<Rightarrow> datetime \<Rightarrow> (certificate \<Rightarrow> bool) option \<Rightarrow> certificate \<Rightarrow> exn + unit" where
  "check_path_certificate lib now revoked c =
     (if \<not> (not_valid_before lib c \<le> now \<and> now \<le> not_valid_after lib c) then
        Inl (UntrustedSignerError (rfc4514_subject lib c @ '' is outside its validity period''))
      else
        (case revoked of
           None \<Rightarrow> Inr ()
         | Some r \<Rightarrow>
             if r c then Inl (UntrustedSignerError (rfc4514_subject lib c @ '' is revoked'')) else Inr ()))"

definition chain_resolve ::
  "x509_lib \<Rightarrow> datetime \<Rightarrow> certificate list \<Rightarrow> certificate list \<Rightarrow> (certificate \<Rightarrow> bool) option \<Rightarrow> int \<Rightarrow>
   signer_resolver" where
  "chain_resolve lib now anchors intermediates revoked maximum_depth party_from embedded =
     (case embedded of
        None \<Rightarrow> Inl no_certificate
      | Some e \<Rightarrow>
          andThen (path_to_anchor lib e anchors intermediates maximum_depth)
            (\<lambda>path. andThen (for_each (check_path_certificate lib now revoked) path) (\<lambda>_. Inr e)))"

definition certificate_chain ::
  "x509_lib \<Rightarrow> datetime \<Rightarrow> certificate list \<Rightarrow> certificate list \<Rightarrow> (certificate \<Rightarrow> bool) option \<Rightarrow> int \<Rightarrow>
   exn + signer_resolver" where
  "certificate_chain lib now anchors intermediates revoked maximum_depth =
     (if anchors = [] then Inl (ValueError ''certificate_chain requires at least one trust anchor'')
      else Inr (chain_resolve lib now anchors intermediates revoked maximum_depth))"

definition certificate_names_the_sender :: "x509_lib \<Rightarrow> signer_resolver \<Rightarrow> signer_resolver" where
  "certificate_names_the_sender lib resolver party_from embedded =
     andThen (resolver party_from embedded)
       (\<lambda>certificate.
          let claimed = pid_value (pf_party_id party_from) in
          if \<not> (\<exists>name\<in>set (common_names lib certificate). name = claimed)
          then Inl (UntrustedSignerError
            (''The signing certificate does not name '' @ py_repr claimed @ '' as its subject''))
          else Inr certificate)"

section \<open>Chains\<close>

definition issues :: "x509_lib \<Rightarrow> certificate \<Rightarrow> certificate \<Rightarrow> bool" where
  "issues lib c issuer \<longleftrightarrow>
     can_issue_certificates lib issuer \<and> verify_directly_issued_by lib c issuer = Inr ()"

lemma issuer_of_Some: "issuer_of lib c cs = Inr (Some i) \<Longrightarrow> i \<in> set cs \<and> issues lib c i"
  by (induction lib c cs rule: issuer_of.induct) (auto simp: issues_def split: if_splits sum.splits)

lemma issuer_of_None: "issuer_of lib c cs = Inr None \<Longrightarrow> i \<in> set cs \<Longrightarrow> \<not> issues lib c i"
  by (induction lib c cs rule: issuer_of.induct) (auto simp: issues_def split: if_splits sum.splits)

text \<open>A path under construction: it starts at the leaf and each certificate issued its predecessor.\<close>

definition partial_path :: "x509_lib \<Rightarrow> certificate \<Rightarrow> certificate list \<Rightarrow> certificate list \<Rightarrow> bool" where
  "partial_path lib leaf intermediates path \<longleftrightarrow>
     path \<noteq> [] \<and> hd path = leaf \<and> distinct path \<and> set (tl path) \<subseteq> set intermediates \<and>
     successively (issues lib) path"

definition anchored_path ::
  "x509_lib \<Rightarrow> certificate \<Rightarrow> certificate list \<Rightarrow> certificate list \<Rightarrow> certificate list \<Rightarrow> bool" where
  "anchored_path lib leaf anchors intermediates path \<longleftrightarrow>
     (\<exists>front anchor. path = front @ [anchor] \<and> anchor \<in> set anchors \<and>
        partial_path lib leaf intermediates front \<and> issues lib (last front) anchor)"

lemma partial_path_extend:
  "partial_path lib leaf intermediates path \<Longrightarrow> c \<in> set intermediates \<Longrightarrow> c \<notin> set path \<Longrightarrow>
   issues lib (last path) c \<Longrightarrow> partial_path lib leaf intermediates (path @ [c])"
  by (auto simp: partial_path_def successively_append_iff)

lemma path_loop_sound:
  "path_loop lib leaf anchors intermediates d path = Inr out \<Longrightarrow>
   partial_path lib leaf intermediates path \<Longrightarrow>
   anchored_path lib leaf anchors intermediates out \<and> int (length out) \<le> d"
proof (induction lib leaf anchors intermediates d path rule: path_loop.induct)
  case (1 lib leaf anchors intermediates d path)
  from "1.prems"(1) have d: "int (length path) < d"
    by (simp add: path_loop.simps [of lib leaf anchors intermediates d path] split: if_splits)
  with "1.prems"(1) obtain anchor where anchor: "issuer_of lib (last path) anchors = Inr anchor"
    by (auto simp: path_loop.simps [of lib leaf anchors intermediates d path] result_simps)
  show ?case
  proof (cases anchor)
    case (Some a)
    with "1.prems" d anchor have "out = path @ [a]"
      by (simp add: path_loop.simps [of lib leaf anchors intermediates d path])
    with Some anchor d "1.prems"(2) show ?thesis
      by (auto simp: anchored_path_def dest: issuer_of_Some)
  next
    case None
    with "1.prems"(1) d anchor obtain c where
      c: "issuer_of lib (last path) (filter (\<lambda>c. c \<notin> set path) intermediates) = Inr (Some c)"
      and rest: "path_loop lib leaf anchors intermediates d (path @ [c]) = Inr out"
      by (auto simp: path_loop.simps [of lib leaf anchors intermediates d path] result_simps split: option.splits)
    from issuer_of_Some [OF c] "1.prems"(2) have "partial_path lib leaf intermediates (path @ [c])"
      by (auto intro: partial_path_extend)
    with "1.IH" [OF d anchor None c _ rest] show ?thesis by simp
  qed
qed

lemma path_to_anchor_sound:
  "path_to_anchor lib leaf anchors intermediates d = Inr path \<Longrightarrow>
   anchored_path lib leaf anchors intermediates path \<and> int (length path) \<le> d"
  unfolding path_to_anchor_def
  by (rule path_loop_sound) (auto simp: partial_path_def)

lemma check_path_certificate_eq_Inr [result_simps]:
  "check_path_certificate lib now revoked c = Inr u \<longleftrightarrow>
    not_valid_before lib c \<le> now \<and> now \<le> not_valid_after lib c \<and> (\<forall>r. revoked = Some r \<longrightarrow> \<not> r c)"
  by (auto simp: check_path_certificate_def split: option.splits)

lemma pinned_resolve_in:
  "pinned_resolve lib certs pf emb = Inr c \<Longrightarrow> c \<in> set certs \<and> (\<exists>e. emb = Some e \<and> fingerprint lib e = fingerprint lib c)"
proof (cases emb)
  case None
  then show "pinned_resolve lib certs pf emb = Inr c \<Longrightarrow> ?thesis" by (simp add: pinned_resolve_def)
next
  case (Some e)
  assume "pinned_resolve lib certs pf emb = Inr c"
  with Some have "map_of (rev (map (\<lambda>c. (fingerprint lib c, c)) certs)) (fingerprint lib e) = Some c"
    by (auto simp: pinned_resolve_def dict_of_get Let_def split: option.splits)
  then have "(fingerprint lib e, c) \<in> set (map (\<lambda>c. (fingerprint lib c, c)) certs)"
    by (metis map_of_SomeD set_rev)
  with Some show ?thesis by auto
qed

section \<open>The interface of a signer resolver\<close>

text \<open>
  What the message layer may assume of the resolver in its policy: it refuses when no certificate
  came with the signature, and whatever it returns is trusted for the sender.
\<close>

locale trusting_resolver =
  fixes resolve :: signer_resolver
    and trusted :: "party_from \<Rightarrow> certificate \<Rightarrow> bool"
  assumes resolved_trusted: "resolve pf emb = Inr c \<Longrightarrow> trusted pf c"
    and needs_certificate: "resolve pf None = Inl no_certificate"
begin

lemma resolved_embedded: "resolve pf emb = Inr c \<Longrightarrow> \<exists>e. emb = Some e"
  using needs_certificate by (cases emb) auto

end

text \<open>Wrapping a trusting resolver in \<open>certificate_names_the_sender\<close> keeps and narrows its trust.\<close>

locale named_resolver = trusting_resolver +
  fixes x509 :: x509_lib
begin

definition names_sender :: "party_from \<Rightarrow> certificate \<Rightarrow> bool" where
  "names_sender pf c \<longleftrightarrow> trusted pf c \<and> pid_value (pf_party_id pf) \<in> set (common_names x509 c)"

lemma named_resolved:
  "certificate_names_the_sender x509 resolve pf emb = Inr c \<Longrightarrow>
    resolve pf emb = Inr c \<and> pid_value (pf_party_id pf) \<in> set (common_names x509 c)"
  by (auto simp: certificate_names_the_sender_def Let_def result_simps split: if_splits)

end

sublocale named_resolver \<subseteq> named: trusting_resolver "certificate_names_the_sender x509 resolve" names_sender
proof unfold_locales
  show "names_sender pf c" if "certificate_names_the_sender x509 resolve pf emb = Inr c" for pf emb c
    using named_resolved [OF that] resolved_trusted by (auto simp: names_sender_def)
  show "certificate_names_the_sender x509 resolve pf None = Inl no_certificate" for pf
    by (simp add: certificate_names_the_sender_def needs_certificate)
qed

text \<open>What each resolver of the code trusts.\<close>

definition pinned_trust :: "certificate list \<Rightarrow> party_from \<Rightarrow> certificate \<Rightarrow> bool" where
  "pinned_trust certs pf c \<longleftrightarrow> c \<in> set certs"

definition chain_trust ::
  "x509_lib \<Rightarrow> datetime \<Rightarrow> certificate list \<Rightarrow> certificate list \<Rightarrow> (certificate \<Rightarrow> bool) option \<Rightarrow> int \<Rightarrow>
   party_from \<Rightarrow> certificate \<Rightarrow> bool" where
  "chain_trust lib now anchors intermediates revoked d pf c \<longleftrightarrow>
     (\<exists>path. anchored_path lib c anchors intermediates path \<and> int (length path) \<le> d \<and>
        (\<forall>x\<in>set path. not_valid_before lib x \<le> now \<and> now \<le> not_valid_after lib x \<and>
           (\<forall>r. revoked = Some r \<longrightarrow> \<not> r x)))"

interpretation pinned: trusting_resolver "pinned_resolve lib certs" "pinned_trust certs" for lib certs
proof unfold_locales
  show "pinned_trust certs pf c" if "pinned_resolve lib certs pf emb = Inr c" for pf emb c
    using pinned_resolve_in [OF that] by (simp add: pinned_trust_def)
  show "pinned_resolve lib certs pf None = Inl no_certificate" for pf
    by (simp add: pinned_resolve_def)
qed

interpretation chain: trusting_resolver "chain_resolve lib now anchors intermediates revoked d"
  "chain_trust lib now anchors intermediates revoked d" for lib now anchors intermediates revoked d
proof unfold_locales
  fix pf emb c
  assume "chain_resolve lib now anchors intermediates revoked d pf emb = Inr c"
  then obtain path where "path_to_anchor lib c anchors intermediates d = Inr path"
    "\<forall>x\<in>set path. check_path_certificate lib now revoked x = Inr ()"
    by (auto simp: chain_resolve_def result_simps split: option.splits)
  then show "chain_trust lib now anchors intermediates revoked d pf c"
    by (auto simp: chain_trust_def result_simps dest!: path_to_anchor_sound)
next
  fix pf
  show "chain_resolve lib now anchors intermediates revoked d pf None = Inl no_certificate"
    by (simp add: chain_resolve_def)
qed

interpretation named_chain: named_resolver "chain_resolve lib now anchors intermediates revoked d"
  "chain_trust lib now anchors intermediates revoked d" lib for lib now anchors intermediates revoked d
  by unfold_locales

section \<open>The search for a chain\<close>

text \<open>The certificates a library checks raise nothing but refusals.\<close>

definition refuses_only :: "x509_lib \<Rightarrow> bool" where
  "refuses_only lib \<longleftrightarrow> (\<forall>c i e. verify_directly_issued_by lib c i = Inl e \<longrightarrow> is_issue_refusal e)"

lemma issuer_of_answers: "refuses_only lib \<Longrightarrow> \<exists>found. issuer_of lib c cs = Inr found"
  by (induction lib c cs rule: issuer_of.induct) (auto simp: refuses_only_def split: sum.splits)

lemma path_loop_decides:
  assumes "refuses_only lib"
  shows "returns (path_loop lib leaf anchors intermediates d path) \<or>
    (\<exists>t. path_loop lib leaf anchors intermediates d path = Inl (UntrustedSignerError t))"
  using assms
proof (induction lib leaf anchors intermediates d path rule: path_loop.induct)
  case (1 lib leaf anchors intermediates d path)
  obtain anchor where anchor: "issuer_of lib (last path) anchors = Inr anchor"
    using issuer_of_answers [OF "1.prems"] by blast
  obtain next_one where next_one: "issuer_of lib (last path) (filter (\<lambda>c. c \<notin> set path) intermediates) = Inr next_one"
    using issuer_of_answers [OF "1.prems"] by blast
  show ?case
    using "1.IH" [OF _ anchor _ next_one] "1.prems"
    by (subst (1 2) path_loop.simps) (simp add: anchor next_one split: option.split)
qed

text \<open>
  C35.  The search for a chain ends with one of two outcomes: a chain from the leaf to an anchor of at
  most the maximum depth, each certificate issued by the next, or the refusal of the signer.
\<close>

theorem chain_search_decides:
  assumes "refuses_only lib"
  shows "(\<exists>path. path_to_anchor lib leaf anchors intermediates d = Inr path \<and>
      anchored_path lib leaf anchors intermediates path \<and> int (length path) \<le> d) \<or>
    (\<exists>t. path_to_anchor lib leaf anchors intermediates d = Inl (UntrustedSignerError t))"
  using path_loop_decides [OF assms, of leaf anchors intermediates d "[leaf]"] path_to_anchor_sound
  by (fastforce simp: path_to_anchor_def returns_iff)

lemma issuer_of_unique:
  assumes "refuses_only lib" and "i \<in> set cs" and "issues lib c i"
    and "\<forall>j\<in>set cs. issues lib c j \<longrightarrow> j = i"
  shows "issuer_of lib c cs = Inr (Some i)"
proof -
  from issuer_of_answers [OF assms(1)] obtain found where found: "issuer_of lib c cs = Inr found" by blast
  show ?thesis
  proof (cases found)
    case None
    with found issuer_of_None [of lib c cs i] assms(2,3) show ?thesis by auto
  next
    case (Some j)
    with found issuer_of_Some [of lib c cs j] assms(4) show ?thesis by auto
  qed
qed

text \<open>No certificate of the chain has two issuers among the candidates.\<close>

definition one_issuer :: "x509_lib \<Rightarrow> certificate list \<Rightarrow> bool" where
  "one_issuer lib candidates \<longleftrightarrow>
     (\<forall>c i j. i \<in> set candidates \<longrightarrow> j \<in> set candidates \<longrightarrow> issues lib c i \<longrightarrow> issues lib c j \<longrightarrow> i = j)"

lemma anchored_path_issued:
  assumes "anchored_path lib leaf anchors intermediates (path @ c # rest)" and "path \<noteq> []"
  shows "issues lib (last path) c"
proof (cases rest rule: rev_cases)
  case Nil
  with assms show ?thesis by (simp add: anchored_path_def)
next
  case (snoc front anchor)
  with assms(1) have "partial_path lib leaf intermediates (path @ c # front)"
    by (auto simp: anchored_path_def)
  with assms(2) show ?thesis by (auto simp: partial_path_def successively_append_iff)
qed

lemma anchored_path_middle:
  assumes "anchored_path lib leaf anchors intermediates (path @ c # rest)" and "path \<noteq> []"
    and "c \<notin> set anchors"
  shows "rest \<noteq> [] \<and> c \<in> set intermediates \<and> c \<notin> set path"
proof (cases rest rule: rev_cases)
  case Nil
  with assms show ?thesis by (simp add: anchored_path_def)
next
  case (snoc front anchor)
  with assms(1) have "partial_path lib leaf intermediates (path @ c # front)"
    by (auto simp: anchored_path_def)
  with assms(2) snoc show ?thesis by (auto simp: partial_path_def)
qed

lemma path_loop_finds:
  assumes "refuses_only lib" and "one_issuer lib (anchors @ intermediates)"
    and "anchored_path lib leaf anchors intermediates (path @ rest)" and "path \<noteq> []" and "rest \<noteq> []"
    and "int (length (path @ rest)) \<le> d"
  shows "returns (path_loop lib leaf anchors intermediates d path)"
  using assms(3-6)
proof (induction rest arbitrary: path)
  case Nil
  then show ?case by simp
next
  case (Cons c rest)
  let ?free = "filter (\<lambda>c. c \<notin> set path) intermediates"
  from Cons.prems have d: "int (length path) < d" by simp
  have issued: "issues lib (last path) c"
    by (rule anchored_path_issued [OF Cons.prems(1,2)])
  show ?case
  proof (cases "issuer_of lib (last path) anchors")
    case (Inl e)
    with issuer_of_answers [OF assms(1), of "last path" anchors] show ?thesis by simp
  next
    case (Inr anchor)
    show ?thesis
    proof (cases anchor)
      case (Some a)
      with Inr d show ?thesis by (simp add: path_loop.simps [of lib leaf anchors intermediates d path])
    next
      case None
      with Inr issued issuer_of_None [of lib "last path" anchors c] have "c \<notin> set anchors" by auto
      from anchored_path_middle [OF Cons.prems(1,2) this]
      have rest: "rest \<noteq> []" and c: "c \<in> set intermediates" "c \<notin> set path" by simp_all
      from c issued assms(2) have "issuer_of lib (last path) ?free = Inr (Some c)"
        by (intro issuer_of_unique [OF assms(1)]) (auto simp: one_issuer_def)
      with Inr None d Cons.IH [of "path @ [c]"] Cons.prems rest show ?thesis
        by (simp add: path_loop.simps [of lib leaf anchors intermediates d path])
    qed
  qed
qed

text \<open>
  C34.  Where every certificate has at most one issuer among the candidates, the greedy search misses
  nothing: when a chain of at most the maximum depth exists, one is found.
\<close>

theorem chain_is_found:
  assumes "refuses_only lib" and "one_issuer lib (anchors @ intermediates)"
    and "anchored_path lib leaf anchors intermediates path" and "int (length path) \<le> d"
  shows "\<exists>found. path_to_anchor lib leaf anchors intermediates d = Inr found \<and>
    anchored_path lib leaf anchors intermediates found \<and> int (length found) \<le> d"
proof -
  from assms(3) obtain rest where path: "path = [leaf] @ rest" and rest: "rest \<noteq> []"
    by (auto simp: anchored_path_def partial_path_def) (metis append_Cons append_self_conv2 hd_Cons_tl snoc_eq_iff_butlast)
  from path_loop_finds [OF assms(1,2) assms(3) [unfolded path] _ rest, of d] assms(4) path
  have "returns (path_to_anchor lib leaf anchors intermediates d)" by (simp add: path_to_anchor_def)
  then show ?thesis using path_to_anchor_sound by (fastforce simp: returns_iff)
qed

end
