(* ===== verification/Message.thy ===== *)
theory Message
  imports Trust
begin

text \<open>
  Receiving a message: \<^verbatim>\<open>as4/core/message.py\<close>.  \<open>parse\<close> is written over the virtual class method
  \<open>process\<close>, which a profile overrides; the dictionary \<open>fields\<close> that \<open>parse\<close> and \<open>process\<close> fill is
  the message record itself, returned updated beside the outcome, so what was stored before an
  exception stays visible.  The pydantic validation of the envelope and of \<open>eb:To\<close>, AES-GCM and
  the private key are parameters.
\<close>

section \<open>State\<close>

record message =
  m_soap_envelope :: "envelope option"
  m_mime_attachments :: "(string, bytes) dict"
  m_decrypted_data :: "(string, bytes) dict"
  m_profile_name :: "string option"
  m_message_id :: string
  m_messaging_id :: string
  m_addressed_to :: "party_identity option"
  m_signer_certificate :: "certificate option"
  m_parse_error :: "receiptable option"

definition empty_message :: message where
  "empty_message =
     \<lparr>m_soap_envelope = None, m_mime_attachments = [], m_decrypted_data = [], m_profile_name = None,
      m_message_id = '''', m_messaging_id = '''', m_addressed_to = None,
      m_signer_certificate = None, m_parse_error = None\<rparr>"

record message_lib = gzip_lib +
  validate_envelope :: "(dict_key, pyvalue) dict \<Rightarrow> exn + envelope"
  validate_party_to :: "(dict_key, pyvalue) dict \<Rightarrow> exn + party_to"
  aesgcm_decrypt :: "bytes \<Rightarrow> bytes \<Rightarrow> bytes \<Rightarrow> exn + bytes"  \<comment> \<open>key, nonce, data\<close>

definition receiptable_exn :: "receiptable_class \<Rightarrow> exn" where
  "receiptable_exn c = Receiptable (make_error c '''')"

definition envelope_of :: "'z message_lib_scheme \<Rightarrow> xml \<Rightarrow> exn + envelope" where
  "envelope_of lib e = validate_envelope lib (element_to_dict e)"

definition parse_successful :: "'z message_scheme \<Rightarrow> bool" where
  "parse_successful m = (m_parse_error m = None)"

definition require_soap_envelope :: "'z message_scheme \<Rightarrow> exn + envelope" where
  "require_soap_envelope m =
     (case m_soap_envelope m of
        None \<Rightarrow> Inl (ValueError ''Message carries no SOAP envelope'')
      | Some e \<Rightarrow> Inr e)"

section \<open>Before validation\<close>

definition PARTY_TO_PATH :: "string list" where
  "PARTY_TO_PATH =
     [step ''S12'' ''Header'', step ''eb3'' ''Messaging'', step ''eb3'' ''UserMessage'',
      step ''eb3'' ''PartyInfo'', step ''eb3'' ''To'']"

definition MESSAGE_ID_PATH :: "string list" where
  "MESSAGE_ID_PATH =
     [step ''S12'' ''Header'', step ''eb3'' ''Messaging'', step ''eb3'' ''UserMessage'',
      step ''eb3'' ''MessageInfo'', step ''eb3'' ''MessageId'']"

definition MESSAGING_PATH :: "string list" where
  "MESSAGING_PATH = [step ''S12'' ''Header'', step ''eb3'' ''Messaging'']"

definition pre_validate :: "xml \<Rightarrow> exn + (string \<times> string)" where
  "pre_validate e =
     (let message_id = or_empty (find_text e MESSAGE_ID_PATH) in
      case find_first e MESSAGING_PATH of
        None \<Rightarrow> Inl (Receiptable (make_error MessagingNotFoundException
                  ''Missing ebMS Messaging header in SOAP envelope''))
      | Some messaging \<Rightarrow>
          (let messaging_id = or_empty (dict_get (attrib messaging) (clark ns_wsu ''Id'')) in
           if message_id = '''' \<or> messaging_id = ''''
           then Inl (Receiptable (make_error MessageIdNotFoundException
                  ''Missing MessageId or Messaging wsu:Id in SOAP envelope''))
           else Inr (message_id, messaging_id)))"

definition get_addressed_to :: "'z message_lib_scheme \<Rightarrow> xml option \<Rightarrow> exn + party_identity" where
  "get_addressed_to lib party_to_element =
     (case party_to_element of
        None \<Rightarrow> Inl (Receiptable (make_error PartyToNotFoundException
                  ''Missing PartyInfo/To element in UserMessage''))
      | Some e \<Rightarrow> andThen (validate_party_to lib (element_to_dict e)) (\<lambda>p. Inr (identity_of_to p)))"

section \<open>What a signature covers\<close>

definition COVERAGE_BY_TAG :: "(string, string) dict" where
  "COVERAGE_BY_TAG = [(clark ns_eb3 ''Messaging'', ''messaging''), (clark ns_S12 ''Body'', ''body'')]"

definition coverage_kind :: "xml \<Rightarrow> string option" where
  "coverage_kind target =
     (case tag target of Clark t \<Rightarrow> dict_get COVERAGE_BY_TAG t | Special _ \<Rightarrow> None)"

fun coverage_loop ::
  "dsig_reference list \<Rightarrow> (string, xml) dict \<Rightarrow> string set \<Rightarrow> string set \<Rightarrow> string set \<times> string set" where
  "coverage_loop [] elements_by_id covered signed_payloads = (covered, signed_payloads)"
| "coverage_loop (r # rs) elements_by_id covered signed_payloads =
     (let uri = or_empty (ref_uri r) in
      if startswith ''cid:'' uri then
        coverage_loop rs elements_by_id covered (insert uri signed_payloads)
      else
        (case Option.bind (dict_get elements_by_id (removeprefix ''#'' uri)) coverage_kind of
           Some kind \<Rightarrow> coverage_loop rs elements_by_id (insert kind covered) signed_payloads
         | None \<Rightarrow> coverage_loop rs elements_by_id covered signed_payloads))"

definition signature_coverage :: "signature \<Rightarrow> (string, xml) dict \<Rightarrow> string set \<Rightarrow> string set" where
  "signature_coverage s elements_by_id payload_hrefs =
     (let (covered, signed_payloads) =
        coverage_loop (si_references (sig_signed_info s)) elements_by_id {} {}
      in if payload_hrefs \<subseteq> signed_payloads then insert ''payloads'' covered else covered)"

definition verify_signature_coverage ::
  "signature \<Rightarrow> (string, xml) dict \<Rightarrow> string set \<Rightarrow> string set \<Rightarrow> exn + unit" where
  "verify_signature_coverage s elements_by_id payload_hrefs required =
     (let missing = required - signature_coverage s elements_by_id payload_hrefs
      in require (missing = {})
           (Receiptable (signature_coverage_error (sorted_list_of_set missing))))"

section \<open>Digests of the signed parts\<close>

text \<open>The \<open>except\<close> clauses around \<open>digest_matches\<close> and \<open>digest_matches_bytes\<close>.\<close>

definition receipt_digest_error :: "exn \<Rightarrow> exn" where
  "receipt_digest_error e =
     (case e of
        UnsupportedDigestAlgorithm s \<Rightarrow> Receiptable (unsupported_digest_algorithm s)
      | UnsupportedTransform s \<Rightarrow> Receiptable (unsupported_transform s)
      | _ \<Rightarrow> e)"

definition verify_reference_digest ::
  "'z dsig_lib_scheme \<Rightarrow> (string, xml) dict \<Rightarrow> dsig_reference \<Rightarrow> exn + unit" where
  "verify_reference_digest lib elements_by_id r =
     (let uri = or_empty (ref_uri r) in
      if startswith ''cid:'' uri then Inr ()
      else
        (case dict_get elements_by_id (removeprefix ''#'' uri) of
           None \<Rightarrow> Inl (Receiptable (reference_target_not_found uri))
         | Some target \<Rightarrow>
             andThen (rethrow receipt_digest_error (digest_matches lib r target))
               (\<lambda>matches. require matches (Receiptable (digest_mismatch uri)))))"

definition verify_reference_digests ::
  "'z dsig_lib_scheme \<Rightarrow> signature \<Rightarrow> (string, xml) dict \<Rightarrow> exn + unit" where
  "verify_reference_digests lib s elements_by_id =
     for_each (verify_reference_digest lib elements_by_id) (si_references (sig_signed_info s))"

definition verify_attachment_digest ::
  "'z dsig_lib_scheme \<Rightarrow> (string, bytes) dict \<Rightarrow> dsig_reference \<Rightarrow> exn + unit" where
  "verify_attachment_digest lib signed_attachments r =
     (let uri = or_empty (ref_uri r) in
      if \<not> startswith ''cid:'' uri then Inr ()
      else
        (case dict_get signed_attachments (removeprefix ''cid:'' uri) of
           None \<Rightarrow> Inl (Receiptable (reference_target_not_found uri))
         | Some content \<Rightarrow>
             andThen (rethrow receipt_digest_error (digest_matches_bytes lib r content))
               (\<lambda>matches. require matches (Receiptable (digest_mismatch uri)))))"

definition verify_attachment_digests ::
  "'z dsig_lib_scheme \<Rightarrow> signature \<Rightarrow> (string, bytes) dict \<Rightarrow> exn + unit" where
  "verify_attachment_digests lib s signed_attachments =
     for_each (verify_attachment_digest lib signed_attachments) (si_references (sig_signed_info s))"

section \<open>The signature\<close>

definition resolve_signer :: "security_policy \<Rightarrow> party_from \<Rightarrow> certificate option \<Rightarrow> exn + certificate" where
  "resolve_signer policy party_from embedded =
     rethrow (\<lambda>e. case e of UntrustedSignerError _ \<Rightarrow> receiptable_exn UntrustedSignerException | _ \<Rightarrow> e)
       (policy_signer_resolver policy party_from embedded)"

definition payload_hrefs :: "user_message \<Rightarrow> string set" where
  "payload_hrefs um =
     (case um_payload_info um of
        None \<Rightarrow> {}
      | Some pl \<Rightarrow> set [h. Some h \<leftarrow> map part_href (pl_part_info pl), h \<noteq> ''''])"

text \<open>The URI of the token the signature names, and the token with that id.\<close>

definition signature_token_uri :: "signature \<Rightarrow> string option" where
  "signature_token_uri s =
     (case ki_security_token_reference (sig_key_info s) of
        [] \<Rightarrow> None
      | str # _ \<Rightarrow> wref_uri (str_reference str))"

definition find_token :: "security \<Rightarrow> string \<Rightarrow> binary_security_token option" where
  "find_token sec uri = find (\<lambda>bst. uri = ''#'' @ bst_bst_id bst) (sec_binary_security_tokens sec)"

definition receipt_token_error :: "exn \<Rightarrow> exn" where
  "receipt_token_error e =
     (case e of UnsupportedSecurityTokenType s \<Rightarrow> Receiptable (unsupported_security_token_type s) | _ \<Rightarrow> e)"

definition receipt_signature_error :: "exn \<Rightarrow> exn" where
  "receipt_signature_error e =
     (case e of
        UnsupportedSignatureAlgorithm s \<Rightarrow> Receiptable (unsupported_signature_algorithm s)
      | UnsupportedTransform s \<Rightarrow> Receiptable (unsupported_transform s)
      | InvalidSignature \<Rightarrow> receiptable_exn SignatureVerificationFailedException
      | _ \<Rightarrow> e)"

definition verify_with_signer ::
  "'z dsig_lib_scheme \<Rightarrow> security_policy \<Rightarrow> signature \<Rightarrow> certificate \<Rightarrow> user_message \<Rightarrow>
   (string, xml) dict \<Rightarrow> exn + (signature option \<times> certificate option)" where
  "verify_with_signer lib policy s signer um elements_by_id =
     andThen (rethrow receipt_signature_error (signature_verify lib s signer))
       (\<lambda>_. andThen
          (verify_signature_coverage s elements_by_id (payload_hrefs um) (required_coverage policy))
          (\<lambda>_. andThen
             (if verify_digests policy then verify_reference_digests lib s elements_by_id else Inr ())
             (\<lambda>_. Inr (Some s, Some signer))))"

definition get_verified_signature ::
  "'z dsig_lib_scheme \<Rightarrow> parse_context \<Rightarrow> security \<Rightarrow> envelope \<Rightarrow> (string, xml) dict \<Rightarrow>
   exn + (signature option \<times> certificate option)" where
  "get_verified_signature lib ctx sec env elements_by_id =
     (let policy = ctx_security_policy ctx;
          no_token = Inl (receiptable_exn SignatureSecurityTokenReferenceNotFoundException) in
      case sec_signature sec of
        None \<Rightarrow>
          if sign_required policy then Inl (receiptable_exn SignatureRequiredException)
          else Inr (None, None)
      | Some s \<Rightarrow>
          (let uri = or_empty (signature_token_uri s) in
           if uri = '''' then no_token
           else
             (case find_token sec uri of
                None \<Rightarrow> no_token
              | Some bst \<Rightarrow>
                  andThen (get_user_message (hdr_messaging (env_header env)))
                    (\<lambda>user_message.
                       case user_message of
                         None \<Rightarrow> Inl (receiptable_exn UserMessageNotFoundException)
                       | Some um \<Rightarrow>
                           andThen (rethrow receipt_token_error (token_certificate lib bst))
                             (\<lambda>embedded. andThen
                                (resolve_signer policy (pi_party_from (um_party_info um)) (Some embedded))
                                (\<lambda>signer. verify_with_signer lib policy s signer um elements_by_id))))))"

section \<open>Decryption\<close>

definition decryption_failed :: "exn \<Rightarrow> exn" where
  "decryption_failed e = (if is_value_error e then receiptable_exn DecryptionFailedException else e)"

definition session_key_of :: "internal_party \<Rightarrow> string \<Rightarrow> exn + bytes" where
  "session_key_of party cipher_text =
     rethrow decryption_failed
       (andThen (b64decode True cipher_text)
          (\<lambda>encrypted_session_key.
             key_decrypt (private_key_of (ip_credentials party)) encrypted_session_key
               (OAEP HashSHA256 HashSHA256)))"

definition aesgcm_failed :: "exn \<Rightarrow> exn" where
  "aesgcm_failed e =
     (if is_value_error e \<or> e = InvalidTag then receiptable_exn DecryptionFailedException else e)"

text \<open>One round of the loop over the data references: the attachment it names, decrypted.\<close>

definition decrypt_reference ::
  "'z message_lib_scheme \<Rightarrow> security \<Rightarrow> (string, bytes) dict \<Rightarrow> bytes \<Rightarrow> xenc_reference \<Rightarrow>
   exn + (string \<times> bytes)" where
  "decrypt_reference lib sec attachments session_key data_reference =
     (let uri = or_empty (xref_uri data_reference) in
      if uri = '''' then Inl (receiptable_exn EncryptedDataReferenceNotFoundException)
      else
        (case get_encrypted_data sec (drop 1 uri) of
           None \<Rightarrow> Inl (Receiptable (encrypted_data_not_found uri))
         | Some ed \<Rightarrow>
             (let algorithm = em_algorithm (et_encryption_method ed);
                  target = or_empty (Option.bind (cd_cipher_reference (et_cipher_data ed)) cr_uri);
                  identifier = removeprefix ''cid:'' target in
              if \<not> startswith ''cid:'' target then Inl (receiptable_exn CipherReferenceNotFoundException)
              else
                (case dict_get attachments identifier of
                   None \<Rightarrow> Inl (Receiptable (encrypted_attachment_not_found identifier))
                 | Some content \<Rightarrow>
                     if algorithm = AES128_GCM then
                       andThen (rethrow aesgcm_failed
                                 (aesgcm_decrypt lib session_key (take 12 content) (drop 12 content)))
                         (\<lambda>plain. Inr (identifier, plain))
                     else Inl (Receiptable (unsupported_encryption_algorithm algorithm))))))"

fun decrypt_loop ::
  "'z message_lib_scheme \<Rightarrow> security \<Rightarrow> (string, bytes) dict \<Rightarrow> bytes \<Rightarrow> xenc_reference list \<Rightarrow>
   (string, bytes) dict \<Rightarrow> exn + (string, bytes) dict" where
  "decrypt_loop lib sec attachments session_key [] decrypted = Inr decrypted"
| "decrypt_loop lib sec attachments session_key (r # rs) decrypted =
     andThen (decrypt_reference lib sec attachments session_key r)
       (\<lambda>(identifier, plain).
          decrypt_loop lib sec attachments session_key rs (dict_set identifier plain decrypted))"

definition get_decrypted_data ::
  "'z message_lib_scheme \<Rightarrow> parse_context \<Rightarrow> security \<Rightarrow> (string, bytes) dict \<Rightarrow>
   exn + (string, bytes) dict" where
  "get_decrypted_data lib ctx sec attachments =
     (case sec_encrypted_key sec of
        None \<Rightarrow>
          if encrypt_required (ctx_security_policy ctx)
          then Inl (receiptable_exn EncryptionRequiredException) else Inr []
      | Some ek \<Rightarrow>
          (let cipher_text = or_empty (Option.bind (cd_cipher_value (et_cipher_data ek)) cv_value);
               transport = em_algorithm (et_encryption_method ek) in
           if cipher_text = '''' then Inl (receiptable_exn CipherValueNotFoundException)
           else if transport \<noteq> RSA_OAEP then Inl (Receiptable (unsupported_encryption_algorithm transport))
           else
             andThen (session_key_of (ctx_local_party ctx) cipher_text)
               (\<lambda>session_key. decrypt_loop lib sec attachments session_key
                  (rl_data_reference (ek_reference_list ek)) [])))"

section \<open>Processing and parsing\<close>

text \<open>A statement that may raise, in a method that has stored fields before it.\<close>

definition attempt :: "exn + 'a \<Rightarrow> 's \<Rightarrow> ('a \<Rightarrow> (exn + unit) \<times> 's) \<Rightarrow> (exn + unit) \<times> 's" where
  "attempt m s k = (case m of Inl e \<Rightarrow> (Inl e, s) | Inr x \<Rightarrow> k x)"

text \<open>The loop over the declared parts: it replaces the entries of \<open>decrypted_data\<close> in place.\<close>

fun decompress_parts ::
  "'z gzip_lib_scheme \<Rightarrow> int \<Rightarrow> (string, bytes) dict \<Rightarrow> part_info list \<Rightarrow> 'y message_scheme \<Rightarrow>
   (exn + unit) \<times> 'y message_scheme" where
  "decompress_parts lib cap attachments [] m = (Inr (), m)"
| "decompress_parts lib cap attachments (p # ps) m =
     (let href = or_empty (part_href p); identifier = removeprefix ''cid:'' href in
      if href = '''' then decompress_parts lib cap attachments ps m
      else if \<not> dict_has identifier attachments
      then (Inl (Receiptable (part_info_without_mime_part href)), m)
      else
        (case dict_get (m_decrypted_data m) identifier of
           None \<Rightarrow> decompress_parts lib cap attachments ps m
         | Some content \<Rightarrow>
             attempt (decompress lib (part_part_properties p) content cap) m
               (\<lambda>plain. decompress_parts lib cap attachments ps
                  (m\<lparr>m_decrypted_data := dict_set identifier plain (m_decrypted_data m)\<rparr>))))"

definition process ::
  "'z message_lib_scheme \<Rightarrow> parse_context \<Rightarrow> xml \<Rightarrow> (string, bytes) dict \<Rightarrow> 'y message_scheme \<Rightarrow>
   (exn + unit) \<times> 'y message_scheme" where
  "process lib ctx e attachments m =
     (let m = m\<lparr>m_mime_attachments := attachments\<rparr>; policy = ctx_security_policy ctx in
      attempt (envelope_of lib e) m (\<lambda>env.
      let m = m\<lparr>m_soap_envelope := Some env\<rparr>; sec = hdr_security (env_header env) in
      attempt (index_elements_by_id e) m (\<lambda>elements_by_id.
      attempt (get_verified_signature lib ctx sec env elements_by_id) m (\<lambda>(s, signer).
      let m = m\<lparr>m_signer_certificate := signer\<rparr> in
      attempt (get_decrypted_data lib ctx sec attachments) m (\<lambda>decrypted.
      let m = m\<lparr>m_decrypted_data := decrypted\<rparr> in
      attempt (case s of
                 Some s' \<Rightarrow> if verify_digests policy then verify_attachment_digests lib s' decrypted
                            else Inr ()
               | None \<Rightarrow> Inr ()) m (\<lambda>_.
      attempt (get_user_message (hdr_messaging (env_header env))) m (\<lambda>user_message.
      case user_message of
        None \<Rightarrow> (Inl (receiptable_exn UserMessageNotFoundException), m)
      | Some um \<Rightarrow>
          (case um_payload_info um of
             None \<Rightarrow> (Inl (receiptable_exn PayloadInfoNotFoundException), m)
           | Some pl \<Rightarrow>
               decompress_parts lib (maximum_decompressed_size policy) attachments (pl_part_info pl) m))))))))"

text \<open>The body of the \<open>try\<close>.\<close>

definition parse_body ::
  "'z message_lib_scheme \<Rightarrow>
   (xml \<Rightarrow> (string, bytes) dict \<Rightarrow> 'y message_scheme \<Rightarrow> (exn + unit) \<times> 'y message_scheme) \<Rightarrow>
   bytes \<Rightarrow> (string, bytes) dict \<Rightarrow> 'y message_scheme \<Rightarrow> (exn + unit) \<times> 'y message_scheme" where
  "parse_body lib virtual_process soap_bytes attachments m =
     attempt (parse_xml lib soap_bytes) m (\<lambda>e.
     attempt (pre_validate e) m (\<lambda>(message_id, messaging_id).
     let m = m\<lparr>m_message_id := message_id, m_messaging_id := messaging_id\<rparr> in
     attempt (get_addressed_to lib (find_first e PARTY_TO_PATH)) m (\<lambda>addressed_to.
     virtual_process e attachments (m\<lparr>m_addressed_to := Some addressed_to\<rparr>))))"

text \<open>The \<open>except\<close> clauses: which exceptions become the parse error; the others escape.\<close>

definition caught_error :: "exn \<Rightarrow> exn + receiptable" where
  "caught_error e =
     (case e of
        XMLSyntaxError \<Rightarrow> Inr (make_error MalformedSoapEnvelopeException '''')
      | ValidationError ds \<Rightarrow> from_validation_error ds
      | Receiptable r \<Rightarrow> Inr r
      | _ \<Rightarrow> Inl e)"

definition parse ::
  "'z message_lib_scheme \<Rightarrow>
   (xml \<Rightarrow> (string, bytes) dict \<Rightarrow> 'y message_scheme \<Rightarrow> (exn + unit) \<times> 'y message_scheme) \<Rightarrow>
   'y message_scheme \<Rightarrow> bytes \<Rightarrow> (string, bytes) dict \<Rightarrow> exn + 'y message_scheme" where
  "parse lib virtual_process fresh soap_bytes attachments =
     (case parse_body lib virtual_process soap_bytes attachments fresh of
        (Inr _, m) \<Rightarrow> Inr (m\<lparr>m_parse_error := None\<rparr>)
      | (Inl e, m) \<Rightarrow> andThen (caught_error e) (\<lambda>r. Inr (m\<lparr>m_parse_error := Some r\<rparr>)))"

definition parse_message ::
  "'z message_lib_scheme \<Rightarrow> parse_context \<Rightarrow> bytes \<Rightarrow> (string, bytes) dict \<Rightarrow> exn + message" where
  "parse_message lib ctx = parse lib (process lib ctx) empty_message"

section \<open>Reading a message\<close>

definition user_message_of :: "envelope \<Rightarrow> exn + user_message option" where
  "user_message_of env = get_user_message (hdr_messaging (env_header env))"

definition get_remote_party :: "'z message_scheme \<Rightarrow> exn + external_party" where
  "get_remote_party m =
     (case m_signer_certificate m of
        None \<Rightarrow> Inl (RemotePartyNotVerifiedError
          ''Message signature has not been verified, so the access point that sent it is not established'')
      | Some c \<Rightarrow>
          (case m_soap_envelope m of
             None \<Rightarrow> Inl (RemotePartyNotVerifiedError ''Message carries no SOAP envelope to read eb:From from'')
           | Some env \<Rightarrow>
               andThen (user_message_of env)
                 (\<lambda>um. case um of
                         None \<Rightarrow> Inl (receiptable_exn UserMessageNotFoundException)
                       | Some u \<Rightarrow> Inr
                           \<lparr>xp_identity = identity_of_from (pi_party_from (um_party_info u)),
                            xp_credentials = \<lparr>certificate_of = c\<rparr>\<rparr>)))"

definition conversation_id :: "'z message_scheme \<Rightarrow> exn + string option" where
  "conversation_id m =
     (case m_soap_envelope m of
        None \<Rightarrow> Inr None
      | Some env \<Rightarrow>
          andThen (user_message_of env)
            (\<lambda>um. Inr (map_option (\<lambda>u. cid_value (ci_conversation_id (um_collaboration_info u))) um)))"

definition signature_references :: "'z message_scheme \<Rightarrow> dsig_reference list" where
  "signature_references m =
     (case m_soap_envelope m of
        None \<Rightarrow> []
      | Some env \<Rightarrow>
          (case sec_signature (hdr_security (env_header env)) of
             None \<Rightarrow> []
           | Some s \<Rightarrow> si_references (sig_signed_info s)))"

definition signed_references :: "'z message_scheme \<Rightarrow> comparable_reference list" where
  "signed_references m = map from_reference (signature_references m)"

section \<open>Sequences that keep their state\<close>

lemma attempt_Inl [simp]: "attempt (Inl e) s k = (Inl e, s)"
  by (simp add: attempt_def)

lemma attempt_Inr [simp]: "attempt (Inr x) s k = k x"
  by (simp add: attempt_def)

lemma attempt_returns [result_simps]:
  "attempt m s k = (Inr u, s') \<longleftrightarrow> (\<exists>x. m = Inr x \<and> k x = (Inr u, s'))"
  by (cases m) auto

lemma attempt_raises [result_simps]:
  "fst (attempt m s k) = Inl e \<longleftrightarrow> m = Inl e \<or> (\<exists>x. m = Inr x \<and> fst (k x) = Inl e)"
  by (cases m) auto

lemma attempt_inv: "I s \<Longrightarrow> (\<And>x. m = Inr x \<Longrightarrow> I (snd (k x))) \<Longrightarrow> I (snd (attempt m s k))"
  by (cases m) auto

section \<open>Coverage\<close>

definition reference_uri :: "dsig_reference \<Rightarrow> string" where
  "reference_uri r = or_empty (ref_uri r)"

definition names_attachment :: "dsig_reference \<Rightarrow> bool" where
  "names_attachment r = startswith ''cid:'' (reference_uri r)"

definition names_element :: "(string, xml) dict \<Rightarrow> dsig_reference \<Rightarrow> xml \<Rightarrow> bool" where
  "names_element ids r t \<longleftrightarrow>
     \<not> names_attachment r \<and> dict_get ids (removeprefix ''#'' (reference_uri r)) = Some t"

lemma coverage_loop_eq:
  "coverage_loop rs ids covered seen =
     (covered \<union> {k. \<exists>r\<in>set rs. \<exists>t. names_element ids r t \<and> coverage_kind t = Some k},
      seen \<union> {reference_uri r |r. r \<in> set rs \<and> names_attachment r})"
proof (induction rs ids covered seen rule: coverage_loop.induct)
  case (1 ids covered seen)
  then show ?case by simp
next
  case (2 r rs ids covered seen)
  show ?case
  proof (cases "names_attachment r")
    case True
    with 2(1) [OF refl] show ?thesis
      by (auto simp: names_attachment_def names_element_def reference_uri_def Let_def)
  next
    case False
    then have nc: "\<not> startswith ''cid:'' (or_empty (ref_uri r))"
      by (simp add: names_attachment_def reference_uri_def)
    show ?thesis
    proof (cases "Option.bind (dict_get ids (removeprefix ''#'' (or_empty (ref_uri r)))) coverage_kind")
      case None
      with nc have "coverage_loop (r # rs) ids covered seen = coverage_loop rs ids covered seen"
        by (simp add: Let_def)
      moreover from None have "\<nexists>t k. names_element ids r t \<and> coverage_kind t = Some k"
        by (auto simp: names_element_def reference_uri_def)
      ultimately show ?thesis using False 2(2) [OF refl nc None] by auto
    next
      case (Some k)
      with nc have "coverage_loop (r # rs) ids covered seen = coverage_loop rs ids (insert k covered) seen"
        by (simp add: Let_def)
      moreover from Some False have "(\<exists>t. names_element ids r t \<and> coverage_kind t = Some k') \<longleftrightarrow> k' = k" for k'
        by (auto simp: names_element_def reference_uri_def bind_eq_Some_conv)
      ultimately show ?thesis using False 2(3) [OF refl nc Some] by auto
    qed
  qed
qed

lemma signature_coverage_eq:
  "signature_coverage s ids hrefs =
     {k. \<exists>r\<in>set (si_references (sig_signed_info s)). \<exists>t. names_element ids r t \<and> coverage_kind t = Some k} \<union>
     (if hrefs \<subseteq> {reference_uri r |r. r \<in> set (si_references (sig_signed_info s)) \<and> names_attachment r}
      then {''payloads''} else {})"
  by (simp add: signature_coverage_def coverage_loop_eq)

lemma coverage_kind_messaging:
  "coverage_kind t = Some ''messaging'' \<longleftrightarrow> tag t = Clark (clark ns_eb3 ''Messaging'')"
  by (cases "tag t") (auto simp: coverage_kind_def COVERAGE_BY_TAG_def clark_def ns_eb3_def ns_S12_def)

lemma coverage_kind_body: "coverage_kind t = Some ''body'' \<longleftrightarrow> tag t = Clark (clark ns_S12 ''Body'')"
  by (cases "tag t") (auto simp: coverage_kind_def COVERAGE_BY_TAG_def clark_def ns_eb3_def ns_S12_def)

lemma coverage_kind_payloads [simp]: "coverage_kind t \<noteq> Some ''payloads''"
  by (cases "tag t") (auto simp: coverage_kind_def COVERAGE_BY_TAG_def)

lemma covers_messaging:
  "''messaging'' \<in> signature_coverage s ids hrefs \<longleftrightarrow>
    (\<exists>r\<in>set (si_references (sig_signed_info s)). \<exists>t. names_element ids r t \<and> tag t = Clark (clark ns_eb3 ''Messaging''))"
  by (auto simp: signature_coverage_eq coverage_kind_messaging)

lemma covers_body:
  "''body'' \<in> signature_coverage s ids hrefs \<longleftrightarrow>
    (\<exists>r\<in>set (si_references (sig_signed_info s)). \<exists>t. names_element ids r t \<and> tag t = Clark (clark ns_S12 ''Body''))"
  by (auto simp: signature_coverage_eq coverage_kind_body)

lemma covers_payloads:
  "''payloads'' \<in> signature_coverage s ids hrefs \<longleftrightarrow>
    (\<forall>h\<in>hrefs. \<exists>r\<in>set (si_references (sig_signed_info s)). names_attachment r \<and> reference_uri r = h)"
proof -
  have "hrefs \<subseteq> {reference_uri r |r. r \<in> set (si_references (sig_signed_info s)) \<and> names_attachment r} \<longleftrightarrow>
    (\<forall>h\<in>hrefs. \<exists>r\<in>set (si_references (sig_signed_info s)). names_attachment r \<and> reference_uri r = h)"
    unfolding subset_iff mem_Collect_eq Bex_def Ball_def by metis
  then show ?thesis by (simp add: signature_coverage_eq)
qed

lemma verify_signature_coverage_eq_Inr [result_simps]:
  "verify_signature_coverage s ids hrefs required = Inr u \<longleftrightarrow> required \<subseteq> signature_coverage s ids hrefs"
  by (auto simp: verify_signature_coverage_def Let_def result_simps)

section \<open>Digests\<close>

definition element_signed :: "'z dsig_lib_scheme \<Rightarrow> (string, xml) dict \<Rightarrow> dsig_reference \<Rightarrow> bool" where
  "element_signed lib ids r \<longleftrightarrow> (\<exists>t. names_element ids r t \<and> digest_matches lib r t = Inr True)"

definition attachment_signed :: "'z dsig_lib_scheme \<Rightarrow> (string, bytes) dict \<Rightarrow> dsig_reference \<Rightarrow> bool" where
  "attachment_signed lib attachments r \<longleftrightarrow>
     (\<exists>content. dict_get attachments (removeprefix ''cid:'' (reference_uri r)) = Some content \<and>
        digest_matches_bytes lib r content = Inr True)"

lemma verify_reference_digest_eq_Inr:
  "verify_reference_digest lib ids r = Inr u \<longleftrightarrow> names_attachment r \<or> element_signed lib ids r"
  by (auto simp: verify_reference_digest_def names_attachment_def element_signed_def names_element_def
      reference_uri_def Let_def result_simps split: option.splits)

lemma verify_reference_digests_eq_Inr [result_simps]:
  "verify_reference_digests lib s ids = Inr u \<longleftrightarrow>
    (\<forall>r\<in>set (si_references (sig_signed_info s)). names_attachment r \<or> element_signed lib ids r)"
  by (auto simp: verify_reference_digests_def result_simps verify_reference_digest_eq_Inr)

lemma verify_attachment_digest_eq_Inr:
  "verify_attachment_digest lib attachments r = Inr u \<longleftrightarrow>
    (names_attachment r \<longrightarrow> attachment_signed lib attachments r)"
  by (auto simp: verify_attachment_digest_def names_attachment_def attachment_signed_def
      reference_uri_def Let_def result_simps split: option.splits)

lemma verify_attachment_digests_eq_Inr [result_simps]:
  "verify_attachment_digests lib s attachments = Inr u \<longleftrightarrow>
    (\<forall>r\<in>set (si_references (sig_signed_info s)). names_attachment r \<longrightarrow> attachment_signed lib attachments r)"
  by (auto simp: verify_attachment_digests_def result_simps verify_attachment_digest_eq_Inr)

section \<open>A verified signature\<close>

definition verified_signature ::
  "'z dsig_lib_scheme \<Rightarrow> security_policy \<Rightarrow> security \<Rightarrow> user_message \<Rightarrow> (string, xml) dict \<Rightarrow> signature \<Rightarrow>
   certificate \<Rightarrow> bool" where
  "verified_signature lib policy sec um ids s c \<longleftrightarrow>
     sec_signature sec = Some s \<and>
     (\<exists>uri bst embedded. signature_token_uri s = Some uri \<and> uri \<noteq> '''' \<and> find_token sec uri = Some bst \<and>
        token_certificate lib bst = Inr embedded \<and>
        policy_signer_resolver policy (pi_party_from (um_party_info um)) (Some embedded) = Inr c) \<and>
     signature_verify lib s c = Inr () \<and>
     required_coverage policy \<subseteq> signature_coverage s ids (payload_hrefs um) \<and>
     (verify_digests policy \<longrightarrow>
        (\<forall>r\<in>set (si_references (sig_signed_info s)). names_attachment r \<or> element_signed lib ids r))"

lemma or_empty_nonempty: "or_empty v \<noteq> '''' \<longleftrightarrow> (\<exists>s. v = Some s \<and> s \<noteq> '''')"
  by (cases v) (auto simp: or_empty_def)

lemma or_empty_Some [simp]: "or_empty (Some s) = s"
  by (simp add: or_empty_def)

lemma verify_with_signer_eq_Inr [result_simps]:
  "verify_with_signer lib policy s signer um ids = Inr r \<longleftrightarrow>
    r = (Some s, Some signer) \<and> signature_verify lib s signer = Inr () \<and>
    required_coverage policy \<subseteq> signature_coverage s ids (payload_hrefs um) \<and>
    (verify_digests policy \<longrightarrow>
        (\<forall>x\<in>set (si_references (sig_signed_info s)). names_attachment x \<or> element_signed lib ids x))"
  by (auto simp: verify_with_signer_def result_simps)

lemma get_verified_signature_unsigned:
  "sec_signature sec = None \<Longrightarrow>
   get_verified_signature lib ctx sec env ids =
     (if sign_required (ctx_security_policy ctx) then Inl (receiptable_exn SignatureRequiredException)
      else Inr (None, None))"
  by (simp add: get_verified_signature_def Let_def)

lemma get_verified_signature_signed:
  assumes "sec_signature sec = Some s"
  shows "get_verified_signature lib ctx sec env ids = Inr r \<longleftrightarrow>
    (\<exists>um c. user_message_of env = Inr (Some um) \<and> r = (Some s, Some c) \<and>
       verified_signature lib (ctx_security_policy ctx) sec um ids s c)"
proof (cases "or_empty (signature_token_uri s) = ''''")
  case True
  with assms show ?thesis
    by (auto simp: get_verified_signature_def verified_signature_def Let_def or_empty_def split: option.splits)
next
  case False
  then obtain uri where "signature_token_uri s = Some uri" "uri \<noteq> ''''" by (auto simp: or_empty_nonempty)
  with assms show ?thesis
    by (auto simp: get_verified_signature_def verified_signature_def Let_def user_message_of_def
        resolve_signer_def result_simps split: option.splits)
qed

end
