(* ===== verification/Processing.thy ===== *)
theory Processing
  imports Message
begin

text \<open>
  One run of \<open>process\<close> (\<^verbatim>\<open>as4/core/message.py\<close>): the loop that decompresses the declared parts, the
  decryption loop, and what the message record holds when \<open>process\<close> returns and at whichever
  statement it raises.
\<close>

section \<open>Decompressing the declared parts\<close>

definition part_identifier :: "part_info \<Rightarrow> string" where
  "part_identifier p = removeprefix ''cid:'' (or_empty (part_href p))"

definition declared_parts :: "part_info list \<Rightarrow> part_info list" where
  "declared_parts ps = filter (\<lambda>p. or_empty (part_href p) \<noteq> '''') ps"

lemma declared_parts_Nil [simp]: "declared_parts [] = []"
  by (simp add: declared_parts_def)

lemma declared_parts_Cons [simp]:
  "declared_parts (p # ps) =
     (if or_empty (part_href p) = '''' then declared_parts ps else p # declared_parts ps)"
  by (simp add: declared_parts_def)

lemma decompress_parts_Cons:
  "decompress_parts lib cap attachments (p # ps) m =
     (if or_empty (part_href p) = '''' then decompress_parts lib cap attachments ps m
      else if \<not> dict_has (part_identifier p) attachments
      then (Inl (Receiptable (part_info_without_mime_part (or_empty (part_href p)))), m)
      else
        (case dict_get (m_decrypted_data m) (part_identifier p) of
           None \<Rightarrow> decompress_parts lib cap attachments ps m
         | Some content \<Rightarrow>
             attempt (decompress lib (part_part_properties p) content cap) m
               (\<lambda>plain. decompress_parts lib cap attachments ps
                  (m\<lparr>m_decrypted_data := dict_set (part_identifier p) plain (m_decrypted_data m)\<rparr>))))"
  unfolding part_identifier_def Let_def by (simp add: Let_def cong: option.case_cong)

declare decompress_parts.simps(2) [simp del]

lemma dict_set_keys: "dict_get d k = Some v \<Longrightarrow> map fst (dict_set k w d) = map fst d"
  by (auto simp: AList.update_keys dest: map_of_SomeD intro: rev_image_eqI)

lemma decompress_parts_frame:
  "\<exists>d. snd (decompress_parts lib cap attachments ps m) = m\<lparr>m_decrypted_data := d\<rparr> \<and>
     map fst d = map fst (m_decrypted_data m)"
proof (induction ps arbitrary: m)
  case Nil
  show ?case by (rule exI [of _ "m_decrypted_data m"]) simp
next
  case (Cons p ps)
  have keep: "\<exists>d. m = m\<lparr>m_decrypted_data := d\<rparr> \<and> map fst d = map fst (m_decrypted_data m)"
    by (rule exI [of _ "m_decrypted_data m"]) simp
  have update: "\<exists>d. snd (decompress_parts lib cap attachments ps
      (m\<lparr>m_decrypted_data := dict_set k plain (m_decrypted_data m)\<rparr>)) = m\<lparr>m_decrypted_data := d\<rparr> \<and>
      map fst d = map fst (m_decrypted_data m)"
    if "dict_get (m_decrypted_data m) k = Some content" for k content plain
    using Cons [of "m\<lparr>m_decrypted_data := dict_set k plain (m_decrypted_data m)\<rparr>"]
    by (simp add: dict_set_keys [OF that])
  from keep update Cons [of m] show ?case
    by (auto simp: decompress_parts_Cons attempt_def split: option.splits sum.splits)
qed

lemma decompress_parts_other:
  "k \<notin> part_identifier ` set (declared_parts ps) \<Longrightarrow>
   dict_get (m_decrypted_data (snd (decompress_parts lib cap attachments ps m))) k =
   dict_get (m_decrypted_data m) k"
  by (induction ps arbitrary: m)
     (auto simp: decompress_parts_Cons attempt_def dict_simps split: option.splits sum.splits if_splits)

lemma decompress_parts_returns:
  "decompress_parts lib cap attachments ps m = (Inr u, m') \<Longrightarrow> p \<in> set (declared_parts ps) \<Longrightarrow>
   dict_has (part_identifier p) attachments"
  by (induction ps arbitrary: m)
     (auto simp: decompress_parts_Cons result_simps split: option.splits if_splits)

text \<open>
  The declared parts of one identifier, and what the loop does to their content: one decompression after
  the other, in the order of the parts, each on the result of the one before.
\<close>

definition parts_named :: "string \<Rightarrow> part_info list \<Rightarrow> part_info list" where
  "parts_named i ps = filter (\<lambda>p. part_identifier p = i) (declared_parts ps)"

fun inflations :: "'z gzip_lib_scheme \<Rightarrow> int \<Rightarrow> part_info list \<Rightarrow> bytes \<Rightarrow> exn + bytes" where
  "inflations lib cap [] content = Inr content"
| "inflations lib cap (p # ps) content =
     andThen (decompress lib (part_part_properties p) content cap) (inflations lib cap ps)"

lemma decompress_parts_content:
  "decompress_parts lib cap attachments ps m = (Inr u, m') \<Longrightarrow> dict_get (m_decrypted_data m) i = Some content \<Longrightarrow>
   \<exists>plain. inflations lib cap (parts_named i ps) content = Inr plain \<and> dict_get (m_decrypted_data m') i = Some plain"
proof (induction ps arbitrary: m content)
  case Nil
  then show ?case by (simp add: parts_named_def)
next
  case (Cons p ps)
  show ?case
  proof (cases "or_empty (part_href p) = '''' \<or> dict_get (m_decrypted_data m) (part_identifier p) = None")
    case True
    with Cons have "decompress_parts lib cap attachments ps m = (Inr u, m')"
      by (auto simp: decompress_parts_Cons split: if_splits)
    moreover from True Cons.prems(2) have "parts_named i (p # ps) = parts_named i ps"
      by (auto simp: parts_named_def)
    ultimately show ?thesis using Cons.IH Cons.prems(2) by simp
  next
    case False
    then obtain c where c: "dict_get (m_decrypted_data m) (part_identifier p) = Some c" by auto
    with Cons.prems(1) False obtain plain where
      plain: "decompress lib (part_part_properties p) c cap = Inr plain"
      and rest: "decompress_parts lib cap attachments ps
         (m\<lparr>m_decrypted_data := dict_set (part_identifier p) plain (m_decrypted_data m)\<rparr>) = (Inr u, m')"
      by (auto simp: decompress_parts_Cons result_simps split: if_splits)
    show ?thesis
    proof (cases "part_identifier p = i")
      case True
      with Cons.IH [OF rest, of plain] plain c Cons.prems(2) False show ?thesis
        by (simp add: parts_named_def dict_simps)
    next
      case other: False
      with Cons.IH [OF rest, of content] Cons.prems(2) False show ?thesis
        by (simp add: parts_named_def dict_simps)
    qed
  qed
qed

text \<open>A part that is not gzip data is left as it is, so the cap that holds after one inflation holds at the end.\<close>

lemma inflations_within_cap:
  assumes "inflations lib cap ps content = Inr plain"
    and "int (length content) \<le> cap \<or>
      (\<exists>p\<in>set ps. compression_type (part_part_properties p) = Some ''application/gzip'')"
  shows "int (length plain) \<le> cap"
  using assms
proof (induction ps arbitrary: content)
  case Nil
  then show ?case by simp
next
  case (Cons p ps)
  from Cons.prems(1) obtain inflated where step: "decompress lib (part_part_properties p) content cap = Inr inflated"
    and rest: "inflations lib cap ps inflated = Inr plain"
    by (auto simp: result_simps)
  from step Cons.prems(2) have "int (length inflated) \<le> cap \<or>
      (\<exists>p\<in>set ps. compression_type (part_part_properties p) = Some ''application/gzip'')"
    by (auto simp: decompress_eq_Inr split: if_splits)
  with rest show ?case by (rule Cons.IH)
qed

section \<open>Decryption\<close>

lemma decrypt_loop_keys:
  "decrypt_loop lib sec attachments key rs d = Inr d' \<Longrightarrow> fst ` set d \<subseteq> K \<Longrightarrow>
   fst ` set attachments \<subseteq> K \<Longrightarrow> fst ` set d' \<subseteq> K"
proof (induction lib sec attachments key rs d arbitrary: d' rule: decrypt_loop.induct)
  case (1 lib sec attachments key decrypted)
  then show ?case by simp
next
  case (2 lib sec attachments key r rs decrypted)
  then obtain i plain where i: "decrypt_reference lib sec attachments key r = Inr (i, plain)"
    and rest: "decrypt_loop lib sec attachments key rs (dict_set i plain decrypted) = Inr d'"
    by (auto simp: result_simps)
  from i have "i \<in> fst ` set attachments"
    by (auto simp: decrypt_reference_def Let_def result_simps split: if_splits option.splits
        dest: map_of_SomeD intro: rev_image_eqI)
  then have "fst ` set (dict_set i plain decrypted) \<subseteq> K" using 2(3,4) by (auto simp: AList.dom_update)
  with 2(1) [OF i refl rest] 2(4) show ?case by simp
qed

lemma decrypted_keys:
  "get_decrypted_data lib ctx sec attachments = Inr d \<Longrightarrow> fst ` set d \<subseteq> fst ` set attachments"
  by (auto simp: get_decrypted_data_def Let_def result_simps split: option.splits if_splits
      dest!: decrypt_loop_keys [where K = "fst ` set attachments"])

section \<open>One run of \<open>process\<close>\<close>

lemma option_step_returns:
  "(case x of None \<Rightarrow> (Inl e, s) | Some y \<Rightarrow> f y) = (Inr u, s') \<longleftrightarrow> (\<exists>y. x = Some y \<and> f y = (Inr u, s'))"
  by (cases x) auto

lemma option_check_returns:
  "(case x of None \<Rightarrow> Inr () | Some y \<Rightarrow> if b then f y else Inr ()) = Inr u \<longleftrightarrow>
    (\<forall>y. x = Some y \<longrightarrow> b \<longrightarrow> f y = Inr ())"
  by (cases x) auto

lemma process_returns:
  "process lib ctx e attachments m = (Inr u, m') \<longleftrightarrow>
    (\<exists>env ids so co decrypted um pl.
       envelope_of lib e = Inr env \<and> index_elements_by_id e = Inr ids \<and>
       get_verified_signature lib ctx (hdr_security (env_header env)) env ids = Inr (so, co) \<and>
       get_decrypted_data lib ctx (hdr_security (env_header env)) attachments = Inr decrypted \<and>
       (\<forall>s. so = Some s \<longrightarrow> verify_digests (ctx_security_policy ctx) \<longrightarrow>
          verify_attachment_digests lib s decrypted = Inr ()) \<and>
       user_message_of env = Inr (Some um) \<and> um_payload_info um = Some pl \<and>
       decompress_parts lib (maximum_decompressed_size (ctx_security_policy ctx)) attachments (pl_part_info pl)
         (m\<lparr>m_mime_attachments := attachments, m_soap_envelope := Some env,
           m_signer_certificate := co, m_decrypted_data := decrypted\<rparr>) = (Inr u, m'))"
  unfolding process_def Let_def user_message_of_def
  by (simp add: attempt_returns option_step_returns option_check_returns split_paired_Ex) blast

lemma process_stages:
  obtains (early) r where "snd (process lib ctx e attachments m) =
      m\<lparr>m_mime_attachments := attachments, m_soap_envelope := r\<rparr>" "r = m_soap_envelope m \<or> (\<exists>env. envelope_of lib e = Inr env \<and> r = Some env)"
  | (signed) env ids so co d where "envelope_of lib e = Inr env" "index_elements_by_id e = Inr ids"
    "get_verified_signature lib ctx (hdr_security (env_header env)) env ids = Inr (so, co)"
    "snd (process lib ctx e attachments m) =
      m\<lparr>m_mime_attachments := attachments, m_soap_envelope := Some env, m_signer_certificate := co,
        m_decrypted_data := d\<rparr>"
    "d = m_decrypted_data m \<or>
      (\<exists>decrypted. get_decrypted_data lib ctx (hdr_security (env_header env)) attachments = Inr decrypted \<and>
         map fst d = map fst decrypted)"
proof (cases "envelope_of lib e")
  case (Inl x)
  then have "snd (process lib ctx e attachments m) =
      m\<lparr>m_mime_attachments := attachments, m_soap_envelope := m_soap_envelope m\<rparr>"
    by (simp add: process_def)
  then show ?thesis by (rule early) simp
next
  case env: (Inr env)
  let ?sec = "hdr_security (env_header env)"
  show ?thesis
  proof (cases "andThen (index_elements_by_id e) (get_verified_signature lib ctx ?sec env)")
    case (Inl x)
    then have "snd (process lib ctx e attachments m) =
      m\<lparr>m_mime_attachments := attachments, m_soap_envelope := Some env\<rparr>"
      by (cases "index_elements_by_id e") (auto simp: process_def env Let_def)
    then show ?thesis by (rule early) (simp add: env)
  next
    case (Inr r)
    then obtain ids so co where ids: "index_elements_by_id e = Inr ids"
      and sgn: "get_verified_signature lib ctx ?sec env ids = Inr (so, co)"
      by (cases r) (auto simp: result_simps)
    let ?m = "m\<lparr>m_mime_attachments := attachments, m_soap_envelope := Some env, m_signer_certificate := co\<rparr>"
    show ?thesis
    proof (cases "get_decrypted_data lib ctx ?sec attachments")
      case (Inl x)
      then have "snd (process lib ctx e attachments m) = ?m\<lparr>m_decrypted_data := m_decrypted_data m\<rparr>"
        by (simp add: process_def env ids sgn Let_def)
      then show ?thesis by (intro signed [OF env ids sgn]) auto
    next
      case (Inr decrypted)
      have "\<exists>d. snd (process lib ctx e attachments m) = ?m\<lparr>m_decrypted_data := d\<rparr> \<and> map fst d = map fst decrypted"
        using decompress_parts_frame [of lib _ attachments _ "?m\<lparr>m_decrypted_data := decrypted\<rparr>"]
        by (auto simp: process_def env ids sgn Inr Let_def attempt_def split: sum.splits option.splits)
      with Inr show ?thesis by (auto intro!: signed [OF env ids sgn])
    qed
  qed
qed

text \<open>Whatever \<open>process\<close> returns or raises, a stored signer is one whose signature verified.\<close>

definition signer_verified ::
  "'z message_lib_scheme \<Rightarrow> security_policy \<Rightarrow> xml \<Rightarrow> 'y message_scheme \<Rightarrow> bool" where
  "signer_verified lib policy e m \<longleftrightarrow>
     (\<forall>c. m_signer_certificate m = Some c \<longrightarrow>
       (\<exists>env um s. envelope_of lib e = Inr env \<and> m_soap_envelope m = Some env \<and>
          user_message_of env = Inr (Some um) \<and> distinct (map fst (id_attributes e)) \<and>
          verified_signature lib policy (hdr_security (env_header env)) um (id_attributes e) s c))"

lemma get_verified_signature_cases:
  assumes "get_verified_signature lib ctx sec env ids = Inr (so, co)"
  shows "(so = None \<and> co = None \<and> sec_signature sec = None \<and> \<not> sign_required (ctx_security_policy ctx)) \<or>
    (\<exists>s c um. so = Some s \<and> co = Some c \<and> user_message_of env = Inr (Some um) \<and>
       verified_signature lib (ctx_security_policy ctx) sec um ids s c)"
  using assms
  by (cases "sec_signature sec")
     (auto simp: get_verified_signature_unsigned get_verified_signature_signed split: if_splits)

lemma process_signer_verified:
  assumes "m_signer_certificate m = None"
  shows "signer_verified lib (ctx_security_policy ctx) e (snd (process lib ctx e attachments m))"
proof (cases rule: process_stages [where lib = lib and ctx = ctx and e = e and attachments = attachments and m = m])
  case (early r)
  with assms show ?thesis by (simp add: signer_verified_def)
next
  case (signed env ids so co d)
  with get_verified_signature_cases [OF signed(3)] show ?thesis
    by (auto simp: signer_verified_def result_simps)
qed

lemma process_plaintext:
  assumes "m_decrypted_data m = []" and "sign_required (ctx_security_policy ctx)"
  shows "m_decrypted_data (snd (process lib ctx e attachments m)) = [] \<or>
    (\<exists>c. m_signer_certificate (snd (process lib ctx e attachments m)) = Some c)"
proof (cases rule: process_stages [where lib = lib and ctx = ctx and e = e and attachments = attachments and m = m])
  case (early r)
  with assms show ?thesis by simp
next
  case (signed env ids so co d)
  with get_verified_signature_cases [OF signed(3)] assms show ?thesis by auto
qed

lemma process_frame:
  "m_message_id (snd (process lib ctx e attachments m)) = m_message_id m"
  "m_messaging_id (snd (process lib ctx e attachments m)) = m_messaging_id m"
  "m_addressed_to (snd (process lib ctx e attachments m)) = m_addressed_to m"
  "m_parse_error (snd (process lib ctx e attachments m)) = m_parse_error m"
  "m_mime_attachments (snd (process lib ctx e attachments m)) = attachments"
  by (cases rule: process_stages [where lib = lib and ctx = ctx and e = e and attachments = attachments and m = m];
      simp)+

lemma process_decrypted_keys:
  assumes "m_decrypted_data m = []"
  shows "fst ` set (m_decrypted_data (snd (process lib ctx e attachments m))) \<subseteq> fst ` set attachments"
proof (cases rule: process_stages [where lib = lib and ctx = ctx and e = e and attachments = attachments and m = m])
  case (early r)
  with assms show ?thesis by simp
next
  case (signed env ids so co d)
  then show ?thesis using assms by (auto simp flip: set_map dest!: decrypted_keys)
qed

section \<open>Which exceptions \<open>parse\<close> lets out\<close>

text \<open>What the libraries are documented to raise at the calls the code makes.\<close>

definition reports_validation :: "('a \<Rightarrow> exn + 'b) \<Rightarrow> bool" where
  "reports_validation f \<longleftrightarrow> (\<forall>d e. f d = Inl e \<longrightarrow> (\<exists>x xs. e = ValidationError (x # xs)))"

definition documented_cipher :: "'z message_lib_scheme \<Rightarrow> bool" where
  "documented_cipher lib \<longleftrightarrow>
     (\<forall>k n d e. aesgcm_decrypt lib k n d = Inl e \<longrightarrow> is_value_error e \<or> e = InvalidTag)"

text \<open>
  \<open>load_der_x509_certificate\<close> refuses data that is no certificate and a certificate of an unknown version;
  \<open>public_key\<close> refuses a malformed key and one of a kind the library does not support.
\<close>

definition documented_certificates :: "'z dsig_lib_scheme \<Rightarrow> bool" where
  "documented_certificates lib \<longleftrightarrow>
     (\<forall>d e. load_der_x509 lib d = Inl e \<longrightarrow> (\<exists>t. e = ValueError t \<or> e = InvalidVersion t)) \<and>
     (\<forall>c e. cert_public_key lib c = Inl e \<longrightarrow> (\<exists>t. e = ValueError t \<or> e = UnsupportedAlgorithm t))"

definition documented_lib :: "'z message_lib_scheme \<Rightarrow> bool" where
  "documented_lib lib \<longleftrightarrow>
     reports_validation (validate_envelope lib) \<and> reports_validation (validate_party_to lib) \<and>
     documented_cipher lib \<and> documented_certificates lib \<and>
     (\<forall>c n e. gzip_read lib c n = Inl e \<longrightarrow> is_gzip_error e)"

definition documented_key :: "private_key \<Rightarrow> bool" where
  "documented_key k \<longleftrightarrow> (\<forall>c p e. key_decrypt k c p = Inl e \<longrightarrow> is_value_error e)"

definition refusing_resolver :: "signer_resolver \<Rightarrow> bool" where
  "refusing_resolver r \<longleftrightarrow> (\<forall>pf emb e. r pf emb = Inl e \<longrightarrow> (\<exists>t. e = UntrustedSignerError t))"

text \<open>
  An error the sender can be told: an error signal finds every attribute it carries, and the detail is
  not blank, because the reader of a signal takes a blank ErrorDetail for a missing one.
\<close>

definition tellable :: "receiptable \<Rightarrow> bool" where
  "tellable err \<longleftrightarrow> reportable err \<and> (\<exists>c\<in>set (detail err). \<not> is_space c)"

lemma tellable_make_error:
  "d \<noteq> '''' \<Longrightarrow> tellable (make_error c d) \<longleftrightarrow>
    c \<notin> {BaseAS4ReceiptableError, BaseProfileLevelException} \<and> (\<exists>x\<in>set d. \<not> is_space x)"
  by (simp add: tellable_def reportable_iff make_error_def)

lemmas tellable_text = tellable_make_error is_space_def Let_def digest_mismatch_def reference_target_not_found_def
  duplicate_element_id_def signature_coverage_error_def encrypted_data_not_found_def
  encrypted_attachment_not_found_def part_info_without_mime_part_def unsupported_security_token_type_def
  unsupported_signature_algorithm_def unsupported_encryption_algorithm_def unsupported_transform_def
  unsupported_digest_algorithm_def

lemma tellable_errors [simp]:
  "tellable (digest_mismatch s)" "tellable (reference_target_not_found s)" "tellable (duplicate_element_id s)"
  "tellable (signature_coverage_error ss)" "tellable (encrypted_data_not_found s)"
  "tellable (encrypted_attachment_not_found s)" "tellable (part_info_without_mime_part s)"
  "tellable (unsupported_security_token_type s)" "tellable (unsupported_signature_algorithm s)"
  "tellable (unsupported_encryption_algorithm s)" "tellable (unsupported_transform s)"
  "tellable (unsupported_digest_algorithm s)"
  by (simp_all add: tellable_text)

text \<open>The classes the code raises without an argument declare a detail.\<close>

lemma tellable_bare [simp]:
  "tellable (make_error UserMessageNotFoundException '''')"
  "tellable (make_error PayloadInfoNotFoundException '''')"
  "tellable (make_error MalformedSoapEnvelopeException '''')"
  "tellable (make_error DecompressionFailedException '''')"
  "tellable (make_error DecompressedPayloadTooLargeException '''')"
  "tellable (make_error SignatureSecurityTokenReferenceNotFoundException '''')"
  "tellable (make_error UntrustedSignerException '''')"
  "tellable (make_error SignatureVerificationFailedException '''')"
  "tellable (make_error EncryptedDataReferenceNotFoundException '''')"
  "tellable (make_error CipherValueNotFoundException '''')"
  "tellable (make_error CipherReferenceNotFoundException '''')"
  "tellable (make_error DecryptionFailedException '''')"
  "tellable (make_error SignatureRequiredException '''')"
  "tellable (make_error EncryptionRequiredException '''')"
  by code_simp+

definition is_receiptable :: "exn \<Rightarrow> bool" where
  "is_receiptable e \<longleftrightarrow> (\<exists>r. e = Receiptable r \<and> tellable r)"

lemma receiptable_simps [simp]:
  "is_receiptable (Receiptable r) = tellable r"
  "is_receiptable (receiptable_exn c) = tellable (make_error c '''')"
  by (simp_all add: is_receiptable_def receiptable_exn_def)

lemma raised_receiptable:
  "receiptable_exn c = x \<Longrightarrow> is_receiptable x = tellable (make_error c '''')"
  "Receiptable r = x \<Longrightarrow> is_receiptable x = tellable r"
  by auto

text \<open>What becomes a parse error.\<close>

definition told :: "exn \<Rightarrow> bool" where
  "told e \<longleftrightarrow> (\<exists>r. caught_error e = Inr r \<and> tellable r)"

lemma told_returns: "told e \<Longrightarrow> returns (caught_error e)"
  by (auto simp: told_def)

lemma receiptable_caught: "is_receiptable e \<Longrightarrow> told e"
  by (auto simp: is_receiptable_def told_def caught_error_def)

lemma validation_caught: "reports_validation f \<Longrightarrow> f d = Inl e \<Longrightarrow> told e"
  by (fastforce simp: reports_validation_def told_def caught_error_def from_validation_error_def
      from_pydantic_error_def tellable_text split: if_splits)

lemma option_step_raises:
  "fst (case x of None \<Rightarrow> (Inl e, s) | Some y \<Rightarrow> f y) = Inl z \<longleftrightarrow>
    x = None \<and> z = e \<or> (\<exists>y. x = Some y \<and> fst (f y) = Inl z)"
  by (cases x) auto

lemma option_check_raises:
  "(case x of None \<Rightarrow> Inr () | Some y \<Rightarrow> if b then f y else Inr ()) = Inl z \<longleftrightarrow>
    (\<exists>y. x = Some y \<and> b \<and> f y = Inl z)"
  by (cases x) auto

lemma pre_validate_raises: "pre_validate e = Inl x \<Longrightarrow> is_receiptable x"
  by (auto simp: pre_validate_def tellable_text split: option.splits if_splits)

lemma index_raises: "index_elements_by_id e = Inl x \<Longrightarrow> is_receiptable x"
  by (auto dest!: index_elements_by_id_raises)

lemma user_message_raises: "get_user_message m = Inl x \<Longrightarrow> is_receiptable x"
  by (auto simp: get_user_message_def only_one_def tellable_text split: list.splits)

lemma coverage_raises: "verify_signature_coverage s ids hrefs required = Inl x \<Longrightarrow> is_receiptable x"
  by (auto simp: verify_signature_coverage_def Let_def result_simps)

lemma reference_digest_raises: "verify_reference_digest lib ids r = Inl x \<Longrightarrow> is_receiptable x"
  by (auto simp: verify_reference_digest_def Let_def result_simps receipt_digest_error_def
      split: if_splits option.splits dest!: digest_matches_raises)

lemma attachment_digest_raises: "verify_attachment_digest lib d r = Inl x \<Longrightarrow> is_receiptable x"
  by (auto simp: verify_attachment_digest_def Let_def result_simps receipt_digest_error_def
      split: if_splits option.splits dest!: digest_matches_bytes_raises)

lemma digests_raise:
  "verify_reference_digests lib s ids = Inl x \<Longrightarrow> is_receiptable x"
  "verify_attachment_digests lib s d = Inl x \<Longrightarrow> is_receiptable x"
  by (auto simp: verify_reference_digests_def verify_attachment_digests_def
      dest!: for_each_raises_in reference_digest_raises attachment_digest_raises)

lemma resolve_signer_raises:
  "refusing_resolver (policy_signer_resolver policy) \<Longrightarrow> resolve_signer policy pf emb = Inl x \<Longrightarrow> is_receiptable x"
  by (fastforce simp: refusing_resolver_def resolve_signer_def result_simps)

text \<open>
  The defects of a ds:Signature that no clause of \<open>parse\<close> turns into an error signal, each with the
  exception it raises: no SignatureValue; a token that is no base64, no certificate or one of an unknown
  version; a signer whose public key the library cannot read.
\<close>

definition malformed_signature ::
  "'z dsig_lib_scheme \<Rightarrow> security_policy \<Rightarrow> envelope \<Rightarrow> signature \<Rightarrow> exn \<Rightarrow> bool" where
  "malformed_signature lib policy env s x \<longleftrightarrow>
     (sv_value (sig_signature_value s) = None \<and> (\<exists>t. x = ValueError t)) \<or>
     (\<exists>uri bst. signature_token_uri s = Some uri \<and> find_token (hdr_security (env_header env)) uri = Some bst \<and>
        (token_certificate lib bst = Inl x \<and> (\<exists>t. x = ValueError t \<or> x = InvalidVersion t) \<or>
         (\<exists>embedded um c. token_certificate lib bst = Inr embedded \<and> user_message_of env = Inr (Some um) \<and>
            policy_signer_resolver policy (pi_party_from (um_party_info um)) (Some embedded) = Inr c \<and>
            cert_public_key lib c = Inl x \<and> (\<exists>t. x = ValueError t \<or> x = UnsupportedAlgorithm t))))"

lemma malformed_escapes: "malformed_signature lib policy env s x \<Longrightarrow> caught_error x = Inl x"
  by (auto simp: malformed_signature_def caught_error_def)

lemma token_raises:
  assumes "documented_certificates lib" and "rethrow receipt_token_error (token_certificate lib bst) = Inl x"
  shows "is_receiptable x \<or> (token_certificate lib bst = Inl x \<and> (\<exists>t. x = ValueError t \<or> x = InvalidVersion t))"
  using assms
  by (fastforce simp: token_certificate_def documented_certificates_def result_simps receipt_token_error_def
      split: if_splits dest: b64decode_raises)

lemma verify_with_signer_raises:
  assumes "documented_certificates lib" and "verify_with_signer lib policy s c um ids = Inl x"
  shows "is_receiptable x \<or> sv_value (sig_signature_value s) = None \<and> (\<exists>t. x = ValueError t) \<or>
    cert_public_key lib c = Inl x \<and> (\<exists>t. x = ValueError t \<or> x = UnsupportedAlgorithm t)"
proof -
  have key: "\<exists>t. y = ValueError t \<or> y = UnsupportedAlgorithm t" if "cert_public_key lib c = Inl y" for y
    using assms(1) that by (auto simp: documented_certificates_def)
  from assms(2) consider y where "signature_verify lib s c = Inl y" "x = receipt_signature_error y"
    | ids' hrefs required where "verify_signature_coverage s ids' hrefs required = Inl x"
    | ids' where "verify_reference_digests lib s ids' = Inl x"
    by (auto simp: verify_with_signer_def andThen_eq_Inl rethrow_eq_Inl split: if_splits)
  then show ?thesis
  proof cases
    case (1 y)
    from signature_verify_raises [OF 1(1)] 1(2) key show ?thesis
      by (auto simp: receipt_signature_error_def)
  qed (auto dest: coverage_raises digests_raise)
qed

lemma get_verified_signature_raises:
  assumes "documented_lib lib" and "refusing_resolver (policy_signer_resolver (ctx_security_policy ctx))"
    and "get_verified_signature lib ctx sec env ids = Inl x"
    and "sec = hdr_security (env_header env)"
  shows "is_receiptable x \<or>
    (\<exists>s. sec_signature sec = Some s \<and> malformed_signature lib (ctx_security_policy ctx) env s x)"
proof (cases "sec_signature sec")
  case None
  with assms(3) show ?thesis by (auto simp: get_verified_signature_unsigned split: if_splits)
next
  case (Some s)
  show ?thesis
  proof (cases "or_empty (signature_token_uri s) = ''''")
    case True
    with assms(3) Some show ?thesis
      by (auto simp: get_verified_signature_def Let_def dest: raised_receiptable)
  next
    case False
    then obtain uri where uri: "signature_token_uri s = Some uri" by (auto simp: or_empty_nonempty)
    show ?thesis
    proof (cases "find_token sec uri")
      case None
      with assms(3) Some False uri show ?thesis
        by (auto simp: get_verified_signature_def Let_def dest: raised_receiptable)
    next
      case bst: (Some bst)
      have certificates: "documented_certificates lib" using assms(1) by (simp add: documented_lib_def)
      from bst assms(3) Some False uri consider
          "get_user_message (hdr_messaging (env_header env)) = Inl x"
        | "x = receiptable_exn UserMessageNotFoundException"
        | "rethrow receipt_token_error (token_certificate lib bst) = Inl x"
        | pf emb where "resolve_signer (ctx_security_policy ctx) pf emb = Inl x"
        | embedded um c where "token_certificate lib bst = Inr embedded" "user_message_of env = Inr (Some um)"
          "resolve_signer (ctx_security_policy ctx) (pi_party_from (um_party_info um)) (Some embedded) = Inr c"
          "verify_with_signer lib (ctx_security_policy ctx) s c um ids = Inl x"
        by (auto simp: get_verified_signature_def Let_def andThen_eq_Inl rethrow_eq_Inr user_message_of_def
            split: option.splits)
      then show ?thesis
      proof cases
        case 1
        then show ?thesis by (simp add: user_message_raises)
      next
        case 2
        then show ?thesis by simp
      next
        case 3
        from token_raises [OF certificates this] bst uri Some show ?thesis
          by (auto simp: malformed_signature_def assms(4))
      next
        case (4 pf emb)
        from resolve_signer_raises [OF assms(2) this] show ?thesis ..
      next
        case (5 embedded um c)
        from 5(3) have "policy_signer_resolver (ctx_security_policy ctx) (pi_party_from (um_party_info um)) (Some embedded) =
            Inr c"
          by (simp add: resolve_signer_def rethrow_eq_Inr)
        with verify_with_signer_raises [OF certificates 5(4)] 5(1,2) Some bst uri show ?thesis
          by (auto simp: malformed_signature_def assms(4))
      qed
    qed
  qed
qed

lemma session_key_raises:
  "documented_key (private_key_of (ip_credentials p)) \<Longrightarrow> session_key_of p s = Inl x \<Longrightarrow>
   x = receiptable_exn DecryptionFailedException"
  by (auto simp: session_key_of_def documented_key_def decryption_failed_def result_simps
      dest!: b64decode_raises_value_error)

lemma decrypt_reference_raises:
  "documented_cipher lib \<Longrightarrow> decrypt_reference lib sec attachments key r = Inl x \<Longrightarrow> is_receiptable x"
  by (auto simp: decrypt_reference_def documented_cipher_def aesgcm_failed_def Let_def result_simps
      split: if_splits option.splits)

lemma decrypt_loop_raises:
  "documented_cipher lib \<Longrightarrow> decrypt_loop lib sec attachments key rs d = Inl x \<Longrightarrow> is_receiptable x"
  by (induction rs arbitrary: d) (auto simp: result_simps dest: decrypt_reference_raises)

lemma get_decrypted_data_raises:
  assumes "documented_cipher lib" and "documented_key (private_key_of (ip_credentials (ctx_local_party ctx)))"
    and "get_decrypted_data lib ctx sec attachments = Inl x"
  shows "is_receiptable x"
  using assms(3)
  by (auto simp: get_decrypted_data_def Let_def andThen_eq_Inl split: option.splits if_splits
      dest: raised_receiptable session_key_raises [OF assms(2)] decrypt_loop_raises [OF assms(1)])

lemma decompress_parts_raises:
  "documented_lib lib \<Longrightarrow> fst (decompress_parts lib cap attachments ps m) = Inl x \<Longrightarrow> is_receiptable x"
proof (induction ps arbitrary: m)
  case Nil
  then show ?case by simp
next
  case (Cons p ps)
  have "is_receiptable e" if "decompress lib pp c cap = Inl e" for pp c e
    using that Cons.prems(1)
    by (auto simp: decompress_def documented_lib_def result_simps receiptable_exn_def split: if_splits)
  with Cons show ?case
    by (auto simp: decompress_parts_Cons attempt_raises split: if_splits option.splits)
qed

lemma process_raises:
  fixes m :: "'y message_scheme"
  assumes "documented_lib lib" and "documented_key (private_key_of (ip_credentials (ctx_local_party ctx)))"
    and "refusing_resolver (policy_signer_resolver (ctx_security_policy ctx))"
    and "fst (process lib ctx e attachments m) = Inl x"
  shows "told x \<or>
    (\<exists>env s. envelope_of lib e = Inr env \<and> sec_signature (hdr_security (env_header env)) = Some s \<and>
       malformed_signature lib (ctx_security_policy ctx) env s x)"
proof (cases "envelope_of lib e")
  case (Inl y)
  with assms(1,4) show ?thesis
    by (auto simp: process_def Let_def envelope_of_def documented_lib_def dest: validation_caught)
next
  case (Inr env)
  have cipher: "documented_cipher lib" using assms(1) by (simp add: documented_lib_def)
  from Inr assms(4) consider
      "index_elements_by_id e = Inl x"
    | ids where "get_verified_signature lib ctx (hdr_security (env_header env)) env ids = Inl x"
    | "get_decrypted_data lib ctx (hdr_security (env_header env)) attachments = Inl x"
    | s d where "verify_attachment_digests lib s d = Inl x"
    | "get_user_message (hdr_messaging (env_header env)) = Inl x"
    | "x = receiptable_exn UserMessageNotFoundException \<or> x = receiptable_exn PayloadInfoNotFoundException"
    | ps m' where "fst (decompress_parts lib (maximum_decompressed_size (ctx_security_policy ctx)) attachments ps
        (m' :: 'y message_scheme)) = Inl x"
    unfolding process_def Let_def
    by (simp add: attempt_raises option_step_raises option_check_raises split_paired_Ex) (elim disjE exE conjE; blast)
  then show ?thesis
  proof cases
    case 2
    from get_verified_signature_raises [OF assms(1,3) this refl] Inr show ?thesis
      by (auto dest: receiptable_caught)
  qed (use assms cipher in \<open>auto intro!: receiptable_caught dest: index_raises get_decrypted_data_raises digests_raise
        user_message_raises decompress_parts_raises\<close>)
qed

end
