(* ===== verification/Parsing.thy ===== *)
theory Parsing
  imports Processing
begin

text \<open>
  What \<open>parse\<close> guarantees, for the core \<open>process\<close> and for any override of it: the locale
  \<open>message_process\<close> states what \<open>parse\<close> needs of a \<open>process\<close>, the lemmas inside it hold of every
  message \<open>parse\<close> hands out, and the properties of \<open>parse_message\<close> follow from its interpretation.
\<close>

section \<open>The interface \<open>parse\<close> asks of \<open>process\<close>\<close>

lemma truncate_fields:
  assumes "message.truncate m = message.truncate m'"
  shows "m_soap_envelope m = m_soap_envelope m'" "m_mime_attachments m = m_mime_attachments m'"
    "m_decrypted_data m = m_decrypted_data m'" "m_message_id m = m_message_id m'"
    "m_messaging_id m = m_messaging_id m'" "m_addressed_to m = m_addressed_to m'"
    "m_signer_certificate m = m_signer_certificate m'" "m_parse_error m = m_parse_error m'"
  using assms by (simp_all add: message.truncate_def)

lemma truncate_empty:
  assumes "message.truncate m = empty_message"
  shows "m_soap_envelope m = None" "m_decrypted_data m = []" "m_signer_certificate m = None"
    "m_message_id m = ''''" "m_messaging_id m = ''''" "m_addressed_to m = None" "m_parse_error m = None"
    "m_mime_attachments m = []"
  using assms by (simp_all add: message.truncate_def empty_message_def)

text \<open>
  An override of \<open>process\<close> runs the core one first, leaves the fields of the core message as the
  core one stored them, and returns only when the core one did.
\<close>

locale message_process =
  fixes lib :: "'z message_lib_scheme"
    and ctx :: parse_context
    and virtual_process :: "xml \<Rightarrow> (string, bytes) dict \<Rightarrow> 'y message_scheme \<Rightarrow> (exn + unit) \<times> 'y message_scheme"
    and fresh :: "'y message_scheme"
  assumes refines: "\<exists>r m0. process lib ctx e attachments m = (r, m0) \<and>
      message.truncate (snd (virtual_process e attachments m)) = message.truncate m0 \<and>
      (returns (fst (virtual_process e attachments m)) \<longrightarrow> returns r)"
    and fresh_empty: "message.truncate fresh = empty_message"
begin

abbreviation policy :: security_policy where
  "policy \<equiv> ctx_security_policy ctx"

lemma parse_body_cases:
  obtains (early) x m where "parse_body lib virtual_process soap attachments fresh = (Inl x, m)"
    "m_signer_certificate m = None" "m_decrypted_data m = []" "m_soap_envelope m = None"
  | (processed) e i j to m0 where "parse_xml lib soap = Inr e" "pre_validate e = Inr (i, j)"
    "get_addressed_to lib (find_first e PARTY_TO_PATH) = Inr to"
    "m0 = fresh\<lparr>m_message_id := i, m_messaging_id := j, m_addressed_to := Some to\<rparr>"
    "parse_body lib virtual_process soap attachments fresh = virtual_process e attachments m0"
proof (cases "parse_xml lib soap")
  case (Inl x)
  then have "parse_body lib virtual_process soap attachments fresh = (Inl x, fresh)"
    by (simp add: parse_body_def)
  then show ?thesis by (rule early) (simp_all add: truncate_empty [OF fresh_empty])
next
  case e: (Inr e)
  show ?thesis
  proof (cases "pre_validate e")
    case (Inl x)
    with e have "parse_body lib virtual_process soap attachments fresh = (Inl x, fresh)"
      by (simp add: parse_body_def)
    then show ?thesis by (rule early) (simp_all add: truncate_empty [OF fresh_empty])
  next
    case (Inr ids)
    then obtain i j where ids: "pre_validate e = Inr (i, j)" by (cases ids) simp
    show ?thesis
    proof (cases "get_addressed_to lib (find_first e PARTY_TO_PATH)")
      case (Inl x)
      with e ids have "parse_body lib virtual_process soap attachments fresh =
          (Inl x, fresh\<lparr>m_message_id := i, m_messaging_id := j\<rparr>)"
        by (simp add: parse_body_def Let_def)
      then show ?thesis by (rule early) (simp_all add: truncate_empty [OF fresh_empty])
    next
      case (Inr to)
      with e ids show ?thesis by (intro processed [OF e ids Inr refl]) (simp add: parse_body_def Let_def)
    qed
  qed
qed

lemma parse_outcome:
  assumes "parse lib virtual_process fresh soap attachments = Inr m"
  obtains r m1 err where "parse_body lib virtual_process soap attachments fresh = (r, m1)"
    "m = m1\<lparr>m_parse_error := err\<rparr>" "err = None \<longleftrightarrow> returns r"
proof (cases "parse_body lib virtual_process soap attachments fresh")
  case (Pair r m1)
  with assms that show ?thesis
    by (cases r) (auto simp: parse_def result_simps)
qed

lemma parse_cases [consumes 1, case_names early processed]:
  assumes "parse lib virtual_process fresh soap attachments = Inr m"
  obtains (early) "\<not> parse_successful m" "m_signer_certificate m = None" "m_decrypted_data m = []"
    "m_soap_envelope m = None"
  | (processed) e i j to r and m0 m1 :: "'y message_scheme" where "parse_xml lib soap = Inr e" "pre_validate e = Inr (i, j)"
    "get_addressed_to lib (find_first e PARTY_TO_PATH) = Inr to"
    "m_signer_certificate m0 = None" "m_decrypted_data m0 = []"
    "m_message_id m0 = i" "m_messaging_id m0 = j" "m_addressed_to m0 = Some to"
    "process lib ctx e attachments m0 = (r, m1)"
    "message.truncate (m\<lparr>m_parse_error := None\<rparr>) = message.truncate m1"
    "parse_successful m \<longrightarrow> returns r"
proof -
  from assms obtain r m1 err where body: "parse_body lib virtual_process soap attachments fresh = (r, m1)"
    and m: "m = m1\<lparr>m_parse_error := err\<rparr>" and err: "err = None \<longleftrightarrow> returns r"
    by (rule parse_outcome)
  show ?thesis
  proof (cases rule: parse_body_cases [of soap attachments])
    case (early x m')
    with body m err show ?thesis
      by (intro that(1)) (auto simp: parse_successful_def)
  next
    case (processed e i j to m0)
    obtain r' m' where run: "process lib ctx e attachments m0 = (r', m')"
      and trunc: "message.truncate m1 = message.truncate m'" and ret: "returns r \<longrightarrow> returns r'"
      using refines [of e attachments m0] body processed(5) by auto
    have "m_parse_error m' = None"
      using process_frame(4) [of lib ctx e attachments m0] run processed(4) truncate_empty(7) [OF fresh_empty]
      by simp
    with trunc m have "message.truncate (m\<lparr>m_parse_error := None\<rparr>) = message.truncate m'"
      by (cases m1; cases m') (simp add: message.truncate_def)
    with processed run ret err show ?thesis
      by (intro that(2) [of e i j to m0 r' m'])
        (auto simp: m parse_successful_def truncate_empty [OF fresh_empty])
  qed
qed

lemma signer_is_verified:
  assumes "parse lib virtual_process fresh soap attachments = Inr m" and "m_signer_certificate m = Some c"
  obtains e env um s where "parse_xml lib soap = Inr e" "envelope_of lib e = Inr env"
    "m_soap_envelope m = Some env" "user_message_of env = Inr (Some um)"
    "distinct (map fst (id_attributes e))"
    "verified_signature lib policy (hdr_security (env_header env)) um (id_attributes e) s c"
  using assms(1)
proof (cases rule: parse_cases)
  case early
  with assms(2) show ?thesis by simp
next
  case (processed e i j to r m0 m1)
  from process_signer_verified [OF processed(4), of lib ctx e attachments] processed(9,10) assms(2)
  have "signer_verified lib policy e m1" "m_signer_certificate m1 = Some c" "m_soap_envelope m = m_soap_envelope m1"
    by (auto dest: truncate_fields)
  with processed(1) show ?thesis by (auto simp: signer_verified_def intro: that)
qed

lemma plaintext_is_signed:
  assumes "parse lib virtual_process fresh soap attachments = Inr m" and "sign_required policy"
    and "m_decrypted_data m \<noteq> []"
  shows "\<exists>c. m_signer_certificate m = Some c"
  using assms(1)
proof (cases rule: parse_cases)
  case early
  with assms(3) show ?thesis by simp
next
  case (processed e i j to r m0 m1)
  from process_plaintext [OF processed(5) assms(2), of lib e attachments] processed(9,10) assms(3)
  show ?thesis by (auto dest: truncate_fields)
qed

lemma plaintext_of_attachments:
  assumes "parse lib virtual_process fresh soap attachments = Inr m"
  shows "fst ` set (m_decrypted_data m) \<subseteq> fst ` set attachments"
  using assms
proof (cases rule: parse_cases)
  case early
  then show ?thesis by simp
next
  case (processed e i j to r m0 m1)
  from process_decrypted_keys [OF processed(5), of lib ctx e attachments] processed(9)
    truncate_fields(3) [OF processed(10)]
  show ?thesis by simp
qed

text \<open>An accepted message: every stage of \<open>process\<close> returned, and the message holds its results.\<close>

lemma accepted:
  assumes "parse lib virtual_process fresh soap attachments = Inr m" and "parse_successful m"
  obtains e env um pl so decrypted and m0 m1 :: "'y message_scheme" where
    "parse_xml lib soap = Inr e" "pre_validate e = Inr (m_message_id m, m_messaging_id m)"
    "envelope_of lib e = Inr env" "m_soap_envelope m = Some env" "distinct (map fst (id_attributes e))"
    "get_verified_signature lib ctx (hdr_security (env_header env)) env (id_attributes e) =
       Inr (so, m_signer_certificate m)"
    "get_decrypted_data lib ctx (hdr_security (env_header env)) attachments = Inr decrypted"
    "so \<noteq> None \<longrightarrow> verify_digests policy \<longrightarrow> verify_attachment_digests lib (the so) decrypted = Inr ()"
    "user_message_of env = Inr (Some um)" "um_payload_info um = Some pl" "m_decrypted_data m0 = decrypted"
    "decompress_parts lib (maximum_decompressed_size policy) attachments (pl_part_info pl) m0 = (Inr (), m1)"
    "m_decrypted_data m = m_decrypted_data m1"
    "\<exists>to. get_addressed_to lib (find_first e PARTY_TO_PATH) = Inr to \<and> m_addressed_to m = Some to"
    "m_mime_attachments m = attachments"
  using assms(1)
proof (cases rule: parse_cases)
  case early
  with assms(2) show ?thesis by simp
next
  case (processed e i j to r m0 m1)
  from assms(2) processed(11) have r: "r = Inr ()" by (auto simp: returns_iff)
  from truncate_fields [OF processed(10)]
  have same: "m_soap_envelope m = m_soap_envelope m1" "m_decrypted_data m = m_decrypted_data m1"
    "m_message_id m = m_message_id m1" "m_messaging_id m = m_messaging_id m1"
    "m_addressed_to m = m_addressed_to m1" "m_signer_certificate m = m_signer_certificate m1"
    "m_mime_attachments m = m_mime_attachments m1" by simp_all
  have frame: "m_message_id m1 = i" "m_messaging_id m1 = j" "m_addressed_to m1 = Some to"
    "m_mime_attachments m1 = attachments"
    using process_frame [of lib ctx e attachments m0] processed(6-9) by simp_all
  from processed(9) have "process lib ctx e attachments m0 = (Inr (), m1)" by (simp add: r)
  then obtain env ids so co decrypted um pl where run:
    "envelope_of lib e = Inr env" "index_elements_by_id e = Inr ids"
    "get_verified_signature lib ctx (hdr_security (env_header env)) env ids = Inr (so, co)"
    "get_decrypted_data lib ctx (hdr_security (env_header env)) attachments = Inr decrypted"
    "\<forall>s. so = Some s \<longrightarrow> verify_digests policy \<longrightarrow> verify_attachment_digests lib s decrypted = Inr ()"
    "user_message_of env = Inr (Some um)" "um_payload_info um = Some pl"
    "decompress_parts lib (maximum_decompressed_size policy) attachments (pl_part_info pl)
         (m0\<lparr>m_mime_attachments := attachments, m_soap_envelope := Some env,
           m_signer_certificate := co, m_decrypted_data := decrypted\<rparr>) = (Inr (), m1)"
    unfolding process_returns by blast
  obtain d where "m1 = m0\<lparr>m_mime_attachments := attachments, m_soap_envelope := Some env,
           m_signer_certificate := co, m_decrypted_data := d\<rparr>"
    using decompress_parts_frame [of lib "maximum_decompressed_size policy" attachments "pl_part_info pl"
      "m0\<lparr>m_mime_attachments := attachments, m_soap_envelope := Some env,
           m_signer_certificate := co, m_decrypted_data := decrypted\<rparr>"] run(8) by auto
  then have stored: "m_soap_envelope m1 = Some env" "m_signer_certificate m1 = co" by simp_all
  from run(2) have ids: "ids = id_attributes e" "distinct (map fst (id_attributes e))"
    by (simp_all add: result_simps)
  show ?thesis
    by (rule that [OF processed(1) _ run(1) _ ids(2) _ run(4) _ run(6,7) _ run(8)])
      (use processed(2,3) run(3,5) ids same frame stored in auto)
qed

end

context message_process
begin

lemma payload_is_signed:
  assumes "parse lib virtual_process fresh soap attachments = Inr m" and "parse_successful m"
    and "sign_required policy" and "verify_digests policy"
    and "''payloads'' \<in> required_coverage policy"
    and "m_soap_envelope m = Some env" and "user_message_of env = Inr (Some um)"
    and "um_payload_info um = Some pl" and "p \<in> set (declared_parts (pl_part_info pl))"
  shows "\<exists>s r decrypted content plain.
    sec_signature (hdr_security (env_header env)) = Some s \<and> r \<in> set (si_references (sig_signed_info s)) \<and>
    reference_uri r = or_empty (part_href p) \<and>
    get_decrypted_data lib ctx (hdr_security (env_header env)) attachments = Inr decrypted \<and>
    dict_get decrypted (part_identifier p) = Some content \<and> digest_matches_bytes lib r content = Inr True \<and>
    inflations lib (maximum_decompressed_size policy) (parts_named (part_identifier p) (pl_part_info pl)) content =
      Inr plain \<and>
    dict_get (m_decrypted_data m) (part_identifier p) = Some plain"
proof -
  let ?policy = policy
  from assms(1,2) obtain e env' um' pl' so decrypted and m0 m1 :: "'y message_scheme" where
    env': "m_soap_envelope m = Some env'" "user_message_of env' = Inr (Some um')" "um_payload_info um' = Some pl'"
    and sgn: "get_verified_signature lib ctx (hdr_security (env_header env')) env' (id_attributes e) =
       Inr (so, m_signer_certificate m)"
    and dec: "get_decrypted_data lib ctx (hdr_security (env_header env')) attachments = Inr decrypted"
    and att: "so \<noteq> None \<longrightarrow> verify_digests ?policy \<longrightarrow> verify_attachment_digests lib (the so) decrypted = Inr ()"
    and parts: "m_decrypted_data m0 = decrypted"
      "decompress_parts lib (maximum_decompressed_size ?policy) attachments (pl_part_info pl') m0 = (Inr (), m1)"
      "m_decrypted_data m = m_decrypted_data m1"
    by (rule accepted)
  with assms(6-8) have same: "env' = env" "um' = um" "pl' = pl" by auto
  with sgn get_verified_signature_cases [OF sgn] assms(3,7) obtain s c where so: "so = Some s"
    and ver: "verified_signature lib ?policy (hdr_security (env_header env)) um (id_attributes e) s c"
    by auto
  from assms(8,9) have href: "or_empty (part_href p) \<in> payload_hrefs um"
    by (auto simp: payload_hrefs_def declared_parts_def or_empty_def split: option.splits)
       metis
  from ver assms(5) have "''payloads'' \<in> signature_coverage s (id_attributes e) (payload_hrefs um)"
    by (auto simp: verified_signature_def)
  with href obtain r where r: "r \<in> set (si_references (sig_signed_info s))" "names_attachment r"
    "reference_uri r = or_empty (part_href p)"
    unfolding covers_payloads by blast
  with att so assms(4) obtain content where content:
    "dict_get decrypted (part_identifier p) = Some content" "digest_matches_bytes lib r content = Inr True"
    by (auto simp: verify_attachment_digests_eq_Inr attachment_signed_def part_identifier_def)
  obtain plain where "inflations lib (maximum_decompressed_size ?policy)
      (parts_named (part_identifier p) (pl_part_info pl)) content = Inr plain"
    "dict_get (m_decrypted_data m) (part_identifier p) = Some plain"
    using decompress_parts_content [OF parts(2)] same parts(1,3) content(1) by metis
  moreover from ver have "sec_signature (hdr_security (env_header env)) = Some s"
    by (simp add: verified_signature_def)
  ultimately show ?thesis using r content dec same(1) by blast
qed

end

interpretation core: message_process lib ctx "process lib ctx" empty_message for lib ctx
proof unfold_locales
  show "\<exists>r m0. process lib ctx e attachments m = (r, m0) \<and>
      message.truncate (snd (process lib ctx e attachments m)) = message.truncate m0 \<and>
      (returns (fst (process lib ctx e attachments m)) \<longrightarrow> returns r)" for e attachments and m :: message
    by (cases "process lib ctx e attachments m") auto
  show "message.truncate empty_message = empty_message"
    by (simp add: message.truncate_def empty_message_def)
qed

text \<open>The clients of a resolver that trusts.\<close>

context trusting_resolver
begin

lemma signer_is_trusted:
  "verified_signature lib policy sec um ids s c \<Longrightarrow> policy_signer_resolver policy = resolve \<Longrightarrow>
   trusted (pi_party_from (um_party_info um)) c"
  by (auto simp: verified_signature_def intro: resolved_trusted)

end

section \<open>Properties of \<open>AS4Message.parse\<close>\<close>

text \<open>
  C1.  A message that parses successfully under a policy that requires a signature and verifies
  digests is authentic: its ids in the document are unique, the certificate it reports was accepted
  by the policy's resolver for the eb:From party, the signature verifies under that certificate and
  covers everything the policy requires, every signed element of the document has the signed digest,
  and so has every signed attachment after decryption.
\<close>

theorem accepted_message_is_authentic:
  assumes "parse_message lib ctx soap attachments = Inr m" and "parse_successful m"
    and "sign_required (ctx_security_policy ctx)" and "verify_digests (ctx_security_policy ctx)"
  shows "\<exists>e env um s c decrypted.
    parse_xml lib soap = Inr e \<and> envelope_of lib e = Inr env \<and> m_soap_envelope m = Some env \<and>
    user_message_of env = Inr (Some um) \<and> m_signer_certificate m = Some c \<and>
    distinct (map fst (id_attributes e)) \<and>
    verified_signature lib (ctx_security_policy ctx) (hdr_security (env_header env)) um (id_attributes e) s c \<and>
    get_decrypted_data lib ctx (hdr_security (env_header env)) attachments = Inr decrypted \<and>
    (\<forall>r\<in>set (si_references (sig_signed_info s)). names_attachment r \<longrightarrow> attachment_signed lib decrypted r)"
proof -
  from assms(1,2) [unfolded parse_message_def] obtain e env um pl so decrypted where
    acc: "parse_xml lib soap = Inr e" "envelope_of lib e = Inr env" "m_soap_envelope m = Some env"
      "distinct (map fst (id_attributes e))" "user_message_of env = Inr (Some um)"
      "get_decrypted_data lib ctx (hdr_security (env_header env)) attachments = Inr decrypted"
    and sgn: "get_verified_signature lib ctx (hdr_security (env_header env)) env (id_attributes e) =
       Inr (so, m_signer_certificate m)"
    and att: "so \<noteq> None \<longrightarrow> verify_digests (ctx_security_policy ctx) \<longrightarrow>
       verify_attachment_digests lib (the so) decrypted = Inr ()"
    by (rule core.accepted)
  from get_verified_signature_cases [OF sgn] assms(3) acc(5) obtain s c where
    "so = Some s" "m_signer_certificate m = Some c"
    "verified_signature lib (ctx_security_policy ctx) (hdr_security (env_header env)) um (id_attributes e) s c"
    by auto
  with acc att assms(4) show ?thesis by (auto simp: result_simps)
qed

text \<open>
  C2.  When the policy also requires the payloads to be covered, the content the message hands out
  for a declared part comes from bytes the sender signed: the verified signature has a reference to the
  part whose digest the decrypted attachment has, and the content is that attachment put through the
  decompressions of all the declared parts of this identifier, in their order (through one of them when
  no other part has the same href).
\<close>

theorem accepted_payload_is_signed:
  assumes "parse_message lib ctx soap attachments = Inr m" and "parse_successful m"
    and "sign_required (ctx_security_policy ctx)" and "verify_digests (ctx_security_policy ctx)"
    and "''payloads'' \<in> required_coverage (ctx_security_policy ctx)"
    and "m_soap_envelope m = Some env" and "user_message_of env = Inr (Some um)"
    and "um_payload_info um = Some pl" and "p \<in> set (declared_parts (pl_part_info pl))"
  shows "\<exists>s r decrypted content plain.
    sec_signature (hdr_security (env_header env)) = Some s \<and> r \<in> set (si_references (sig_signed_info s)) \<and>
    reference_uri r = or_empty (part_href p) \<and>
    get_decrypted_data lib ctx (hdr_security (env_header env)) attachments = Inr decrypted \<and>
    dict_get decrypted (part_identifier p) = Some content \<and> digest_matches_bytes lib r content = Inr True \<and>
    inflations lib (maximum_decompressed_size (ctx_security_policy ctx))
      (parts_named (part_identifier p) (pl_part_info pl)) content = Inr plain \<and>
    dict_get (m_decrypted_data m) (part_identifier p) = Some plain"
  using core.payload_is_signed [OF assms(1) [unfolded parse_message_def] assms(2-9)] .

text \<open>
  C21.  Whether the parse succeeds or ends in a parse error, a message reports a signer certificate
  only when its signature verified under it, so a remote party is never named for a message whose
  signature was not checked.
\<close>

theorem signer_only_after_verification:
  assumes "parse_message lib ctx soap attachments = Inr m" and "m_signer_certificate m = Some c"
  shows "\<exists>e env um s. parse_xml lib soap = Inr e \<and> envelope_of lib e = Inr env \<and>
    m_soap_envelope m = Some env \<and> user_message_of env = Inr (Some um) \<and>
    verified_signature lib (ctx_security_policy ctx) (hdr_security (env_header env)) um (id_attributes e) s c \<and>
    get_remote_party m = Inr \<lparr>xp_identity = identity_of_from (pi_party_from (um_party_info um)),
      xp_credentials = \<lparr>certificate_of = c\<rparr>\<rparr>"
proof -
  from assms [unfolded parse_message_def] obtain e env um s where
    "parse_xml lib soap = Inr e" "envelope_of lib e = Inr env" "m_soap_envelope m = Some env"
    "user_message_of env = Inr (Some um)"
    "verified_signature lib (ctx_security_policy ctx) (hdr_security (env_header env)) um (id_attributes e) s c"
    by (rule core.signer_is_verified)
  with assms(2) show ?thesis by (auto simp: get_remote_party_def)
qed

text \<open>
  C22.  Under a policy that requires a signature no plaintext of an unverified message is kept: on
  every outcome, decrypted data beside a missing signer certificate is empty, and it never holds
  more than the attachments the message came with.
\<close>

theorem no_unauthenticated_plaintext:
  assumes "parse_message lib ctx soap attachments = Inr m" and "sign_required (ctx_security_policy ctx)"
  shows "(m_signer_certificate m = None \<longrightarrow> m_decrypted_data m = []) \<and>
    fst ` set (m_decrypted_data m) \<subseteq> fst ` set attachments"
  using core.plaintext_is_signed [OF assms(1) [unfolded parse_message_def] assms(2)]
    core.plaintext_of_attachments [OF assms(1) [unfolded parse_message_def]]
  by fastforce

text \<open>
  C3.  When exactly one element of the document is an eb:Messaging, coverage by tag is coverage of
  the header block the message was read from: a signed reference names it and its digest matches.
\<close>

theorem header_messaging_is_signed:
  assumes "parse_message lib ctx soap attachments = Inr m" and "parse_successful m"
    and "sign_required (ctx_security_policy ctx)" and "verify_digests (ctx_security_policy ctx)"
    and "''messaging'' \<in> required_coverage (ctx_security_policy ctx)"
    and "parse_xml lib soap = Inr e"
    and "\<forall>t\<in>set (iter e). \<forall>t'\<in>set (iter e). tag t = Clark (clark ns_eb3 ''Messaging'') \<longrightarrow>
      tag t' = Clark (clark ns_eb3 ''Messaging'') \<longrightarrow> t = t'"
  shows "\<exists>t env s r. find_first e MESSAGING_PATH = Some t \<and> m_soap_envelope m = Some env \<and>
    sec_signature (hdr_security (env_header env)) = Some s \<and> r \<in> set (si_references (sig_signed_info s)) \<and>
    names_element (id_attributes e) r t \<and> digest_matches lib r t = Inr True"
proof -
  let ?policy = "ctx_security_policy ctx"
  from assms(1,2) [unfolded parse_message_def] obtain e' env um pl so decrypted where
    e': "parse_xml lib soap = Inr e'" "pre_validate e' = Inr (m_message_id m, m_messaging_id m)"
    and env: "m_soap_envelope m = Some env" "user_message_of env = Inr (Some um)"
      "distinct (map fst (id_attributes e'))"
    and sgn: "get_verified_signature lib ctx (hdr_security (env_header env)) env (id_attributes e') =
       Inr (so, m_signer_certificate m)"
    by (rule core.accepted)
  with assms(6) have same: "e' = e" by simp
  from e'(2) same obtain t where t: "find_first e MESSAGING_PATH = Some t"
    by (auto simp: pre_validate_def Let_def split: option.splits)
  then have in_t: "t \<in> set (iter e)" "tag t = Clark (clark ns_eb3 ''Messaging'')"
    using find_first_tag [of e "[step ''S12'' ''Header'']" "step ''eb3'' ''Messaging''" t]
    by (auto simp: MESSAGING_PATH_def step_def NAMESPACES_def dest: find_first_iter)
  from get_verified_signature_cases [OF sgn] assms(3) same env(2) obtain s c where
    ver: "verified_signature lib ?policy (hdr_security (env_header env)) um (id_attributes e) s c"
    by auto
  with assms(5) have "''messaging'' \<in> signature_coverage s (id_attributes e) (payload_hrefs um)"
    by (auto simp: verified_signature_def)
  then obtain r t' where r: "r \<in> set (si_references (sig_signed_info s))"
    "names_element (id_attributes e) r t'" "tag t' = Clark (clark ns_eb3 ''Messaging'')"
    unfolding covers_messaging by blast
  then have "t' \<in> set (iter e)"
    by (auto simp: names_element_def id_attributes_iff dest!: map_of_SomeD)
  with in_t r assms(7) have "t' = t" by blast
  moreover from ver assms(4) r have "names_attachment r \<or> element_signed lib (id_attributes e) r"
    by (auto simp: verified_signature_def)
  ultimately have "digest_matches lib r t = Inr True"
    using r by (auto simp: element_signed_def names_element_def)
  with t env ver r \<open>t' = t\<close> show ?thesis by (auto simp: verified_signature_def)
qed

context message_process
begin

lemma raised_in_body:
  assumes "documented_lib lib" and "fst (parse_body lib virtual_process soap attachments m) = Inl y"
  obtains "told y" | e and m0 :: "'y message_scheme" where "parse_xml lib soap = Inr e"
    "fst (virtual_process e attachments m0) = Inl y"
proof (cases "parse_xml lib soap")
  case (Inl z)
  with assms(2) have "y = XMLSyntaxError"
    by (auto simp: parse_body_def parse_xml_def split: option.splits)
  then have "told y" by (simp add: told_def caught_error_def)
  then show ?thesis by (rule that)
next
  case e: (Inr e)
  with assms(2) consider "pre_validate e = Inl y"
    | "get_addressed_to lib (find_first e PARTY_TO_PATH) = Inl y"
    | m0 where "fst (virtual_process e attachments m0) = Inl y"
    by (auto simp: parse_body_def Let_def attempt_raises)
  then show ?thesis
  proof cases
    case 1
    with that show ?thesis by (auto dest: pre_validate_raises receiptable_caught)
  next
    case 2
    have "reports_validation (validate_party_to lib)" using assms(1) by (simp add: documented_lib_def)
    with 2 have "told y"
      by (cases "find_first e PARTY_TO_PATH")
        (auto simp: get_addressed_to_def tellable_text result_simps intro: receiptable_caught dest: validation_caught)
    then show ?thesis by (rule that)
  next
    case 3
    from that(2) [OF e 3] show ?thesis .
  qed
qed

lemma escapes_from_process:
  assumes "documented_lib lib" and "parse lib virtual_process fresh soap attachments = Inl x"
  obtains e y and m0 :: "'y message_scheme" where "parse_xml lib soap = Inr e" "fst (virtual_process e attachments m0) = Inl y"
    "caught_error y = Inl x"
proof -
  obtain r m1 where body: "parse_body lib virtual_process soap attachments fresh = (r, m1)"
    by (cases "parse_body lib virtual_process soap attachments fresh")
  from assms(2) body obtain y where y: "r = Inl y" "caught_error y = Inl x"
    by (auto simp: parse_def result_simps split: sum.splits)
  with body have "fst (parse_body lib virtual_process soap attachments fresh) = Inl y" by simp
  from assms(1) this show ?thesis
    by (rule raised_in_body) (use y(2) that in \<open>auto simp: told_def\<close>)
qed

lemma stored_error_is_raised:
  assumes "documented_lib lib" and "parse lib virtual_process fresh soap attachments = Inr m"
    and "m_parse_error m = Some err"
  obtains "tellable err" | e y and m0 :: "'y message_scheme" where "parse_xml lib soap = Inr e"
    "fst (virtual_process e attachments m0) = Inl y" "caught_error y = Inr err"
proof -
  obtain r m1 where body: "parse_body lib virtual_process soap attachments fresh = (r, m1)"
    by (cases "parse_body lib virtual_process soap attachments fresh")
  from assms(2,3) body obtain y where y: "r = Inl y" "caught_error y = Inr err"
    by (cases r) (auto simp: parse_def result_simps)
  with body have "fst (parse_body lib virtual_process soap attachments fresh) = Inl y" by simp
  from assms(1) this show ?thesis
    by (rule raised_in_body) (use y(2) that in \<open>auto simp: told_def\<close>)
qed

lemma ids_are_kept:
  assumes "parse lib virtual_process fresh soap attachments = Inr m"
  shows "(m_message_id m, m_messaging_id m) =
    (case andThen (parse_xml lib soap) pre_validate of Inl _ \<Rightarrow> ('''', '''') | Inr ids \<Rightarrow> ids)"
proof -
  from assms obtain r m1 err where body: "parse_body lib virtual_process soap attachments fresh = (r, m1)"
    and m: "m = m1\<lparr>m_parse_error := err\<rparr>"
    by (rule parse_outcome)
  show ?thesis
  proof (cases "andThen (parse_xml lib soap) pre_validate")
    case (Inl y)
    with body have "m1 = fresh"
      by (cases "parse_xml lib soap") (auto simp: parse_body_def)
    with Inl m show ?thesis by (simp add: truncate_empty [OF fresh_empty])
  next
    case (Inr ids)
    then obtain e i j where e: "parse_xml lib soap = Inr e" "pre_validate e = Inr (i, j)" "ids = (i, j)"
      by (cases ids) (auto simp: result_simps)
    show ?thesis
    proof (cases "get_addressed_to lib (find_first e PARTY_TO_PATH)")
      case (Inl y)
      with body e have "m1 = fresh\<lparr>m_message_id := i, m_messaging_id := j\<rparr>"
        by (simp add: parse_body_def Let_def)
      with e m show ?thesis by simp
    next
      case (Inr to)
      let ?m0 = "fresh\<lparr>m_message_id := i, m_messaging_id := j, m_addressed_to := Some to\<rparr>"
      from body e Inr have "m1 = snd (virtual_process e attachments ?m0)"
        by (simp add: parse_body_def Let_def)
      with refines [of e attachments ?m0]
      have same: "message.truncate m1 = message.truncate (snd (process lib ctx e attachments ?m0))" by auto
      from truncate_fields(4,5) [OF same] process_frame(1,2) [of lib ctx e attachments ?m0]
      have "m_message_id m1 = i" "m_messaging_id m1 = j" by simp_all
      with e m show ?thesis by simp
    qed
  qed
qed

end

text \<open>
  C23.  With libraries, a key and a resolver that raise what they are documented to raise, \<open>parse\<close>
  hands out a message (with its parse error, if any) except when the message carries a ds:Signature with
  one of these defects, and then the exception that leaves \<open>parse\<close> is the one the defect raises: a
  \<open>ValueError\<close> for an empty SignatureValue; a \<open>ValueError\<close> or \<open>InvalidVersion\<close> for a security
  token that is no base64, no DER certificate or a certificate of an unknown version; a \<open>ValueError\<close> or
  \<open>UnsupportedAlgorithm\<close> for an accepted signer certificate whose public key cannot be read.
\<close>

theorem parse_lets_out_only_malformed_signatures:
  assumes "documented_lib lib" and "documented_key (private_key_of (ip_credentials (ctx_local_party ctx)))"
    and "refusing_resolver (policy_signer_resolver (ctx_security_policy ctx))"
    and "parse_message lib ctx soap attachments = Inl x"
  shows "\<exists>e env s. parse_xml lib soap = Inr e \<and> envelope_of lib e = Inr env \<and>
    sec_signature (hdr_security (env_header env)) = Some s \<and>
    malformed_signature lib (ctx_security_policy ctx) env s x"
proof -
  from assms(1,4) obtain e y and m0 :: message where e: "parse_xml lib soap = Inr e"
    and run: "fst (process lib ctx e attachments m0) = Inl y" and out: "caught_error y = Inl x"
    unfolding parse_message_def by (rule core.escapes_from_process)
  from process_raises [OF assms(1-3) run] out obtain env s where "envelope_of lib e = Inr env"
    "sec_signature (hdr_security (env_header env)) = Some s" and bad: "malformed_signature lib (ctx_security_policy ctx) env s y"
    by (auto simp: told_def)
  with e malformed_escapes [OF bad] out show ?thesis by auto
qed

text \<open>
  C24.  The ids an error signal refers to are in the message whenever the document has them, whatever
  fails afterwards, and are empty otherwise.
\<close>

theorem parse_keeps_the_message_ids:
  assumes "parse_message lib ctx soap attachments = Inr m"
  shows "(m_message_id m, m_messaging_id m) =
    (case andThen (parse_xml lib soap) pre_validate of Inl _ \<Rightarrow> ('''', '''') | Inr ids \<Rightarrow> ids)"
  using assms unfolding parse_message_def by (rule core.ids_are_kept)

text \<open>
  C25.  In an accepted message no content the caller reads for a gzip part is longer than the cap of the
  policy, whatever other parts name the same attachment.
\<close>

theorem accepted_parts_within_cap:
  assumes "parse_message lib ctx soap attachments = Inr m" and "parse_successful m"
    and "m_soap_envelope m = Some env" and "user_message_of env = Inr (Some um)"
    and "um_payload_info um = Some pl" and "p \<in> set (declared_parts (pl_part_info pl))"
    and "compression_type (part_part_properties p) = Some ''application/gzip''"
    and "dict_get (m_decrypted_data m) (part_identifier p) = Some content"
  shows "int (length content) \<le> maximum_decompressed_size (ctx_security_policy ctx)"
proof -
  let ?cap = "maximum_decompressed_size (ctx_security_policy ctx)"
  from assms(1,2) [unfolded parse_message_def] obtain env' um' pl' and m0 m1 :: message where
    env': "m_soap_envelope m = Some env'" "user_message_of env' = Inr (Some um')" "um_payload_info um' = Some pl'"
    and parts: "decompress_parts lib ?cap attachments (pl_part_info pl') m0 = (Inr (), m1)"
      "m_decrypted_data m = m_decrypted_data m1"
    by (rule core.accepted)
  with assms(3-5) have same: "pl' = pl" by auto
  obtain d where "snd (decompress_parts lib ?cap attachments (pl_part_info pl') m0) = m0\<lparr>m_decrypted_data := d\<rparr>"
    "map fst d = map fst (m_decrypted_data m0)"
    using decompress_parts_frame [of lib ?cap attachments "pl_part_info pl'" m0] by blast
  with parts have "fst ` set (m_decrypted_data m1) = fst ` set (m_decrypted_data m0)"
    by (simp flip: set_map)
  with assms(8) parts(2) obtain before where "dict_get (m_decrypted_data m0) (part_identifier p) = Some before"
    by (metis dict_has_def dict_has_iff not_None_eq)
  from decompress_parts_content [OF parts(1), unfolded same, OF this] parts(2) assms(8)
  have "inflations lib ?cap (parts_named (part_identifier p) (pl_part_info pl)) before = Inr content" by auto
  then show ?thesis
    by (rule inflations_within_cap) (use assms(6,7) in \<open>auto simp: parts_named_def\<close>)
qed

section \<open>Decryption tells its failures apart only by what the message says\<close>

definition decrypts_all :: "'z message_lib_scheme \<Rightarrow> bool" where
  "decrypts_all lib \<longleftrightarrow> (\<forall>k n d. returns (aesgcm_decrypt lib k n d))"

definition opens_all :: "private_key \<Rightarrow> bool" where
  "opens_all k \<longleftrightarrow> (\<forall>c p. returns (key_decrypt k c p))"

lemma session_key_other:
  assumes "opens_all (private_key_of (ip_credentials party'))" and "session_key_of party s = Inr key"
  shows "\<exists>key'. session_key_of party' s = Inr key'"
  using assms by (auto simp: session_key_of_def opens_all_def returns_iff rethrow_eq_Inr andThen_eq_Inr)

lemma aesgcm_raises:
  "documented_cipher lib \<Longrightarrow> rethrow aesgcm_failed (aesgcm_decrypt lib k n d) = Inl x \<Longrightarrow>
   x = receiptable_exn DecryptionFailedException"
  by (auto simp: documented_cipher_def aesgcm_failed_def rethrow_eq_Inl)

lemma decrypt_reference_other:
  assumes "documented_cipher lib" and "decrypts_all lib'"
  shows "decrypt_reference lib sec attachments key r = Inl x \<Longrightarrow> x \<noteq> receiptable_exn DecryptionFailedException \<Longrightarrow>
      decrypt_reference lib' sec attachments key' r = Inl x"
    and "decrypt_reference lib sec attachments key r = Inr (i, plain) \<Longrightarrow>
      \<exists>plain'. decrypt_reference lib' sec attachments key' r = Inr (i, plain')"
proof -
  have all: "\<exists>plain. rethrow aesgcm_failed (aesgcm_decrypt lib' k n d) = Inr plain" for k n d
    using assms(2) by (auto simp: decrypts_all_def returns_iff rethrow_eq_Inr)
  show "decrypt_reference lib' sec attachments key' r = Inl x"
    if "decrypt_reference lib sec attachments key r = Inl x" "x \<noteq> receiptable_exn DecryptionFailedException"
    using that aesgcm_raises [OF assms(1)]
    by (auto simp: decrypt_reference_def Let_def andThen_eq_Inl split: if_splits option.splits)
  show "\<exists>plain'. decrypt_reference lib' sec attachments key' r = Inr (i, plain')"
    if "decrypt_reference lib sec attachments key r = Inr (i, plain)"
    using that all
    by (auto simp: decrypt_reference_def Let_def andThen_eq_Inr split: if_splits option.splits)
qed

lemma decrypt_loop_other:
  assumes "documented_cipher lib" and "decrypts_all lib'"
  shows "decrypt_loop lib sec attachments key rs d = Inl x \<Longrightarrow> x \<noteq> receiptable_exn DecryptionFailedException \<Longrightarrow>
    decrypt_loop lib' sec attachments key' rs d' = Inl x"
proof (induction rs arbitrary: d d')
  case Nil
  then show ?case by simp
next
  case (Cons r rs)
  show ?case
  proof (cases "decrypt_reference lib sec attachments key r")
    case (Inl y)
    with Cons decrypt_reference_other(1) [OF assms] show ?thesis by simp
  next
    case (Inr ip)
    then obtain i plain where ip: "ip = (i, plain)" by (cases ip)
    from decrypt_reference_other(2) [OF assms Inr [unfolded ip]] obtain plain' where
      "decrypt_reference lib' sec attachments key' r = Inr (i, plain')" by blast
    with Cons Inr ip show ?thesis by simp
  qed
qed

text \<open>
  C26.  The decryption is no oracle: an error other than DecryptionFailed is the one that any
  receiver, with whatever key and cipher that open everything, reports for the same message, and
  every failure of the key, of the base64 and of AES-GCM is the same DecryptionFailed.
\<close>

theorem decryption_is_no_oracle:
  assumes "documented_cipher lib" and "documented_key (private_key_of (ip_credentials (ctx_local_party ctx)))"
    and "get_decrypted_data lib ctx sec attachments = Inl x"
    and "x \<noteq> receiptable_exn DecryptionFailedException"
    and "decrypts_all lib'" and "opens_all (private_key_of (ip_credentials (ctx_local_party ctx')))"
    and "encrypt_required (ctx_security_policy ctx') = encrypt_required (ctx_security_policy ctx)"
  shows "get_decrypted_data lib' ctx' sec attachments = Inl x"
proof (cases "sec_encrypted_key sec")
  case None
  with assms(3,7) show ?thesis by (simp add: get_decrypted_data_def)
next
  case (Some ek)
  let ?text = "or_empty (Option.bind (cd_cipher_value (et_cipher_data ek)) cv_value)"
  show ?thesis
  proof (cases "session_key_of (ctx_local_party ctx) ?text")
    case (Inl y)
    with Some assms(3,4) session_key_raises [OF assms(2) Inl] show ?thesis
      by (auto simp: get_decrypted_data_def Let_def split: if_splits)
  next
    case (Inr key)
    then obtain key' where "session_key_of (ctx_local_party ctx') ?text = Inr key'"
      using session_key_other [OF assms(6)] by blast
    with Inr Some assms(3,4) show ?thesis
      by (auto simp: get_decrypted_data_def Let_def split: if_splits dest: decrypt_loop_other [OF assms(1,5)])
  qed
qed

section \<open>The default policy\<close>

text \<open>
  C37.  The library is closed by default: under the default security policy, whose resolver is not
  configured, no message is accepted, no signer is named and no plaintext is handed out.
\<close>

theorem default_policy_trusts_nobody:
  assumes "parse_message lib ctx soap attachments = Inr m"
    and "ctx_security_policy ctx = default_security_policy"
  shows "\<not> parse_successful m \<and> m_signer_certificate m = None \<and> m_decrypted_data m = []"
proof -
  have "m_signer_certificate m = None"
  proof (rule ccontr)
    assume "m_signer_certificate m \<noteq> None"
    then obtain c where "m_signer_certificate m = Some c" by auto
    with assms(1) [unfolded parse_message_def] show False
      by (rule core.signer_is_verified)
         (auto simp: verified_signature_def assms(2) default_security_policy_def signer_resolver_not_configured_def)
  qed
  moreover have "sign_required (ctx_security_policy ctx)" by (simp add: assms(2) default_security_policy_def)
  moreover have "\<not> parse_successful m"
  proof
    assume "parse_successful m"
    with assms(1) [unfolded parse_message_def] obtain env e so where
      "get_verified_signature lib ctx (hdr_security (env_header env)) env (id_attributes e) = Inr (so, m_signer_certificate m)"
      by (rule core.accepted)
    from get_verified_signature_cases [OF this] calculation show False by auto
  qed
  ultimately show ?thesis using core.plaintext_is_signed [OF assms(1) [unfolded parse_message_def]] by auto
qed

end
