(* ===== verification/References.thy ===== *)
theory References
  imports Prelude
begin

text \<open>
  The identifiers of one exchange: \<^verbatim>\<open>as4/core/references.py\<close>.  Random UUIDs come from a supply, the
  \<open>n\<close>-th call of \<open>uuid4\<close> being the \<open>n\<close>-th text of the supply.
\<close>

type_synonym uuid_supply = "nat \<Rightarrow> string"

record as4_references =
  refs_message_id :: string
  refs_messaging_id :: string
  refs_conversation_id :: string
  refs_encrypted_key_bst_id :: string
  refs_signature_bst_id :: string
  refs_encrypted_key_id :: string
  refs_signature_id :: string
  refs_key_info_id :: string
  refs_signature_security_token_reference_id :: string
  refs_body_id :: string
  refs_attachment_id_encrypted_data_id_map :: "(string, string) dict"

definition default_message_id :: "string \<Rightarrow> string" where
  "default_message_id u = u @ ''@as4''"

definition default_messaging_id :: "string \<Rightarrow> string" where
  "default_messaging_id u = ''as4-msg-'' @ u"

definition default_conversation_id :: "string \<Rightarrow> string" where
  "default_conversation_id u = ''as4@'' @ u"

definition default_encrypted_key_bst_id :: "string \<Rightarrow> string" where
  "default_encrypted_key_bst_id u = u"

definition default_signature_bst_id :: "string \<Rightarrow> string" where
  "default_signature_bst_id u = ''X509-'' @ u"

definition default_encrypted_key_id :: "string \<Rightarrow> string" where
  "default_encrypted_key_id u = ''EK-'' @ u"

definition default_encrypted_data_id :: "string \<Rightarrow> string" where
  "default_encrypted_data_id u = ''ED-'' @ u"

definition default_signature_id :: "string \<Rightarrow> string" where
  "default_signature_id u = ''SIG-'' @ u"

definition default_key_info_id :: "string \<Rightarrow> string" where
  "default_key_info_id u = ''KI-'' @ u"

definition default_signature_security_token_reference_id :: "string \<Rightarrow> string" where
  "default_signature_security_token_reference_id u = ''STR-'' @ u"

definition default_body_id :: "string \<Rightarrow> string" where
  "default_body_id u = u"

text \<open>The field defaults are drawn in the order of the fields.\<close>

definition default_references :: "uuid_supply \<Rightarrow> as4_references" where
  "default_references us =
     \<lparr>refs_message_id = default_message_id (us 0),
      refs_messaging_id = default_messaging_id (us 1),
      refs_conversation_id = default_conversation_id (us 2),
      refs_encrypted_key_bst_id = default_encrypted_key_bst_id (us 3),
      refs_signature_bst_id = default_signature_bst_id (us 4),
      refs_encrypted_key_id = default_encrypted_key_id (us 5),
      refs_signature_id = default_signature_id (us 6),
      refs_key_info_id = default_key_info_id (us 7),
      refs_signature_security_token_reference_id = default_signature_security_token_reference_id (us 8),
      refs_body_id = default_body_id (us 9),
      refs_attachment_id_encrypted_data_id_map = []\<rparr>"

text \<open>
  The pair of the one attachment and its encrypted data; the first call draws it, the value of the
  assignment before its key, and stores it.
\<close>

definition encrypted_data_attachment_mapping ::
  "uuid_supply \<Rightarrow> as4_references \<Rightarrow> (string \<times> string) \<times> as4_references" where
  "encrypted_data_attachment_mapping us r =
     (let r' = (if refs_attachment_id_encrypted_data_id_map r = []
                then r\<lparr>refs_attachment_id_encrypted_data_id_map :=
                       [(''as4-att-'' @ us 1 @ ''@cid'', ''ED-'' @ us 0)]\<rparr>
                else r)
      in (hd (refs_attachment_id_encrypted_data_id_map r'), r'))"

lemma mapping_is_stable:
  "encrypted_data_attachment_mapping us r = (pair, r') \<Longrightarrow>
   encrypted_data_attachment_mapping us' r' = (pair, r') \<and>
   pair \<in> set (refs_attachment_id_encrypted_data_id_map r') \<and>
   (refs_attachment_id_encrypted_data_id_map r \<noteq> [] \<longrightarrow> r' = r)"
  by (auto simp: encrypted_data_attachment_mapping_def Let_def split: if_splits)

section \<open>Fresh identifiers\<close>

text \<open>The ids that name elements of the envelope.\<close>

definition element_ids :: "as4_references \<Rightarrow> string list" where
  "element_ids r =
     [refs_messaging_id r, refs_body_id r, refs_encrypted_key_bst_id r, refs_signature_bst_id r,
      refs_encrypted_key_id r, refs_signature_id r, refs_key_info_id r,
      refs_signature_security_token_reference_id r] @ map snd (refs_attachment_id_encrypted_data_id_map r)"

lemmas default_id_defs = default_message_id_def default_messaging_id_def default_conversation_id_def
  default_encrypted_key_bst_id_def default_signature_bst_id_def default_encrypted_key_id_def
  default_encrypted_data_id_def default_signature_id_def default_key_info_id_def
  default_signature_security_token_reference_id_def default_body_id_def

end
