(* ===== verification/Receipt.thy ===== *)
theory Receipt
  imports Parsing References
begin

text \<open>
  Signals that answer a message: \<^verbatim>\<open>as4/core/receipt.py\<close>.  Parsing and verifying a received receipt,
  comparing what it acknowledges with what was sent, and building receipts and error signals.
  The clock, the text of an exception and the text of a certificate's subject are parameters.
\<close>

section \<open>State\<close>

record receipt =
  r_soap_envelope :: "envelope option"
  r_original_message_id :: "string option"
  r_references :: "as4_references option"
  r_profile_name :: "string option"

record receipt_lib = message_lib +
  str_exception :: "exn \<Rightarrow> string"
  subject_text :: "certificate \<Rightarrow> string"

section \<open>Reading a signal\<close>

definition receipt_signal :: "'y receipt_scheme \<Rightarrow> exn + signal_message option" where
  "receipt_signal r =
     (case r_soap_envelope r of
        None \<Rightarrow> Inr None
      | Some env \<Rightarrow> get_signal_message (hdr_messaging (env_header env)))"

definition receipt_errors :: "'y receipt_scheme \<Rightarrow> exn + error_element list" where
  "receipt_errors r =
     andThen (receipt_signal r) (\<lambda>s. Inr (case s of None \<Rightarrow> [] | Some sm \<Rightarrow> sgm_errors sm))"

definition receipt_error :: "'y receipt_scheme \<Rightarrow> exn + error_element option" where
  "receipt_error r =
     andThen (receipt_errors r) (\<lambda>es. Inr (case es of [] \<Rightarrow> None | e # _ \<Rightarrow> Some e))"

definition receipt_receipt :: "'y receipt_scheme \<Rightarrow> exn + receipt_element option" where
  "receipt_receipt r = andThen (receipt_signal r) (\<lambda>s. Inr (Option.bind s sgm_receipt))"

definition receipt_success :: "'y receipt_scheme \<Rightarrow> exn + bool" where
  "receipt_success r = andThen (receipt_receipt r) (\<lambda>x. Inr (x \<noteq> None))"

definition non_repudiated_references :: "'y receipt_scheme \<Rightarrow> exn + comparable_reference list" where
  "non_repudiated_references r =
     andThen (receipt_receipt r)
       (\<lambda>x. Inr (case Option.bind x rcpt_non_repudiation_information of
                   None \<Rightarrow> []
                 | Some info \<Rightarrow>
                     map from_reference
                       (concat (map mpnri_references (nri_message_part_nr_information info)))))"

definition REF_TO_MESSAGE_ID_PATH :: "string list" where
  "REF_TO_MESSAGE_ID_PATH =
     [step ''S12'' ''Header'', step ''eb3'' ''Messaging'', step ''eb3'' ''SignalMessage'',
      step ''eb3'' ''MessageInfo'', step ''eb3'' ''RefToMessageId'']"

definition peek_original_message_id :: "'z xml_lib_scheme \<Rightarrow> bytes \<Rightarrow> exn + string option" where
  "peek_original_message_id lib signal_data =
     (case parse_xml lib signal_data of
        Inl e \<Rightarrow> if e = XMLSyntaxError then Inr None else Inl e
      | Inr e \<Rightarrow> Inr (find_text e REF_TO_MESSAGE_ID_PATH))"

section \<open>Verifying a signal\<close>

definition receipt_signature_error_text :: "'z receipt_lib_scheme \<Rightarrow> exn \<Rightarrow> exn" where
  "receipt_signature_error_text lib e =
     (case e of
        InvalidSignature \<Rightarrow> ReceiptVerificationError ''Receipt signature does not verify''
      | UnsupportedSignatureAlgorithm s \<Rightarrow>
          ReceiptVerificationError (''Receipt signature is not verifiable: '' @ s)
      | UnsupportedTransform s \<Rightarrow> ReceiptVerificationError (''Receipt signature is not verifiable: '' @ s)
      | _ \<Rightarrow> e)"

definition receipt_reference_error :: "string \<Rightarrow> exn \<Rightarrow> exn" where
  "receipt_reference_error uri e =
     (case e of
        UnsupportedDigestAlgorithm s \<Rightarrow>
          ReceiptVerificationError (''Receipt reference '' @ uri @ '' is not verifiable: '' @ s)
      | UnsupportedTransform s \<Rightarrow>
          ReceiptVerificationError (''Receipt reference '' @ uri @ '' is not verifiable: '' @ s)
      | _ \<Rightarrow> e)"

definition verify_receipt_reference ::
  "'z dsig_lib_scheme \<Rightarrow> (string, xml) dict \<Rightarrow> dsig_reference \<Rightarrow> exn + unit" where
  "verify_receipt_reference lib elements_by_id r =
     (let uri = or_empty (ref_uri r) in
      case dict_get elements_by_id (removeprefix ''#'' uri) of
        None \<Rightarrow> Inl (ReceiptVerificationError
          (''Receipt signature references '' @ uri @ '', which is not in the document''))
      | Some target \<Rightarrow>
          andThen (rethrow (receipt_reference_error uri) (digest_matches lib r target))
            (\<lambda>matches. require matches (ReceiptVerificationError
               (''Receipt digest for '' @ uri @ '' does not match the signed element''))))"

definition token_of_signature ::
  "'z dsig_lib_scheme \<Rightarrow> security \<Rightarrow> signature \<Rightarrow> exn + certificate option" where
  "token_of_signature lib sec s =
     (case Option.bind (signature_token_uri s) (find_token sec) of
        None \<Rightarrow> Inr None
      | Some bst \<Rightarrow> andThen (token_certificate lib bst) (\<lambda>c. Inr (Some c)))"

definition verify_receipt_signature ::
  "'z receipt_lib_scheme \<Rightarrow> 'y receipt_scheme \<Rightarrow> xml \<Rightarrow> certificate \<Rightarrow> exn + unit" where
  "verify_receipt_signature lib r e expected_signer =
     (let err = (\<lambda>t. Inl (ReceiptVerificationError t)) in
      case r_soap_envelope r of
        None \<Rightarrow> err ''Receipt carries no SOAP envelope''
      | Some env \<Rightarrow>
          (let sec = hdr_security (env_header env) in
           case sec_signature sec of
             None \<Rightarrow> err ''Receipt carries no ds:Signature''
           | Some s \<Rightarrow>
               andThen (token_of_signature lib sec s) (\<lambda>embedded.
               case embedded of
                 None \<Rightarrow> err ''Receipt signature references no security token''
               | Some c \<Rightarrow>
                   if c \<noteq> expected_signer
                   then err (''Receipt is signed by '' @ subject_text lib c @ '', not ''
                          @ subject_text lib expected_signer)
                   else
                     andThen (rethrow (receipt_signature_error_text lib) (signature_verify lib s expected_signer))
                       (\<lambda>_. andThen (index_elements_by_id e)
                       (\<lambda>elements_by_id.
                          if ''messaging'' \<notin> signature_coverage s elements_by_id {}
                          then err ''Receipt signature does not cover eb:Messaging''
                          else for_each (verify_receipt_reference lib elements_by_id)
                                 (si_references (sig_signed_info s)))))))"

definition unreadable_signal :: "'z receipt_lib_scheme \<Rightarrow> exn \<Rightarrow> exn" where
  "unreadable_signal lib e =
     (let text = ReceiptVerificationError (''Signal is not a readable ebMS signal message: '' @ str_exception lib e)
      in case e of
           XMLSyntaxError \<Rightarrow> text
         | ValidationError _ \<Rightarrow> text
         | Receiptable _ \<Rightarrow> text
         | _ \<Rightarrow> e)"

definition read_signal ::
  "'z message_lib_scheme \<Rightarrow> bytes \<Rightarrow> exn + (xml \<times> envelope \<times> signal_message option)" where
  "read_signal lib receipt_data =
     andThen (parse_xml lib receipt_data) (\<lambda>e.
     andThen (envelope_of lib e) (\<lambda>env.
     andThen (get_signal_message (hdr_messaging (env_header env))) (\<lambda>signal.
     Inr (e, env, signal))))"

definition original_message_id_of :: "signal_message option \<Rightarrow> string option" where
  "original_message_id_of signal =
     Option.bind signal (\<lambda>s. map_option rtm_value (mi_ref_to_message_id (sgm_message_info s)))"

definition receipt_parse :: "'z receipt_lib_scheme \<Rightarrow> bytes \<Rightarrow> certificate \<Rightarrow> exn + receipt" where
  "receipt_parse lib receipt_data expected_signer =
     andThen (rethrow (unreadable_signal lib) (read_signal lib receipt_data))
       (\<lambda>(e, env, signal).
          let original = original_message_id_of signal;
              r = \<lparr>r_soap_envelope = Some env, r_original_message_id = original,
                   r_references = None, r_profile_name = None\<rparr>
          in andThen (receipt_error r) (\<lambda>error.
             if error = None \<and> or_empty original = ''''
             then Inl (ReceiptVerificationError
                    ''Receipt names no eb:RefToMessageId, so it proves delivery of nothing'')
             else andThen (verify_receipt_signature lib r e expected_signer) (\<lambda>_. Inr r)))"

section \<open>Non-repudiation\<close>

definition verify_non_repudiation ::
  "'y receipt_scheme \<Rightarrow> comparable_reference list \<Rightarrow> comparable_reference list option \<Rightarrow> exn + unit" where
  "verify_non_repudiation r sent_references required_references =
     andThen (receipt_receipt r) (\<lambda>element.
     if element = None
     then Inl (ReceiptVerificationError ''Receipt carries no eb:Receipt to compare against'')
     else if required_references = Some []
     then Inl (ReceiptVerificationError ''No references were required, so this receipt would prove nothing'')
     else
       andThen (non_repudiated_references r) (\<lambda>acknowledged.
       andThen
         (for_each (\<lambda>x. require (x \<in> set sent_references) (ReceiptVerificationError
            (''Receipt acknowledges '' @ py_repr (cmp_uri x) @ '', which was not sent''))) acknowledged)
         (\<lambda>_. for_each (\<lambda>x. require (x \<in> set acknowledged) (ReceiptVerificationError
                (''Receipt does not acknowledge '' @ py_repr (cmp_uri x))))
              (case required_references of None \<Rightarrow> sent_references | Some required \<Rightarrow> required))))"

section \<open>Building signals\<close>

definition XML_EXC_C14N :: string where "XML_EXC_C14N = ''http://www.w3.org/2001/10/xml-exc-c14n#''"
definition DSIG_RSA_SHA256 :: string where
  "DSIG_RSA_SHA256 = ''http://www.w3.org/2001/04/xmldsig-more#rsa-sha256''"
definition BASE_64_BINARY :: string where
  "BASE_64_BINARY =
     ''http://docs.oasis-open.org/wss/2004/01/oasis-200401-wss-soap-message-security-1.0#Base64Binary''"
definition X509_V3 :: string where
  "X509_V3 = ''http://docs.oasis-open.org/wss/2004/01/oasis-200401-wss-x509-token-profile-1.0#X509v3''"

record receipt_builder_args =
  rb_referenced_message_id :: string
  rb_referenced_messaging_id :: string
  rb_local_party :: internal_party

record success_receipt_builder_args = receipt_builder_args +
  rb_non_repudiated_references :: "dsig_reference list"

record error_receipt_builder_args = receipt_builder_args +
  rb_error_code :: string
  rb_error_short_description :: string
  rb_error_severity :: string
  rb_error_detail :: string
  rb_error_description :: string
  rb_error_category :: string

text \<open>The models as their constructors build them, with the defaults of the fields left out.\<close>

definition new_body :: "string \<Rightarrow> body" where
  "new_body i = \<lparr>etree_element = None, body_body_id = Some i\<rparr>"

definition new_message_info :: "datetime \<Rightarrow> string \<Rightarrow> string option \<Rightarrow> message_info" where
  "new_message_info now message_id ref_to =
     \<lparr>etree_element = None, mi_timestamp = \<lparr>etree_element = None, ts_value = now\<rparr>,
      mi_message_id = \<lparr>etree_element = None, mid_value = message_id\<rparr>,
      mi_ref_to_message_id = map_option (\<lambda>v. \<lparr>etree_element = None, rtm_value = v\<rparr>) ref_to\<rparr>"

definition get_error_ref_to_message_id :: "'c receipt_builder_args_scheme \<Rightarrow> string option" where
  "get_error_ref_to_message_id args =
     (if rb_referenced_message_id args = '''' then None else Some (rb_referenced_message_id args))"

definition get_success_signal_message ::
  "datetime \<Rightarrow> success_receipt_builder_args \<Rightarrow> as4_references \<Rightarrow> signal_message" where
  "get_success_signal_message now args references =
     \<lparr>etree_element = None,
      sgm_message_info =
        new_message_info now (refs_message_id references) (Some (rb_referenced_message_id args)),
      sgm_pull_request = None,
      sgm_receipt = Some
        \<lparr>etree_element = None,
         rcpt_non_repudiation_information = Some
           \<lparr>etree_element = None,
            nri_message_part_nr_information =
              map (\<lambda>r. \<lparr>etree_element = None, mpnri_references = [r]\<rparr>) (rb_non_repudiated_references args)\<rparr>\<rparr>,
      sgm_errors = []\<rparr>"

definition get_error_signal_message ::
  "datetime \<Rightarrow> error_receipt_builder_args \<Rightarrow> as4_references \<Rightarrow> signal_message" where
  "get_error_signal_message now args references =
     \<lparr>etree_element = None,
      sgm_message_info =
        new_message_info now (refs_message_id references) (get_error_ref_to_message_id args),
      sgm_pull_request = None, sgm_receipt = None,
      sgm_errors =
        [\<lparr>etree_element = None,
          err_description = Some \<lparr>etree_element = None, desc_value = rb_error_description args, desc_lang = None\<rparr>,
          err_error_detail = Some \<lparr>etree_element = None, ed_value = rb_error_detail args\<rparr>,
          err_category = Some (rb_error_category args),
          err_ref_to_message_in_error = get_error_ref_to_message_id args,
          err_error_code = rb_error_code args, err_origin = None,
          err_severity = rb_error_severity args,
          err_short_description = Some (rb_error_short_description args)\<rparr>]\<rparr>"

definition get_messaging :: "as4_references \<Rightarrow> signal_message \<Rightarrow> messaging" where
  "get_messaging references signal =
     \<lparr>etree_element = None, msg_signal_messages = [signal], msg_user_messages = [],
      msg_messaging_id = Some (refs_messaging_id references),
      msg_w3_org_2003_05_soap_envelope_must_understand = Some True\<rparr>"

definition get_body_digest_reference ::
  "'z dsig_lib_scheme \<Rightarrow> datetime_lib \<Rightarrow> as4_references \<Rightarrow> body \<Rightarrow> exn + dsig_reference" where
  "get_body_digest_reference lib dt references b =
     andThen (dump_to_xml dt (clark ns_S12 ''Body'') (body_model b))
       (\<lambda>e. for_element lib (''#'' @ refs_body_id references) e SHA256)"

definition get_messaging_digest_reference ::
  "'z dsig_lib_scheme \<Rightarrow> datetime_lib \<Rightarrow> as4_references \<Rightarrow> messaging \<Rightarrow> exn + dsig_reference" where
  "get_messaging_digest_reference lib dt references messaging =
     andThen (dump_to_xml dt (clark ns_eb3 ''Messaging'') (messaging_model messaging))
       (\<lambda>e. for_element lib (''#'' @ refs_messaging_id references) e SHA256)"

definition new_signed_info :: "dsig_reference list \<Rightarrow> signed_info" where
  "new_signed_info references =
     \<lparr>etree_element = None,
      si_canonicalization_method = \<lparr>etree_element = None, cm_algorithm = Some XML_EXC_C14N\<rparr>,
      si_signature_method = \<lparr>etree_element = None, sm_algorithm = DSIG_RSA_SHA256\<rparr>,
      si_references = references, si_id = None\<rparr>"

definition get_signed_info ::
  "'z dsig_lib_scheme \<Rightarrow> datetime_lib \<Rightarrow> as4_references \<Rightarrow> messaging \<Rightarrow> body \<Rightarrow> exn + signed_info" where
  "get_signed_info lib dt references messaging b =
     andThen (get_messaging_digest_reference lib dt references messaging) (\<lambda>m.
     andThen (get_body_digest_reference lib dt references b) (\<lambda>r.
     Inr (new_signed_info [m, r])))"

definition get_local_binary_security_token :: "internal_party \<Rightarrow> as4_references \<Rightarrow> binary_security_token" where
  "get_local_binary_security_token party references =
     \<lparr>etree_element = None, bst_encoding_type = BASE_64_BINARY, bst_value_type = X509_V3,
      bst_bst_id = refs_signature_bst_id references,
      bst_value = b64encode (der (certificate_of (ip_credentials party)))\<rparr>"

definition new_signature_key_info :: "as4_references \<Rightarrow> key_info" where
  "new_signature_key_info references =
     \<lparr>etree_element = None, ki_key_info_id = Some (refs_key_info_id references), ki_key_name = [],
      ki_key_value = [], ki_retrieval_method = [], ki_x509_data = [], ki_pgp_data = [],
      ki_spki_data = [], ki_mgmt_data = [],
      ki_security_token_reference =
        [\<lparr>etree_element = None,
          str_security_token_reference_id = Some (refs_signature_security_token_reference_id references),
          str_usage = '''',
          str_reference =
            \<lparr>etree_element = None, wref_uri = Some (''#'' @ refs_signature_bst_id references),
             wref_value_type = Some X509_V3\<rparr>,
          str_token_type = None\<rparr>]\<rparr>"

text \<open>
  \<open>SignatureValue(value=signature_b64)\<close> decodes the text it is given (\<open>Base64Bytes\<close>).
\<close>

definition get_signature ::
  "'z dsig_lib_scheme \<Rightarrow> datetime_lib \<Rightarrow> internal_party \<Rightarrow> as4_references \<Rightarrow> signed_info \<Rightarrow> exn + signature" where
  "get_signature lib dt party references si =
     andThen (dump_to_xml dt (clark ns_ds ''SignedInfo'') (signed_info_model si)) (\<lambda>e.
     let si' = si\<lparr>etree_element := Some e\<rparr> in
     andThen (key_sign (private_key_of (ip_credentials party)) (signed_info_canonicalized lib si') PKCS1v15 HashSHA256)
       (\<lambda>signed_bytes. andThen (b64decode False (b64encode signed_bytes))
         (\<lambda>v. Inr
            \<lparr>etree_element = None, sig_signed_info = si',
             sig_signature_value = \<lparr>etree_element = None, sv_value = Some v, sv_id = None\<rparr>,
             sig_key_info = new_signature_key_info references, sig_object_value = [],
             sig_signature_id = Some (refs_signature_id references)\<rparr>)))"

text \<open>
  \<open>get_success_soap_envelope\<close> and \<open>get_error_soap_envelope\<close> differ in the signal they start from.
\<close>

definition signal_envelope ::
  "'z dsig_lib_scheme \<Rightarrow> datetime_lib \<Rightarrow> internal_party \<Rightarrow> as4_references \<Rightarrow> signal_message \<Rightarrow> exn + envelope" where
  "signal_envelope lib dt party references signal =
     (let messaging = get_messaging references signal; b = new_body (refs_body_id references) in
      andThen (get_signed_info lib dt references messaging b) (\<lambda>si.
      andThen (get_signature lib dt party references si) (\<lambda>s.
      Inr \<lparr>etree_element = None,
           env_header =
             \<lparr>etree_element = None,
              hdr_security =
                \<lparr>etree_element = None,
                 sec_binary_security_tokens = [get_local_binary_security_token party references],
                 sec_encrypted_key = None, sec_encrypted_data = None, sec_signature = Some s,
                 sec_must_understand = True\<rparr>,
              hdr_messaging = messaging\<rparr>,
           env_body = b\<rparr>)))"

definition get_success_soap_envelope ::
  "'z dsig_lib_scheme \<Rightarrow> datetime_lib \<Rightarrow> datetime \<Rightarrow> success_receipt_builder_args \<Rightarrow> as4_references \<Rightarrow>
   exn + envelope" where
  "get_success_soap_envelope lib dt now args references =
     signal_envelope lib dt (rb_local_party args) references (get_success_signal_message now args references)"

definition get_error_soap_envelope ::
  "'z dsig_lib_scheme \<Rightarrow> datetime_lib \<Rightarrow> datetime \<Rightarrow> error_receipt_builder_args \<Rightarrow> as4_references \<Rightarrow>
   exn + envelope" where
  "get_error_soap_envelope lib dt now args references =
     signal_envelope lib dt (rb_local_party args) references (get_error_signal_message now args references)"

text \<open>\<open>references\<close> is the argument of the caller, or a fresh \<open>AS4References()\<close> when it gave none.\<close>

definition create_non_repudiation_receipt ::
  "'z dsig_lib_scheme \<Rightarrow> datetime_lib \<Rightarrow> datetime \<Rightarrow> string \<Rightarrow> string \<Rightarrow> dsig_reference list \<Rightarrow>
   internal_party \<Rightarrow> as4_references \<Rightarrow> exn + receipt" where
  "create_non_repudiation_receipt lib dt now message_id messaging_id nr_references party references =
     andThen
       (get_success_soap_envelope lib dt now
          \<lparr>rb_referenced_message_id = message_id, rb_referenced_messaging_id = messaging_id,
           rb_local_party = party, rb_non_repudiated_references = nr_references\<rparr> references)
       (\<lambda>env. Inr \<lparr>r_soap_envelope = Some env, r_original_message_id = None,
                     r_references = Some references, r_profile_name = None\<rparr>)"

definition create_error_signal ::
  "'z dsig_lib_scheme \<Rightarrow> datetime_lib \<Rightarrow> datetime \<Rightarrow> error_receipt_builder_args \<Rightarrow> as4_references \<Rightarrow>
   exn + receipt" where
  "create_error_signal lib dt now args references =
     andThen (get_error_soap_envelope lib dt now args references)
       (\<lambda>env. Inr \<lparr>r_soap_envelope = Some env, r_original_message_id = None,
                     r_references = Some references, r_profile_name = None\<rparr>)"

definition class_attribute :: "string \<Rightarrow> string option \<Rightarrow> exn + string" where
  "class_attribute name v = (case v of None \<Rightarrow> Inl (AttributeError name) | Some s \<Rightarrow> Inr s)"

definition create_error_signal_from_exception ::
  "'z dsig_lib_scheme \<Rightarrow> datetime_lib \<Rightarrow> datetime \<Rightarrow> receiptable \<Rightarrow> internal_party \<Rightarrow> as4_references \<Rightarrow>
   string \<Rightarrow> string \<Rightarrow> exn + receipt" where
  "create_error_signal_from_exception lib dt now err party references message_id messaging_id =
     andThen (class_attribute ''error_code'' (error_code err)) (\<lambda>code.
     andThen (class_attribute ''short_description'' (short_description err)) (\<lambda>short.
     andThen (class_attribute ''description'' (description err)) (\<lambda>desc.
     andThen (class_attribute ''severity'' (severity err)) (\<lambda>sev.
     andThen (class_attribute ''category'' (category err)) (\<lambda>cat.
     create_error_signal lib dt now
       \<lparr>rb_referenced_message_id = message_id, rb_referenced_messaging_id = messaging_id,
        rb_local_party = party, rb_error_code = code, rb_error_short_description = short,
        rb_error_severity = sev, rb_error_detail = detail err, rb_error_description = desc,
        rb_error_category = cat\<rparr> references)))))"

definition for_message ::
  "'z dsig_lib_scheme \<Rightarrow> datetime_lib \<Rightarrow> datetime \<Rightarrow> 'y message_scheme \<Rightarrow> internal_party \<Rightarrow> as4_references \<Rightarrow>
   exn + receipt" where
  "for_message lib dt now m party references =
     (case m_parse_error m of
        Some err \<Rightarrow>
          create_error_signal_from_exception lib dt now err party references (m_message_id m) (m_messaging_id m)
      | None \<Rightarrow>
          create_non_repudiation_receipt lib dt now (m_message_id m) (m_messaging_id m)
            (signature_references m) party references)"

definition receipt_require_soap_envelope :: "'y receipt_scheme \<Rightarrow> exn + envelope" where
  "receipt_require_soap_envelope r =
     (case r_soap_envelope r of
        None \<Rightarrow> Inl (ValueError ''Receipt carries no SOAP envelope'')
      | Some e \<Rightarrow> Inr e)"

definition receipt_get_request_data ::
  "'z xml_lib_scheme \<Rightarrow> datetime_lib \<Rightarrow> 'y receipt_scheme \<Rightarrow> exn + ((string, string) dict \<times> bytes)" where
  "receipt_get_request_data lib dt r =
     andThen (receipt_require_soap_envelope r) (\<lambda>env.
     andThen (dump_to_xml dt (clark ns_S12 ''Envelope'') (envelope_model env)) (\<lambda>e.
     Inr ([(''Content-Type'', ''application/soap+xml;charset=utf-8'')], tostring lib e)))"

section \<open>A verified signal\<close>

definition reference_matches :: "'z dsig_lib_scheme \<Rightarrow> (string, xml) dict \<Rightarrow> dsig_reference \<Rightarrow> bool" where
  "reference_matches lib ids r \<longleftrightarrow>
     (\<exists>t. dict_get ids (removeprefix ''#'' (reference_uri r)) = Some t \<and> digest_matches lib r t = Inr True)"

definition covers_messaging_element :: "signature \<Rightarrow> (string, xml) dict \<Rightarrow> bool" where
  "covers_messaging_element s ids \<longleftrightarrow>
     (\<exists>r\<in>set (si_references (sig_signed_info s)).
        \<exists>t. names_element ids r t \<and> tag t = Clark (clark ns_eb3 ''Messaging''))"

definition signed_signal :: "'z receipt_lib_scheme \<Rightarrow> envelope \<Rightarrow> xml \<Rightarrow> certificate \<Rightarrow> bool" where
  "signed_signal lib env e c \<longleftrightarrow>
     (\<exists>s. sec_signature (hdr_security (env_header env)) = Some s \<and>
        token_of_signature lib (hdr_security (env_header env)) s = Inr (Some c) \<and>
        signature_verify lib s c = Inr () \<and> distinct (map fst (id_attributes e)) \<and>
        covers_messaging_element s (id_attributes e) \<and>
        (\<forall>r\<in>set (si_references (sig_signed_info s)). reference_matches lib (id_attributes e) r))"

lemma verify_receipt_reference_eq_Inr [result_simps]:
  "verify_receipt_reference lib ids r = Inr u \<longleftrightarrow> reference_matches lib ids r"
  by (auto simp: verify_receipt_reference_def reference_matches_def reference_uri_def Let_def result_simps
      split: option.splits)

lemma verify_receipt_signature_eq_Inr [result_simps]:
  "verify_receipt_signature lib r e c = Inr u \<longleftrightarrow> (\<exists>env. r_soap_envelope r = Some env \<and> signed_signal lib env e c)"
proof (cases "r_soap_envelope r")
  case None
  then show ?thesis by (simp add: verify_receipt_signature_def Let_def)
next
  case env: (Some env)
  show ?thesis
  proof (cases "sec_signature (hdr_security (env_header env))")
    case None
    with env show ?thesis by (simp add: verify_receipt_signature_def signed_signal_def Let_def)
  next
    case s: (Some s)
    show ?thesis
    proof (cases "token_of_signature lib (hdr_security (env_header env)) s")
      case (Inl x)
      with env s show ?thesis by (simp add: verify_receipt_signature_def signed_signal_def Let_def)
    next
      case (Inr embedded)
      with env s show ?thesis
        unfolding verify_receipt_signature_def signed_signal_def covers_messaging_element_def
          covers_messaging [symmetric, of _ _ "{}"]
        by (cases embedded) (auto simp: result_simps Let_def split: if_splits)
    qed
  qed
qed

lemma read_signal_eq_Inr [result_simps]:
  "read_signal lib d = Inr (e, env, signal) \<longleftrightarrow>
    parse_xml lib d = Inr e \<and> envelope_of lib e = Inr env \<and>
    get_signal_message (hdr_messaging (env_header env)) = Inr signal"
  by (auto simp: read_signal_def result_simps)

lemma receipt_parse_eq_Inr:
  "receipt_parse lib d c = Inr r \<longleftrightarrow>
    (\<exists>e env signal. parse_xml lib d = Inr e \<and> envelope_of lib e = Inr env \<and>
       get_signal_message (hdr_messaging (env_header env)) = Inr signal \<and>
       r = \<lparr>r_soap_envelope = Some env, r_original_message_id = original_message_id_of signal,
             r_references = None, r_profile_name = None\<rparr> \<and>
       (receipt_error r = Inr None \<longrightarrow> or_empty (r_original_message_id r) \<noteq> '''') \<and>
       signed_signal lib env e c)"
  by (auto simp: receipt_parse_def result_simps Let_def receipt_error_def receipt_errors_def receipt_signal_def
      split: if_splits) blast

text \<open>
  C16.  \<open>AS4Receipt.parse\<close> returns exactly when the data is an envelope with at most one signal, that
  names the message it answers or carries an error, and whose signature is the expected signer's:
  the embedded certificate is the expected one, the signature verifies under it, covers an
  eb:Messaging, and every reference resolves inside the document with a matching digest.
\<close>

theorem receipt_parse_iff:
  "receipt_parse lib d c = Inr r \<longleftrightarrow>
    (\<exists>e env signal. parse_xml lib d = Inr e \<and> envelope_of lib e = Inr env \<and>
       get_signal_message (hdr_messaging (env_header env)) = Inr signal \<and>
       r = \<lparr>r_soap_envelope = Some env, r_original_message_id = original_message_id_of signal,
             r_references = None, r_profile_name = None\<rparr> \<and>
       (receipt_error r = Inr None \<longrightarrow> or_empty (r_original_message_id r) \<noteq> '''') \<and>
       signed_signal lib env e c)"
  by (rule receipt_parse_eq_Inr)

section \<open>Non-repudiation\<close>

definition acknowledged_references :: "'y receipt_scheme \<Rightarrow> comparable_reference list" where
  "acknowledged_references r = (case non_repudiated_references r of Inr xs \<Rightarrow> xs | Inl _ \<Rightarrow> [])"

lemma verify_non_repudiation_eq_Inr:
  "verify_non_repudiation r sent required = Inr u \<longleftrightarrow>
    (\<exists>element. receipt_receipt r = Inr (Some element)) \<and> required \<noteq> Some [] \<and>
    set (acknowledged_references r) \<subseteq> set sent \<and>
    set (case required of None \<Rightarrow> sent | Some rs \<Rightarrow> rs) \<subseteq> set (acknowledged_references r)"
  by (cases "receipt_receipt r")
     (auto simp: verify_non_repudiation_def non_repudiated_references_def acknowledged_references_def
       result_simps split: option.splits if_splits)

text \<open>
  C17.  \<open>verify_non_repudiation\<close> returns exactly when the signal carries a receipt, something was
  required, everything acknowledged was sent and everything required (by default everything sent)
  is acknowledged.
\<close>

theorem verify_non_repudiation_iff:
  "verify_non_repudiation r sent required = Inr () \<longleftrightarrow>
    (\<exists>element. receipt_receipt r = Inr (Some element)) \<and> required \<noteq> Some [] \<and>
    set (acknowledged_references r) \<subseteq> set sent \<and>
    set (case required of None \<Rightarrow> sent | Some rs \<Rightarrow> rs) \<subseteq> set (acknowledged_references r)"
  by (rule verify_non_repudiation_eq_Inr)

text \<open>What a receipt built for a message acknowledges.\<close>

lemma signal_envelope_messaging:
  "signal_envelope lib dt party references signal = Inr env \<Longrightarrow>
   hdr_messaging (env_header env) = get_messaging references signal"
  by (auto simp: signal_envelope_def Let_def result_simps)

lemma map_from_reference_parts:
  "concat (map (mpnri_references \<circ> (\<lambda>r. \<lparr>etree_element = None, mpnri_references = [r]\<rparr>)) rs) = rs"
  by (induction rs) simp_all

text \<open>
  C18.  The receipt the receiver builds for a message that parsed proves to its sender what was
  sent: it acknowledges exactly the references the message is signed with, so the sender's check
  against them succeeds.
\<close>

theorem receipt_for_message_acknowledges:
  assumes "for_message lib dt now m party references = Inr r" and "parse_successful m"
  shows "non_repudiated_references r = Inr (signed_references m) \<and>
    verify_non_repudiation r (signed_references m) None = Inr ()"
proof -
  from assms obtain env where r: "r_soap_envelope r = Some env"
    and env: "get_success_soap_envelope lib dt now
       \<lparr>rb_referenced_message_id = m_message_id m, rb_referenced_messaging_id = m_messaging_id m,
        rb_local_party = party, rb_non_repudiated_references = signature_references m\<rparr> references = Inr env"
    by (auto simp: for_message_def parse_successful_def create_non_repudiation_receipt_def result_simps)
  from signal_envelope_messaging [OF env [unfolded get_success_soap_envelope_def]] r
  have acknowledged: "non_repudiated_references r = Inr (signed_references m)"
    and "\<exists>element. receipt_receipt r = Inr (Some element)"
    by (auto simp: non_repudiated_references_def receipt_receipt_def receipt_signal_def get_messaging_def
        get_signal_message_def only_one_def get_success_signal_message_def signed_references_def
        map_from_reference_parts comp_def)
  then show ?thesis
    by (auto simp: verify_non_repudiation_eq_Inr acknowledged_references_def)
qed

text \<open>
  C19.  For a message that ended in a parse error the receiver answers with an error signal that
  carries the code, severity, category, descriptions and detail of that error and refers to the
  message, when the message has an id.
\<close>

theorem error_signal_for_message:
  assumes "for_message lib dt now m party references = Inr r" and "m_parse_error m = Some err"
  shows "\<exists>element. receipt_error r = Inr (Some element) \<and> receipt_success r = Inr False \<and>
    Some (err_error_code element) = error_code err \<and> Some (err_severity element) = severity err \<and>
    err_category element = category err \<and> err_short_description element = short_description err \<and>
    map_option desc_value (err_description element) = description err \<and>
    map_option ed_value (err_error_detail element) = Some (detail err) \<and>
    err_ref_to_message_in_error element = (if m_message_id m = '''' then None else Some (m_message_id m))"
proof -
  from assms obtain code short desc sev cat env where attrs: "error_code err = Some code"
    "short_description err = Some short" "description err = Some desc" "severity err = Some sev"
    "category err = Some cat" and r: "r_soap_envelope r = Some env"
    and env: "get_error_soap_envelope lib dt now
       \<lparr>rb_referenced_message_id = m_message_id m, rb_referenced_messaging_id = m_messaging_id m,
        rb_local_party = party, rb_error_code = code, rb_error_short_description = short,
        rb_error_severity = sev, rb_error_detail = detail err, rb_error_description = desc,
        rb_error_category = cat\<rparr> references = Inr env"
    by (auto simp: for_message_def create_error_signal_from_exception_def create_error_signal_def
        class_attribute_def result_simps split: option.splits)
  from signal_envelope_messaging [OF env [unfolded get_error_soap_envelope_def]] r attrs show ?thesis
    by (auto simp: receipt_error_def receipt_errors_def receipt_signal_def receipt_success_def
        receipt_receipt_def get_messaging_def get_signal_message_def only_one_def
        get_error_signal_message_def get_error_ref_to_message_id_def)
qed

section \<open>The signals this library builds pass its own check\<close>

text \<open>What PKCS1v15 promises of a key and the certificate of its public half.\<close>

definition signing_key :: "'z dsig_lib_scheme \<Rightarrow> internal_party \<Rightarrow> bool" where
  "signing_key lib party \<longleftrightarrow>
     load_der_x509 lib (der (certificate_of (ip_credentials party))) = Inr (certificate_of (ip_credentials party)) \<and>
     (\<exists>key. cert_public_key lib (certificate_of (ip_credentials party)) = Inr (RSA key) \<and>
        (\<forall>d v. key_sign (private_key_of (ip_credentials party)) d PKCS1v15 HashSHA256 = Inr v \<longrightarrow>
           rsa_pkcs1_verify lib key HashSHA256 v d))"

lemma get_signature_verifies:
  assumes "signing_key lib party" and "get_signature lib dt party references (new_signed_info rs) = Inr s"
  shows "signature_verify lib s (certificate_of (ip_credentials party)) = Inr ()"
    and "si_references (sig_signed_info s) = rs"
    and "signature_token_uri s = Some (''#'' @ refs_signature_bst_id references)"
  using assms
  by (auto simp: signing_key_def get_signature_def new_signed_info_def result_simps Let_def XML_EXC_C14N_def
      EXCLUSIVE_C14N_def DSIG_RSA_SHA256_def SIGNATURE_ALGORITHMS_def signature_token_uri_def
      new_signature_key_info_def)

lemma local_token:
  assumes "signing_key lib party"
  shows "token_certificate lib (get_local_binary_security_token party references) =
    Inr (certificate_of (ip_credentials party))"
  using assms
  by (simp add: signing_key_def token_certificate_def get_local_binary_security_token_def X509_V3_def
      X509_TOKEN_PROFILE_def)

lemma localname_wsu_Id [simp]: "localname (clark ns_wsu ''Id'') = ''Id''"
  by (simp add: localname_def clark_def ns_wsu_def startswith_def)

lemma dumped_id:
  assumes "dict_get (attrib x) (clark ns_wsu ''Id'') = Some i" and "x \<in> set (iter e)"
    and "distinct (map fst (id_attributes e))"
  shows "dict_get (id_attributes e) i = Some x"
proof -
  from assms(1) have "(clark ns_wsu ''Id'', i) \<in> set (attrib x)" by (rule map_of_SomeD)
  then have "i \<in> set (ids_of x)" by (force simp: ids_of_def)
  with assms(2,3) show ?thesis by (simp add: id_attributes_iff)
qed

text \<open>Where the parts of a dumped envelope are in the tree.\<close>

lemma dumped_envelope:
  assumes "dump_to_xml dt (clark ns_S12 ''Envelope'') (envelope_model env) = Inr e"
  obtains h m b where "h \<in> set (children e)" "m \<in> set (children h)" "b \<in> set (children e)"
    "dump_to_xml dt (clark ns_S12 ''Header'') (header_model (env_header env)) = Inr h"
    "dump_to_xml dt (clark ns_eb3 ''Messaging'') (messaging_model (hdr_messaging (env_header env))) = Inr m"
    "dump_to_xml dt (clark ns_S12 ''Body'') (body_model (env_body env)) = Inr b"
proof -
  have distinct: "distinct (map fst [declared (clark ns_S12 ''Header'') AnnModel (CModel (header_model (env_header env))),
      declared (clark ns_S12 ''Body'') AnnModel (CModel (body_model (env_body env)))])"
    by (simp add: declared_def clark_def)
  obtain h where h: "h \<in> set (children e)"
    "dump_to_xml dt (clark ns_S12 ''Header'') (header_model (env_header env)) = Inr h"
    by (rule dump_to_xml_child [where a = "clark ns_S12 ''Header''" and t = AnnModel
          and m = "header_model (env_header env)", OF assms [unfolded envelope_model_def] _ distinct]) (auto simp: clark_def)
  obtain b where b: "b \<in> set (children e)"
    "dump_to_xml dt (clark ns_S12 ''Body'') (body_model (env_body env)) = Inr b"
    by (rule dump_to_xml_child [where a = "clark ns_S12 ''Body''" and t = AnnModel
          and m = "body_model (env_body env)", OF assms [unfolded envelope_model_def] _ distinct]) (auto simp: clark_def)
  have distinct': "distinct (map fst
      [declared (clark ns_wsse ''Security'') AnnModel (CModel (security_model (hdr_security (env_header env)))),
       declared (clark ns_eb3 ''Messaging'') AnnModel (CModel (messaging_model (hdr_messaging (env_header env))))])"
    by (simp add: declared_def clark_def ns_wsse_def ns_eb3_def)
  obtain m where m: "m \<in> set (children h)"
    "dump_to_xml dt (clark ns_eb3 ''Messaging'') (messaging_model (hdr_messaging (env_header env))) = Inr m"
    by (rule dump_to_xml_child [where a = "clark ns_eb3 ''Messaging''" and t = AnnModel
          and m = "messaging_model (hdr_messaging (env_header env))", OF h(2) [unfolded header_model_def] _ distinct']) (auto simp: clark_def)
  from h m b show ?thesis by (intro that)
qed

lemma dumped_messaging_id:
  assumes "dump_to_xml dt name (messaging_model m) = Inr x" and "msg_messaging_id m = Some i" and "i \<noteq> ''''"
  shows "dict_get (attrib x) (clark ns_wsu ''Id'') = Some i"
  by (rule dump_to_xml_attribute [OF assms(1) [unfolded messaging_model_def], of _ "AnnOptional AnnStr"])
     (simp_all add: assms(2,3) declared_def opt_content_def clark_def ns_eb3_def ns_wsu_def ns_S12_def)

lemma dumped_body_id:
  assumes "dump_to_xml dt name (body_model b) = Inr x" and "body_body_id b = Some i" and "i \<noteq> ''''"
  shows "dict_get (attrib x) (clark ns_wsu ''Id'') = Some i"
  by (rule dump_to_xml_attribute [OF assms(1) [unfolded body_model_def], of _ "AnnOptional AnnStr"])
     (simp_all add: assms(2,3) declared_def opt_content_def clark_def)

text \<open>The two parts every builder signs, found by their ids in the dumped envelope.\<close>

lemma dumped_parts_signed:
  assumes "dump_to_xml dt (clark ns_S12 ''Envelope'') (envelope_model env) = Inr e"
    and "distinct (map fst (id_attributes e))"
    and "msg_messaging_id (hdr_messaging (env_header env)) = Some (refs_messaging_id references)"
    and "body_body_id (env_body env) = Some (refs_body_id references)"
    and "refs_messaging_id references \<noteq> ''''" and "refs_body_id references \<noteq> ''''"
    and "get_messaging_digest_reference lib dt references (hdr_messaging (env_header env)) = Inr rm"
    and "get_body_digest_reference lib dt references (env_body env) = Inr rb"
  obtains m b where "names_element (id_attributes e) rm m" "tag m = Clark (clark ns_eb3 ''Messaging'')"
    "digest_matches lib rm m = Inr True"
    "names_element (id_attributes e) rb b" "tag b = Clark (clark ns_S12 ''Body'')"
    "digest_matches lib rb b = Inr True"
proof -
  from dumped_envelope [OF assms(1)] obtain h m b where tree: "h \<in> set (children e)" "m \<in> set (children h)"
    "b \<in> set (children e)"
    and m: "dump_to_xml dt (clark ns_eb3 ''Messaging'') (messaging_model (hdr_messaging (env_header env))) = Inr m"
    and b: "dump_to_xml dt (clark ns_S12 ''Body'') (body_model (env_body env)) = Inr b"
    by blast
  have in_e: "m \<in> set (iter e)" "b \<in> set (iter e)"
    using tree by (meson iter_child iter_self)+
  have ids: "dict_get (id_attributes e) (refs_messaging_id references) = Some m"
    "dict_get (id_attributes e) (refs_body_id references) = Some b"
    using dumped_id [OF dumped_messaging_id [OF m assms(3,5)] in_e(1) assms(2)]
      dumped_id [OF dumped_body_id [OF b assms(4,6)] in_e(2) assms(2)]
    by simp_all
  have rm: "digest_matches lib rm m = Inr True" "ref_uri rm = Some (''#'' @ refs_messaging_id references)"
    and rb: "digest_matches lib rb b = Inr True" "ref_uri rb = Some (''#'' @ refs_body_id references)"
    using assms(7,8) m b
    by (auto simp: get_messaging_digest_reference_def get_body_digest_reference_def dest!: for_element_matches)
  have prefix: "removeprefix ''#'' (CHR ''#'' # i) = i" for i
    using removeprefix_append [of "''#''" i] by simp
  have "names_element (id_attributes e) rm m" "names_element (id_attributes e) rb b"
    using rm rb ids by (simp_all add: names_element_def names_attachment_def reference_uri_def startswith_def prefix)
  then show ?thesis
    by (rule that [OF _ dump_to_xml_tag [OF m] rm(1) _ dump_to_xml_tag [OF b] rb(1)])
qed

lemma built_signal_signed:
  assumes "signing_key lib party" and "signal_envelope lib dt party references signal = Inr env"
    and "dump_to_xml dt (clark ns_S12 ''Envelope'') (envelope_model env) = Inr e"
    and "distinct (map fst (id_attributes e))"
    and "refs_messaging_id references \<noteq> ''''" and "refs_body_id references \<noteq> ''''"
  shows "signed_signal lib env e (certificate_of (ip_credentials party))"
proof -
  let ?messaging = "get_messaging references signal" and ?body = "new_body (refs_body_id references)"
  from assms(2) obtain rm rb s where
    rm: "get_messaging_digest_reference lib dt references ?messaging = Inr rm"
    and rb: "get_body_digest_reference lib dt references ?body = Inr rb"
    and s: "get_signature lib dt party references (new_signed_info [rm, rb]) = Inr s"
    and sec: "sec_signature (hdr_security (env_header env)) = Some s"
      "sec_binary_security_tokens (hdr_security (env_header env)) = [get_local_binary_security_token party references]"
    and parts: "hdr_messaging (env_header env) = ?messaging" "env_body env = ?body"
    by (auto simp: signal_envelope_def get_signed_info_def Let_def result_simps)
  obtain m b where named: "names_element (id_attributes e) rm m" "tag m = Clark (clark ns_eb3 ''Messaging'')"
    "digest_matches lib rm m = Inr True" "names_element (id_attributes e) rb b" "digest_matches lib rb b = Inr True"
    by (rule dumped_parts_signed [OF assms(3,4) _ _ assms(5,6), of lib rm rb])
       (use rm rb parts in \<open>auto simp: get_messaging_def new_body_def\<close>)
  then have matches: "reference_matches lib (id_attributes e) rm" "reference_matches lib (id_attributes e) rb"
    by (auto simp: reference_matches_def names_element_def)
  from named(1,2) have "covers_messaging_element s (id_attributes e)"
    using get_signature_verifies(2) [OF assms(1) s] by (auto simp: covers_messaging_element_def)
  moreover have "token_of_signature lib (hdr_security (env_header env)) s =
      Inr (Some (certificate_of (ip_credentials party)))"
    using get_signature_verifies(3) [OF assms(1) s] local_token [OF assms(1)]
    by (simp add: token_of_signature_def find_token_def sec get_local_binary_security_token_def)
  ultimately show ?thesis
    unfolding signed_signal_def
    using sec get_signature_verifies(1,2) [OF assms(1) s] assms(4) matches by auto
qed

text \<open>
  C20.  A signal built and dumped by this library verifies under this library's own check against
  the certificate of the party that built it, provided its ids are non-empty and distinct.
\<close>

theorem built_signal_verifies:
  assumes "signing_key lib party" and "signal_envelope lib dt party references signal = Inr env"
    and "dump_to_xml dt (clark ns_S12 ''Envelope'') (envelope_model env) = Inr e"
    and "distinct (map fst (id_attributes e))"
    and "refs_messaging_id references \<noteq> ''''" and "refs_body_id references \<noteq> ''''"
    and "r_soap_envelope r = Some env"
  shows "verify_receipt_signature lib r e (certificate_of (ip_credentials party)) = Inr ()"
  using built_signal_signed [OF assms(1-6)] assms(7) by (simp add: result_simps)

end
