(* ===== verification/Mime.thy ===== *)
theory Mime
  imports Base64
begin

text \<open>
  The MIME packaging and the payload cipher: \<^verbatim>\<open>as4/utils/mime_handler.py\<close> and
  \<^verbatim>\<open>as4/utils/cipher_handler.py\<close>.  A parsed message is a tree of parts with their content type,
  their decoded content and their Content-ID header; the parser, the multipart encoder, AES-GCM,
  the clock and the random source are parameters.
\<close>

section \<open>Parts\<close>

datatype mime_part = Part
  (content_type: string)
  (content_id_header: "string option")
  (decoded_content: "bytes option")
  (parts: "mime_part list")

record request_field =
  field_name :: string
  field_data :: bytes
  field_headers :: "(string, string) dict"

record mime_lib =
  parse_email :: "bytes \<Rightarrow> mime_part"
  choose_boundary :: string
  encode_multipart_formdata :: "request_field list \<Rightarrow> string \<Rightarrow> bytes"
  aesgcm_encrypt :: "bytes \<Rightarrow> bytes \<Rightarrow> bytes \<Rightarrow> exn + bytes"  \<comment> \<open>key, nonce, data\<close>
  random_session_key :: bytes
  random_nonce :: bytes

fun first_some :: "'a option list \<Rightarrow> 'a option" where
  "first_some [] = None"
| "first_some (None # xs) = first_some xs"
| "first_some (Some x # xs) = Some x"

fun get_soap_part :: "mime_part \<Rightarrow> mime_part option" where
  "get_soap_part (Part ct i c ps) =
     (if ct = ''multipart/related'' then first_some (map get_soap_part ps)
      else if ct = ''application/soap+xml'' then Some (Part ct i c ps)
      else None)"

fun get_encrypted_part :: "mime_part \<Rightarrow> mime_part option" where
  "get_encrypted_part (Part ct i c ps) =
     (if ct = ''multipart/related'' then first_some (map get_encrypted_part ps)
      else if ct = ''application/octet-stream'' then Some (Part ct i c ps)
      else None)"

definition mime_parse :: "'z mime_lib_scheme \<Rightarrow> bytes \<Rightarrow> exn + (mime_part \<times> mime_part)" where
  "mime_parse lib data =
     (let parsed_message = parse_email lib data in
      case get_soap_part parsed_message of
        None \<Rightarrow> Inl (Receiptable (make_error SoapPartNotFoundException ''''))
      | Some soap_part \<Rightarrow>
          (case get_encrypted_part parsed_message of
             None \<Rightarrow> Inl (Receiptable (make_error PayloadPartNotFoundException ''''))
           | Some encrypted_part \<Rightarrow> Inr (soap_part, encrypted_part)))"

definition get_content_id :: "mime_part \<Rightarrow> string option" where
  "get_content_id part =
     map_option (\<lambda>v. strip_by (\<lambda>c. c = CHR ''<'' \<or> c = CHR ''>'') (py_strip v)) (content_id_header part)"

section \<open>Requests\<close>

text \<open>\<open>encode("utf-8")\<close> of the code points below 256.\<close>

definition utf8_char :: "char \<Rightarrow> bytes" where
  "utf8_char c = (let n = of_char c :: nat in
     if n < 128 then [of_nat n] else [of_nat (192 + n div 64), of_nat (128 + n mod 64)])"

definition utf8_encode :: "string \<Rightarrow> bytes" where
  "utf8_encode s = concat (map utf8_char s)"

fun join_bytes :: "bytes \<Rightarrow> bytes list \<Rightarrow> bytes" where
  "join_bytes sep [] = []"
| "join_bytes sep [b] = b"
| "join_bytes sep (b # c # bs) = b @ sep @ join_bytes sep (c # bs)"

definition payload_from_request :: "(string, string) dict \<Rightarrow> bytes \<Rightarrow> bytes" where
  "payload_from_request request_headers request_body =
     (let mime_headers = map (\<lambda>(name, v). utf8_encode (name @ '': '' @ v)) request_headers
      in join_bytes [13, 10] (mime_headers @ [[], request_body]))"

definition make_soap_part_request_field :: "bytes \<Rightarrow> request_field" where
  "make_soap_part_request_field soap =
     \<lparr>field_name = ''soap_field'', field_data = soap,
      field_headers = [(''Content-Type'', ''application/soap+xml; charset=UTF-8'')]\<rparr>"

definition make_attachment_part_request_field :: "string \<Rightarrow> bytes \<Rightarrow> request_field" where
  "make_attachment_part_request_field part_cid content =
     \<lparr>field_name = ''attachment'', field_data = content,
      field_headers =
        [(''Content-Type'', ''application/octet-stream''), (''Content-ID'', ''<'' @ part_cid @ ''>'')]\<rparr>"

definition build_request_data ::
  "'z mime_lib_scheme \<Rightarrow> bytes \<Rightarrow> (string \<times> bytes) list option \<Rightarrow> string option \<Rightarrow> bytes \<times> string" where
  "build_request_data lib soap attachments boundary =
     (let b = (case boundary of None \<Rightarrow> choose_boundary lib | Some b \<Rightarrow> b);
          fields = make_soap_part_request_field soap
            # map (\<lambda>(cid, content). make_attachment_part_request_field cid content)
                (case attachments of None \<Rightarrow> [] | Some xs \<Rightarrow> xs)
      in (encode_multipart_formdata lib fields b, b))"

definition PROJECT_URL :: string where "PROJECT_URL = ''https://github.com/dbkosky/as4''"

text \<open>\<open>installed_version\<close> is \<open>importlib.metadata.version\<close>, None when the package is not installed.\<close>

definition self_user_agent :: "string option \<Rightarrow> string" where
  "self_user_agent installed_version =
     (case installed_version of
        Some v \<Rightarrow> ''as4/'' @ v @ '' (+'' @ PROJECT_URL @ '')''
      | None \<Rightarrow> ''as4 (+'' @ PROJECT_URL @ '')'')"

definition build_request_headers ::
  "string \<Rightarrow> string \<Rightarrow> string option \<Rightarrow> string \<Rightarrow> string option \<Rightarrow> string option \<Rightarrow> (string, string) dict" where
  "build_request_headers timestamp uuid installed_version boundary message_id user_agent =
     (let mid = (case message_id of None \<Rightarrow> ''<'' @ timestamp @ ''-'' @ uuid @ ''-@as4>'' | Some m \<Rightarrow> m);
          agent = (case user_agent of
                     Some a \<Rightarrow> if a = '''' then self_user_agent installed_version else a
                   | None \<Rightarrow> self_user_agent installed_version)
      in [(''Content-Type'',
             ''multipart/related; type='' @ [CHR 0x22] @ ''application/soap+xml'' @ [CHR 0x22]
             @ ''; boundary='' @ [CHR 0x22] @ boundary @ [CHR 0x22]),
          (''Message-ID'', mid), (''Mime-Version'', ''1.0''), (''User-Agent'', agent)])"

section \<open>The payload cipher\<close>

definition encrypt_payload :: "'z mime_lib_scheme \<Rightarrow> bytes \<Rightarrow> exn + (bytes \<times> bytes)" where
  "encrypt_payload lib payload =
     (let session_key = random_session_key lib;
          nonce = random_nonce lib
      in andThen (aesgcm_encrypt lib session_key nonce payload)
           (\<lambda>ciphertext. Inr (session_key, nonce @ ciphertext)))"

definition decrypt_payload ::
  "(bytes \<Rightarrow> bytes \<Rightarrow> bytes \<Rightarrow> exn + bytes) \<Rightarrow> bytes \<Rightarrow> bytes \<Rightarrow> exn + bytes" where
  "decrypt_payload decrypt session_key encrypted_blob =
     decrypt session_key (take 12 encrypted_blob) (drop 12 encrypted_blob)"

section \<open>Which parts are found\<close>

text \<open>The parts reached through \<open>multipart/related\<close> containers, depth first.\<close>

fun related_parts :: "mime_part \<Rightarrow> mime_part list" where
  "related_parts (Part ct i c ps) =
     (if ct = ''multipart/related'' then concat (map related_parts ps) else [Part ct i c ps])"

lemma find_append: "find P (xs @ ys) = (case find P xs of None \<Rightarrow> find P ys | Some x \<Rightarrow> Some x)"
  by (induction xs) auto

lemma first_some_find:
  "(\<And>p. p \<in> set ps \<Longrightarrow> f p = find P (g p)) \<Longrightarrow> first_some (map f ps) = find P (concat (map g ps))"
proof (induction ps)
  case Nil
  then show ?case by simp
next
  case (Cons p ps)
  then have "f p = find P (g p)" "first_some (map f ps) = find P (concat (map g ps))" by auto
  then show ?case by (cases "find P (g p)") (auto simp: find_append)
qed

lemma get_soap_part_find:
  "get_soap_part m = find (\<lambda>p. content_type p = ''application/soap+xml'') (related_parts m)"
  by (induction m rule: get_soap_part.induct) (auto intro: first_some_find)

lemma get_encrypted_part_find:
  "get_encrypted_part m = find (\<lambda>p. content_type p = ''application/octet-stream'') (related_parts m)"
  by (induction m rule: get_encrypted_part.induct) (auto intro: first_some_find)

text \<open>
  C31.  \<open>MIMEHandler.parse\<close> hands out the first SOAP part and the first octet-stream part in the order
  of the document, looking only inside multipart/related containers, and otherwise raises the error
  for the part that is missing, the SOAP part first.
\<close>

theorem mime_parse_finds_the_first_parts:
  "mime_parse lib data =
    (let ps = related_parts (parse_email lib data);
         soap = find (\<lambda>p. content_type p = ''application/soap+xml'') ps;
         payload = find (\<lambda>p. content_type p = ''application/octet-stream'') ps
     in case (soap, payload) of
          (Some s, Some p) \<Rightarrow> Inr (s, p)
        | (None, _) \<Rightarrow> Inl (Receiptable (make_error SoapPartNotFoundException ''''))
        | (Some _, None) \<Rightarrow> Inl (Receiptable (make_error PayloadPartNotFoundException '''')))"
  by (simp add: mime_parse_def Let_def get_soap_part_find get_encrypted_part_find split: option.splits)

text \<open>
  What \<open>encrypt_payload\<close> seals, \<open>decrypt_payload\<close> opens with the same session key: the nonce is
  the first 12 bytes of the blob on both sides.
\<close>

theorem cipher_round_trip:
  assumes "length (random_nonce lib) = 12"
    and "aesgcm_encrypt lib (random_session_key lib) (random_nonce lib) payload = Inr ciphertext"
    and "decrypt (random_session_key lib) (random_nonce lib) ciphertext = Inr payload"
    and "encrypt_payload lib payload = Inr (session_key, blob)"
  shows "decrypt_payload decrypt session_key blob = Inr payload"
  using assms by (auto simp: encrypt_payload_def decrypt_payload_def Let_def)

end
