(* ===== verification/Exchange.thy ===== *)
theory Exchange
  imports Receipt Mime
begin

text \<open>
  One exchange of a message and its signal: \<^verbatim>\<open>as4/core/exchange.py\<close> and \<^verbatim>\<open>as4/core/profiles.py\<close>.
  A profile is the record of its class methods; an exchange is a record, and every method returns
  its outcome beside the exchange as it leaves it, so that an exception shows what was stored
  before it.  \<open>sending_step\<close> and \<open>receiving_step\<close> are the method calls a client may make, in any order.
\<close>

section \<open>Profiles\<close>

text \<open>\<open>'y\<close> is what the message class of the profile adds, \<open>'b\<close> its builder arguments.\<close>

record ('y, 'b) profile =
  profile_name :: string
  new_message :: "'y message_scheme"
  message_class_parse :: "parse_context \<Rightarrow> bytes \<Rightarrow> (string, bytes) dict \<Rightarrow> exn + 'y message_scheme"
  profile_unpack_message :: "bytes \<Rightarrow> exn + (bytes \<times> (string, bytes) dict)"
  profile_parse_receipt :: "bytes \<Rightarrow> certificate \<Rightarrow> exn + receipt"
  profile_build_message :: "bytes \<Rightarrow> internal_party \<Rightarrow> external_party \<Rightarrow> 'b \<Rightarrow> as4_references \<Rightarrow>
    (exn + 'y message_scheme) \<times> as4_references"
  profile_for_message :: "'y message_scheme \<Rightarrow> internal_party \<Rightarrow> as4_references \<Rightarrow> exn + receipt"
  profile_peek :: "bytes \<Rightarrow> exn + string option"

definition profile_parse_message ::
  "('y, 'b) profile \<Rightarrow> bytes \<Rightarrow> parse_context \<Rightarrow> exn + 'y message_scheme" where
  "profile_parse_message p payload ctx =
     (case profile_unpack_message p payload of
        Inl (Receiptable err) \<Rightarrow> Inr ((new_message p)\<lparr>m_parse_error := Some err\<rparr>)
      | Inl e \<Rightarrow> Inl e
      | Inr (soap_bytes, mime_attachments) \<Rightarrow> message_class_parse p ctx soap_bytes mime_attachments)"

text \<open>\<open>registered\<close> are the descendants of the class the lookup starts from.\<close>

definition by_name :: "('y, 'b) profile list \<Rightarrow> string \<Rightarrow> exn + ('y, 'b) profile" where
  "by_name registered name =
     (case find (\<lambda>p. profile_name p = name) registered of
        None \<Rightarrow> Inl (UnknownProfileError name)
      | Some p \<Rightarrow> Inr p)"

definition correlate_signal :: "('y, 'b) profile \<Rightarrow> bytes \<Rightarrow> exn + string option" where
  "correlate_signal p payload = profile_peek p payload"

datatype ('y, 'b) stored_profile = ProfileName string | ProfileClass "('y, 'b) profile"

definition load_profile :: "('y, 'b) profile list \<Rightarrow> ('y, 'b) stored_profile \<Rightarrow> exn + ('y, 'b) profile" where
  "load_profile registered v = (case v of ProfileName n \<Rightarrow> by_name registered n | ProfileClass p \<Rightarrow> Inr p)"

definition dump_profile :: "('y, 'b) profile \<Rightarrow> string" where
  "dump_profile p = profile_name p"

section \<open>Exchanges\<close>

datatype exchange_state = CREATED | BUILT | SENT | RECEIVED | ACKNOWLEDGED | REJECTED | FAILED

record ('y, 'b) exchange =
  ex_profile :: "('y, 'b) profile"
  ex_local_party :: internal_party
  ex_message_id :: string
  ex_messaging_id :: string
  ex_identifiers :: as4_references
  ex_state :: exchange_state
  ex_created_at :: datetime
  ex_signed_references :: "comparable_reference list"
  ex_required_references :: "comparable_reference list option"
  ex_message :: "'y message_scheme option"
  ex_receipt :: "receipt option"

record ('y, 'b) sending_exchange = "('y, 'b) exchange" +
  sx_remote_party :: external_party

record ('y, 'b) receiving_exchange = "('y, 'b) exchange" +
  rx_remote_party :: "external_party option"

definition exchange_errors :: "('y, 'b, 'z) exchange_scheme \<Rightarrow> exn + error_element list" where
  "exchange_errors x = (case ex_receipt x of None \<Rightarrow> Inr [] | Some r \<Rightarrow> receipt_errors r)"

definition exchange_error :: "('y, 'b, 'z) exchange_scheme \<Rightarrow> exn + error_element option" where
  "exchange_error x =
     andThen (exchange_errors x) (\<lambda>es. Inr (case es of [] \<Rightarrow> None | e # _ \<Rightarrow> Some e))"

definition exchange_conversation_id :: "('y, 'b, 'z) exchange_scheme \<Rightarrow> exn + string option" where
  "exchange_conversation_id x =
     (case ex_message x of None \<Rightarrow> Inr None | Some m \<Rightarrow> conversation_id m)"

text \<open>
  \<open>restore\<close>: the stored text is parsed by \<open>json.loads\<close> and validated by pydantic, both parameters.
\<close>

definition restore ::
  "(string \<Rightarrow> exn + 'j) \<Rightarrow> ('j \<Rightarrow> exn + string) \<Rightarrow> ('j \<Rightarrow> internal_party \<Rightarrow> exn + 'x) \<Rightarrow>
   string \<Rightarrow> internal_party \<Rightarrow> exn + 'x" where
  "restore json_loads party_id_in validate serialised_exchange local_party =
     andThen (json_loads serialised_exchange) (\<lambda>stored.
     andThen (party_id_in stored) (\<lambda>stored_party_id.
     if stored_party_id \<noteq> identity_party_id (ip_identity local_party)
     then Inl (MismatchedLocalPartyError stored_party_id (identity_party_id (ip_identity local_party)))
     else validate stored local_party))"

section \<open>The sending side\<close>

definition default_message_ids_from_identifiers ::
  "('y, 'b) sending_exchange \<Rightarrow> ('y, 'b) sending_exchange" where
  "default_message_ids_from_identifiers x =
     x\<lparr>ex_message_id :=
         (if ex_message_id x = '''' then refs_message_id (ex_identifiers x) else ex_message_id x),
       ex_messaging_id :=
         (if ex_messaging_id x = '''' then refs_messaging_id (ex_identifiers x) else ex_messaging_id x)\<rparr>"

text \<open>The exchange a client creates, the fields it leaves out at their defaults.\<close>

definition new_sending_exchange ::
  "('y, 'b) profile \<Rightarrow> internal_party \<Rightarrow> external_party \<Rightarrow> as4_references \<Rightarrow> datetime \<Rightarrow>
   comparable_reference list option \<Rightarrow> ('y, 'b) sending_exchange" where
  "new_sending_exchange p local remote identifiers now required =
     default_message_ids_from_identifiers
       \<lparr>ex_profile = p, ex_local_party = local, ex_message_id = '''', ex_messaging_id = '''',
        ex_identifiers = identifiers, ex_state = CREATED, ex_created_at = now,
        ex_signed_references = [], ex_required_references = required,
        ex_message = None, ex_receipt = None, sx_remote_party = remote\<rparr>"

definition sending_conversation_id :: "('y, 'b) sending_exchange \<Rightarrow> exn + string option" where
  "sending_conversation_id x =
     (if ex_message x \<noteq> None then exchange_conversation_id x
      else Inr (Some (refs_conversation_id (ex_identifiers x))))"

definition sending_successful :: "('y, 'b) sending_exchange \<Rightarrow> bool" where
  "sending_successful x = (ex_state x = ACKNOWLEDGED)"

definition expected_signer :: "('y, 'b) sending_exchange \<Rightarrow> certificate" where
  "expected_signer x = certificate_of (xp_credentials (sx_remote_party x))"

text \<open>\<open>get_request_data\<close> and \<open>get_http_headers\<close> of the built message.\<close>

definition message_request_data ::
  "'z xml_lib_scheme \<Rightarrow> 'm mime_lib_scheme \<Rightarrow> datetime_lib \<Rightarrow> 'y message_scheme \<Rightarrow> exn + (bytes \<times> string)" where
  "message_request_data lib mime dt m =
     andThen (require_soap_envelope m) (\<lambda>env.
     andThen (dump_to_xml dt (clark ns_S12 ''Envelope'') (envelope_model env)) (\<lambda>e.
     Inr (build_request_data mime (tostring lib e) (Some (m_mime_attachments m)) None)))"

text \<open>\<open>pretty\<close> is \<^verbatim>\<open>etree.tostring(..., pretty_print=True)\<close>.  A parsed envelope keeps its tree.\<close>

definition soap_envelope_xml :: "(xml \<Rightarrow> bytes) \<Rightarrow> datetime_lib \<Rightarrow> 'y message_scheme \<Rightarrow> exn + bytes" where
  "soap_envelope_xml pretty dt m =
     andThen (require_soap_envelope m) (\<lambda>env.
     case etree_element env of
       Some e \<Rightarrow> Inr (pretty e)
     | None \<Rightarrow> andThen (dump_to_xml dt (clark ns_S12 ''Envelope'') (envelope_model env)) (\<lambda>e. Inr (pretty e)))"

record transport =
  clock_text :: string
  message_uuid :: string
  installed_version :: "string option"

definition message_http_headers ::
  "transport \<Rightarrow> string \<Rightarrow> string option \<Rightarrow> (string, string) dict" where
  "message_http_headers t boundary user_agent =
     build_request_headers (clock_text t) (message_uuid t) (installed_version t) boundary None user_agent"

definition exchange_build ::
  "'z xml_lib_scheme \<Rightarrow> 'm mime_lib_scheme \<Rightarrow> datetime_lib \<Rightarrow> transport \<Rightarrow> bytes \<Rightarrow> 'b \<Rightarrow>
   ('y, 'b) sending_exchange \<Rightarrow> (exn + ((string, string) dict \<times> bytes)) \<times> ('y, 'b) sending_exchange" where
  "exchange_build lib mime dt t payload builder_args x =
     (let (built, identifiers) =
            profile_build_message (ex_profile x) payload (ex_local_party x) (sx_remote_party x)
              builder_args (ex_identifiers x);
          x = x\<lparr>ex_identifiers := identifiers\<rparr>
      in case andThen built (\<lambda>m. andThen (message_request_data lib mime dt m) (\<lambda>rq. Inr (m, rq))) of
           Inl e \<Rightarrow> (Inl e, x)
         | Inr (m, body, boundary) \<Rightarrow>
             (Inr (message_http_headers t boundary None, body),
              x\<lparr>ex_message := Some m, ex_message_id := m_message_id m, ex_messaging_id := m_messaging_id m,
                ex_signed_references := signed_references m, ex_state := BUILT\<rparr>))"

definition mark_sent :: "('y, 'b) sending_exchange \<Rightarrow> ('y, 'b) sending_exchange" where
  "mark_sent x = x\<lparr>ex_state := SENT\<rparr>"

text \<open>The state a parsed signal leads to, and the error that is raised after it was recorded.\<close>

definition signal_verdict :: "('y, 'b) sending_exchange \<Rightarrow> receipt \<Rightarrow> exn + (exchange_state \<times> exn option)" where
  "signal_verdict x r =
     andThen (receipt_error r) (\<lambda>error.
     if error \<noteq> None then Inr (REJECTED, None)
     else
       (case verify_non_repudiation r (ex_signed_references x) (ex_required_references x) of
          Inr _ \<Rightarrow> Inr (ACKNOWLEDGED, None)
        | Inl (ReceiptVerificationError s) \<Rightarrow> Inr (FAILED, Some (ReceiptVerificationError s))
        | Inl e \<Rightarrow> Inl e))"

definition receive_signal ::
  "bytes \<Rightarrow> ('y, 'b) sending_exchange \<Rightarrow> (exn + unit) \<times> ('y, 'b) sending_exchange" where
  "receive_signal signal_data x =
     attempt (profile_parse_receipt (ex_profile x) signal_data (expected_signer x)) x (\<lambda>r.
     if r_original_message_id r \<noteq> Some (ex_message_id x)
     then (Inl (ReceiptVerificationError
            (''Signal refers to '' @ py_repr_opt (r_original_message_id r) @ '', not to this exchange's ''
             @ py_repr (ex_message_id x))), x)
     else
       attempt (signal_verdict x r) x (\<lambda>(state, unproven).
       let x = x\<lparr>ex_receipt := Some r, ex_state := state\<rparr>
       in case unproven of None \<Rightarrow> (Inr (), x) | Some e \<Rightarrow> (Inl e, x)))"

section \<open>The receiving side\<close>

definition new_receiving_exchange ::
  "('y, 'b) profile \<Rightarrow> internal_party \<Rightarrow> as4_references \<Rightarrow> datetime \<Rightarrow> external_party option \<Rightarrow>
   ('y, 'b) receiving_exchange" where
  "new_receiving_exchange p local identifiers now remote =
     \<lparr>ex_profile = p, ex_local_party = local, ex_message_id = '''', ex_messaging_id = '''',
      ex_identifiers = identifiers, ex_state = CREATED, ex_created_at = now,
      ex_signed_references = [], ex_required_references = None,
      ex_message = None, ex_receipt = None, rx_remote_party = remote\<rparr>"

definition receiving_successful :: "('y, 'b) receiving_exchange \<Rightarrow> bool" where
  "receiving_successful x = (ex_state x = RECEIVED)"

text \<open>The remote party of the message, with the two suppressed errors leaving the one there was.\<close>

definition known_remote_party :: "external_party option \<Rightarrow> 'y message_scheme \<Rightarrow> exn + external_party option" where
  "known_remote_party known m =
     (case get_remote_party m of
        Inr p \<Rightarrow> Inr (Some p)
      | Inl e \<Rightarrow>
          (case e of
             RemotePartyNotVerifiedError _ \<Rightarrow> Inr known
           | Receiptable r \<Rightarrow> if error_class r = UserMessageNotFoundException then Inr known else Inl e
           | _ \<Rightarrow> Inl e))"

definition receive_message ::
  "'y message_scheme \<Rightarrow> ('y, 'b) receiving_exchange \<Rightarrow> (exn + unit) \<times> ('y, 'b) receiving_exchange" where
  "receive_message m x =
     attempt (known_remote_party (rx_remote_party x) m) x (\<lambda>remote.
     attempt (profile_for_message (ex_profile x) m (ex_local_party x) (ex_identifiers x)) x (\<lambda>r.
     (Inr (),
      x\<lparr>ex_message := Some m, ex_message_id := m_message_id m, ex_messaging_id := m_messaging_id m,
        ex_signed_references := signed_references m, ex_receipt := Some r,
        ex_state := (if m_parse_error m \<noteq> None then REJECTED else RECEIVED),
        rx_remote_party := remote\<rparr>)))"

definition receive ::
  "(string, string) dict \<Rightarrow> bytes \<Rightarrow> participant_acceptor option \<Rightarrow> security_policy option \<Rightarrow>
   ('y, 'b) receiving_exchange \<Rightarrow> (exn + unit) \<times> ('y, 'b) receiving_exchange" where
  "receive request_headers request_body accept_participant policy x =
     (let ctx = \<lparr>ctx_local_party = ex_local_party x, ctx_accept_participant = accept_participant,
                 ctx_security_policy = (case policy of None \<Rightarrow> default_security_policy | Some p \<Rightarrow> p)\<rparr>
      in attempt (profile_parse_message (ex_profile x) (payload_from_request request_headers request_body) ctx) x
           (\<lambda>m. receive_message m x))"

definition build_signal ::
  "'z xml_lib_scheme \<Rightarrow> datetime_lib \<Rightarrow> ('y, 'b) receiving_exchange \<Rightarrow>
   exn + ((string, string) dict \<times> bytes)" where
  "build_signal lib dt x =
     (case ex_receipt x of
        None \<Rightarrow> Inl (ValueError ''Exchange has no signal to send; nothing has been received yet'')
      | Some r \<Rightarrow> receipt_get_request_data lib dt r)"

section \<open>The sending state machine\<close>

inductive sending_step :: "('y, 'b) sending_exchange \<Rightarrow> ('y, 'b) sending_exchange \<Rightarrow> bool" where
  step_build: "exchange_build (lib :: xml_lib) (mime :: mime_lib) dt t payload args x = (r, x') \<Longrightarrow> sending_step x x'"
| step_sent: "sending_step x (mark_sent x)"
| step_signal: "receive_signal d x = (r, x') \<Longrightarrow> sending_step x x'"

inductive sending_reachable :: "('y, 'b) sending_exchange \<Rightarrow> ('y, 'b) sending_exchange \<Rightarrow> bool"
  for x0 :: "('y, 'b) sending_exchange" where
  reach_start: "sending_reachable x0 x0"
| reach_step: "sending_reachable x0 x \<Longrightarrow> sending_step x x' \<Longrightarrow> sending_reachable x0 x'"

inductive_cases sending_stepE: "sending_step x x'"

text \<open>What a verdict recorded in an exchange rests on.\<close>

definition answered_by :: "('y, 'b) sending_exchange \<Rightarrow> receipt \<Rightarrow> bool" where
  "answered_by x r \<longleftrightarrow>
     ex_receipt x = Some r \<and> r_original_message_id r = Some (ex_message_id x) \<and>
     (\<exists>d. profile_parse_receipt (ex_profile x) d (expected_signer x) = Inr r)"

definition verdict_is_proven :: "('y, 'b) sending_exchange \<Rightarrow> bool" where
  "verdict_is_proven x \<longleftrightarrow>
     ex_state x \<noteq> RECEIVED \<and>
     (ex_state x = ACKNOWLEDGED \<longrightarrow> (\<exists>r. answered_by x r \<and> receipt_error r = Inr None \<and>
        verify_non_repudiation r (ex_signed_references x) (ex_required_references x) = Inr ())) \<and>
     (ex_state x = FAILED \<longrightarrow> (\<exists>r s. answered_by x r \<and> receipt_error r = Inr None \<and>
        verify_non_repudiation r (ex_signed_references x) (ex_required_references x) =
          Inl (ReceiptVerificationError s))) \<and>
     (ex_state x = REJECTED \<longrightarrow> (\<exists>r e. answered_by x r \<and> receipt_error r = Inr (Some e)))"

lemma build_effect:
  "exchange_build lib mime dt t payload args x = (r, x') \<Longrightarrow>
   (\<exists>e ids. r = Inl e \<and> x' = x\<lparr>ex_identifiers := ids\<rparr>) \<or>
   (\<exists>m ids out. r = Inr out \<and>
      x' = x\<lparr>ex_identifiers := ids, ex_message := Some m, ex_message_id := m_message_id m,
             ex_messaging_id := m_messaging_id m, ex_signed_references := signed_references m,
             ex_state := BUILT\<rparr>)"
  by (auto simp: exchange_build_def Let_def split: prod.splits sum.splits)

lemma verdict_eq_Inr:
  "signal_verdict x r = Inr (state, unproven) \<longleftrightarrow>
    (\<exists>e. receipt_error r = Inr (Some e) \<and> state = REJECTED \<and> unproven = None) \<or>
    receipt_error r = Inr None \<and>
      (verify_non_repudiation r (ex_signed_references x) (ex_required_references x) = Inr () \<and>
         state = ACKNOWLEDGED \<and> unproven = None \<or>
       (\<exists>s. verify_non_repudiation r (ex_signed_references x) (ex_required_references x) =
            Inl (ReceiptVerificationError s) \<and>
          state = FAILED \<and> unproven = Some (ReceiptVerificationError s)))"
  by (auto simp: signal_verdict_def result_simps split: sum.splits exn.splits if_splits)

lemma signal_effect:
  assumes "receive_signal d x = (out, x')"
  obtains (refused) e where "out = Inl e" "x' = x"
  | (recorded) r state unproven where
    "profile_parse_receipt (ex_profile x) d (expected_signer x) = Inr r"
    "r_original_message_id r = Some (ex_message_id x)"
    "signal_verdict x r = Inr (state, unproven)"
    "out = (case unproven of None \<Rightarrow> Inr () | Some e \<Rightarrow> Inl e)"
    "x' = x\<lparr>ex_receipt := Some r, ex_state := state\<rparr>"
proof (cases "profile_parse_receipt (ex_profile x) d (expected_signer x)")
  case (Inl e)
  with assms that(1) show ?thesis by (auto simp: receive_signal_def)
next
  case r: (Inr r)
  show ?thesis
  proof (cases "r_original_message_id r = Some (ex_message_id x)")
    case False
    with assms r that(1) show ?thesis by (auto simp: receive_signal_def)
  next
    case True
    show ?thesis
    proof (cases "signal_verdict x r")
      case (Inl e)
      with assms r True that(1) show ?thesis by (auto simp: receive_signal_def)
    next
      case (Inr v)
      with assms r True that(2) show ?thesis
        by (cases v) (auto simp: receive_signal_def Let_def split: option.splits)
    qed
  qed
qed

lemma verdict_is_proven_step:
  assumes "sending_step x x'" and "verdict_is_proven x"
  shows "verdict_is_proven x'"
  using assms(1)
proof (cases rule: sending_step.cases)
  case (step_build lib mime dt t payload args r)
  from build_effect [OF this] assms(2) show ?thesis
    by (auto simp: verdict_is_proven_def answered_by_def expected_signer_def)
next
  case step_sent
  with assms(2) show ?thesis by (simp add: verdict_is_proven_def mark_sent_def)
next
  case (step_signal d out)
  then show ?thesis
  proof (cases rule: signal_effect)
    case refused
    with assms(2) show ?thesis by simp
  next
    case (recorded r state unproven)
    then show ?thesis
      by (auto simp: verdict_is_proven_def answered_by_def expected_signer_def verdict_eq_Inr)
  qed
qed

lemma verdict_of_reachable:
  "sending_reachable (new_sending_exchange p local remote ids now required) x \<Longrightarrow> verdict_is_proven x"
proof (induction rule: sending_reachable.induct)
  case reach_start
  show ?case
    by (simp add: verdict_is_proven_def new_sending_exchange_def default_message_ids_from_identifiers_def)
next
  case (reach_step x x')
  then show ?case by (auto intro: verdict_is_proven_step)
qed

text \<open>
  C10.  Whatever methods are called on a sending exchange, in whatever order: it is ACKNOWLEDGED
  only while it holds a signal that verified under the remote party's certificate, names this
  message, carries no error and passes the non-repudiation check against what was signed; it is
  REJECTED only by such a signal with an error and FAILED only by one that fails the check; and it
  is never RECEIVED.
\<close>

theorem sending_verdict_is_proven:
  assumes "sending_reachable (new_sending_exchange p local remote ids now required) x"
  shows "verdict_is_proven x"
  using assms by (rule verdict_of_reachable)

lemma step_keeps_parties:
  "sending_step x x' \<Longrightarrow> ex_profile x' = ex_profile x \<and> sx_remote_party x' = sx_remote_party x \<and>
     ex_local_party x' = ex_local_party x \<and> ex_required_references x' = ex_required_references x"
  by (elim sending_stepE) (auto simp: mark_sent_def dest!: build_effect elim!: signal_effect)

lemma reachable_keeps_parties:
  "sending_reachable x0 x \<Longrightarrow> ex_profile x = ex_profile x0 \<and> sx_remote_party x = sx_remote_party x0 \<and>
     ex_required_references x = ex_required_references x0"
  by (induction rule: sending_reachable.induct) (auto dest: step_keeps_parties)

text \<open>
  A call of \<open>receive_signal\<close> either raises and leaves the exchange as it was, or records the
  parsed signal with its verdict and nothing else: it then returns for an acknowledgement and for an
  error signal, and raises exactly when the non-repudiation check failed, after recording it.
\<close>

lemma receive_signal_records_its_verdict:
  assumes "receive_signal d x = (out, x')"
  shows "(\<exists>e. out = Inl e) \<and> x' = x \<or>
    (\<exists>r. profile_parse_receipt (ex_profile x) d (expected_signer x) = Inr r \<and>
       r_original_message_id r = Some (ex_message_id x) \<and>
       x' = x\<lparr>ex_receipt := Some r, ex_state := ex_state x'\<rparr> \<and>
       ex_state x' \<in> {ACKNOWLEDGED, REJECTED, FAILED} \<and>
       (ex_state x' = REJECTED \<longleftrightarrow> receipt_error r \<noteq> Inr None) \<and>
       (returns out \<longleftrightarrow> ex_state x' \<noteq> FAILED))"
  using assms by (cases rule: signal_effect) (auto simp: verdict_eq_Inr)

section \<open>The interface of a profile's receipts\<close>

locale receipt_verifier =
  fixes p :: "('y, 'b) profile"
    and signed_by :: "certificate \<Rightarrow> receipt \<Rightarrow> bool"
  assumes parsed_receipt_is_signed: "profile_parse_receipt p d c = Inr r \<Longrightarrow> signed_by c r"
begin

lemma acknowledged_is_signed:
  assumes "sending_reachable (new_sending_exchange p local remote ids now required) x"
    and "sending_successful x"
  obtains r where "ex_receipt x = Some r" "signed_by (certificate_of (xp_credentials remote)) r"
    "r_original_message_id r = Some (ex_message_id x)"
    "verify_non_repudiation r (ex_signed_references x) required = Inr ()"
proof -
  from assms(1) have "ex_profile x = p" "sx_remote_party x = remote" "ex_required_references x = required"
    by (auto dest!: reachable_keeps_parties
        simp: new_sending_exchange_def default_message_ids_from_identifiers_def)
  note same = this
  from verdict_of_reachable [OF assms(1)] assms(2) obtain r where r: "answered_by x r"
    "verify_non_repudiation r (ex_signed_references x) (ex_required_references x) = Inr ()"
    by (auto simp: verdict_is_proven_def sending_successful_def)
  then obtain d where "profile_parse_receipt p d (certificate_of (xp_credentials remote)) = Inr r"
    by (auto simp: answered_by_def expected_signer_def same)
  with r show ?thesis
    by (intro that [of r]) (simp_all add: answered_by_def same parsed_receipt_is_signed)
qed

end

section \<open>The receiving side\<close>

lemma receive_message_unfold:
  "receive_message m x =
    (case known_remote_party (rx_remote_party x) m of
       Inl e \<Rightarrow> (Inl e, x)
     | Inr remote \<Rightarrow>
         (case profile_for_message (ex_profile x) m (ex_local_party x) (ex_identifiers x) of
            Inl e \<Rightarrow> (Inl e, x)
          | Inr r \<Rightarrow> (Inr (),
              x\<lparr>ex_message := Some m, ex_message_id := m_message_id m, ex_messaging_id := m_messaging_id m,
                ex_signed_references := signed_references m, ex_receipt := Some r,
                ex_state := (if parse_successful m then RECEIVED else REJECTED),
                rx_remote_party := remote\<rparr>)))"
  by (auto simp: receive_message_def attempt_def parse_successful_def split: sum.splits)

inductive receiving_step :: "('y, 'b) receiving_exchange \<Rightarrow> ('y, 'b) receiving_exchange \<Rightarrow> bool" where
  step_receive: "receive hs body accept policy x = (r, x') \<Longrightarrow> receiving_step x x'"
| step_message: "receive_message m x = (r, x') \<Longrightarrow> receiving_step x x'"

inductive receiving_reachable :: "('y, 'b) receiving_exchange \<Rightarrow> ('y, 'b) receiving_exchange \<Rightarrow> bool"
  for x0 :: "('y, 'b) receiving_exchange" where
  rreach_start: "receiving_reachable x0 x0"
| rreach_step: "receiving_reachable x0 x \<Longrightarrow> receiving_step x x' \<Longrightarrow> receiving_reachable x0 x'"

definition signal_is_for_message :: "('y, 'b) receiving_exchange \<Rightarrow> bool" where
  "signal_is_for_message x \<longleftrightarrow>
     (ex_state x = CREATED \<and> ex_message x = None \<and> ex_receipt x = None) \<or>
     (\<exists>m r. ex_message x = Some m \<and> ex_receipt x = Some r \<and>
        profile_for_message (ex_profile x) m (ex_local_party x) (ex_identifiers x) = Inr r \<and>
        ex_state x = (if parse_successful m then RECEIVED else REJECTED) \<and>
        ex_message_id x = m_message_id m \<and> ex_signed_references x = signed_references m)"

lemma receive_message_keeps:
  "receive_message m x = (r, x') \<Longrightarrow> signal_is_for_message x \<Longrightarrow> signal_is_for_message x'"
  by (auto simp: receive_message_unfold signal_is_for_message_def split: sum.splits)

lemma receiving_step_keeps: "receiving_step x x' \<Longrightarrow> signal_is_for_message x \<Longrightarrow> signal_is_for_message x'"
  by (elim receiving_step.cases) (auto simp: receive_def Let_def attempt_def dest: receive_message_keeps split: sum.splits)

text \<open>
  C27.  A receiving exchange either has received nothing, or holds a message and the signal its
  profile builds for exactly that message, RECEIVED or REJECTED by the message's own parse error.
\<close>

theorem receiving_signal_is_for_message:
  assumes "receiving_reachable (new_receiving_exchange p local ids now remote) x"
  shows "signal_is_for_message x"
  using assms
proof (induction rule: receiving_reachable.induct)
  case rreach_start
  show ?case by (simp add: signal_is_for_message_def new_receiving_exchange_def)
next
  case (rreach_step x x')
  then show ?case by (auto intro: receiving_step_keeps)
qed

text \<open>
  A stored exchange is restored only for the local party it was stored with.
\<close>

theorem restore_checks_the_party:
  "restore json_loads party_id_in validate s local_party = Inr x \<longleftrightarrow>
    (\<exists>stored. json_loads s = Inr stored \<and>
       party_id_in stored = Inr (identity_party_id (ip_identity local_party)) \<and>
       validate stored local_party = Inr x)"
  by (auto simp: restore_def result_simps split: if_splits)

end
