(* ===== verification/DocumentIdentifier.thy ===== *)
theory DocumentIdentifier
  imports Errors
begin

text \<open>
  The Peppol document type identifier: \<^verbatim>\<open>as4/profiles/peppol/document_identifier.py\<close>.  The regular
  expression is written out: its dots exclude the newline and its match is anchored at the start
  only, so the match lies in the first line and its last group reaches the end of that line; its
  greedy groups take the last \<open>##\<close> that a \<open>::\<close> follows, and then the last \<open>::\<close>.
\<close>

record document_identifier =
  doc_scheme :: string
  doc_syntax_specific_id :: string
  doc_customization_id :: string
  doc_version :: string

definition BUSDOX_DOCID_QNS :: string where "BUSDOX_DOCID_QNS = ''busdox-docid-qns''"

text \<open>The ways to cut a text around a separator of two characters, the last one first.\<close>

fun cuts :: "string \<Rightarrow> string \<Rightarrow> (string \<times> string) list" where
  "cuts sep [] = []"
| "cuts sep (c # s) =
     map (\<lambda>(a, b). (c # a, b)) (cuts sep s) @ (if startswith sep (c # s) then [([], drop (length sep) (c # s))] else [])"

definition first_line :: "string \<Rightarrow> string" where
  "first_line s = takeWhile (\<lambda>c. c \<noteq> CHR 0x0A) s"

definition qns_match :: "string \<Rightarrow> (string \<times> string \<times> string) option" where
  "qns_match s =
     (case filter (\<lambda>(a, b). cuts ''::'' b \<noteq> []) (cuts ''##'' (first_line s)) of
        [] \<Rightarrow> None
      | (a, b) # _ \<Rightarrow> Some (a, hd (cuts ''::'' b)))"

definition from_identifier_value :: "string \<Rightarrow> exn + document_identifier" where
  "from_identifier_value s =
     (let failure = Inl (ValueError ''Cannot construct BusdoxDocidQnsDocumentIdentifier from document_type_identifier'')
      in case qns_match s of
           None \<Rightarrow> failure
         | Some (syntax, customization, version) \<Rightarrow>
             if syntax \<noteq> '''' \<and> customization \<noteq> '''' \<and> version \<noteq> ''''
             then Inr \<lparr>doc_scheme = BUSDOX_DOCID_QNS, doc_syntax_specific_id = syntax,
                       doc_customization_id = customization, doc_version = version\<rparr>
             else failure)"

text \<open>\<open>split("::")\<close>\<close>

fun split_colons :: "string \<Rightarrow> string list" where
  "split_colons [] = [[]]"
| "split_colons [c] = [[c]]"
| "split_colons (c # d # s) =
     (if c = CHR '':'' \<and> d = CHR '':'' then [] # split_colons s
      else (case split_colons (d # s) of [] \<Rightarrow> [[c]] | w # ws \<Rightarrow> (c # w) # ws))"

definition index_of :: "'a list \<Rightarrow> nat \<Rightarrow> exn + 'a" where
  "index_of xs i = (if i < length xs then Inr (xs ! i) else Inl IndexError)"

definition root_element_namespace :: "document_identifier \<Rightarrow> exn + string" where
  "root_element_namespace d = index_of (split_colons (doc_syntax_specific_id d)) 0"

definition root_element_name :: "document_identifier \<Rightarrow> exn + string" where
  "root_element_name d = index_of (split_colons (doc_syntax_specific_id d)) 1"

definition identifier_value :: "document_identifier \<Rightarrow> string" where
  "identifier_value d =
     doc_syntax_specific_id d @ ''##'' @ doc_customization_id d @ ''::'' @ doc_version d"

definition document_action :: "document_identifier \<Rightarrow> string" where
  "document_action d = doc_scheme d @ ''::'' @ identifier_value d"

section \<open>Cuts\<close>

lemma cuts_sound: "(a, b) \<in> set (cuts sep s) \<Longrightarrow> s = a @ sep @ b"
  by (induction s arbitrary: a) (auto simp: startswith_iff split: if_splits)

lemma cuts_Nil_iff: "sep \<noteq> [] \<Longrightarrow> cuts sep s = [] \<longleftrightarrow> \<not> (\<exists>a b. s = a @ sep @ b)"
proof (induction s)
  case Nil
  then show ?case by simp
next
  case (Cons c s)
  have "(\<exists>a b. c # s = a @ sep @ b) \<longleftrightarrow> startswith sep (c # s) \<or> (\<exists>a b. s = a @ sep @ b)"
  proof
    assume "\<exists>a b. c # s = a @ sep @ b"
    then obtain a b where "c # s = a @ sep @ b" by blast
    then show "startswith sep (c # s) \<or> (\<exists>a b. s = a @ sep @ b)"
      by (cases a) (auto simp: startswith_iff)
  next
    assume "startswith sep (c # s) \<or> (\<exists>a b. s = a @ sep @ b)"
    then show "\<exists>a b. c # s = a @ sep @ b"
      by (metis append_Cons append_Nil startswith_iff)
  qed
  with Cons show ?case by auto
qed

text \<open>A cut after which no other one starts is the first in the list.\<close>

lemma cuts_append_last:
  assumes "\<forall>x y. drop 1 (sep @ b) \<noteq> x @ sep @ y" and "sep \<noteq> []"
  shows "\<exists>rest. cuts sep (a @ sep @ b) = (a, b) # rest"
proof (induction a)
  case Nil
  obtain c s where cs: "sep @ b = c # s" using assms(2) by (cases "sep @ b") auto
  with assms(1) have "cuts sep s = []" using cuts_Nil_iff [OF assms(2), of s] by auto
  moreover have "startswith sep (c # s)" "drop (length sep) (c # s) = b" using cs by (metis startswith_append, metis append_eq_conv_conj)
  ultimately show ?case by (simp add: cs)
next
  case (Cons c a)
  then show ?case by auto
qed

lemma no_cut:
  assumes "c \<notin> set s" shows "\<not> (\<exists>x y. s = x @ [c, d] @ y)"
  using assms by auto

lemma cuts_colons:
  assumes "CHR '':'' \<notin> set v"
  shows "\<exists>rest. cuts ''::'' (a @ ''::'' @ v) = (a, v) # rest"
proof (rule cuts_append_last)
  show "\<forall>x y. drop 1 (''::'' @ v) \<noteq> x @ ''::'' @ y"
  proof (intro allI notI)
    fix x y
    assume "drop 1 (''::'' @ v) = x @ ''::'' @ y"
    then have eq: "CHR '':'' # v = x @ ''::'' @ y" by simp
    then have "CHR '':'' \<in> set v" by (cases x) auto
    with assms show False by simp
  qed
qed simp

lemma filter_cuts_hash:
  assumes "CHR ''#'' \<notin> set c" and "CHR '':'' \<notin> set v" and "c \<noteq> []"
  shows "\<exists>rest. filter (\<lambda>(a, b). cuts ''::'' b \<noteq> []) (cuts ''##'' (s @ ''##'' @ c @ ''::'' @ v)) = (s, c @ ''::'' @ v) # rest"
proof (induction s)
  case Nil
  let ?tail = "CHR ''#'' # c @ ''::'' @ v"
  have later: "cuts ''::'' b = []" if cut: "(a, b) \<in> set (cuts ''##'' ?tail)" for a b
  proof -
    from cuts_sound [OF cut] have "?tail = a @ ''##'' @ b" .
    then have eq: "(CHR ''#'' # c @ ''::'') @ v = (a @ ''##'') @ b" by simp
    then obtain us where "CHR ''#'' # c @ ''::'' = (a @ ''##'') @ us \<or> v = us @ b"
      using iffD1 [OF append_eq_append_conv2 eq] by blast
    then have "v = us @ b"
    proof
      assume "CHR ''#'' # c @ ''::'' = (a @ ''##'') @ us"
      then have "CHR ''#'' # c @ ''::'' = a @ ''##'' @ us" by simp
      then have "CHR ''#'' \<in> set (c @ ''::'')" by (cases a) auto
      with assms(1) show ?thesis by simp
    qed
    then have "CHR '':'' \<notin> set b" using assms(2) by auto
    then show ?thesis using cuts_Nil_iff [of "''::''" b] by auto
  qed
  have none: "filter (\<lambda>(a, b). cuts ''::'' b \<noteq> []) (map (\<lambda>(a, b). (CHR ''#'' # a, b)) (cuts ''##'' ?tail)) = []"
    unfolding filter_empty_conv using later by (auto simp del: cuts.simps)
  have "cuts ''::'' (c @ ''::'' @ v) \<noteq> []" using cuts_Nil_iff [of "''::''" "c @ ''::'' @ v"] by auto
  then show ?case using none by (simp add: startswith_def)
next
  case (Cons x s)
  then obtain rest where rest:
    "filter (\<lambda>(a, b). cuts ''::'' b \<noteq> []) (cuts ''##'' (s @ ''##'' @ c @ ''::'' @ v)) = (s, c @ ''::'' @ v) # rest" ..
  have "filter (\<lambda>(a, b). cuts ''::'' b \<noteq> []) (map (\<lambda>(a, b). (x # a, b)) ps) =
      map (\<lambda>(a, b). (x # a, b)) (filter (\<lambda>(a, b). cuts ''::'' b \<noteq> []) ps)" for ps
    by (induction ps) auto
  with rest show ?case by auto
qed

text \<open>
  C32.  An accepted identifier is rebuilt from its parts: \<open>identifier_value\<close> gives back the first line
  of the text it was read from, and no part is empty.
\<close>

theorem identifier_value_of_parsed:
  assumes "from_identifier_value s = Inr d"
  shows "identifier_value d = first_line s \<and> doc_scheme d = BUSDOX_DOCID_QNS \<and>
    doc_syntax_specific_id d \<noteq> '''' \<and> doc_customization_id d \<noteq> '''' \<and> doc_version d \<noteq> ''''"
proof -
  from assms obtain a b where cut: "(a, b) \<in> set (cuts ''##'' (first_line s))" and b: "cuts ''::'' b \<noteq> []"
    and d: "d = \<lparr>doc_scheme = BUSDOX_DOCID_QNS, doc_syntax_specific_id = a,
              doc_customization_id = fst (hd (cuts ''::'' b)), doc_version = snd (hd (cuts ''::'' b))\<rparr>"
    and parts: "a \<noteq> ''''" "fst (hd (cuts ''::'' b)) \<noteq> ''''" "snd (hd (cuts ''::'' b)) \<noteq> ''''"
    by (force simp: from_identifier_value_def qns_match_def Let_def filter_eq_Cons_iff
        split: option.splits list.splits if_splits prod.splits)
  from b have "hd (cuts ''::'' b) \<in> set (cuts ''::'' b)" by simp
  then have "b = fst (hd (cuts ''::'' b)) @ ''::'' @ snd (hd (cuts ''::'' b))"
    by (intro cuts_sound) simp
  with cuts_sound [OF cut] d parts show ?thesis by (simp add: identifier_value_def)
qed

text \<open>
  C33.  An identifier whose parts keep clear of the separators is read back from its text.
\<close>

theorem parse_identifier_value:
  assumes "doc_scheme d = BUSDOX_DOCID_QNS"
    and "doc_syntax_specific_id d \<noteq> ''''" and "doc_customization_id d \<noteq> ''''" and "doc_version d \<noteq> ''''"
    and "CHR 0x0A \<notin> set (identifier_value d)"
    and "CHR ''#'' \<notin> set (doc_customization_id d)" and "CHR '':'' \<notin> set (doc_version d)"
  shows "from_identifier_value (identifier_value d) = Inr d"
proof -
  have line: "first_line (identifier_value d) = identifier_value d"
    using assms(5) by (simp add: first_line_def takeWhile_eq_all_conv) metis
  obtain rest where "filter (\<lambda>(a, b). cuts ''::'' b \<noteq> []) (cuts ''##'' (identifier_value d)) =
      (doc_syntax_specific_id d, doc_customization_id d @ ''::'' @ doc_version d) # rest"
    using filter_cuts_hash [OF assms(6,7,3)] unfolding identifier_value_def by blast
  moreover obtain rest' where "cuts ''::'' (doc_customization_id d @ ''::'' @ doc_version d) =
      (doc_customization_id d, doc_version d) # rest'"
    using cuts_colons [OF assms(7)] by blast
  ultimately have "qns_match (identifier_value d) =
      Some (doc_syntax_specific_id d, doc_customization_id d, doc_version d)"
    unfolding qns_match_def line by simp
  with assms(1-4) show ?thesis
    by (cases d) (simp add: from_identifier_value_def Let_def)
qed

end
