(* ===== verification/PeppolMessage.thy ===== *)
theory PeppolMessage
  imports Exchange DocumentIdentifier
begin

text \<open>
  Receiving a Peppol message: \<^verbatim>\<open>as4/profiles/peppol/message.py\<close> over the element models of
  \<^verbatim>\<open>as4/models/unece/sbdh.py\<close> and the errors of \<^verbatim>\<open>as4/profiles/peppol/exceptions.py\<close>.  The override of
  \<open>process\<close> reads the StandardBusinessDocumentHeader of the first attachment after the core checks.
  The XML schema check and the pydantic validation of the header are parameters, as is \<open>repr\<close> of a
  set, whose order Python leaves open.
\<close>

section \<open>The element models\<close>

record sbdh_header_version = base_element +
  sbdh_header_version_value :: "string"

definition sbdh_header_version_model :: "sbdh_header_version \<Rightarrow> model" where
  "sbdh_header_version_model x =
     Model
       [declared ''#text'' AnnStr (CStr (sbdh_header_version_value x))]
       []"

record sbdh_identifier = base_element +
  sbdh_identifier_authority :: "string option"
  sbdh_identifier_value :: "string"

definition sbdh_identifier_model :: "sbdh_identifier \<Rightarrow> model" where
  "sbdh_identifier_model x =
     Model
       [declared ''@Authority'' (AnnOptional AnnStr) (opt_content CStr (sbdh_identifier_authority x)),
        declared ''#text'' AnnStr (CStr (sbdh_identifier_value x))]
       []"

record sbdh_sender = base_element +
  sbdh_sender_identifier :: "sbdh_identifier"

definition sbdh_sender_model :: "sbdh_sender \<Rightarrow> model" where
  "sbdh_sender_model x =
     Model
       [declared (clark ns_sbdh ''Identifier'') AnnModel (CModel (sbdh_identifier_model (sbdh_sender_identifier x)))]
       []"

record sbdh_receiver = base_element +
  sbdh_receiver_identifier :: "sbdh_identifier"

definition sbdh_receiver_model :: "sbdh_receiver \<Rightarrow> model" where
  "sbdh_receiver_model x =
     Model
       [declared (clark ns_sbdh ''Identifier'') AnnModel (CModel (sbdh_identifier_model (sbdh_receiver_identifier x)))]
       []"

record sbdh_standard = base_element +
  sbdh_standard_value :: "string"

definition sbdh_standard_model :: "sbdh_standard \<Rightarrow> model" where
  "sbdh_standard_model x =
     Model
       [declared ''#text'' AnnStr (CStr (sbdh_standard_value x))]
       []"

record sbdh_type_version = base_element +
  sbdh_type_version_value :: "string"

definition sbdh_type_version_model :: "sbdh_type_version \<Rightarrow> model" where
  "sbdh_type_version_model x =
     Model
       [declared ''#text'' AnnStr (CStr (sbdh_type_version_value x))]
       []"

record sbdh_instance_identifier = base_element +
  sbdh_instance_identifier_value :: "string"

definition sbdh_instance_identifier_model :: "sbdh_instance_identifier \<Rightarrow> model" where
  "sbdh_instance_identifier_model x =
     Model
       [declared ''#text'' AnnStr (CStr (sbdh_instance_identifier_value x))]
       []"

record sbdh_type = base_element +
  sbdh_type_value :: "string"

definition sbdh_type_model :: "sbdh_type \<Rightarrow> model" where
  "sbdh_type_model x =
     Model
       [declared ''#text'' AnnStr (CStr (sbdh_type_value x))]
       []"

record sbdh_creation_date_and_time = base_element +
  sbdh_creation_date_and_time_value :: "datetime"

definition sbdh_creation_date_and_time_model :: "sbdh_creation_date_and_time \<Rightarrow> model" where
  "sbdh_creation_date_and_time_model x =
     Model
       [declared ''#text'' AnnDatetime (CDatetime (sbdh_creation_date_and_time_value x))]
       []"

record sbdh_document_identification = base_element +
  sbdh_document_identification_standard :: "sbdh_standard"
  sbdh_document_identification_type_version :: "sbdh_type_version"
  sbdh_document_identification_instance_identifier :: "sbdh_instance_identifier"
  sbdh_document_identification_document_identification_type :: "sbdh_type"
  sbdh_document_identification_creation_date_and_time :: "sbdh_creation_date_and_time"

definition sbdh_document_identification_model :: "sbdh_document_identification \<Rightarrow> model" where
  "sbdh_document_identification_model x =
     Model
       [declared (clark ns_sbdh ''Standard'') AnnModel (CModel (sbdh_standard_model (sbdh_document_identification_standard x))),
        declared (clark ns_sbdh ''TypeVersion'') AnnModel (CModel (sbdh_type_version_model (sbdh_document_identification_type_version x))),
        declared (clark ns_sbdh ''InstanceIdentifier'') AnnModel (CModel (sbdh_instance_identifier_model (sbdh_document_identification_instance_identifier x))),
        declared (clark ns_sbdh ''Type'') AnnModel (CModel (sbdh_type_model (sbdh_document_identification_document_identification_type x))),
        declared (clark ns_sbdh ''CreationDateAndTime'') AnnModel (CModel (sbdh_creation_date_and_time_model (sbdh_document_identification_creation_date_and_time x)))]
       []"

record sbdh_scope_identifier = base_element +
  sbdh_scope_identifier_value :: "string"

definition sbdh_scope_identifier_model :: "sbdh_scope_identifier \<Rightarrow> model" where
  "sbdh_scope_identifier_model x =
     Model
       [declared ''#text'' AnnStr (CStr (sbdh_scope_identifier_value x))]
       []"

record sbdh_scope = base_element +
  sbdh_scope_scope_type :: "sbdh_type"
  sbdh_scope_instance_identifier :: "sbdh_instance_identifier"
  sbdh_scope_identifier :: "sbdh_scope_identifier option"

definition sbdh_scope_model :: "sbdh_scope \<Rightarrow> model" where
  "sbdh_scope_model x =
     Model
       [declared (clark ns_sbdh ''Type'') AnnModel (CModel (sbdh_type_model (sbdh_scope_scope_type x))),
        declared (clark ns_sbdh ''InstanceIdentifier'') AnnModel (CModel (sbdh_instance_identifier_model (sbdh_scope_instance_identifier x))),
        declared (clark ns_sbdh ''Identifier'') (AnnOptional (AnnAnnotated AnnModel [OtherMetadata])) (opt_content (model_content sbdh_scope_identifier_model) (sbdh_scope_identifier x))]
       []"

record sbdh_business_scope = base_element +
  sbdh_business_scope_scopes :: "sbdh_scope list"

definition sbdh_business_scope_model :: "sbdh_business_scope \<Rightarrow> model" where
  "sbdh_business_scope_model x =
     Model
       [declared (clark ns_sbdh ''Scope'') (AnnList AnnModel) (model_list sbdh_scope_model (sbdh_business_scope_scopes x))]
       []"

record sbdh_header = base_element +
  sbdh_header_header_version :: "sbdh_header_version"
  sbdh_header_sender :: "sbdh_sender"
  sbdh_header_receiver :: "sbdh_receiver"
  sbdh_header_document_identification :: "sbdh_document_identification"
  sbdh_header_business_scope :: "sbdh_business_scope"

definition sbdh_header_model :: "sbdh_header \<Rightarrow> model" where
  "sbdh_header_model x =
     Model
       [declared (clark ns_sbdh ''HeaderVersion'') AnnModel (CModel (sbdh_header_version_model (sbdh_header_header_version x))),
        declared (clark ns_sbdh ''Sender'') AnnModel (CModel (sbdh_sender_model (sbdh_header_sender x))),
        declared (clark ns_sbdh ''Receiver'') AnnModel (CModel (sbdh_receiver_model (sbdh_header_receiver x))),
        declared (clark ns_sbdh ''DocumentIdentification'') AnnModel (CModel (sbdh_document_identification_model (sbdh_header_document_identification x))),
        declared (clark ns_sbdh ''BusinessScope'') AnnModel (CModel (sbdh_business_scope_model (sbdh_header_business_scope x)))]
       []"

record sbdh_document = base_element +
  sbdh_document_standard_business_document_header :: "sbdh_header"

definition sbdh_document_model :: "sbdh_document \<Rightarrow> model" where
  "sbdh_document_model x =
     Model
       [declared (clark ns_sbdh ''StandardBusinessDocumentHeader'') AnnModel (CModel (sbdh_header_model (sbdh_document_standard_business_document_header x)))]
       (get_content_from_element (wildcard ''##any'' None) (etree_element x)
        [clark ns_sbdh ''StandardBusinessDocumentHeader''])"

section \<open>State\<close>

record peppol_message = message +
  p_sender :: "string option"
  p_recipient :: "string option"
  p_document_type_identifier_value :: "string option"
  p_document_type_identifier_scheme :: "string option"
  p_process_identifier :: "string option"

definition empty_peppol_message :: peppol_message where
  "empty_peppol_message =
     message.extend empty_message
       (peppol_message.fields None None None None None)"

record peppol_lib = receipt_lib +
  validate_sbd :: "(dict_key, pyvalue) dict \<Rightarrow> exn + sbdh_document"
  schema_validate :: "xml \<Rightarrow> bool"
  schema_last_error :: "xml \<Rightarrow> string option"
  repr_string_set :: "string set \<Rightarrow> string"

text \<open>
  \<open>SBDHSchema.validation_error\<close> over lxml's validator, whose error log may be empty.  The lock around
  it serialises threads on the shared log.
\<close>

definition sbdh_validation_error :: "'z peppol_lib_scheme \<Rightarrow> xml \<Rightarrow> string option" where
  "sbdh_validation_error lib element =
     (if schema_validate lib element then None
      else Some (case schema_last_error lib element of None \<Rightarrow> '''' | Some message \<Rightarrow> message))"

definition MANDATORY_SBDH_SCOPE_TYPE_VALUES :: "string set" where
  "MANDATORY_SBDH_SCOPE_TYPE_VALUES = {''PROCESSID'', ''DOCUMENTID'', ''COUNTRY_C1''}"

definition PEPPOL_PARTY_IDENTIFIER_TYPE :: string where
  "PEPPOL_PARTY_IDENTIFIER_TYPE = ''urn:fdc:peppol.eu:2017:identifiers:ap''"

definition sbdh_error :: "string \<Rightarrow> exn" where
  "sbdh_error d = Receiptable (make_error PeppolSBDHException d)"

section \<open>Checks\<close>

definition verify_party_identifier :: "string \<times> party_id \<Rightarrow> exn + unit" where
  "verify_party_identifier ep =
     (let (element, party) = ep
      in require (pid_type_value party = Some PEPPOL_PARTY_IDENTIFIER_TYPE)
           (Receiptable (peppol_party_identifier_error element (pid_type_value party))))"

definition verify_party_identifiers :: "envelope option \<Rightarrow> exn + unit" where
  "verify_party_identifiers envelope =
     andThen (case envelope of None \<Rightarrow> Inr None | Some env \<Rightarrow> user_message_of env)
       (\<lambda>user_message.
          case user_message of
            None \<Rightarrow> Inl (receiptable_exn UserMessageNotFoundException)
          | Some um \<Rightarrow>
              for_each verify_party_identifier
                [(''From'', pf_party_id (pi_party_from (um_party_info um))),
                 (''To'', pt_party_id (pi_party_to (um_party_info um)))])"

definition message_properties_of :: "'y message_scheme \<Rightarrow> exn + message_properties option" where
  "message_properties_of m =
     (case m_soap_envelope m of
        None \<Rightarrow> Inr None
      | Some env \<Rightarrow> andThen (user_message_of env) (\<lambda>um. Inr (Option.bind um um_message_properties)))"

definition verify_participant :: "string \<times> property option \<times> sbdh_identifier \<Rightarrow> exn + unit" where
  "verify_participant ndi =
     (let (name, declared, identifier) = ndi;
          i_value = sbdh_identifier_value identifier;
          i_authority = sbdh_identifier_authority identifier
      in case declared of
           None \<Rightarrow> Inl (sbdh_error
             (''SBDH names '' @ py_repr i_value @ '' where the '' @ name @ '' property is absent''))
         | Some p \<Rightarrow>
             if (prop_value p, prop_property_type p) \<noteq> (i_value, i_authority)
             then Inl (sbdh_error
               (''SBDH names '' @ py_repr i_value @ '' under '' @ py_repr_opt i_authority @ '' where the ''
                @ name @ '' property names '' @ py_repr (prop_value p) @ '' under ''
                @ py_repr_opt (prop_property_type p)))
             else Inr ())"

definition verify_participants_agree ::
  "message_properties option \<Rightarrow> sbdh_identifier \<Rightarrow> sbdh_identifier \<Rightarrow> exn + unit" where
  "verify_participants_agree properties sender recipient =
     for_each verify_participant
       [(ORIGINAL_SENDER, Option.bind properties original_sender, sender),
        (FINAL_RECIPIENT, Option.bind properties final_recipient, recipient)]"

section \<open>The business document header\<close>

definition first_payload :: "'y message_scheme \<Rightarrow> bytes option" where
  "first_payload m =
     (case m_mime_attachments m of [] \<Rightarrow> None | (i, _) # _ \<Rightarrow> dict_get (m_decrypted_data m) i)"

definition read_sbdh :: "'z peppol_lib_scheme \<Rightarrow> 'y message_scheme \<Rightarrow> exn + sbdh_header" where
  "read_sbdh lib m =
     (case first_payload m of
        None \<Rightarrow> Inl (sbdh_error ''The first MIME attachment carries no decrypted payload'')
      | Some payload \<Rightarrow>
          andThen (rethrow (\<lambda>e. if e = XMLSyntaxError
                                 then sbdh_error ''The first MIME attachment is not well-formed XML'' else e)
                    (parse_xml lib payload))
            (\<lambda>sbd_element.
               case find_first sbd_element [clark ns_sbdh ''StandardBusinessDocumentHeader''] of
                 None \<Rightarrow> Inl (sbdh_error ''Decrypted payload carries no StandardBusinessDocumentHeader'')
               | Some sbdh_element \<Rightarrow>
                   (case sbdh_validation_error lib sbdh_element of
                      Some err \<Rightarrow> Inl (sbdh_error (''The SBDH is not schema valid''
                        @ (if err \<noteq> '''' then '': '' @ err else '''')))
                    | None \<Rightarrow>
                        andThen (validate_sbd lib (element_to_dict sbd_element))
                          (\<lambda>d. Inr (sbdh_document_standard_business_document_header d)))))"

definition accept_recipient :: "parse_context \<Rightarrow> string \<Rightarrow> exn + unit" where
  "accept_recipient ctx recipient =
     (case ctx_accept_participant ctx of
        None \<Rightarrow> Inr ()
      | Some accept_participant \<Rightarrow>
          rethrow (\<lambda>e. case e of ParticipantNotServicedError _ \<Rightarrow> receiptable_exn PeppolNotServicedException
                               | _ \<Rightarrow> e)
            (accept_participant recipient))"

definition scopes_by_type :: "sbdh_header \<Rightarrow> (string, sbdh_scope) dict" where
  "scopes_by_type h =
     dict_of (map (\<lambda>s. (sbdh_type_value (sbdh_scope_scope_type s), s))
                (sbdh_business_scope_scopes (sbdh_header_business_scope h))) []"

definition header_sender :: "sbdh_header \<Rightarrow> sbdh_identifier" where
  "header_sender h = sbdh_sender_identifier (sbdh_header_sender h)"

definition header_recipient :: "sbdh_header \<Rightarrow> sbdh_identifier" where
  "header_recipient h = sbdh_receiver_identifier (sbdh_header_receiver h)"

definition scope_value :: "sbdh_scope \<Rightarrow> string" where
  "scope_value s = sbdh_instance_identifier_value (sbdh_scope_instance_identifier s)"

definition store_scopes ::
  "'z peppol_lib_scheme \<Rightarrow> sbdh_header \<Rightarrow> peppol_message \<Rightarrow> (exn + unit) \<times> peppol_message" where
  "store_scopes lib h m =
     (let scopes = scopes_by_type h;
          missing = MANDATORY_SBDH_SCOPE_TYPE_VALUES - set (map fst scopes) in
      if missing \<noteq> {}
      then (Inl (sbdh_error (''Missing expected scopes with scope types: '' @ repr_string_set lib missing)), m)
      else
        (case (dict_get scopes ''DOCUMENTID'', dict_get scopes ''PROCESSID'') of
           (Some document_scope, Some process_scope) \<Rightarrow>
             (Inr (),
              m\<lparr>p_document_type_identifier_value := Some (scope_value document_scope),
                p_document_type_identifier_scheme := Some
                  (case sbdh_scope_identifier document_scope of
                     Some i \<Rightarrow> sbdh_scope_identifier_value i
                   | None \<Rightarrow> BUSDOX_DOCID_QNS),
                p_process_identifier := Some (scope_value process_scope)\<rparr>)
         | _ \<Rightarrow> (Inl (KeyError ''DOCUMENTID''), m)))"

definition process_sbdh ::
  "'z peppol_lib_scheme \<Rightarrow> parse_context \<Rightarrow> peppol_message \<Rightarrow> (exn + unit) \<times> peppol_message" where
  "process_sbdh lib ctx m =
     attempt (verify_party_identifiers (m_soap_envelope m)) m (\<lambda>_.
     attempt (read_sbdh lib m) m (\<lambda>h.
     let sender = header_sender h; recipient = header_recipient h;
         m = m\<lparr>p_sender := Some (sbdh_identifier_value sender),
               p_recipient := Some (sbdh_identifier_value recipient)\<rparr> in
     attempt (if verify_participants (ctx_security_policy ctx)
              then andThen (message_properties_of m) (\<lambda>properties. verify_participants_agree properties sender recipient)
              else Inr ()) m (\<lambda>_.
     attempt (accept_recipient ctx (sbdh_identifier_value recipient)) m (\<lambda>_.
     store_scopes lib h m))))"

definition sbdh_validation_failed :: "exn \<Rightarrow> exn" where
  "sbdh_validation_failed e =
     (case e of
        ValidationError ds \<Rightarrow>
          (case ds of
             [] \<Rightarrow> ValueError ''not enough values to unpack (expected at least 1, got 0)''
           | d # _ \<Rightarrow> Receiptable (from_pydantic_error PeppolSBDHException d))
      | _ \<Rightarrow> e)"

definition peppol_process ::
  "'z peppol_lib_scheme \<Rightarrow> parse_context \<Rightarrow> xml \<Rightarrow> (string, bytes) dict \<Rightarrow> peppol_message \<Rightarrow>
   (exn + unit) \<times> peppol_message" where
  "peppol_process lib ctx e attachments m =
     (case process lib ctx e attachments m of
        (Inl x, m1) \<Rightarrow> (Inl x, m1)
      | (Inr _, m1) \<Rightarrow>
          (case process_sbdh lib ctx m1 of
             (Inl x, m2) \<Rightarrow> (Inl (sbdh_validation_failed x), m2)
           | (Inr u, m2) \<Rightarrow> (Inr u, m2)))"

definition parse_peppol ::
  "'z peppol_lib_scheme \<Rightarrow> parse_context \<Rightarrow> bytes \<Rightarrow> (string, bytes) dict \<Rightarrow> exn + peppol_message" where
  "parse_peppol lib ctx = parse lib (peppol_process lib ctx) empty_peppol_message"

end
