(* ===== verification/PeppolBuilder.thy ===== *)
theory PeppolBuilder
  imports PeppolMessage
begin

text \<open>
  Building a Peppol message: the builder half of \<^verbatim>\<open>as4/profiles/peppol/message.py\<close>.  The business
  document is wrapped in its header, compressed, encrypted with a fresh session key that is wrapped
  for the remote party, and its digest is signed beside those of the eb:Messaging and the Body.
  Compression, RSA encryption, the random source and the clock are parameters.
\<close>

section \<open>Arguments and constants\<close>

record peppol_builder_args =
  pb_sender :: string
  pb_recipient :: string
  pb_document_type_identifier :: document_identifier
  pb_document_identification_instance_identifier :: string
  pb_process_identifier :: string
  pb_c1_country_id :: string

record builder_lib = mime_lib +
  rsa_encrypt :: "rsa_public_key \<Rightarrow> bytes \<Rightarrow> padding \<Rightarrow> exn + bytes"
  gzip_compress :: "bytes \<Rightarrow> bytes"

definition PEPPOL_AP_PROVIDER :: string where
  "PEPPOL_AP_PROVIDER = ''urn:fdc:peppol.eu:2017:agreements:tia:ap_provider''"
definition CENBII_PROCID_UBL :: string where "CENBII_PROCID_UBL = ''cenbii-procid-ubl''"
definition ISO6523_ACTOR_ID :: string where "ISO6523_ACTOR_ID = ''iso6523-actorid-upis''"
definition MGF1_SHA256 :: string where "MGF1_SHA256 = ''http://www.w3.org/2009/xmlenc11#mgf1sha256''"
definition SWA_PROFILE_ATTACHMENT_CONTENT_ONLY :: string where
  "SWA_PROFILE_ATTACHMENT_CONTENT_ONLY =
     ''http://docs.oasis-open.org/wss/oasis-wss-SwAProfile-1.1#Attachment-Content-Only''"
definition ENCRYPTED_KEY_TOKEN_TYPE :: string where
  "ENCRYPTED_KEY_TOKEN_TYPE =
     ''http://docs.oasis-open.org/wss/oasis-wss-soap-message-security-1.1#EncryptedKey''"
definition ATTACHMENT_CIPHERTEXT_TRANSFORM :: string where
  "ATTACHMENT_CIPHERTEXT_TRANSFORM =
     ''http://docs.oasis-open.org/wss/oasis-wss-SwAProfile-1.1#Attachment-Ciphertext-Transform''"

section \<open>The business document\<close>

definition new_scope :: "string \<Rightarrow> string \<Rightarrow> string option \<Rightarrow> sbdh_scope" where
  "new_scope scope_type instance_value identifier =
     \<lparr>etree_element = None,
      sbdh_scope_scope_type = \<lparr>etree_element = None, sbdh_type_value = scope_type\<rparr>,
      sbdh_scope_instance_identifier =
        \<lparr>etree_element = None, sbdh_instance_identifier_value = instance_value\<rparr>,
      sbdh_scope_identifier =
        map_option (\<lambda>v. \<lparr>etree_element = None, sbdh_scope_identifier_value = v\<rparr>) identifier\<rparr>"

definition new_identifier :: "string \<Rightarrow> sbdh_identifier" where
  "new_identifier v =
     \<lparr>etree_element = None, sbdh_identifier_authority = Some ISO6523_ACTOR_ID, sbdh_identifier_value = v\<rparr>"

definition get_standard_business_document :: "datetime \<Rightarrow> peppol_builder_args \<Rightarrow> exn + sbdh_document" where
  "get_standard_business_document now args =
     (let doc_id = pb_document_type_identifier args in
      andThen (root_element_namespace doc_id) (\<lambda>root_namespace.
      andThen (root_element_name doc_id) (\<lambda>root_name.
      Inr
       \<lparr>etree_element = None,
        sbdh_document_standard_business_document_header =
          \<lparr>etree_element = None,
           sbdh_header_header_version = \<lparr>etree_element = None, sbdh_header_version_value = ''1.0''\<rparr>,
           sbdh_header_sender =
             \<lparr>etree_element = None, sbdh_sender_identifier = new_identifier (pb_sender args)\<rparr>,
           sbdh_header_receiver =
             \<lparr>etree_element = None, sbdh_receiver_identifier = new_identifier (pb_recipient args)\<rparr>,
           sbdh_header_document_identification =
             \<lparr>etree_element = None,
              sbdh_document_identification_standard =
                \<lparr>etree_element = None, sbdh_standard_value = root_namespace\<rparr>,
              sbdh_document_identification_type_version =
                \<lparr>etree_element = None, sbdh_type_version_value = doc_version doc_id\<rparr>,
              sbdh_document_identification_instance_identifier =
                \<lparr>etree_element = None,
                 sbdh_instance_identifier_value = pb_document_identification_instance_identifier args\<rparr>,
              sbdh_document_identification_document_identification_type =
                \<lparr>etree_element = None, sbdh_type_value = root_name\<rparr>,
              sbdh_document_identification_creation_date_and_time =
                \<lparr>etree_element = None, sbdh_creation_date_and_time_value = now\<rparr>\<rparr>,
           sbdh_header_business_scope =
             \<lparr>etree_element = None,
              sbdh_business_scope_scopes =
                [new_scope ''DOCUMENTID'' (identifier_value doc_id) (Some (doc_scheme doc_id)),
                 new_scope ''PROCESSID'' (pb_process_identifier args) (Some CENBII_PROCID_UBL),
                 new_scope ''COUNTRY_C1'' (pb_c1_country_id args) None]\<rparr>\<rparr>\<rparr>)))"

section \<open>The user message\<close>

definition new_property :: "string option \<Rightarrow> string \<Rightarrow> string \<Rightarrow> property" where
  "new_property ty name v =
     \<lparr>etree_element = None, prop_property_type = ty, prop_value = v, prop_name = name\<rparr>"

definition get_user_message_model ::
  "datetime \<Rightarrow> internal_party \<Rightarrow> external_party \<Rightarrow> peppol_builder_args \<Rightarrow> as4_references \<Rightarrow> user_message" where
  "get_user_message_model now local_party remote_party args references =
     (let doc_id = pb_document_type_identifier args;
          part_info_part_properties =
            \<lparr>etree_element = None,
             pp_properties = [new_property None ''MimeType'' ''application/xml'',
                              new_property None ''CompressionType'' ''application/gzip'']\<rparr>
      in \<lparr>etree_element = None,
          um_message_info = new_message_info now (refs_message_id references) None,
          um_party_info =
            \<lparr>etree_element = None, pi_party_from = to_party_from (ip_identity local_party),
             pi_party_to = to_party_to (xp_identity remote_party)\<rparr>,
          um_collaboration_info =
            \<lparr>etree_element = None,
             ci_agreement_ref = Some
               \<lparr>etree_element = None, ar_value = PEPPOL_AP_PROVIDER, ar_type_value = None, ar_pmode = None\<rparr>,
             ci_service =
               \<lparr>etree_element = None, svc_value = pb_process_identifier args,
                svc_type_value = Some CENBII_PROCID_UBL\<rparr>,
             ci_action = \<lparr>etree_element = None, act_value = document_action doc_id\<rparr>,
             ci_conversation_id =
               \<lparr>etree_element = None, cid_value = refs_conversation_id references\<rparr>\<rparr>,
          um_message_properties = Some
            \<lparr>etree_element = None,
             mp_properties =
               [new_property (Some ISO6523_ACTOR_ID) ORIGINAL_SENDER (pb_sender args),
                new_property (Some ISO6523_ACTOR_ID) FINAL_RECIPIENT (pb_recipient args)]\<rparr>,
          um_payload_info = Some
            \<lparr>etree_element = None,
             pl_part_info =
               map (\<lambda>(i, _). \<lparr>etree_element = None, part_part_schema = [], part_description = [],
                              part_part_properties = part_info_part_properties,
                              part_href = Some (''cid:'' @ i)\<rparr>)
                 (refs_attachment_id_encrypted_data_id_map references)\<rparr>,
          um_mpc = None\<rparr>)"

definition get_user_messaging :: "as4_references \<Rightarrow> user_message \<Rightarrow> messaging" where
  "get_user_messaging references um =
     \<lparr>etree_element = None, msg_signal_messages = [], msg_user_messages = [um],
      msg_messaging_id = Some (refs_messaging_id references),
      msg_w3_org_2003_05_soap_envelope_must_understand = Some True\<rparr>"

section \<open>Signature and encryption\<close>

text \<open>
  The message class has its own copies of four methods of the receipt class; they make the same
  things.
\<close>

definition message_messaging_digest_reference ::
  "'z dsig_lib_scheme \<Rightarrow> datetime_lib \<Rightarrow> as4_references \<Rightarrow> messaging \<Rightarrow> exn + dsig_reference" where
  "message_messaging_digest_reference lib dt references messaging =
     andThen (dump_to_xml dt (clark ns_eb3 ''Messaging'') (messaging_model messaging))
       (\<lambda>e. for_element lib (''#'' @ refs_messaging_id references) e SHA256)"

definition message_body_digest_reference ::
  "'z dsig_lib_scheme \<Rightarrow> datetime_lib \<Rightarrow> as4_references \<Rightarrow> body \<Rightarrow> exn + dsig_reference" where
  "message_body_digest_reference lib dt references b =
     andThen (dump_to_xml dt (clark ns_S12 ''Body'') (body_model b))
       (\<lambda>e. for_element lib (''#'' @ refs_body_id references) e SHA256)"

definition message_local_binary_security_token :: "internal_party \<Rightarrow> as4_references \<Rightarrow> binary_security_token" where
  "message_local_binary_security_token party references =
     \<lparr>etree_element = None, bst_encoding_type = BASE_64_BINARY, bst_value_type = X509_V3,
      bst_bst_id = refs_signature_bst_id references,
      bst_value = b64encode (der (certificate_of (ip_credentials party)))\<rparr>"

definition message_signature ::
  "'z dsig_lib_scheme \<Rightarrow> datetime_lib \<Rightarrow> internal_party \<Rightarrow> as4_references \<Rightarrow> signed_info \<Rightarrow> exn + signature" where
  "message_signature lib dt party references si =
     andThen (dump_to_xml dt (clark ns_ds ''SignedInfo'') (signed_info_model si)) (\<lambda>e.
     let si' = si\<lparr>etree_element := Some e\<rparr> in
     andThen (key_sign (private_key_of (ip_credentials party)) (signed_info_canonicalized lib si') PKCS1v15 HashSHA256)
       (\<lambda>signed_bytes. andThen (b64decode False (b64encode signed_bytes))
         (\<lambda>v. Inr
            \<lparr>etree_element = None, sig_signed_info = si',
             sig_signature_value = \<lparr>etree_element = None, sv_value = Some v, sv_id = None\<rparr>,
             sig_key_info = new_signature_key_info references, sig_object_value = [],
             sig_signature_id = Some (refs_signature_id references)\<rparr>)))"

lemma message_copies [simp]:
  "message_messaging_digest_reference lib dt = get_messaging_digest_reference lib dt"
  "message_body_digest_reference lib dt = get_body_digest_reference lib dt"
  "message_local_binary_security_token = get_local_binary_security_token"
  "message_signature lib dt = get_signature lib dt"
  unfolding message_messaging_digest_reference_def get_messaging_digest_reference_def
    message_body_digest_reference_def get_body_digest_reference_def
    message_local_binary_security_token_def get_local_binary_security_token_def
    message_signature_def get_signature_def fun_eq_iff
  by simp_all

definition get_payload_digest_reference ::
  "'z dsig_lib_scheme \<Rightarrow> string \<Rightarrow> bytes \<Rightarrow> exn + dsig_reference" where
  "get_payload_digest_reference lib attachment_id compressed_payload =
     for_bytes lib (''cid:'' @ attachment_id) compressed_payload SHA256 ATTACHMENT_CONTENT_SIGNATURE"

fun payload_digest_references ::
  "'z dsig_lib_scheme \<Rightarrow> (string, bytes) dict \<Rightarrow> exn + dsig_reference list" where
  "payload_digest_references lib [] = Inr []"
| "payload_digest_references lib ((i, content) # rest) =
     andThen (get_payload_digest_reference lib i content)
       (\<lambda>r. andThen (payload_digest_references lib rest) (\<lambda>rs. Inr (r # rs)))"

definition get_message_signed_info ::
  "'z dsig_lib_scheme \<Rightarrow> datetime_lib \<Rightarrow> as4_references \<Rightarrow> messaging \<Rightarrow> body \<Rightarrow> (string, bytes) dict \<Rightarrow>
   exn + signed_info" where
  "get_message_signed_info lib dt references messaging b compressed_payloads =
     andThen (message_messaging_digest_reference lib dt references messaging) (\<lambda>m.
     andThen (message_body_digest_reference lib dt references b) (\<lambda>r.
     andThen (payload_digest_references lib compressed_payloads) (\<lambda>ps.
     Inr (new_signed_info (m # r # ps)))))"

definition get_remote_binary_security_token :: "external_party \<Rightarrow> as4_references \<Rightarrow> binary_security_token" where
  "get_remote_binary_security_token party references =
     \<lparr>etree_element = None, bst_encoding_type = BASE_64_BINARY, bst_value_type = X509_V3,
      bst_bst_id = refs_encrypted_key_bst_id references,
      bst_value = b64encode (der (certificate_of (xp_credentials party)))\<rparr>"

text \<open>A \<open>KeyInfo\<close> with one security token reference, the other fields at their defaults.\<close>

definition token_key_info :: "string \<Rightarrow> string option \<Rightarrow> string option \<Rightarrow> key_info" where
  "token_key_info uri value_type token_type =
     \<lparr>etree_element = None, ki_key_info_id = None, ki_key_name = [], ki_key_value = [],
      ki_retrieval_method = [], ki_x509_data = [], ki_pgp_data = [], ki_spki_data = [], ki_mgmt_data = [],
      ki_security_token_reference =
        [\<lparr>etree_element = None, str_security_token_reference_id = None, str_usage = '''',
          str_reference = \<lparr>etree_element = None, wref_uri = Some uri, wref_value_type = value_type\<rparr>,
          str_token_type = token_type\<rparr>]\<rparr>"

definition get_encrypted_key :: "as4_references \<Rightarrow> bytes \<Rightarrow> encrypted_key" where
  "get_encrypted_key references encrypted_session_key =
     \<lparr>etree_element = None,
      et_encryption_method =
        \<lparr>etree_element = None, em_algorithm = RSA_OAEP,
         em_digest_method = Some \<lparr>etree_element = None, dm_algorithm = SHA256\<rparr>,
         em_mgf = Some \<lparr>etree_element = None, mgf_algorithm = MGF1_SHA256\<rparr>\<rparr>,
      et_key_info = token_key_info (''#'' @ refs_encrypted_key_bst_id references) (Some X509_V3) None,
      et_cipher_data =
        \<lparr>etree_element = None,
         cd_cipher_value = Some \<lparr>etree_element = None, cv_value = Some (b64encode encrypted_session_key)\<rparr>,
         cd_cipher_reference = None\<rparr>,
      et_encryption_properties = [], et_encrypted_type_id = Some (refs_encrypted_key_id references),
      et_type_value = Some '''', et_mime_type = Some '''', et_encoding = Some '''',
      ek_reference_list =
        \<lparr>etree_element = None,
         rl_data_reference =
           map (\<lambda>(_, d). \<lparr>etree_element = None, xref_uri = Some (''#'' @ d)\<rparr>)
             (refs_attachment_id_encrypted_data_id_map references),
         rl_key_reference = []\<rparr>,
      ek_carried_key_name = [], ek_recipient = None\<rparr>"

definition get_encrypted_data_models :: "as4_references \<Rightarrow> encrypted_type list" where
  "get_encrypted_data_models references =
     map (\<lambda>(i, d).
       \<lparr>etree_element = None,
        et_encryption_method =
          \<lparr>etree_element = None, em_algorithm = AES128_GCM, em_digest_method = None, em_mgf = None\<rparr>,
        et_key_info = token_key_info (''#'' @ refs_encrypted_key_id references) None (Some ENCRYPTED_KEY_TOKEN_TYPE),
        et_cipher_data =
          \<lparr>etree_element = None, cd_cipher_value = None,
           cd_cipher_reference = Some
             \<lparr>etree_element = None,
              cr_transforms =
                \<lparr>etree_element = None, xtrs_transforms = [new_transform ATTACHMENT_CIPHERTEXT_TRANSFORM]\<rparr>,
              cr_uri = Some (''cid:'' @ i)\<rparr>\<rparr>,
        et_encryption_properties = [], et_encrypted_type_id = Some d,
        et_type_value = Some SWA_PROFILE_ATTACHMENT_CONTENT_ONLY, et_mime_type = Some ''application/gzip'',
        et_encoding = None\<rparr>)
       (refs_attachment_id_encrypted_data_id_map references)"

definition get_soap_envelope ::
  "'z dsig_lib_scheme \<Rightarrow> datetime_lib \<Rightarrow> datetime \<Rightarrow> internal_party \<Rightarrow> external_party \<Rightarrow>
   peppol_builder_args \<Rightarrow> as4_references \<Rightarrow> bytes \<Rightarrow> (string, bytes) dict \<Rightarrow> exn + envelope" where
  "get_soap_envelope lib dt now local_party remote_party args references encrypted_session_key compressed_payloads =
     (let um = get_user_message_model now local_party remote_party args references;
          messaging = get_user_messaging references um;
          b = new_body (refs_body_id references) in
      andThen (get_message_signed_info lib dt references messaging b compressed_payloads) (\<lambda>si.
      andThen (message_signature lib dt local_party references si) (\<lambda>s.
      Inr \<lparr>etree_element = None,
           env_header =
             \<lparr>etree_element = None,
              hdr_security =
                \<lparr>etree_element = None,
                 sec_binary_security_tokens =
                   [get_remote_binary_security_token remote_party references,
                    message_local_binary_security_token local_party references],
                 sec_encrypted_key = Some (get_encrypted_key references encrypted_session_key),
                 sec_encrypted_data = Some (get_encrypted_data_models references),
                 sec_signature = Some s, sec_must_understand = True\<rparr>,
              hdr_messaging = messaging\<rparr>,
           env_body = b\<rparr>)))"

text \<open>\<open>nows\<close> are the two readings of the clock, \<open>us\<close> the supply of UUIDs.\<close>

definition seal_payload ::
  "'z dsig_lib_scheme \<Rightarrow> 'b builder_lib_scheme \<Rightarrow> datetime_lib \<Rightarrow> datetime \<Rightarrow> external_party \<Rightarrow>
   peppol_builder_args \<Rightarrow> bytes \<Rightarrow> exn + (bytes \<times> bytes \<times> bytes \<times> bytes)" where
  "seal_payload lib blib dt now remote_party args payload =
     andThen (get_standard_business_document now args) (\<lambda>sbd.
     andThen (dump_to_xml dt (clark ns_sbdh ''StandardBusinessDocument'') (sbdh_document_model sbd)) (\<lambda>sbd_element.
     andThen (parse_xml lib payload) (\<lambda>document.
     let wrapped = tostring lib (append_child sbd_element document);
         compressed_payload = gzip_compress blib wrapped in
     andThen (encrypt_payload blib compressed_payload) (\<lambda>(session_key, encrypted_payload).
     andThen (credentials_rsa_public_key lib (xp_credentials remote_party)) (\<lambda>key.
     andThen (rsa_encrypt blib key session_key (OAEP HashSHA256 HashSHA256)) (\<lambda>encrypted_session_key.
     Inr (wrapped, compressed_payload, encrypted_payload, encrypted_session_key)))))))"

definition new_peppol_message ::
  "peppol_builder_args \<Rightarrow> as4_references \<Rightarrow> envelope \<Rightarrow> string \<Rightarrow> bytes \<Rightarrow> bytes \<Rightarrow> peppol_message" where
  "new_peppol_message args references env attachment_id encrypted_payload wrapped =
     empty_peppol_message
       \<lparr>m_soap_envelope := Some env,
        m_message_id := refs_message_id references,
        m_messaging_id := refs_messaging_id references,
        m_mime_attachments := [(attachment_id, encrypted_payload)],
        m_decrypted_data := [(attachment_id, wrapped)],
        p_sender := Some (pb_sender args),
        p_recipient := Some (pb_recipient args),
        p_document_type_identifier_value :=
          Some (identifier_value (pb_document_type_identifier args)),
        p_document_type_identifier_scheme := Some (doc_scheme (pb_document_type_identifier args)),
        p_process_identifier := Some (pb_process_identifier args)\<rparr>"

definition peppol_build_message ::
  "'z dsig_lib_scheme \<Rightarrow> 'b builder_lib_scheme \<Rightarrow> datetime_lib \<Rightarrow> datetime \<times> datetime \<Rightarrow> uuid_supply \<Rightarrow>
   bytes \<Rightarrow> internal_party \<Rightarrow> external_party \<Rightarrow> peppol_builder_args \<Rightarrow> as4_references \<Rightarrow>
   (exn + peppol_message) \<times> as4_references" where
  "peppol_build_message lib blib dt nows us payload local_party remote_party args references =
     (case seal_payload lib blib dt (fst nows) remote_party args payload of
        Inl e \<Rightarrow> (Inl e, references)
      | Inr (wrapped, compressed_payload, encrypted_payload, encrypted_session_key) \<Rightarrow>
          (let ((attachment_id, _), references) = encrypted_data_attachment_mapping us references in
           (andThen
              (get_soap_envelope lib dt (snd nows) local_party remote_party args references
                 encrypted_session_key [(attachment_id, compressed_payload)])
              (\<lambda>env. Inr (new_peppol_message args references env attachment_id encrypted_payload wrapped)),
            references)))"

lemma new_peppol_message_fields [simp]:
  "m_soap_envelope (new_peppol_message args references env i sealed wrapped) = Some env"
  "m_mime_attachments (new_peppol_message args references env i sealed wrapped) = [(i, sealed)]"
  "m_decrypted_data (new_peppol_message args references env i sealed wrapped) = [(i, wrapped)]"
  "p_sender (new_peppol_message args references env i sealed wrapped) = Some (pb_sender args)"
  "p_recipient (new_peppol_message args references env i sealed wrapped) = Some (pb_recipient args)"
  "p_document_type_identifier_value (new_peppol_message args references env i sealed wrapped) =
     Some (identifier_value (pb_document_type_identifier args))"
  "p_document_type_identifier_scheme (new_peppol_message args references env i sealed wrapped) =
     Some (doc_scheme (pb_document_type_identifier args))"
  "p_process_identifier (new_peppol_message args references env i sealed wrapped) = Some (pb_process_identifier args)"
  by (simp_all add: new_peppol_message_def)

end
