(* ===== verification/PeppolProfile.thy ===== *)
theory PeppolProfile
  imports PeppolBuilder
begin

text \<open>
  The Peppol profile: \<^verbatim>\<open>as4/profiles/peppol/profile.py\<close> and \<^verbatim>\<open>as4/profiles/peppol/receipt.py\<close>.  The
  profile record, its security policy, the parties and the entry points for building and parsing.
  The certificates of \<^verbatim>\<open>pki.py\<close> are those of \<^theory_text>\<open>PeppolPki\<close>, where the ready-made policies are.
\<close>

type_synonym peppol_message_profile = "(unit peppol_message_ext, peppol_builder_args) profile"
type_synonym peppol_sending_exchange = "(unit peppol_message_ext, peppol_builder_args) sending_exchange"
type_synonym peppol_receiving_exchange = "(unit peppol_message_ext, peppol_builder_args) receiving_exchange"

section \<open>Trust\<close>

definition PEPPOL_CHAIN_DEPTH :: int where
  "PEPPOL_CHAIN_DEPTH = 3"

definition peppol_security_policy ::
  "x509_lib \<Rightarrow> datetime \<Rightarrow> certificate list \<Rightarrow> certificate list \<Rightarrow> (certificate \<Rightarrow> bool) option \<Rightarrow>
   exn + security_policy" where
  "peppol_security_policy x509 now anchors intermediates revoked =
     andThen (certificate_chain x509 now anchors intermediates revoked PEPPOL_CHAIN_DEPTH)
       (\<lambda>resolver. Inr (default_security_policy
          \<lparr>policy_signer_resolver := certificate_names_the_sender x509 resolver\<rparr>))"

section \<open>Unpacking\<close>

definition peppol_unpack_message :: "'m mime_lib_scheme \<Rightarrow> bytes \<Rightarrow> exn + (bytes \<times> (string, bytes) dict)" where
  "peppol_unpack_message mime payload =
     andThen (mime_parse mime payload) (\<lambda>(soap_part, encrypted_part).
     case decoded_content soap_part of
       None \<Rightarrow> Inl (Receiptable (make_error SoapPartNotFoundException ''SOAP part carries no decodable content''))
     | Some soap_data \<Rightarrow>
         (case decoded_content encrypted_part of
            None \<Rightarrow> Inl (Receiptable (make_error PayloadPartNotFoundException
                      ''Payload part carries no decodable content''))
          | Some encrypted_part_bytes \<Rightarrow>
              (let content_id = or_empty (get_content_id encrypted_part) in
               if content_id = ''''
               then Inl (Receiptable (make_error PayloadPartNotFoundException
                      ''Payload part carries no Content-ID header''))
               else Inr (soap_data, [(content_id, encrypted_part_bytes)]))))"

section \<open>The profile\<close>

text \<open>What the class methods of the profile are closed over.\<close>

record peppol_environment =
  env_lib :: peppol_lib
  env_builder :: builder_lib
  env_dt :: datetime_lib
  env_now :: datetime
  env_build_clock :: "datetime \<times> datetime"
  env_uuids :: uuid_supply

definition peppol_profile :: "peppol_environment \<Rightarrow> peppol_message_profile" where
  "peppol_profile E =
     \<lparr>profile_name = ''peppol'',
      new_message = empty_peppol_message,
      message_class_parse = (\<lambda>ctx soap attachments. parse_peppol (env_lib E) ctx soap attachments),
      profile_unpack_message = peppol_unpack_message (env_builder E),
      profile_parse_receipt = receipt_parse (env_lib E),
      profile_build_message = (\<lambda>payload local_party remote_party args references.
        peppol_build_message (env_lib E) (env_builder E) (env_dt E) (env_build_clock E) (env_uuids E)
          payload local_party remote_party args references),
      profile_for_message = (\<lambda>m party references.
        for_message (env_lib E) (env_dt E) (env_now E) m party references),
      profile_peek = peek_original_message_id (env_lib E)\<rparr>"

section \<open>Parties and entry points\<close>

definition create_peppol_internal_party :: "string \<Rightarrow> certificate \<Rightarrow> private_key \<Rightarrow> internal_party" where
  "create_peppol_internal_party party_id certificate key =
     \<lparr>ip_identity = \<lparr>identity_party_id = party_id, identity_party_type = Some PEPPOL_PARTY_IDENTIFIER_TYPE\<rparr>,
      ip_credentials = \<lparr>certificate_of = certificate, private_key_of = key\<rparr>\<rparr>"

definition create_peppol_external_party :: "string \<Rightarrow> certificate \<Rightarrow> external_party" where
  "create_peppol_external_party party_id certificate =
     \<lparr>xp_identity = \<lparr>identity_party_id = party_id, identity_party_type = Some PEPPOL_PARTY_IDENTIFIER_TYPE\<rparr>,
      xp_credentials = \<lparr>certificate_of = certificate\<rparr>\<rparr>"

definition build_peppol_message ::
  "peppol_environment \<Rightarrow> string \<Rightarrow> bytes \<Rightarrow> internal_party \<Rightarrow> external_party \<Rightarrow> string \<Rightarrow> string \<Rightarrow>
   string \<Rightarrow> string \<Rightarrow> string \<Rightarrow> string \<Rightarrow> string option \<Rightarrow> as4_references \<Rightarrow>
   (exn + peppol_message) \<times> as4_references" where
  "build_peppol_message E fresh_uuid payload local_party remote_party sender recipient
       identifier_scheme identifier_text process_identifier sender_country_id instance_identifier references =
     (if identifier_scheme \<noteq> BUSDOX_DOCID_QNS
      then (Inl (NotImplementedError (''Unsupported_document_type_identifier_scheme '' @ identifier_scheme)),
            references)
      else
        (case from_identifier_value identifier_text of
           Inl e \<Rightarrow> (Inl e, references)
         | Inr doc_id \<Rightarrow>
             profile_build_message (peppol_profile E) payload local_party remote_party
               \<lparr>pb_sender = sender, pb_recipient = recipient, pb_document_type_identifier = doc_id,
                pb_document_identification_instance_identifier =
                  (case instance_identifier of None \<Rightarrow> fresh_uuid | Some i \<Rightarrow> i),
                pb_process_identifier = process_identifier, pb_c1_country_id = sender_country_id\<rparr>
               references))"

text \<open>\<open>DEFAULT_SECURITY_POLICY\<close> is a plain \<open>SecurityPolicy()\<close>.\<close>

definition parse_peppol_message ::
  "peppol_environment \<Rightarrow> as4_references \<Rightarrow> (string, string) dict \<Rightarrow> bytes \<Rightarrow> internal_party \<Rightarrow>
   participant_acceptor option \<Rightarrow> security_policy option \<Rightarrow> (exn + unit) \<times> peppol_receiving_exchange" where
  "parse_peppol_message E identifiers request_headers request_body local_party accept_participant policy =
     receive request_headers request_body accept_participant
       (Some (case policy of None \<Rightarrow> default_security_policy | Some p \<Rightarrow> p))
       (new_receiving_exchange (peppol_profile E) local_party identifiers (env_now E) None)"

definition parse_peppol_receipt :: "peppol_environment \<Rightarrow> bytes \<Rightarrow> certificate \<Rightarrow> exn + receipt" where
  "parse_peppol_receipt E response_payload signer =
     profile_parse_receipt (peppol_profile E) response_payload signer"

end
