(* ===== verification/PeppolAssurance.thy ===== *)
theory PeppolAssurance
  imports PeppolProfile
begin

text \<open>
  What the Peppol profile guarantees: its \<open>process\<close> is an interpretation of the interface \<open>parse\<close> asks
  for, its receipts are an interpretation of the interface the exchange asks for, and what the
  builder builds passes the checks of the receiver.
\<close>

section \<open>The override is a message process\<close>

lemma empty_peppol_truncate [simp]: "message.truncate empty_peppol_message = empty_message"
  by (simp add: empty_peppol_message_def message.truncate_def message.extend_def empty_message_def)

lemma store_scopes_truncate: "message.truncate (snd (store_scopes lib h m)) = message.truncate m"
  by (auto simp: store_scopes_def Let_def message.truncate_def split: option.splits)

lemma process_sbdh_truncate: "message.truncate (snd (process_sbdh lib ctx m)) = message.truncate m"
proof -
  let ?I = "\<lambda>s. message.truncate s = message.truncate m"
  have stored: "?I (m\<lparr>p_sender := a, p_recipient := b\<rparr>)" for a b
    by (simp add: message.truncate_def)
  then have scopes: "?I (snd (store_scopes lib h (m\<lparr>p_sender := a, p_recipient := b\<rparr>)))" for h a b
    by (simp add: store_scopes_truncate)
  show ?thesis
    unfolding process_sbdh_def Let_def
    by (rule attempt_inv [where I = ?I], rule refl,
        rule attempt_inv [where I = ?I], rule refl,
        rule attempt_inv [where I = ?I], rule stored,
        rule attempt_inv [where I = ?I], rule stored, rule scopes)
qed

lemma peppol_process_refines:
  "\<exists>r m0. process lib ctx e attachments m = (r, m0) \<and>
     message.truncate (snd (peppol_process lib ctx e attachments m)) = message.truncate m0 \<and>
     (returns (fst (peppol_process lib ctx e attachments m)) \<longrightarrow> returns r)"
proof -
  obtain r m0 where run: "process lib ctx e attachments m = (r, m0)" by (cases "process lib ctx e attachments m")
  show ?thesis
    using process_sbdh_truncate [of lib ctx m0]
    by (auto simp: run peppol_process_def split: sum.splits prod.splits)
qed

interpretation peppol: message_process lib ctx "peppol_process lib ctx" empty_peppol_message for lib ctx
proof unfold_locales
  show "\<exists>r m0. process lib ctx e attachments m = (r, m0) \<and>
     message.truncate (snd (peppol_process lib ctx e attachments m)) = message.truncate m0 \<and>
     (returns (fst (peppol_process lib ctx e attachments m)) \<longrightarrow> returns r)" for e attachments and m :: peppol_message
    by (rule peppol_process_refines)
qed simp

section \<open>What the header checks establish\<close>

definition peppol_party_types :: "user_message \<Rightarrow> bool" where
  "peppol_party_types um \<longleftrightarrow>
     pid_type_value (pf_party_id (pi_party_from (um_party_info um))) = Some PEPPOL_PARTY_IDENTIFIER_TYPE \<and>
     pid_type_value (pt_party_id (pi_party_to (um_party_info um))) = Some PEPPOL_PARTY_IDENTIFIER_TYPE"

definition property_names :: "message_properties option \<Rightarrow> string \<Rightarrow> sbdh_identifier \<Rightarrow> bool" where
  "property_names ps name i \<longleftrightarrow>
     (\<exists>mp p. ps = Some mp \<and> get_property name mp = Some p \<and>
        prop_value p = sbdh_identifier_value i \<and> prop_property_type p = sbdh_identifier_authority i)"

lemma verify_party_identifiers_eq_Inr [result_simps]:
  "verify_party_identifiers envelope = Inr u \<longleftrightarrow>
    (\<exists>env um. envelope = Some env \<and> user_message_of env = Inr (Some um) \<and> peppol_party_types um)"
  by (auto simp: verify_party_identifiers_def verify_party_identifier_def peppol_party_types_def result_simps
      split: option.splits)

lemma verify_participant_eq_Inr:
  "verify_participant (name, prop, i) = Inr u \<longleftrightarrow>
    (\<exists>p. prop = Some p \<and> prop_value p = sbdh_identifier_value i \<and>
       prop_property_type p = sbdh_identifier_authority i)"
  by (auto simp: verify_participant_def Let_def split: option.splits)

lemma verify_participants_agree_eq_Inr [result_simps]:
  "verify_participants_agree ps sender recipient = Inr u \<longleftrightarrow>
    property_names ps ORIGINAL_SENDER sender \<and> property_names ps FINAL_RECIPIENT recipient"
  by (cases ps)
     (auto simp: verify_participants_agree_def result_simps verify_participant_eq_Inr property_names_def
       original_sender_def final_recipient_def)

lemma read_sbdh_eq_Inr [result_simps]:
  "read_sbdh lib m = Inr h \<longleftrightarrow>
    (\<exists>payload sbd x d. first_payload m = Some payload \<and> parse_xml lib payload = Inr sbd \<and>
       find_first sbd [clark ns_sbdh ''StandardBusinessDocumentHeader''] = Some x \<and>
       sbdh_validation_error lib x = None \<and> validate_sbd lib (element_to_dict sbd) = Inr d \<and>
       h = sbdh_document_standard_business_document_header d)"
  by (auto simp: read_sbdh_def result_simps split: option.splits)

lemma accept_recipient_eq_Inr [result_simps]:
  "accept_recipient ctx r = Inr u \<longleftrightarrow> (\<forall>f. ctx_accept_participant ctx = Some f \<longrightarrow> f r = Inr ())"
  by (auto simp: accept_recipient_def result_simps split: option.splits)

definition scopes_stored :: "sbdh_header \<Rightarrow> peppol_message \<Rightarrow> bool" where
  "scopes_stored h m \<longleftrightarrow>
     (\<exists>d p c. dict_get (scopes_by_type h) ''DOCUMENTID'' = Some d \<and>
        dict_get (scopes_by_type h) ''PROCESSID'' = Some p \<and>
        dict_get (scopes_by_type h) ''COUNTRY_C1'' = Some c \<and>
        p_document_type_identifier_value m = Some (scope_value d) \<and>
        p_process_identifier m = Some (scope_value p) \<and>
        p_document_type_identifier_scheme m = Some
          (case sbdh_scope_identifier d of Some i \<Rightarrow> sbdh_scope_identifier_value i | None \<Rightarrow> BUSDOX_DOCID_QNS))"

lemma store_scopes_returns:
  assumes "store_scopes lib h m = (Inr u, m')"
  shows "scopes_stored h m' \<and> p_sender m' = p_sender m \<and> p_recipient m' = p_recipient m \<and>
    message.truncate m' = message.truncate m"
proof -
  from assms have missing: "MANDATORY_SBDH_SCOPE_TYPE_VALUES \<subseteq> fst ` set (scopes_by_type h)"
    by (auto simp: store_scopes_def Let_def split: if_splits)
  then have "\<exists>c. dict_get (scopes_by_type h) ''COUNTRY_C1'' = Some c"
    by (auto simp: MANDATORY_SBDH_SCOPE_TYPE_VALUES_def) (metis fst_conv not_None_eq weak_map_of_SomeI)
  with assms show ?thesis
    by (auto simp: store_scopes_def Let_def scopes_stored_def message.truncate_def split: if_splits option.splits)
qed

lemma process_sbdh_returns:
  assumes "process_sbdh lib ctx m = (Inr u, m')"
  obtains env um h where "m_soap_envelope m = Some env" "user_message_of env = Inr (Some um)"
    "peppol_party_types um" "read_sbdh lib m = Inr h"
    "verify_participants (ctx_security_policy ctx) \<longrightarrow>
       property_names (um_message_properties um) ORIGINAL_SENDER (header_sender h) \<and>
       property_names (um_message_properties um) FINAL_RECIPIENT (header_recipient h)"
    "\<forall>f. ctx_accept_participant ctx = Some f \<longrightarrow> f (sbdh_identifier_value (header_recipient h)) = Inr ()"
    "p_sender m' = Some (sbdh_identifier_value (header_sender h))"
    "p_recipient m' = Some (sbdh_identifier_value (header_recipient h))"
    "scopes_stored h m'" "message.truncate m' = message.truncate m"
proof -
  from assms obtain h where party: "verify_party_identifiers (m_soap_envelope m) = Inr ()"
    and h: "read_sbdh lib m = Inr h"
    and agree: "verify_participants (ctx_security_policy ctx) \<longrightarrow>
      (\<exists>ps. message_properties_of m = Inr ps \<and>
        verify_participants_agree ps (header_sender h) (header_recipient h) = Inr ())"
    and accept: "accept_recipient ctx (sbdh_identifier_value (header_recipient h)) = Inr ()"
    and store: "store_scopes lib h
      (m\<lparr>p_sender := Some (sbdh_identifier_value (header_sender h)),
         p_recipient := Some (sbdh_identifier_value (header_recipient h))\<rparr>) = (Inr u, m')"
    by (auto simp: process_sbdh_def Let_def attempt_returns message_properties_of_def andThen_eq_Inr split: if_splits)
  from party obtain env um where env: "m_soap_envelope m = Some env" "user_message_of env = Inr (Some um)"
    "peppol_party_types um" by (auto simp: result_simps)
  then have "message_properties_of m = Inr (um_message_properties um)"
    by (simp add: message_properties_of_def)
  with agree store_scopes_returns [OF store] accept env h show ?thesis
    by (intro that) (auto simp: result_simps message.truncate_def)
qed

lemma peppol_accepted:
  assumes "parse_peppol lib ctx soap attachments = Inr m" and "parse_successful m"
  obtains env um h where "m_soap_envelope m = Some env" "user_message_of env = Inr (Some um)"
    "peppol_party_types um" "read_sbdh lib m = Inr h"
    "verify_participants (ctx_security_policy ctx) \<longrightarrow>
       property_names (um_message_properties um) ORIGINAL_SENDER (header_sender h) \<and>
       property_names (um_message_properties um) FINAL_RECIPIENT (header_recipient h)"
    "\<forall>f. ctx_accept_participant ctx = Some f \<longrightarrow> f (sbdh_identifier_value (header_recipient h)) = Inr ()"
    "p_sender m = Some (sbdh_identifier_value (header_sender h))"
    "p_recipient m = Some (sbdh_identifier_value (header_recipient h))"
    "scopes_stored h m"
proof -
  from assms(1) [unfolded parse_peppol_def] obtain r m1 err where
    body: "parse_body lib (peppol_process lib ctx) soap attachments empty_peppol_message = (r, m1)"
    and m: "m = m1\<lparr>m_parse_error := err\<rparr>" "err = None \<longleftrightarrow> returns r"
    by (rule peppol.parse_outcome)
  from assms(2) m have "returns r" by (simp add: parse_successful_def)
  then have r: "r = Inr ()" by (auto simp: returns_iff)
  with body obtain e m0 where "peppol_process lib ctx e attachments m0 = (Inr (), m1)"
    by (auto simp: parse_body_def attempt_returns Let_def)
  then obtain m2 where run: "process_sbdh lib ctx m2 = (Inr (), m1)"
    by (auto simp: peppol_process_def split: sum.splits prod.splits)
  have scopes: "scopes_stored h m1 \<Longrightarrow> scopes_stored h m" for h
    by (simp add: scopes_stored_def m(1))
  from run show ?thesis
  proof (rule process_sbdh_returns)
    fix env um h
    assume trunc: "message.truncate m1 = message.truncate m2" and rest: "read_sbdh lib m2 = Inr h"
    assume facts: "m_soap_envelope m2 = Some env" "user_message_of env = Inr (Some um)" "peppol_party_types um"
      "verify_participants (ctx_security_policy ctx) \<longrightarrow>
         property_names (um_message_properties um) ORIGINAL_SENDER (header_sender h) \<and>
         property_names (um_message_properties um) FINAL_RECIPIENT (header_recipient h)"
      "\<forall>f. ctx_accept_participant ctx = Some f \<longrightarrow> f (sbdh_identifier_value (header_recipient h)) = Inr ()"
      "p_sender m1 = Some (sbdh_identifier_value (header_sender h))"
      "p_recipient m1 = Some (sbdh_identifier_value (header_recipient h))" "scopes_stored h m1"
    from truncate_fields(2,3) [OF trunc] have "first_payload m = first_payload m2"
      by (simp add: first_payload_def m(1) split: list.splits)
    with rest have "read_sbdh lib m = Inr h" by (simp add: result_simps)
    with facts truncate_fields(1) [OF trunc] scopes show ?thesis
      by (intro that [of env um h]) (simp_all add: m(1))
  qed
qed

text \<open>The receipts a Peppol exchange takes in.\<close>

definition receipt_signed_by :: "'z receipt_lib_scheme \<Rightarrow> certificate \<Rightarrow> receipt \<Rightarrow> bool" where
  "receipt_signed_by lib c r \<longleftrightarrow> (\<exists>env e. r_soap_envelope r = Some env \<and> signed_signal lib env e c)"

interpretation peppol_receipts: receipt_verifier "peppol_profile E" "receipt_signed_by (env_lib E)" for E
  by unfold_locales (auto simp: peppol_profile_def receipt_parse_eq_Inr receipt_signed_by_def)

section \<open>Properties of the Peppol profile\<close>

text \<open>
  C13.  An accepted Peppol message names both parties by the Peppol identifier scheme; its sender and
  recipient are those of the business document header in its first attachment, which the message
  properties repeat under the same scheme when the policy says so; the recipient was accepted; and
  document type and process come from the mandatory scopes of that header.
\<close>

theorem accepted_peppol_message:
  assumes "parse_peppol lib ctx soap attachments = Inr m" and "parse_successful m"
  shows "\<exists>env um h. m_soap_envelope m = Some env \<and> user_message_of env = Inr (Some um) \<and>
    peppol_party_types um \<and> read_sbdh lib m = Inr h \<and>
    p_sender m = Some (sbdh_identifier_value (header_sender h)) \<and>
    p_recipient m = Some (sbdh_identifier_value (header_recipient h)) \<and>
    (verify_participants (ctx_security_policy ctx) \<longrightarrow>
       property_names (um_message_properties um) ORIGINAL_SENDER (header_sender h) \<and>
       property_names (um_message_properties um) FINAL_RECIPIENT (header_recipient h)) \<and>
    (\<forall>f. ctx_accept_participant ctx = Some f \<longrightarrow> f (sbdh_identifier_value (header_recipient h)) = Inr ()) \<and>
    scopes_stored h m"
  by (rule peppol_accepted [OF assms]) (intro exI conjI; assumption)

text \<open>
  C14.  Under a policy that requires a signature, verifies digests and requires the payloads to be covered,
  and when the first attachment is one that a PartInfo with an href declares, the bytes the business
  document header of an accepted message is read from come from bytes the signer signed: the decrypted
  attachment has the digest of a reference of the verified signature, and the header is read from what the
  decompressions of the declared parts of this identifier make of it.
\<close>

theorem routing_header_is_signed:
  assumes "parse_peppol lib ctx soap attachments = Inr m" and "parse_successful m"
    and "sign_required (ctx_security_policy ctx)" and "verify_digests (ctx_security_policy ctx)"
    and "''payloads'' \<in> required_coverage (ctx_security_policy ctx)"
    and "m_soap_envelope m = Some env" and "user_message_of env = Inr (Some um)"
    and "um_payload_info um = Some pl" and "p \<in> set (declared_parts (pl_part_info pl))"
    and "m_mime_attachments m = (part_identifier p, sealed) # rest"
  shows "\<exists>s r decrypted content payload c. sec_signature (hdr_security (env_header env)) = Some s \<and>
    m_signer_certificate m = Some c \<and> signature_verify lib s c = Inr () \<and>
    r \<in> set (si_references (sig_signed_info s)) \<and> reference_uri r = or_empty (part_href p) \<and>
    get_decrypted_data lib ctx (hdr_security (env_header env)) attachments = Inr decrypted \<and>
    dict_get decrypted (part_identifier p) = Some content \<and> digest_matches_bytes lib r content = Inr True \<and>
    inflations lib (maximum_decompressed_size (ctx_security_policy ctx))
      (parts_named (part_identifier p) (pl_part_info pl)) content = Inr payload \<and>
    first_payload m = Some payload"
proof -
  from assms(1) have run: "parse lib (peppol_process lib ctx) empty_peppol_message soap attachments = Inr m"
    by (simp add: parse_peppol_def)
  from peppol.payload_is_signed [OF run assms(2-9)] obtain s r decrypted content plain where
    signed: "sec_signature (hdr_security (env_header env)) = Some s" "r \<in> set (si_references (sig_signed_info s))"
      "reference_uri r = or_empty (part_href p)"
      "get_decrypted_data lib ctx (hdr_security (env_header env)) attachments = Inr decrypted"
      "dict_get decrypted (part_identifier p) = Some content" "digest_matches_bytes lib r content = Inr True"
      "inflations lib (maximum_decompressed_size (ctx_security_policy ctx))
        (parts_named (part_identifier p) (pl_part_info pl)) content = Inr plain"
      "dict_get (m_decrypted_data m) (part_identifier p) = Some plain"
    by blast
  then have "m_decrypted_data m \<noteq> []" by auto
  with peppol.plaintext_is_signed [OF run assms(3)] obtain c where c: "m_signer_certificate m = Some c" by blast
  from run c obtain e env' um' s' where "m_soap_envelope m = Some env'"
    "verified_signature lib (ctx_security_policy ctx) (hdr_security (env_header env')) um' (id_attributes e) s' c"
    by (rule peppol.signer_is_verified)
  with assms(6) signed(1) have "signature_verify lib s c = Inr ()" by (auto simp: verified_signature_def)
  with signed c assms(10) show ?thesis by (auto simp: first_payload_def)
qed

lemma peppol_signer_chains:
  assumes "peppol_security_policy x509 now anchors intermediates revoked = Inr (ctx_security_policy ctx)"
    and "parse_peppol lib ctx soap attachments = Inr m" and "m_signer_certificate m = Some c"
  shows "\<exists>env um. m_soap_envelope m = Some env \<and> user_message_of env = Inr (Some um) \<and>
    chain_trust x509 now anchors intermediates revoked 3 (pi_party_from (um_party_info um)) c \<and>
    pid_value (pf_party_id (pi_party_from (um_party_info um))) \<in> set (common_names x509 c)"
proof -
  from assms(1) have resolver: "policy_signer_resolver (ctx_security_policy ctx) =
      certificate_names_the_sender x509 (chain_resolve x509 now anchors intermediates revoked 3)"
    by (auto simp: peppol_security_policy_def certificate_chain_def PEPPOL_CHAIN_DEPTH_def result_simps
        dest!: sym [of _ "ctx_security_policy ctx"] split: if_splits)
  from assms(2,3) [unfolded parse_peppol_def] obtain e env um s where
    "m_soap_envelope m = Some env" "user_message_of env = Inr (Some um)"
    and ver: "verified_signature lib (ctx_security_policy ctx) (hdr_security (env_header env)) um (id_attributes e) s c"
    by (rule peppol.signer_is_verified)
  moreover from named_chain.named.signer_is_trusted [OF ver resolver]
  have "chain_trust x509 now anchors intermediates revoked 3 (pi_party_from (um_party_info um)) c"
    "pid_value (pf_party_id (pi_party_from (um_party_info um))) \<in> set (common_names x509 c)"
    by (simp_all add: named_chain.names_sender_def)
  ultimately show ?thesis by blast
qed

text \<open>
  C11.  Under the policy of the Peppol PKI the signer of a message, on every outcome, chains to a
  configured anchor in at most three certificates, each in its validity period and not revoked, and
  has the eb:From party id as a common name.
\<close>

theorem peppol_signer_is_trusted:
  assumes "peppol_security_policy x509 now anchors intermediates revoked = Inr (ctx_security_policy ctx)"
    and "parse_peppol lib ctx soap attachments = Inr m" and "m_signer_certificate m = Some c"
  shows "\<exists>env um. m_soap_envelope m = Some env \<and> user_message_of env = Inr (Some um) \<and>
    chain_trust x509 now anchors intermediates revoked 3 (pi_party_from (um_party_info um)) c \<and>
    pid_value (pf_party_id (pi_party_from (um_party_info um))) \<in> set (common_names x509 c)"
  using assms by (rule peppol_signer_chains)

text \<open>
  C28.  A recipient the access point does not serve is answered as the profile prescribes: the error
  carries EBMS:0004 and PEPPOL:NOT_SERVICED, and the message still names the recipient.
\<close>

theorem unserviced_recipient:
  assumes "verify_party_identifiers (m_soap_envelope m) = Inr ()" and "read_sbdh lib m = Inr h"
    and "\<not> verify_participants (ctx_security_policy ctx)
      \<or> (\<exists>ps. message_properties_of m = Inr ps \<and>
        verify_participants_agree ps (header_sender h) (header_recipient h) = Inr ())"
    and "ctx_accept_participant ctx = Some accept"
    and "accept (sbdh_identifier_value (header_recipient h)) = Inl (ParticipantNotServicedError t)"
  shows "\<exists>m' err. process_sbdh lib ctx m = (Inl (Receiptable err), m') \<and>
    error_code err = Some ''EBMS:0004'' \<and> detail err = ''PEPPOL:NOT_SERVICED'' \<and>
    p_recipient m' = Some (sbdh_identifier_value (header_recipient h))"
proof -
  let ?m = "m\<lparr>p_sender := Some (sbdh_identifier_value (header_sender h)),
      p_recipient := Some (sbdh_identifier_value (header_recipient h))\<rparr>"
  have "message_properties_of ?m = message_properties_of m" by (simp add: message_properties_of_def)
  moreover have "accept_recipient ctx (sbdh_identifier_value (header_recipient h)) =
      Inl (receiptable_exn PeppolNotServicedException)"
    using assms(4,5) by (simp add: accept_recipient_def)
  ultimately have "process_sbdh lib ctx m = (Inl (receiptable_exn PeppolNotServicedException), ?m)"
    using assms(1-3) by (auto simp: process_sbdh_def Let_def)
  then show ?thesis
    by (simp add: receiptable_exn_def make_error_def error_code_def class_attr.simps own_error_code_def own_detail_def)
qed



text \<open>
  C15.  A Peppol sending exchange that counts as successful holds a receipt signed with the
  certificate of its remote party that names the message and acknowledges every reference the
  message was signed with, and nothing that was not.
\<close>

theorem peppol_acknowledgement_is_proof:
  assumes "sending_reachable (new_sending_exchange (peppol_profile E) local remote ids now None) x"
    and "sending_successful x"
  shows "\<exists>r. ex_receipt x = Some r \<and> receipt_signed_by (env_lib E) (certificate_of (xp_credentials remote)) r \<and>
    r_original_message_id r = Some (ex_message_id x) \<and>
    set (acknowledged_references r) = set (ex_signed_references x)"
proof -
  from assms obtain r where "ex_receipt x = Some r"
    "receipt_signed_by (env_lib E) (certificate_of (xp_credentials remote)) r"
    "r_original_message_id r = Some (ex_message_id x)"
    "verify_non_repudiation r (ex_signed_references x) None = Inr ()"
    by (rule peppol_receipts.acknowledged_is_signed)
  then show ?thesis by (auto simp: verify_non_repudiation_eq_Inr)
qed


section \<open>The override refines the core\<close>

lemma truncate_simps [simp]:
  "m_soap_envelope (message.truncate m) = m_soap_envelope m"
  "m_decrypted_data (message.truncate m) = m_decrypted_data m"
  "(message.truncate m)\<lparr>m_mime_attachments := a\<rparr> = message.truncate (m\<lparr>m_mime_attachments := a\<rparr>)"
  "(message.truncate m)\<lparr>m_soap_envelope := s\<rparr> = message.truncate (m\<lparr>m_soap_envelope := s\<rparr>)"
  "(message.truncate m)\<lparr>m_signer_certificate := c\<rparr> = message.truncate (m\<lparr>m_signer_certificate := c\<rparr>)"
  "(message.truncate m)\<lparr>m_decrypted_data := d\<rparr> = message.truncate (m\<lparr>m_decrypted_data := d\<rparr>)"
  "(message.truncate m)\<lparr>m_message_id := i, m_messaging_id := j\<rparr> = message.truncate (m\<lparr>m_message_id := i, m_messaging_id := j\<rparr>)"
  "(message.truncate m)\<lparr>m_addressed_to := t\<rparr> = message.truncate (m\<lparr>m_addressed_to := t\<rparr>)"
  "(message.truncate m)\<lparr>m_parse_error := x\<rparr> = message.truncate (m\<lparr>m_parse_error := x\<rparr>)"
  by (simp_all add: message.truncate_def)

lemma attempt_truncate:
  assumes "\<And>x. k' x = apsnd message.truncate (k x)"
  shows "attempt r (message.truncate m) k' = apsnd message.truncate (attempt r m k)"
  using assms by (simp add: attempt_def split: sum.split)

lemma decompress_parts_truncate:
  "decompress_parts lib cap attachments ps (message.truncate m) =
    apsnd message.truncate (decompress_parts lib cap attachments ps m)"
proof (induction ps arbitrary: m)
  case Nil
  show ?case by simp
next
  case (Cons p ps)
  show ?case
    by (subst (1 2) decompress_parts.simps)
       (simp add: Let_def Cons.IH attempt_def split: option.split sum.split)
qed

lemma process_truncate:
  "process lib ctx e attachments (message.truncate m) = apsnd message.truncate (process lib ctx e attachments m)"
  unfolding process_def Let_def truncate_simps
  by (intro attempt_truncate) (auto simp: decompress_parts_truncate intro!: attempt_truncate split: option.split prod.split)

lemma peppol_process_core:
  assumes "peppol_process lib ctx e attachments m = (r, m1)"
  shows "\<exists>r0. process lib ctx e attachments (message.truncate m) = (r0, message.truncate m1) \<and>
    (r0 = Inr () \<or> r0 = r)"
proof -
  obtain r0 m0 where core: "process lib ctx e attachments m = (r0, m0)" by (cases "process lib ctx e attachments m")
  from peppol_process_refines [of lib ctx e attachments m] assms core
  have "message.truncate m1 = message.truncate m0" by auto
  moreover from assms core have "r0 = Inr () \<or> r0 = r"
    by (auto simp: peppol_process_def split: sum.splits prod.splits)
  ultimately show ?thesis using core by (auto simp: process_truncate)
qed

lemma peppol_body_core:
  assumes "parse_body lib (peppol_process lib ctx) soap attachments m = (r, m1)"
  shows "\<exists>r0. parse_body lib (process lib ctx) soap attachments (message.truncate m) = (r0, message.truncate m1) \<and>
    (r0 = Inr () \<or> r0 = r)"
proof (cases "parse_xml lib soap")
  case (Inl x)
  with assms show ?thesis by (simp add: parse_body_def)
next
  case e: (Inr e)
  show ?thesis
  proof (cases "pre_validate e")
    case (Inl x)
    with e assms show ?thesis by (simp add: parse_body_def)
  next
    case (Inr ids)
    with e assms show ?thesis
      by (cases ids; cases "get_addressed_to lib (find_first e PARTY_TO_PATH)")
         (auto simp: parse_body_def Let_def dest!: peppol_process_core)
  qed
qed

text \<open>
  C36.  Parsing a Peppol message refines parsing a core message: it does the same to the fields of the
  core message, fails where the core fails with the same error, and adds only refusals of its own.
\<close>

theorem peppol_parse_refines_core:
  assumes "parse_peppol lib ctx soap attachments = Inr m"
  shows "\<exists>m0. parse_message lib ctx soap attachments = Inr m0 \<and>
    message.truncate m = m0\<lparr>m_parse_error := m_parse_error m\<rparr> \<and>
    (parse_successful m0 \<or> m_parse_error m0 = m_parse_error m)"
proof -
  from assms obtain r m1 err where body: "parse_body lib (peppol_process lib ctx) soap attachments empty_peppol_message = (r, m1)"
    and m: "m = m1\<lparr>m_parse_error := err\<rparr>"
    and err: "(case r of Inr _ \<Rightarrow> Inr None | Inl x \<Rightarrow> andThen (caught_error x) (\<lambda>y. Inr (Some y))) = Inr err"
    by (cases "parse_body lib (peppol_process lib ctx) soap attachments empty_peppol_message")
       (auto simp: parse_peppol_def parse_def result_simps split: sum.splits)
  from peppol_body_core [OF body] obtain r0 where
    core: "parse_body lib (process lib ctx) soap attachments empty_message = (r0, message.truncate m1)"
    and r0: "r0 = Inr () \<or> r0 = r" by auto
  have same: "message.truncate m = (message.truncate m1)\<lparr>m_parse_error := err\<rparr>" by (simp add: m)
  from r0 show ?thesis
  proof
    assume "r0 = Inr ()"
    with core m show ?thesis
      by (auto simp: parse_message_def parse_def parse_successful_def message.truncate_def)
  next
    assume "r0 = r"
    with core err m show ?thesis
      by (cases r) (auto simp: parse_message_def parse_def parse_successful_def result_simps message.truncate_def)
  qed
qed

end
