(* ===== verification/PeppolRoundTrip.thy ===== *)
theory PeppolRoundTrip
  imports PeppolBuilder PeppolAssurance
begin

text \<open>
  Sending and receiving fit together: what \<open>PeppolMessageBuilder.build_message\<close> makes
  (\<^verbatim>\<open>as4/profiles/peppol/message.py\<close>) passes every check the receiving side makes
  (\<^verbatim>\<open>as4/core/message.py\<close> and \<^verbatim>\<open>as4/profiles/peppol/message.py\<close>) and yields the document that was
  sealed.
\<close>

section \<open>What the two sides share\<close>

text \<open>
  The receiver's private key opens the session key as the certificate the sender holds of it seals it, and
  AES-GCM opens what it sealed under that key and the nonce of this message, which has twelve bytes.
\<close>

definition opens_what_is_sealed ::
  "'z message_lib_scheme \<Rightarrow> 'b builder_lib_scheme \<Rightarrow> internal_party \<Rightarrow> external_party \<Rightarrow> bool" where
  "opens_what_is_sealed lib blib receiver remote \<longleftrightarrow>
     (\<exists>key. credentials_rsa_public_key lib (xp_credentials remote) = Inr key \<and>
        (\<forall>c. rsa_encrypt blib key (random_session_key blib) (OAEP HashSHA256 HashSHA256) = Inr c \<longrightarrow>
           c \<noteq> [] \<and> key_decrypt (private_key_of (ip_credentials receiver)) c (OAEP HashSHA256 HashSHA256) =
             Inr (random_session_key blib))) \<and>
     length (random_nonce blib) = 12 \<and>
     (\<forall>d c. aesgcm_encrypt blib (random_session_key blib) (random_nonce blib) d = Inr c \<longrightarrow>
        aesgcm_decrypt lib (random_session_key blib) (random_nonce blib) c = Inr d)"

text \<open>Reading gzip data back, up to the cap of the receiver's policy.\<close>

definition inflates_what_is_deflated ::
  "'z gzip_lib_scheme \<Rightarrow> 'b builder_lib_scheme \<Rightarrow> int \<Rightarrow> bool" where
  "inflates_what_is_deflated lib blib cap \<longleftrightarrow>
     (\<forall>d. int (length d) \<le> cap \<longrightarrow> gzip_read lib (gzip_compress blib d) (cap + 1) = Inr d)"

section \<open>What a receiver reads of an envelope\<close>

text \<open>
  A validated envelope is not the built one: its parts hold their elements, and an empty attribute is an
  absent one.  It reads back the built one when these readings agree.
\<close>

definition token_reading :: "binary_security_token \<Rightarrow> string \<times> string \<times> string" where
  "token_reading t = (bst_value_type t, bst_bst_id t, bst_value t)"

definition reference_reading ::
  "dsig_reference \<Rightarrow> string \<times> string option list \<times> string list \<times> string \<times> string" where
  "reference_reading r =
     (reference_uri r, transform_algorithms r, reference_inclusive_namespaces r,
      dm_algorithm (ref_digest_method r), dv_text (ref_digest_value r))"

definition signature_reads :: "'z dsig_lib_scheme \<Rightarrow> signature \<Rightarrow> signature \<Rightarrow> bool" where
  "signature_reads lib s' s \<longleftrightarrow>
     signature_token_uri s' = signature_token_uri s \<and>
     cm_algorithm (si_canonicalization_method (sig_signed_info s')) =
       cm_algorithm (si_canonicalization_method (sig_signed_info s)) \<and>
     sm_algorithm (si_signature_method (sig_signed_info s')) = sm_algorithm (si_signature_method (sig_signed_info s)) \<and>
     sv_value (sig_signature_value s') = sv_value (sig_signature_value s) \<and>
     signed_info_canonicalized lib (sig_signed_info s') = signed_info_canonicalized lib (sig_signed_info s) \<and>
     map reference_reading (si_references (sig_signed_info s')) =
       map reference_reading (si_references (sig_signed_info s))"

definition encrypted_data_reading :: "encrypted_type \<Rightarrow> string option \<times> string \<times> string" where
  "encrypted_data_reading d =
     (et_encrypted_type_id d, em_algorithm (et_encryption_method d),
      or_empty (Option.bind (cd_cipher_reference (et_cipher_data d)) cr_uri))"

definition encrypted_key_reading :: "encrypted_key \<Rightarrow> string \<times> string \<times> string list" where
  "encrypted_key_reading k =
     (em_algorithm (et_encryption_method k), or_empty (Option.bind (cd_cipher_value (et_cipher_data k)) cv_value),
      map (\<lambda>r. or_empty (xref_uri r)) (rl_data_reference (ek_reference_list k)))"

definition security_reads :: "'z dsig_lib_scheme \<Rightarrow> security \<Rightarrow> security \<Rightarrow> bool" where
  "security_reads lib s' s \<longleftrightarrow>
     map token_reading (sec_binary_security_tokens s') = map token_reading (sec_binary_security_tokens s) \<and>
     map_option encrypted_key_reading (sec_encrypted_key s') =
       map_option encrypted_key_reading (sec_encrypted_key s) \<and>
     map_option (map encrypted_data_reading) (sec_encrypted_data s') =
       map_option (map encrypted_data_reading) (sec_encrypted_data s) \<and>
     rel_option (signature_reads lib) (sec_signature s') (sec_signature s)"

definition part_reading :: "part_info \<Rightarrow> string \<times> string option" where
  "part_reading p = (or_empty (part_href p), compression_type (part_part_properties p))"

definition user_message_reads :: "user_message \<Rightarrow> user_message \<Rightarrow> bool" where
  "user_message_reads u' u \<longleftrightarrow>
     identity_of_from (pi_party_from (um_party_info u')) = identity_of_from (pi_party_from (um_party_info u)) \<and>
     identity_of_to (pi_party_to (um_party_info u')) = identity_of_to (pi_party_to (um_party_info u)) \<and>
     map_option (\<lambda>ps. map (\<lambda>p. (prop_name p, prop_property_type p, prop_value p)) (mp_properties ps))
         (um_message_properties u') =
       map_option (\<lambda>ps. map (\<lambda>p. (prop_name p, prop_property_type p, prop_value p)) (mp_properties ps))
         (um_message_properties u) \<and>
     map_option (\<lambda>pl. map part_reading (pl_part_info pl)) (um_payload_info u') =
       map_option (\<lambda>pl. map part_reading (pl_part_info pl)) (um_payload_info u)"

definition reads_back :: "'z dsig_lib_scheme \<Rightarrow> envelope \<Rightarrow> envelope \<Rightarrow> bool" where
  "reads_back lib env' env \<longleftrightarrow>
     security_reads lib (hdr_security (env_header env')) (hdr_security (env_header env)) \<and>
     list_all2 user_message_reads (msg_user_messages (hdr_messaging (env_header env')))
       (msg_user_messages (hdr_messaging (env_header env)))"

lemma reference_reads:
  assumes "reference_reading r' = reference_reading r"
  shows "reference_uri r' = reference_uri r" "digest_matches lib r' = digest_matches lib r"
    "digest_matches_bytes lib r' = digest_matches_bytes lib r"
    "names_attachment r' = names_attachment r" "names_element ids r' = names_element ids r"
  using assms
  by (auto simp: reference_reading_def digest_matches_def digest_matches_bytes_def digest_def digest_bytes_def
      require_transforms_def names_attachment_def names_element_def)

lemma reference_reads_signed:
  assumes "reference_reading r' = reference_reading r"
  shows "(names_attachment r' \<or> element_signed lib ids r') = (names_attachment r \<or> element_signed lib ids r)"
    and "(names_attachment r' \<longrightarrow> attachment_signed lib attachments r') =
      (names_attachment r \<longrightarrow> attachment_signed lib attachments r)"
  by (simp_all add: element_signed_def attachment_signed_def reference_reads [OF assms])

lemma token_reads: "token_reading t' = token_reading t \<Longrightarrow> token_certificate lib t' = token_certificate lib t"
  by (simp add: token_certificate_def token_reading_def)

lemma signature_reads_ball:
  assumes "signature_reads lib s' s" and "\<And>r' r. reference_reading r' = reference_reading r \<Longrightarrow> P r' = P r"
  shows "(\<forall>r\<in>set (si_references (sig_signed_info s')). P r) \<longleftrightarrow> (\<forall>r\<in>set (si_references (sig_signed_info s)). P r)"
proof -
  have one: "\<forall>r\<in>set rs'. P r" if "reference_reading ` set rs' = reference_reading ` set rs" "\<forall>r\<in>set rs. P r"
    for rs rs' :: "dsig_reference list"
  proof
    fix r' assume "r' \<in> set rs'"
    with that(1) have "reference_reading r' \<in> reference_reading ` set rs" by blast
    then obtain r where "r \<in> set rs" "reference_reading r' = reference_reading r" by blast
    with assms(2) [OF this(2)] that(2) show "P r'" by simp
  qed
  have "reference_reading ` set (si_references (sig_signed_info s')) =
      reference_reading ` set (si_references (sig_signed_info s))"
    using assms(1) by (auto simp: signature_reads_def simp flip: set_map)
  from one [OF this] one [OF this [symmetric]] show ?thesis by blast
qed

lemma coverage_loop_reads:
  "map reference_reading rs' = map reference_reading rs \<Longrightarrow> coverage_loop rs' ids c p = coverage_loop rs ids c p"
proof (induction rs arbitrary: rs' c p)
  case Nil
  then show ?case by simp
next
  case (Cons r rs)
  then obtain r' rest where rs': "rs' = r' # rest" and "reference_reading r' = reference_reading r"
    and "map reference_reading rest = map reference_reading rs"
    by (cases rs') auto
  then have "or_empty (ref_uri r') = or_empty (ref_uri r)"
    by (simp add: reference_reading_def reference_uri_def)
  with Cons.IH [OF \<open>map reference_reading rest = map reference_reading rs\<close>] rs' show ?case by (simp add: Let_def cong: option.case_cong)
qed

lemma signature_reads_checks:
  assumes "signature_reads lib s' s"
  shows "signature_verify lib s' c = signature_verify lib s c"
    and "signature_coverage s' ids hrefs = signature_coverage s ids hrefs"
    and "verify_reference_digests lib s' ids = Inr () \<longleftrightarrow> verify_reference_digests lib s ids = Inr ()"
    and "verify_attachment_digests lib s' attachments = Inr () \<longleftrightarrow> verify_attachment_digests lib s attachments = Inr ()"
proof -
  show "signature_verify lib s' c = signature_verify lib s c"
    using assms
    by (simp add: signature_reads_def signature_verify_def signature_bytes_def Let_def cong: option.case_cong)
  show "signature_coverage s' ids hrefs = signature_coverage s ids hrefs"
  proof -
    from assms have "map reference_reading (si_references (sig_signed_info s')) =
        map reference_reading (si_references (sig_signed_info s))" by (simp add: signature_reads_def)
    from coverage_loop_reads [OF this] show ?thesis by (simp add: signature_coverage_def)
  qed
  show "verify_reference_digests lib s' ids = Inr () \<longleftrightarrow> verify_reference_digests lib s ids = Inr ()"
    unfolding result_simps
    by (rule signature_reads_ball [OF assms]) (rule reference_reads_signed)
  show "verify_attachment_digests lib s' attachments = Inr () \<longleftrightarrow> verify_attachment_digests lib s attachments = Inr ()"
    unfolding result_simps
    by (rule signature_reads_ball [OF assms]) (rule reference_reads_signed)
qed

lemma user_message_reads_back:
  assumes "reads_back lib env' env" and "user_message_of env = Inr (Some um)"
  obtains um' where "user_message_of env' = Inr (Some um')" "user_message_reads um' um"
  using assms
  by (auto simp: reads_back_def user_message_of_def get_user_message_def result_simps list_all2_Cons2)

section \<open>The envelope\<close>

lemma get_soap_envelope_parts:
  assumes "get_soap_envelope lib dt now local_party remote args references ek [(i, content)] = Inr env"
  obtains rm rb rp s where
    "get_messaging_digest_reference lib dt references (hdr_messaging (env_header env)) = Inr rm"
    "get_body_digest_reference lib dt references (env_body env) = Inr rb"
    "get_payload_digest_reference lib i content = Inr rp"
    "get_signature lib dt local_party references (new_signed_info [rm, rb, rp]) = Inr s"
    "hdr_messaging (env_header env) =
      get_user_messaging references (get_user_message_model now local_party remote args references)"
    "env_body env = new_body (refs_body_id references)"
    "hdr_security (env_header env) =
      \<lparr>etree_element = None,
       sec_binary_security_tokens =
         [get_remote_binary_security_token remote references, get_local_binary_security_token local_party references],
       sec_encrypted_key = Some (get_encrypted_key references ek),
       sec_encrypted_data = Some (get_encrypted_data_models references),
       sec_signature = Some s, sec_must_understand = True\<rparr>"
  using assms
  by (auto simp: get_soap_envelope_def get_message_signed_info_def Let_def result_simps)

lemma built_user_message:
  assumes "hdr_messaging (env_header env) = get_user_messaging references um"
  shows "user_message_of env = Inr (Some um)"
  using assms by (simp add: user_message_of_def get_user_messaging_def get_user_message_def only_one_def)

section \<open>Opening the payload\<close>

lemma cid_prefix [simp]: "startswith ''cid:'' (CHR ''c'' # CHR ''i'' # CHR ''d'' # CHR '':'' # i)"
    "removeprefix ''cid:'' (CHR ''c'' # CHR ''i'' # CHR ''d'' # CHR '':'' # i) = i"
  by (simp_all add: startswith_def removeprefix_def)

lemma built_payload_opens:
  assumes "opens_what_is_sealed lib blib (ctx_local_party ctx) remote"
    and "credentials_rsa_public_key lib (xp_credentials remote) = Inr key"
    and "encrypt_payload blib content = Inr (session_key, sealed)"
    and "rsa_encrypt blib key session_key (OAEP HashSHA256 HashSHA256) = Inr wrapped"
    and "refs_attachment_id_encrypted_data_id_map references = [(i, d)]"
    and "map_option encrypted_key_reading (sec_encrypted_key sec) =
      Some (encrypted_key_reading (get_encrypted_key references wrapped))"
    and "map_option (map encrypted_data_reading) (sec_encrypted_data sec) =
      Some (map encrypted_data_reading (get_encrypted_data_models references))"
    and "dict_get attachments i = Some sealed"
  shows "get_decrypted_data lib ctx sec attachments = Inr [(i, content)]"
proof -
  from assms(3) have drawn: "session_key = random_session_key blib"
    by (auto simp: encrypt_payload_def Let_def andThen_eq_Inr)
  with assms(1,2,4) have key: "wrapped \<noteq> []"
    "key_decrypt (private_key_of (ip_credentials (ctx_local_party ctx))) wrapped (OAEP HashSHA256 HashSHA256) =
      Inr session_key"
    by (auto simp: opens_what_is_sealed_def)
  from assms(1,3) have plain: "aesgcm_decrypt lib session_key (take 12 sealed) (drop 12 sealed) = Inr content"
    by (auto simp: opens_what_is_sealed_def encrypt_payload_def Let_def andThen_eq_Inr)
  from key(1) have nonempty: "b64encode wrapped \<noteq> ''''" by (cases wrapped rule: b64encode.cases) auto
  with key(2) have session: "session_key_of (ctx_local_party ctx) (b64encode wrapped) = Inr session_key"
    by (simp add: session_key_of_def)
  from assms(5,6) obtain k r where k: "sec_encrypted_key sec = Some k" "rl_data_reference (ek_reference_list k) = [r]"
    "or_empty (xref_uri r) = ''#'' @ d" "em_algorithm (et_encryption_method k) = RSA_OAEP"
    "or_empty (Option.bind (cd_cipher_value (et_cipher_data k)) cv_value) = b64encode wrapped"
    by (auto simp: encrypted_key_reading_def get_encrypted_key_def)
  from assms(5,7) obtain ed where ed: "sec_encrypted_data sec = Some [ed]" "et_encrypted_type_id ed = Some d"
    "em_algorithm (et_encryption_method ed) = AES128_GCM"
    "or_empty (Option.bind (cd_cipher_reference (et_cipher_data ed)) cr_uri) = ''cid:'' @ i"
    by (auto simp: encrypted_data_reading_def get_encrypted_data_models_def)
  have "decrypt_reference lib sec attachments session_key r = Inr (i, content)"
    using k(3) ed assms(8) plain by (simp add: decrypt_reference_def get_encrypted_data_def Let_def)
  with k nonempty session show ?thesis by (simp add: get_decrypted_data_def Let_def)
qed

section \<open>The signature\<close>

text \<open>The signature the builder makes, before it is sent.\<close>

lemma built_signature_covers:
  assumes "get_soap_envelope lib dt now local_party remote args references ek [(i, content)] = Inr env"
    and "signing_key lib local_party"
    and "dump_to_xml dt (clark ns_S12 ''Envelope'') (envelope_model env) = Inr e"
    and "distinct (map fst (id_attributes e))"
    and "refs_messaging_id references \<noteq> ''''" and "refs_body_id references \<noteq> ''''"
  obtains s where "sec_signature (hdr_security (env_header env)) = Some s"
    "signature_verify lib s (certificate_of (ip_credentials local_party)) = Inr ()"
    "signature_token_uri s = Some (''#'' @ refs_signature_bst_id references)"
    "{''messaging'', ''body'', ''payloads''} \<subseteq> signature_coverage s (id_attributes e) {''cid:'' @ i}"
    "verify_reference_digests lib s (id_attributes e) = Inr ()"
    "verify_attachment_digests lib s [(i, content)] = Inr ()"
proof -
  from assms(1) obtain rm rb rp s where refs:
      "get_messaging_digest_reference lib dt references (hdr_messaging (env_header env)) = Inr rm"
      "get_body_digest_reference lib dt references (env_body env) = Inr rb"
      "get_payload_digest_reference lib i content = Inr rp"
    and s: "get_signature lib dt local_party references (new_signed_info [rm, rb, rp]) = Inr s"
    and built: "hdr_messaging (env_header env) = get_user_messaging references
        (get_user_message_model now local_party remote args references)"
      "env_body env = new_body (refs_body_id references)"
      "sec_signature (hdr_security (env_header env)) = Some s"
    by (rule get_soap_envelope_parts) simp
  note signed = get_signature_verifies [OF assms(2) s]
  obtain m b where m: "names_element (id_attributes e) rm m" "tag m = Clark (clark ns_eb3 ''Messaging'')"
      "digest_matches lib rm m = Inr True"
    and b: "names_element (id_attributes e) rb b" "tag b = Clark (clark ns_S12 ''Body'')"
      "digest_matches lib rb b = Inr True"
    by (rule dumped_parts_signed [OF assms(3,4) _ _ assms(5,6) refs(1,2)])
       (simp_all add: built get_user_messaging_def new_body_def)
  from refs(3) have p: "digest_matches_bytes lib rp content = Inr True" "reference_uri rp = ''cid:'' @ i"
    by (auto simp: get_payload_digest_reference_def reference_uri_def dest!: for_bytes_matches)
  have "{''messaging'', ''body'', ''payloads''} \<subseteq> signature_coverage s (id_attributes e) {''cid:'' @ i}"
    unfolding insert_subset covers_messaging covers_body covers_payloads signed(2)
    using m(1,2) b(1,2) p(2) by (auto simp: names_attachment_def)
  moreover have "verify_reference_digests lib s (id_attributes e) = Inr ()"
    using signed(2) m b p by (auto simp: result_simps element_signed_def names_attachment_def)
  moreover have "verify_attachment_digests lib s [(i, content)] = Inr ()"
    using signed(2) m(1) b(1) p by (auto simp: result_simps attachment_signed_def names_element_def)
  ultimately show ?thesis by (rule that [OF built(3) signed(1,3)])
qed

text \<open>The same signature as the receiver reads it.\<close>

lemma built_signature_verifies:
  assumes "get_soap_envelope lib dt now local_party remote args references ek [(i, content)] = Inr env"
    and "signing_key lib local_party"
    and "dump_to_xml dt (clark ns_S12 ''Envelope'') (envelope_model env) = Inr e"
    and "distinct (map fst (id_attributes e))"
    and "refs_messaging_id references \<noteq> ''''" and "refs_body_id references \<noteq> ''''"
    and "refs_encrypted_key_bst_id references \<noteq> refs_signature_bst_id references"
    and "refs_attachment_id_encrypted_data_id_map references = [(i, d)]"
    and "\<forall>from. identity_of_from from = ip_identity local_party \<longrightarrow>
      policy_signer_resolver policy from (Some (certificate_of (ip_credentials local_party))) =
        Inr (certificate_of (ip_credentials local_party))"
    and "required_coverage policy \<subseteq> {''messaging'', ''body'', ''payloads''}"
    and "reads_back lib env' env"
  obtains s um where "user_message_of env' = Inr (Some um)"
    "user_message_reads um (get_user_message_model now local_party remote args references)"
    "verified_signature lib policy (hdr_security (env_header env')) um (id_attributes e) s
       (certificate_of (ip_credentials local_party))"
    "verify_attachment_digests lib s [(i, content)] = Inr ()"
proof -
  let ?cert = "certificate_of (ip_credentials local_party)"
    and ?um = "get_user_message_model now local_party remote args references"
    and ?sec' = "hdr_security (env_header env')"
  from assms(1) have built: "hdr_messaging (env_header env) = get_user_messaging references ?um"
    "sec_binary_security_tokens (hdr_security (env_header env)) =
        [get_remote_binary_security_token remote references, get_local_binary_security_token local_party references]"
    by (rule get_soap_envelope_parts, simp)+
  from built_signature_covers [OF assms(1-6)] obtain s
    where s: "sec_signature (hdr_security (env_header env)) = Some s" "signature_verify lib s ?cert = Inr ()"
      "signature_token_uri s = Some (''#'' @ refs_signature_bst_id references)"
      "{''messaging'', ''body'', ''payloads''} \<subseteq> signature_coverage s (id_attributes e) {''cid:'' @ i}"
      "verify_reference_digests lib s (id_attributes e) = Inr ()"
      "verify_attachment_digests lib s [(i, content)] = Inr ()" by metis
  from assms(11) s(1) obtain s' where s': "sec_signature ?sec' = Some s'" "signature_reads lib s' s"
    by (auto simp: reads_back_def security_reads_def option_rel_Some2)
  note same = signature_reads_checks [OF s'(2)]
  from user_message_reads_back [OF assms(11) built_user_message [OF built(1)]] obtain um
    where um: "user_message_of env' = Inr (Some um)" "user_message_reads um ?um" by blast
  from um(2) assms(8) have hrefs: "payload_hrefs um = {''cid:'' @ i}"
    by (auto simp: payload_hrefs_def user_message_reads_def get_user_message_model_def part_reading_def Let_def
        or_empty_def split: option.splits)
  have "required_coverage policy \<subseteq> signature_coverage s' (id_attributes e) (payload_hrefs um)"
    unfolding same(2) hrefs by (rule subset_trans [OF assms(10) s(4)])
  moreover from s(5) same(3) have "\<forall>r\<in>set (si_references (sig_signed_info s')).
      names_attachment r \<or> element_signed lib (id_attributes e) r"
    by (simp add: result_simps)
  moreover from assms(7,11) built(2) obtain bst where
    "find_token ?sec' (''#'' @ refs_signature_bst_id references) = Some bst"
    "token_reading bst = token_reading (get_local_binary_security_token local_party references)"
    by (auto simp: reads_back_def security_reads_def find_token_def token_reading_def
        get_local_binary_security_token_def get_remote_binary_security_token_def)
  moreover from this(2) have "token_certificate lib bst = Inr ?cert"
    by (rule trans [OF token_reads local_token [OF assms(2)]])
  moreover have "identity_of_from (pi_party_from (um_party_info um)) = ip_identity local_party"
    using um(2) by (simp add: user_message_reads_def get_user_message_model_def Let_def)
  moreover have "signature_token_uri s' = Some (''#'' @ refs_signature_bst_id references)"
    using s'(2) s(3) by (simp add: signature_reads_def)
  ultimately have verified: "verified_signature lib policy ?sec' um (id_attributes e) s' ?cert"
    unfolding verified_signature_def using s'(1) s(2) same(1) assms(9) by auto
  from s(6) same(4) have "verify_attachment_digests lib s' [(i, content)] = Inr ()" by simp
  with verified show ?thesis by (rule that [OF um])
qed

section \<open>One run of the receiver\<close>

text \<open>
  What an exchange between the two parties rests on: the sender signs with the key of its certificate and
  the receiver's resolver accepts that certificate for the sender, the receiver opens what is sealed for it
  and inflates what was deflated, and its policy asks for no other coverage than the three parts there are.
\<close>

definition agree_on_keys ::
  "'z message_lib_scheme \<Rightarrow> 'b builder_lib_scheme \<Rightarrow> internal_party \<Rightarrow> external_party \<Rightarrow> parse_context \<Rightarrow> bool" where
  "agree_on_keys lib blib local_party remote ctx \<longleftrightarrow>
     signing_key lib local_party \<and> opens_what_is_sealed lib blib (ctx_local_party ctx) remote \<and>
     inflates_what_is_deflated lib blib (maximum_decompressed_size (ctx_security_policy ctx)) \<and>
     (\<forall>from. identity_of_from from = ip_identity local_party \<longrightarrow>
        policy_signer_resolver (ctx_security_policy ctx) from (Some (certificate_of (ip_credentials local_party))) =
          Inr (certificate_of (ip_credentials local_party))) \<and>
     required_coverage (ctx_security_policy ctx) \<subseteq> {''messaging'', ''body'', ''payloads''}"

definition usable_ids :: "as4_references \<Rightarrow> bool" where
  "usable_ids references \<longleftrightarrow>
     refs_messaging_id references \<noteq> '''' \<and> refs_body_id references \<noteq> '''' \<and>
     refs_encrypted_key_bst_id references \<noteq> refs_signature_bst_id references"

text \<open>\<open>e\<close> is the envelope as sent, \<open>env'\<close> the envelope the receiver validates it to.\<close>

definition transmitted ::
  "'z message_lib_scheme \<Rightarrow> datetime_lib \<Rightarrow> envelope \<Rightarrow> xml \<Rightarrow> envelope \<Rightarrow> bool" where
  "transmitted lib dt env e env' \<longleftrightarrow>
     dump_to_xml dt (clark ns_S12 ''Envelope'') (envelope_model env) = Inr e \<and>
     distinct (map fst (id_attributes e)) \<and> envelope_of lib e = Inr env' \<and> reads_back lib env' env"

lemma seal_payload_parts:
  assumes "seal_payload lib blib dt now remote args payload = Inr (wrapped, compressed, sealed, ek)"
  shows "\<exists>session_key key. compressed = gzip_compress blib wrapped \<and>
    encrypt_payload blib compressed = Inr (session_key, sealed) \<and>
    credentials_rsa_public_key lib (xp_credentials remote) = Inr key \<and>
    rsa_encrypt blib key session_key (OAEP HashSHA256 HashSHA256) = Inr ek"
  using assms by (auto simp: seal_payload_def Let_def andThen_eq_Inr case_prod_beta prod_eq_iff)

lemma build_message_of_seal:
  assumes "seal_payload lib blib dt (fst nows) remote args payload = Inr (wrapped, compressed, sealed, ek)"
    and "encrypted_data_attachment_mapping us references = ((i, d), r)"
    and "peppol_build_message lib blib dt nows us payload local_party remote args references = (Inr m, references')"
  shows "\<exists>env. get_soap_envelope lib dt (snd nows) local_party remote args references' ek [(i, compressed)] = Inr env \<and>
     references' = r \<and> m = new_peppol_message args references' env i sealed wrapped"
proof -
  have "peppol_build_message lib blib dt nows us payload local_party remote args references =
    (andThen (get_soap_envelope lib dt (snd nows) local_party remote args r ek [(i, compressed)])
       (\<lambda>env. Inr (new_peppol_message args r env i sealed wrapped)), r)"
    by (simp add: peppol_build_message_def assms(1,2))
  with assms(3) show ?thesis by (auto simp: andThen_eq_Inr)
qed

lemma peppol_build_message_parts:
  assumes "peppol_build_message lib blib dt nows us payload local_party remote args references = (Inr m, references')"
    and "refs_attachment_id_encrypted_data_id_map references = []"
  obtains env i d wrapped sealed session_key key ek where
    "get_soap_envelope lib dt (snd nows) local_party remote args references' ek [(i, gzip_compress blib wrapped)] = Inr env"
    "encrypt_payload blib (gzip_compress blib wrapped) = Inr (session_key, sealed)"
    "credentials_rsa_public_key lib (xp_credentials remote) = Inr key"
    "rsa_encrypt blib key session_key (OAEP HashSHA256 HashSHA256) = Inr ek"
    "references' = references\<lparr>refs_attachment_id_encrypted_data_id_map := [(i, d)]\<rparr>"
    "m_soap_envelope m = Some env" "m_mime_attachments m = [(i, sealed)]" "m_decrypted_data m = [(i, wrapped)]"
    "p_sender m = Some (pb_sender args)" "p_recipient m = Some (pb_recipient args)"
    "p_document_type_identifier_value m = Some (identifier_value (pb_document_type_identifier args))"
    "p_document_type_identifier_scheme m = Some (doc_scheme (pb_document_type_identifier args))"
    "p_process_identifier m = Some (pb_process_identifier args)"
proof -
  from assms(1) obtain wrapped compressed sealed ek
    where seal: "seal_payload lib blib dt (fst nows) remote args payload = Inr (wrapped, compressed, sealed, ek)"
    by (cases "seal_payload lib blib dt (fst nows) remote args payload") (auto simp: peppol_build_message_def)
  obtain i d where map: "encrypted_data_attachment_mapping us references =
      ((i, d), references\<lparr>refs_attachment_id_encrypted_data_id_map := [(i, d)]\<rparr>)"
    using assms(2) by (simp add: encrypted_data_attachment_mapping_def Let_def)
  from seal_payload_parts [OF seal] obtain session_key key where parts:
    "compressed = gzip_compress blib wrapped" "encrypt_payload blib compressed = Inr (session_key, sealed)"
    "credentials_rsa_public_key lib (xp_credentials remote) = Inr key"
    "rsa_encrypt blib key session_key (OAEP HashSHA256 HashSHA256) = Inr ek" by blast
  from build_message_of_seal [OF seal map assms(1)] obtain env where
    "get_soap_envelope lib dt (snd nows) local_party remote args references' ek [(i, compressed)] = Inr env"
    "references' = references\<lparr>refs_attachment_id_encrypted_data_id_map := [(i, d)]\<rparr>"
    "m = new_peppol_message args references' env i sealed wrapped" by blast
  with parts show ?thesis
    by (intro that [where env = env and i = i and d = d and wrapped = wrapped and sealed = sealed and
          session_key = session_key and key = key and ek = ek]) simp_all
qed

lemma one_part_inflates:
  assumes "map part_reading ps = [(''cid:'' @ i, Some ''application/gzip'')]"
    and "dict_has i attachments" and "m_decrypted_data m = [(i, content)]"
    and "gzip_read lib content (cap + 1) = Inr plain" and "int (length plain) \<le> cap"
  shows "decompress_parts lib cap attachments ps m = (Inr (), m\<lparr>m_decrypted_data := [(i, plain)]\<rparr>)"
proof -
  from assms(1) obtain p where ps: "ps = [p]" and p: "or_empty (part_href p) = ''cid:'' @ i"
    "compression_type (part_part_properties p) = Some ''application/gzip''"
    by (auto simp: part_reading_def)
  then have "decompress lib (part_part_properties p) content cap = Inr plain"
    using assms(4,5) by (simp add: decompress_eq_Inr)
  with ps p assms(2,3) show ?thesis
    by (simp add: decompress_parts_Cons part_identifier_def)
qed

lemma built_parts:
  assumes "user_message_reads um (get_user_message_model now local_party remote args references)"
    and "refs_attachment_id_encrypted_data_id_map references = [(i, d)]"
  obtains pl where "um_payload_info um = Some pl"
    "map part_reading (pl_part_info pl) = [(''cid:'' @ i, Some ''application/gzip'')]"
  using assms
  by (auto simp: user_message_reads_def get_user_message_model_def part_reading_def compression_type_def
      new_property_def Let_def)

lemma built_message_processed:
  assumes "peppol_build_message lib blib dt nows us payload local_party remote args references = (Inr m, references')"
    and "refs_attachment_id_encrypted_data_id_map references = []" and "usable_ids references"
    and "agree_on_keys lib blib local_party remote ctx"
    and "transmitted lib dt (the (m_soap_envelope m)) e env'"
    and "\<forall>(i, d)\<in>set (m_decrypted_data m). int (length d) \<le> maximum_decompressed_size (ctx_security_policy ctx)"
  shows "process lib ctx e (m_mime_attachments m) m0 =
    (Inr (), m0\<lparr>m_mime_attachments := m_mime_attachments m, m_soap_envelope := Some env',
      m_signer_certificate := Some (certificate_of (ip_credentials local_party)),
      m_decrypted_data := m_decrypted_data m\<rparr>)"
proof -
  let ?policy = "ctx_security_policy ctx" and ?cert = "certificate_of (ip_credentials local_party)"
  from assms(1,2) obtain env i d wrapped sealed session_key key ek where
    env: "get_soap_envelope lib dt (snd nows) local_party remote args references' ek
       [(i, gzip_compress blib wrapped)] = Inr env"
    and sealed: "encrypt_payload blib (gzip_compress blib wrapped) = Inr (session_key, sealed)"
    and key: "credentials_rsa_public_key lib (xp_credentials remote) = Inr key"
    and ek: "rsa_encrypt blib key session_key (OAEP HashSHA256 HashSHA256) = Inr ek"
    and refs': "references' = references\<lparr>refs_attachment_id_encrypted_data_id_map := [(i, d)]\<rparr>"
    and m: "m_soap_envelope m = Some env" "m_mime_attachments m = [(i, sealed)]" "m_decrypted_data m = [(i, wrapped)]"
    by (rule peppol_build_message_parts)
  from assms(5) m(1) have sent: "dump_to_xml dt (clark ns_S12 ''Envelope'') (envelope_model env) = Inr e"
    "distinct (map fst (id_attributes e))" "envelope_of lib e = Inr env'" "reads_back lib env' env"
    by (simp_all add: transmitted_def)
  obtain s um where um: "user_message_of env' = Inr (Some um)"
      "user_message_reads um (get_user_message_model (snd nows) local_party remote args references')"
    and verified: "verified_signature lib ?policy (hdr_security (env_header env')) um (id_attributes e) s ?cert"
    and content: "verify_attachment_digests lib s [(i, gzip_compress blib wrapped)] = Inr ()"
    by (rule built_signature_verifies [OF env _ sent(1,2) _ _ _ _ _ _ sent(4), where policy = ?policy and d = d])
       (use assms(3,4) refs' in \<open>simp_all add: agree_on_keys_def usable_ids_def\<close>)
  from um(2) refs' obtain pl where pl: "um_payload_info um = Some pl"
    "map part_reading (pl_part_info pl) = [(''cid:'' @ i, Some ''application/gzip'')]"
    by (auto elim: built_parts)
  have security: "sec_encrypted_key (hdr_security (env_header env)) = Some (get_encrypted_key references' ek)"
    "sec_encrypted_data (hdr_security (env_header env)) = Some (get_encrypted_data_models references')"
    using env by (rule get_soap_envelope_parts, simp)+
  have opened: "get_decrypted_data lib ctx (hdr_security (env_header env')) [(i, sealed)] =
      Inr [(i, gzip_compress blib wrapped)]"
    by (rule built_payload_opens [OF _ key sealed ek, where references = references' and d = d])
       (use assms(4) refs' sent(4) security in \<open>simp_all add: agree_on_keys_def reads_back_def security_reads_def\<close>)
  have "gzip_read lib (gzip_compress blib wrapped) (maximum_decompressed_size ?policy + 1) = Inr wrapped"
    using assms(4,6) m(3) by (simp add: agree_on_keys_def inflates_what_is_deflated_def)
  then have inflated: "decompress_parts lib (maximum_decompressed_size ?policy) [(i, sealed)] (pl_part_info pl)
      (m0\<lparr>m_mime_attachments := [(i, sealed)], m_soap_envelope := Some env', m_signer_certificate := Some ?cert,
        m_decrypted_data := [(i, gzip_compress blib wrapped)]\<rparr>) =
      (Inr (), m0\<lparr>m_mime_attachments := [(i, sealed)], m_soap_envelope := Some env',
        m_signer_certificate := Some ?cert, m_decrypted_data := [(i, wrapped)]\<rparr>)"
    using assms(6) m(3) by (subst one_part_inflates [OF pl(2)]) (simp_all add: dict_has_def)
  from verified have sig: "sec_signature (hdr_security (env_header env')) = Some s"
    by (simp add: verified_signature_def)
  have signed: "get_verified_signature lib ctx (hdr_security (env_header env')) env' (id_attributes e) =
      Inr (Some s, Some ?cert)"
    by (rule iffD2 [OF get_verified_signature_signed [OF sig]]) (use verified um(1) in blast)
  have indexed: "index_elements_by_id e = Inr (id_attributes e)" using sent(2) by (simp add: result_simps)
  have digests: "\<forall>x. Some s = Some x \<longrightarrow> verify_digests ?policy \<longrightarrow>
      verify_attachment_digests lib x [(i, gzip_compress blib wrapped)] = Inr ()"
    using content by simp
  show ?thesis
    unfolding m(2,3)
    by (rule iffD2 [OF process_returns], intro exI conjI)
       (rule sent(3) indexed signed opened digests um(1) pl(1) inflated)+
qed

text \<open>
  C9.  A message the Peppol builder makes is one the receiver accepts: \<open>process\<close> returns on the
  envelope as it is sent, takes the sender's certificate for the signer's, and hands out the very
  document the builder sealed.  This holds when the two sides agree on their keys (\<open>agree_on_keys\<close>: the
  receiver's resolver accepts the sender's certificate, its key opens the session key this message drew,
  and its policy asks for no coverage but messaging, body and payloads), when validating the dumped
  envelope gives back the readings of the built one (\<open>transmitted\<close>, a hypothesis on lxml and pydantic),
  and when the document is within the receiver's cap.
\<close>

theorem built_message_is_received:
  assumes "peppol_build_message lib blib dt nows us payload local_party remote args references = (Inr m, references')"
    and "refs_attachment_id_encrypted_data_id_map references = []" and "usable_ids references"
    and "agree_on_keys lib blib local_party remote ctx"
    and "transmitted lib dt (the (m_soap_envelope m)) e env'"
    and "\<forall>(i, d)\<in>set (m_decrypted_data m). int (length d) \<le> maximum_decompressed_size (ctx_security_policy ctx)"
  shows "\<exists>m'. process lib ctx e (m_mime_attachments m) empty_message = (Inr (), m') \<and>
    m_signer_certificate m' = Some (certificate_of (ip_credentials local_party)) \<and>
    m_decrypted_data m' = m_decrypted_data m"
  using built_message_processed [OF assms, of empty_message] by simp

section \<open>Routing\<close>

definition scope_reading :: "sbdh_scope \<Rightarrow> string \<times> string \<times> string option" where
  "scope_reading s =
     (sbdh_type_value (sbdh_scope_scope_type s), scope_value s,
      map_option sbdh_scope_identifier_value (sbdh_scope_identifier s))"

text \<open>A header read back from the sealed document: the participants and the scopes are those written.\<close>

definition header_reads :: "sbdh_header \<Rightarrow> sbdh_header \<Rightarrow> bool" where
  "header_reads h' h \<longleftrightarrow>
     sbdh_identifier_value (header_sender h') = sbdh_identifier_value (header_sender h) \<and>
     sbdh_identifier_authority (header_sender h') = sbdh_identifier_authority (header_sender h) \<and>
     sbdh_identifier_value (header_recipient h') = sbdh_identifier_value (header_recipient h) \<and>
     sbdh_identifier_authority (header_recipient h') = sbdh_identifier_authority (header_recipient h) \<and>
     map scope_reading (sbdh_business_scope_scopes (sbdh_header_business_scope h')) =
       map scope_reading (sbdh_business_scope_scopes (sbdh_header_business_scope h))"

lemma built_header:
  assumes "get_standard_business_document now args = Inr d"
    and "header_reads h (sbdh_document_standard_business_document_header d)"
  shows "sbdh_identifier_value (header_sender h) = pb_sender args"
    and "sbdh_identifier_authority (header_sender h) = Some ISO6523_ACTOR_ID"
    and "sbdh_identifier_value (header_recipient h) = pb_recipient args"
    and "sbdh_identifier_authority (header_recipient h) = Some ISO6523_ACTOR_ID"
    and "map scope_reading (sbdh_business_scope_scopes (sbdh_header_business_scope h)) =
      [(''DOCUMENTID'', identifier_value (pb_document_type_identifier args), Some (doc_scheme (pb_document_type_identifier args))),
       (''PROCESSID'', pb_process_identifier args, Some CENBII_PROCID_UBL),
       (''COUNTRY_C1'', pb_c1_country_id args, None)]"
  using assms
  by (auto simp: get_standard_business_document_def Let_def result_simps header_reads_def header_sender_def
      header_recipient_def new_identifier_def new_scope_def scope_reading_def scope_value_def)

lemma scopes_read:
  assumes "map scope_reading (sbdh_business_scope_scopes (sbdh_header_business_scope h)) =
      [(''DOCUMENTID'', doc, Some scheme), (''PROCESSID'', proc, proc_scheme), (''COUNTRY_C1'', country, country_scheme)]"
  shows "store_scopes lib h m =
    (Inr (), m\<lparr>p_document_type_identifier_value := Some doc, p_document_type_identifier_scheme := Some scheme,
       p_process_identifier := Some proc\<rparr>)"
proof -
  from assms obtain d p c where scopes: "sbdh_business_scope_scopes (sbdh_header_business_scope h) = [d, p, c]"
    and "sbdh_type_value (sbdh_scope_scope_type d) = ''DOCUMENTID''" "scope_value d = doc"
      "map_option sbdh_scope_identifier_value (sbdh_scope_identifier d) = Some scheme"
    and "sbdh_type_value (sbdh_scope_scope_type p) = ''PROCESSID''" "scope_value p = proc"
    and "sbdh_type_value (sbdh_scope_scope_type c) = ''COUNTRY_C1''"
    by (auto simp: scope_reading_def)
  then show ?thesis
    by (auto simp: store_scopes_def scopes_by_type_def MANDATORY_SBDH_SCOPE_TYPE_VALUES_def Let_def)
qed

lemma built_properties:
  assumes "user_message_reads um (get_user_message_model now local_party remote args references)"
    and "sbdh_identifier_value (header_sender h) = pb_sender args"
    and "sbdh_identifier_authority (header_sender h) = Some ISO6523_ACTOR_ID"
    and "sbdh_identifier_value (header_recipient h) = pb_recipient args"
    and "sbdh_identifier_authority (header_recipient h) = Some ISO6523_ACTOR_ID"
  shows "property_names (um_message_properties um) ORIGINAL_SENDER (header_sender h)"
    and "property_names (um_message_properties um) FINAL_RECIPIENT (header_recipient h)"
proof -
  from assms(1) obtain ps a b where "um_message_properties um = Some ps" "mp_properties ps = [a, b]"
    "prop_name a = ORIGINAL_SENDER" "prop_value a = pb_sender args" "prop_property_type a = Some ISO6523_ACTOR_ID"
    "prop_name b = FINAL_RECIPIENT" "prop_value b = pb_recipient args" "prop_property_type b = Some ISO6523_ACTOR_ID"
    by (auto simp: user_message_reads_def get_user_message_model_def new_property_def Let_def)
  moreover have "ORIGINAL_SENDER \<noteq> FINAL_RECIPIENT" by (simp add: ORIGINAL_SENDER_def FINAL_RECIPIENT_def)
  ultimately show "property_names (um_message_properties um) ORIGINAL_SENDER (header_sender h)"
    "property_names (um_message_properties um) FINAL_RECIPIENT (header_recipient h)"
    using assms(2-5) by (simp_all add: property_names_def get_property_def)
qed

lemma built_message_routed:
  assumes "peppol_build_message lib blib dt nows us payload local_party remote args references = (Inr m, references')"
    and "refs_attachment_id_encrypted_data_id_map references = []" and "usable_ids references"
    and "agree_on_keys lib blib local_party remote ctx"
    and "transmitted lib dt (the (m_soap_envelope m)) e env'"
    and "\<forall>(i, d)\<in>set (m_decrypted_data m). int (length d) \<le> maximum_decompressed_size (ctx_security_policy ctx)"
    and "identity_party_type (ip_identity local_party) = Some PEPPOL_PARTY_IDENTIFIER_TYPE"
    and "identity_party_type (xp_identity remote) = Some PEPPOL_PARTY_IDENTIFIER_TYPE"
    and "get_standard_business_document (fst nows) args = Inr sbd" and "read_sbdh lib m = Inr h"
    and "header_reads h (sbdh_document_standard_business_document_header sbd)"
    and "accept_recipient ctx (pb_recipient args) = Inr ()"
  shows "peppol_process lib ctx e (m_mime_attachments m) m0 =
    (Inr (), m0\<lparr>m_mime_attachments := m_mime_attachments m, m_soap_envelope := Some env',
      m_signer_certificate := Some (certificate_of (ip_credentials local_party)),
      m_decrypted_data := m_decrypted_data m,
      p_sender := p_sender m, p_recipient := p_recipient m,
      p_document_type_identifier_value := p_document_type_identifier_value m,
      p_document_type_identifier_scheme := p_document_type_identifier_scheme m,
      p_process_identifier := p_process_identifier m\<rparr>)"
proof -
  obtain env where um: "m_soap_envelope m = Some env" "user_message_of env =
      Inr (Some (get_user_message_model (snd nows) local_party remote args references'))"
    and fields: "p_sender m = Some (pb_sender args)" "p_recipient m = Some (pb_recipient args)"
    "p_document_type_identifier_value m = Some (identifier_value (pb_document_type_identifier args))"
    "p_document_type_identifier_scheme m = Some (doc_scheme (pb_document_type_identifier args))"
    "p_process_identifier m = Some (pb_process_identifier args)"
    using assms(1,2)
    by (rule peppol_build_message_parts) (metis built_user_message get_soap_envelope_parts)
  from assms(5) um obtain um' where um': "user_message_of env' = Inr (Some um')"
    "user_message_reads um' (get_user_message_model (snd nows) local_party remote args references')"
    by (auto simp: transmitted_def elim: user_message_reads_back)
  let ?m1 = "m0\<lparr>m_mime_attachments := m_mime_attachments m, m_soap_envelope := Some env',
      m_signer_certificate := Some (certificate_of (ip_credentials local_party)),
      m_decrypted_data := m_decrypted_data m\<rparr>"
  note core = built_message_processed [OF assms(1-6), of m0]
  note header = built_header [OF assms(9,11)]
  have "first_payload ?m1 = first_payload m" by (simp add: first_payload_def cong: list.case_cong)
  with assms(10) have sbdh: "read_sbdh lib ?m1 = Inr h" by (simp add: read_sbdh_def)
  have types: "verify_party_identifiers (Some env') = Inr ()"
    using um' assms(7,8)
    by (auto simp: result_simps peppol_party_types_def user_message_reads_def get_user_message_model_def
        identity_of_from_def identity_of_to_def identity_from_party_def to_party_from_def to_party_to_def
        new_party_id_def Let_def)
  have agree: "verify_participants_agree (um_message_properties um') (header_sender h) (header_recipient h) = Inr ()"
    using built_properties [OF um'(2) header(1-4)] by (simp add: result_simps)
  have "process_sbdh lib ctx ?m1 = (Inr (), ?m1
      \<lparr>p_sender := Some (pb_sender args), p_recipient := Some (pb_recipient args),
       p_document_type_identifier_value := Some (identifier_value (pb_document_type_identifier args)),
       p_document_type_identifier_scheme := Some (doc_scheme (pb_document_type_identifier args)),
       p_process_identifier := Some (pb_process_identifier args)\<rparr>)"
    using types sbdh agree um'(1) assms(12)
    by (simp add: process_sbdh_def Let_def message_properties_of_def header(1-4) scopes_read [OF header(5)])
  with core fields show ?thesis by (simp add: peppol_process_def)
qed

text \<open>
  C8.  The Peppol checks pass too, when both parties are named by the Peppol scheme and the recipient is
  served: the receiver arrives at the sender, recipient, document type and process the builder was given.
  Beside the conditions of the core checks (agreement on keys and coverage, the envelope read back, the
  cap) it is a hypothesis that the header found in the sealed document reads as the one that was written
  (\<open>header_reads\<close>: participants and scopes survive the dump and the validation).
\<close>

theorem built_message_is_routed:
  assumes "peppol_build_message lib blib dt nows us payload local_party remote args references = (Inr m, references')"
    and "refs_attachment_id_encrypted_data_id_map references = []" and "usable_ids references"
    and "agree_on_keys lib blib local_party remote ctx"
    and "transmitted lib dt (the (m_soap_envelope m)) e env'"
    and "\<forall>(i, d)\<in>set (m_decrypted_data m). int (length d) \<le> maximum_decompressed_size (ctx_security_policy ctx)"
    and "identity_party_type (ip_identity local_party) = Some PEPPOL_PARTY_IDENTIFIER_TYPE"
    and "identity_party_type (xp_identity remote) = Some PEPPOL_PARTY_IDENTIFIER_TYPE"
    and "get_standard_business_document (fst nows) args = Inr sbd" and "read_sbdh lib m = Inr h"
    and "header_reads h (sbdh_document_standard_business_document_header sbd)"
    and "accept_recipient ctx (pb_recipient args) = Inr ()"
  shows "\<exists>m'. peppol_process lib ctx e (m_mime_attachments m) empty_peppol_message = (Inr (), m') \<and>
    m_decrypted_data m' = m_decrypted_data m \<and>
    m_signer_certificate m' = Some (certificate_of (ip_credentials local_party)) \<and>
    p_sender m' = p_sender m \<and> p_recipient m' = p_recipient m \<and>
    p_document_type_identifier_value m' = p_document_type_identifier_value m \<and>
    p_document_type_identifier_scheme m' = p_document_type_identifier_scheme m \<and>
    p_process_identifier m' = p_process_identifier m"
  by (simp add: built_message_routed [OF assms])

end
