(* ===== verification/Examples.thy ===== *)
theory Examples
  imports PeppolRoundTrip
begin

text \<open>
  A concrete exchange: a Peppol message with one signed and encrypted payload, the document it arrives
  in, and the libraries under which it is read.  The hypotheses of the properties hold there.
\<close>

section \<open>Two parties\<close>

definition eg_key :: private_key where
  "eg_key = \<lparr>key_sign = (\<lambda>d p h. Inr [0]), key_decrypt = (\<lambda>c p. Inr (tl c))\<rparr>"

definition eg_cert :: certificate where "eg_cert = Certificate [1]"

definition eg_sender :: internal_party where
  "eg_sender = create_peppol_internal_party ''POP1'' eg_cert eg_key"

definition eg_receiver :: internal_party where
  "eg_receiver = create_peppol_internal_party ''POP2'' (Certificate [2]) eg_key"

definition eg_remote :: external_party where
  "eg_remote = create_peppol_external_party ''POP2'' (Certificate [2])"

definition eg_args :: peppol_builder_args where
  "eg_args =
     \<lparr>pb_sender = ''0192:1'', pb_recipient = ''0192:2'',
      pb_document_type_identifier =
        \<lparr>doc_scheme = BUSDOX_DOCID_QNS, doc_syntax_specific_id = ''urn:i::Invoice'',
         doc_customization_id = ''c'', doc_version = ''2.1''\<rparr>,
      pb_document_identification_instance_identifier = ''7'', pb_process_identifier = ''p'',
      pb_c1_country_id = ''NO''\<rparr>"

definition eg_dt :: datetime_lib where
  "eg_dt = \<lparr>isoformat_milliseconds = show_int, str_datetime = show_int\<rparr>"

text \<open>A cipher that takes session keys of 16 bytes only, and a key that wraps at most 190 bytes.\<close>

definition eg_blib :: builder_lib where
  "eg_blib =
     \<lparr>parse_email = (\<lambda>d. Part '''' None (Some d) []), choose_boundary = ''b'',
      encode_multipart_formdata = (\<lambda>_ _. []),
      aesgcm_encrypt = (\<lambda>k n d. if length k = 16 then Inr d else Inl (ValueError ''key length'')),
      random_session_key = replicate 16 3, random_nonce = replicate 12 0,
      rsa_encrypt = (\<lambda>key k p. if length k \<le> 190 then Inr (1 # k) else Inl (ValueError ''too long'')),
      gzip_compress = (\<lambda>d. d)\<rparr>"

definition eg_invoice :: xml where
  "eg_invoice = Element (Clark ''{urn:i}Invoice'') [] None [] None"

text \<open>The bytes \<open>[2]\<close> are the SOAP part, \<open>[1]\<close> the wrapped document, all others the bare one.\<close>

definition eg_lib_for :: "xml \<Rightarrow> xml \<Rightarrow> exn + envelope \<Rightarrow> sbdh_document \<Rightarrow> peppol_lib" where
  "eg_lib_for soap wrapped env sbd =
     \<lparr>fromstring = (\<lambda>d. Some (if d = [2] then soap else if d = [1] then wrapped else eg_invoice)),
      tostring = (\<lambda>_. [1]), exclusive_c14n = (\<lambda>e ns. [0]),
      hash_bytes = (\<lambda>h d. d), cert_public_key = (\<lambda>c. Inr (RSA (RSAPublicKey 3 5))),
      load_der_x509 = (\<lambda>d. Inr (Certificate d)), rsa_pkcs1_verify = (\<lambda>key h v d. v = [0]),
      gzip_read = (\<lambda>d n. Inr d),
      validate_envelope = (\<lambda>_. env),
      validate_party_to = (\<lambda>_. Inr (to_party_to (ip_identity eg_receiver))),
      aesgcm_decrypt = (\<lambda>k n d. Inr d),
      str_exception = (\<lambda>_. ''''), subject_text = (\<lambda>_. ''''),
      validate_sbd = (\<lambda>_. Inr sbd), schema_validate = (\<lambda>_. True), schema_last_error = (\<lambda>_. None), repr_string_set = (\<lambda>_. '''')\<rparr>"

section \<open>A received message\<close>

definition eg_references :: as4_references where
  "eg_references =
     \<lparr>refs_message_id = ''1'', refs_messaging_id = ''m'', refs_conversation_id = ''c'',
      refs_encrypted_key_bst_id = ''t2'', refs_signature_bst_id = ''t1'', refs_encrypted_key_id = ''ek'',
      refs_signature_id = ''sig'', refs_key_info_id = ''ki'', refs_signature_security_token_reference_id = ''str'',
      refs_body_id = ''b'', refs_attachment_id_encrypted_data_id_map = [(''a'', ''d'')]\<rparr>"

definition eg_um :: user_message where
  "eg_um = get_user_message_model 0 eg_sender eg_remote eg_args eg_references"

definition eg_part :: part_info where
  "eg_part = hd (pl_part_info (the (um_payload_info eg_um)))"

definition eg_signature :: signature where
  "eg_signature =
     \<lparr>etree_element = None,
      sig_signed_info =
        new_signed_info
          [new_reference ''#m'' EXCLUSIVE_C14N SHA256 ''AA=='', new_reference ''#b'' EXCLUSIVE_C14N SHA256 ''AA=='',
           new_reference ''cid:a'' ATTACHMENT_CONTENT_SIGNATURE SHA256 ''BQ==''],
      sig_signature_value = \<lparr>etree_element = None, sv_value = Some [0], sv_id = None\<rparr>,
      sig_key_info = new_signature_key_info eg_references, sig_object_value = [], sig_signature_id = None\<rparr>"

definition eg_security :: security where
  "eg_security =
     \<lparr>etree_element = None,
      sec_binary_security_tokens =
        [get_remote_binary_security_token eg_remote eg_references,
         get_local_binary_security_token eg_sender eg_references],
      sec_encrypted_key = Some (get_encrypted_key eg_references [1, 3]),
      sec_encrypted_data = Some (get_encrypted_data_models eg_references),
      sec_signature = Some eg_signature, sec_must_understand = True\<rparr>"

definition eg_env :: envelope where
  "eg_env =
     \<lparr>etree_element = None,
      env_header =
        \<lparr>etree_element = None, hdr_security = eg_security, hdr_messaging = get_user_messaging eg_references eg_um\<rparr>,
      env_body = new_body ''b''\<rparr>"

abbreviation eg_node :: "string \<Rightarrow> (string, string) dict \<Rightarrow> xml list \<Rightarrow> xml" where
  "eg_node name attributes content \<equiv> Element (Clark name) attributes None content None"

definition eg_soap :: xml where
  "eg_soap =
     eg_node (clark ns_S12 ''Envelope'') []
       [eg_node (clark ns_S12 ''Header'') []
          [eg_node (clark ns_eb3 ''Messaging'') [(clark ns_wsu ''Id'', ''m'')]
             [eg_node (clark ns_eb3 ''UserMessage'') []
                [eg_node (clark ns_eb3 ''MessageInfo'') []
                   [Element (Clark (clark ns_eb3 ''MessageId'')) [] (Some ''1'') [] None],
                 eg_node (clark ns_eb3 ''PartyInfo'') [] [eg_node (clark ns_eb3 ''To'') [] []]]]],
        eg_node (clark ns_S12 ''Body'') [(clark ns_wsu ''Id'', ''b'')] []]"

definition eg_wrapped :: xml where
  "eg_wrapped =
     eg_node (clark ns_sbdh ''StandardBusinessDocument'') []
       [eg_node (clark ns_sbdh ''StandardBusinessDocumentHeader'') [] [], eg_invoice]"

definition eg_sbd :: sbdh_document where
  "eg_sbd = projr (get_standard_business_document 0 eg_args)"

text \<open>The encrypted attachment is a nonce of twelve bytes and one byte, which decompresses to the document.\<close>

definition eg_attachments :: "(string, bytes) dict" where
  "eg_attachments = [(''a'', replicate 12 0 @ [5])]"

definition eg_lib :: peppol_lib where
  "eg_lib = (eg_lib_for eg_soap eg_wrapped (Inr eg_env) eg_sbd)\<lparr>gzip_read := (\<lambda>d n. Inr [1])\<rparr>"

section \<open>The receiver\<close>

definition eg_x509 :: x509_lib where
  "eg_x509 =
     \<lparr>rfc4514_subject = (\<lambda>_. ''CN=POP1''), common_names = (\<lambda>_. [''POP1'']), fingerprint = der,
      basic_constraints_ca = (\<lambda>_. Some True), key_usage_cert_sign = (\<lambda>_. None),
      verify_directly_issued_by = (\<lambda>c i. if i = Certificate [9] then Inr () else Inl InvalidSignature),
      not_valid_before = (\<lambda>_. 0), not_valid_after = (\<lambda>_. 1)\<rparr>"

definition eg_policy :: security_policy where
  "eg_policy = projr (peppol_security_policy eg_x509 0 [Certificate [9]] [] None)"

definition eg_ctx :: parse_context where
  "eg_ctx =
     \<lparr>ctx_local_party = eg_receiver,
      ctx_accept_participant = Some (\<lambda>r. if r = ''0192:2'' then Inr () else Inl (ParticipantNotServicedError r)),
      ctx_security_policy = eg_policy\<rparr>"

definition eg_message :: message where "eg_message = projr (parse_message eg_lib eg_ctx [2] eg_attachments)"

definition eg_received :: peppol_message where
  "eg_received = projr (parse_peppol eg_lib eg_ctx [2] eg_attachments)"


lemma eg_sbd_built: "get_standard_business_document 0 eg_args = Inr eg_sbd"
  by code_simp

lemma returns_projr: "returns x \<Longrightarrow> x = Inr (projr x)"
  by (cases x) auto

lemma eg_parse_outcome:
  "case parse_message eg_lib eg_ctx [2] eg_attachments of
     Inl _ \<Rightarrow> False
   | Inr m \<Rightarrow> parse_successful m \<and> m_soap_envelope m = Some eg_env \<and> m_signer_certificate m = Some eg_cert \<and>
       m_decrypted_data m = [(''a'', [1])] \<and> m_message_id m = ''1'' \<and> m_messaging_id m = ''m''"
  by code_simp

lemma eg_parsed: "parse_message eg_lib eg_ctx [2] eg_attachments = Inr eg_message"
  unfolding eg_message_def using eg_parse_outcome by (intro returns_projr) (auto split: sum.splits)

lemma eg_parsed_fields:
  "parse_successful eg_message" "m_soap_envelope eg_message = Some eg_env"
  "m_signer_certificate eg_message = Some eg_cert" "m_decrypted_data eg_message = [(''a'', [1])]"
  using eg_parse_outcome by (simp_all add: eg_parsed)

lemma eg_peppol_outcome:
  "case parse_peppol eg_lib eg_ctx [2] eg_attachments of
     Inl _ \<Rightarrow> False
   | Inr m \<Rightarrow> parse_successful m \<and> m_soap_envelope m = Some eg_env \<and> m_signer_certificate m = Some eg_cert \<and>
       m_mime_attachments m = eg_attachments \<and> p_sender m = Some ''0192:1'' \<and> first_payload m = Some [1]"
  by code_simp

lemma eg_peppol_parsed: "parse_peppol eg_lib eg_ctx [2] eg_attachments = Inr eg_received"
  unfolding eg_received_def using eg_peppol_outcome by (intro returns_projr) (auto split: sum.splits)

lemma eg_peppol_fields:
  "parse_successful eg_received" "m_soap_envelope eg_received = Some eg_env"
  "m_signer_certificate eg_received = Some eg_cert" "m_mime_attachments eg_received = eg_attachments"
  "p_sender eg_received = Some ''0192:1''"
  using eg_peppol_outcome by (simp_all add: eg_peppol_parsed)

lemma eg_policy_asks:
  "sign_required (ctx_security_policy eg_ctx)" "verify_digests (ctx_security_policy eg_ctx)"
  "''payloads'' \<in> required_coverage (ctx_security_policy eg_ctx)"
  "''messaging'' \<in> required_coverage (ctx_security_policy eg_ctx)"
  by code_simp+

lemma eg_chain:
  "andThen (path_to_anchor eg_x509 eg_cert [Certificate [9]] [] 3)
     (\<lambda>path. andThen (for_each (check_path_certificate eg_x509 0 None) path) (\<lambda>_. Inr eg_cert)) = Inr eg_cert"
  by code_simp

lemma eg_user_message: "user_message_of eg_env = Inr (Some eg_um)"
  by (simp add: eg_env_def user_message_of_def get_user_message_def get_user_messaging_def only_one_def)

definition eg_payload_info :: payload_info where "eg_payload_info = the (um_payload_info eg_um)"

lemma eg_parts:
  "um_payload_info eg_um = Some eg_payload_info" "declared_parts (pl_part_info eg_payload_info) = [eg_part]"
  "part_identifier eg_part = ''a''" "compression_type (part_part_properties eg_part) = Some ''application/gzip''"
  by code_simp+

lemma eg_declared:
  "eg_part \<in> set (declared_parts (pl_part_info eg_payload_info))"
  by (simp add: eg_parts)

definition eg_header :: sbdh_header where "eg_header = sbdh_document_standard_business_document_header eg_sbd"

lemma eg_header_names: "sbdh_identifier_value (header_recipient eg_header) = ''0192:2''"
  by code_simp

lemma eg_payload: "first_payload eg_received = Some [1]"
  using eg_peppol_outcome by (simp add: eg_peppol_parsed)

lemma eg_peppol_checks:
  "verify_party_identifiers (m_soap_envelope eg_received) = Inr ()" "read_sbdh eg_lib eg_received = Inr eg_header"
  "\<exists>ps. message_properties_of eg_received = Inr ps \<and>
     verify_participants_agree ps (header_sender eg_header) (header_recipient eg_header) = Inr ()"
proof -
  have "verify_party_identifiers (Some eg_env) = Inr ()" by code_simp
  then show "verify_party_identifiers (m_soap_envelope eg_received) = Inr ()" by (simp add: eg_peppol_fields)
  have "parse_xml eg_lib [1] = Inr eg_wrapped" "sbdh_validation_error eg_lib x = None"
    "validate_sbd eg_lib d = Inr eg_sbd" for x d
    by (simp_all add: parse_xml_def sbdh_validation_error_def eg_lib_def eg_lib_for_def)
  moreover have "find_first eg_wrapped [clark ns_sbdh ''StandardBusinessDocumentHeader''] \<noteq> None" by code_simp
  ultimately show "read_sbdh eg_lib eg_received = Inr eg_header"
    by (auto simp: read_sbdh_def eg_payload eg_header_def)
  have "verify_participants_agree (um_message_properties eg_um) (header_sender eg_header) (header_recipient eg_header) =
    Inr ()" by code_simp
  then show "\<exists>ps. message_properties_of eg_received = Inr ps \<and>
     verify_participants_agree ps (header_sender eg_header) (header_recipient eg_header) = Inr ()"
    by (simp add: message_properties_of_def eg_peppol_fields eg_user_message)
qed

section \<open>The signal that answers it\<close>

definition eg_signal :: signal_message where
  "eg_signal =
     get_success_signal_message 0
       \<lparr>rb_referenced_message_id = ''1'', rb_referenced_messaging_id = ''m'', rb_local_party = eg_receiver,
        rb_non_repudiated_references = []\<rparr> (eg_references\<lparr>refs_message_id := ''2''\<rparr>)"

definition eg_signal_env :: envelope where
  "eg_signal_env =
     \<lparr>etree_element = None,
      env_header =
        \<lparr>etree_element = None,
         hdr_security =
           \<lparr>etree_element = None,
            sec_binary_security_tokens = [get_local_binary_security_token eg_receiver eg_references],
            sec_encrypted_key = None, sec_encrypted_data = None,
            sec_signature = Some (eg_signature\<lparr>sig_signed_info :=
              new_signed_info
                [new_reference ''#m'' EXCLUSIVE_C14N SHA256 ''AA=='',
                 new_reference ''#b'' EXCLUSIVE_C14N SHA256 ''AA=='']\<rparr>),
            sec_must_understand = True\<rparr>,
         hdr_messaging = get_messaging eg_references eg_signal\<rparr>,
      env_body = new_body ''b''\<rparr>"

definition eg_signal_lib :: peppol_lib where
  "eg_signal_lib = eg_lib_for eg_soap eg_wrapped (Inr eg_signal_env) eg_sbd"

definition eg_ack :: receipt where
  "eg_ack =
     \<lparr>r_soap_envelope = Some eg_signal_env, r_original_message_id = Some ''1'', r_references = None,
      r_profile_name = None\<rparr>"

lemma eg_signal_parsed: "receipt_parse eg_signal_lib [2] (Certificate [2]) = Inr eg_ack"
  by code_simp

definition eg_environment :: peppol_environment where
  "eg_environment =
     \<lparr>env_lib = eg_signal_lib, env_builder = eg_blib, env_dt = eg_dt, env_now = 0, env_build_clock = (0, 0),
      env_uuids = show_nat\<rparr>"

definition eg_start :: peppol_sending_exchange where
  "eg_start = new_sending_exchange (peppol_profile eg_environment) eg_sender eg_remote eg_references 0 None"

definition eg_end :: peppol_sending_exchange where
  "eg_end = eg_start\<lparr>ex_receipt := Some eg_ack, ex_state := ACKNOWLEDGED\<rparr>"

lemma eg_verdict:
  "receipt_error eg_ack = Inr None" "verify_non_repudiation eg_ack [] None = Inr ()"
  by code_simp+

lemma eg_start_fields:
  "profile_parse_receipt (ex_profile eg_start) = receipt_parse eg_signal_lib" "expected_signer eg_start = Certificate [2]"
  "ex_message_id eg_start = ''1''" "ex_signed_references eg_start = []" "ex_required_references eg_start = None"
  by (simp_all add: eg_start_def new_sending_exchange_def default_message_ids_from_identifiers_def
      peppol_profile_def eg_environment_def expected_signer_def eg_remote_def create_peppol_external_party_def
      eg_references_def)

lemma eg_signal_received: "receive_signal [2] eg_start = (Inr (), eg_end)"
proof -
  have "signal_verdict eg_start eg_ack = Inr (ACKNOWLEDGED, None)"
    by (simp add: signal_verdict_def eg_start_fields eg_verdict)
  moreover have "r_original_message_id eg_ack = Some ''1''" by (simp add: eg_ack_def)
  ultimately show ?thesis
    by (simp add: receive_signal_def eg_start_fields eg_signal_parsed eg_end_def)
qed

lemma eg_end_reached:
  "sending_reachable (new_sending_exchange (peppol_profile eg_environment) eg_sender eg_remote eg_references 0 None) eg_end"
  by (rule reach_step [OF reach_start step_signal]) (rule eg_signal_received [unfolded eg_start_def])

end
