(* ===== verification/BuiltExamples.thy ===== *)
theory BuiltExamples
  imports Examples
begin

text \<open>
  What the builders make for the parties of \<^theory_text>\<open>Examples\<close>: one Peppol message and the signal
  that answers the received one, dumped as they are sent.
\<close>

section \<open>A built message\<close>

definition bg_references :: as4_references where
  "bg_references = eg_references\<lparr>refs_attachment_id_encrypted_data_id_map := []\<rparr>"

definition bg_lib_for :: "xml \<Rightarrow> exn + envelope \<Rightarrow> peppol_lib" where
  "bg_lib_for soap env = eg_lib_for soap eg_wrapped env eg_sbd"

definition bg_build :: "peppol_lib \<Rightarrow> (exn + peppol_message) \<times> as4_references" where
  "bg_build lib =
     peppol_build_message lib eg_blib eg_dt (0, 0) show_nat [] eg_sender eg_remote eg_args bg_references"

text \<open>The builder reads nothing of the receiving half of the library.\<close>

lemma bg_lib_fields:
  "fromstring (bg_lib_for soap env) [] = Some eg_invoice" "tostring (bg_lib_for soap env) = (\<lambda>_. [1])"
  "exclusive_c14n (bg_lib_for soap env) = (\<lambda>_ _. [0])" "hash_bytes (bg_lib_for soap env) = (\<lambda>_ d. d)"
  "cert_public_key (bg_lib_for soap env) = (\<lambda>_. Inr (RSA (RSAPublicKey 3 5)))"
  by (simp_all add: bg_lib_for_def eg_lib_for_def)

lemma bg_build_lib: "bg_build (bg_lib_for soap env) = bg_build (bg_lib_for soap' env')"
  unfolding bg_build_def peppol_build_message_def seal_payload_def get_soap_envelope_def get_message_signed_info_def
    message_copies
    get_messaging_digest_reference_def get_body_digest_reference_def get_payload_digest_reference_def
    get_signature_def signed_info_canonicalized_def for_element_def for_bytes_def compute_digest_def canonicalize_def
    credentials_rsa_public_key_def parse_xml_def payload_digest_references.simps bg_lib_fields
  by (rule refl)

definition bg_built :: "(exn + peppol_message) \<times> as4_references" where
  "bg_built = bg_build (bg_lib_for eg_invoice (Inl XMLSyntaxError))"

definition bg_sent :: peppol_message where "bg_sent = projr (fst bg_built)"
definition bg_env :: envelope where "bg_env = the (m_soap_envelope bg_sent)"
definition bg_soap :: xml where
  "bg_soap = projr (dump_to_xml eg_dt (clark ns_S12 ''Envelope'') (envelope_model bg_env))"
definition bg_lib :: peppol_lib where "bg_lib = bg_lib_for bg_soap (Inr bg_env)"

text \<open>An envelope that can be sent: it dumps to a tree without repeated ids.\<close>

definition sendable :: "envelope \<Rightarrow> bool" where
  "sendable env =
     (case dump_to_xml eg_dt (clark ns_S12 ''Envelope'') (envelope_model env) of
        Inl _ \<Rightarrow> False
      | Inr e \<Rightarrow> distinct (map fst (id_attributes e)))"

lemma sendable_dump:
  "sendable env \<Longrightarrow> \<exists>e. dump_to_xml eg_dt (clark ns_S12 ''Envelope'') (envelope_model env) = Inr e \<and>
     distinct (map fst (id_attributes e))"
  by (cases "dump_to_xml eg_dt (clark ns_S12 ''Envelope'') (envelope_model env)") (simp_all add: sendable_def)

text \<open>What the receiver and, of the answer, the sender find in the trees.\<close>

definition is_user_message :: "xml \<Rightarrow> bool" where
  "is_user_message e = (find_first e [step ''S12'' ''Header'', step ''eb3'' ''Messaging'', step ''eb3'' ''UserMessage''] \<noteq> None)"

definition plain_children :: "xml \<Rightarrow> bool" where
  "plain_children e = list_all (\<lambda>c. tag c \<noteq> Clark ''*etree_element'') (children e)"

text \<open>The message the receiver arrives at, as far as the answer depends on it.\<close>

definition bg_read :: "envelope \<Rightarrow> peppol_message" where
  "bg_read env = empty_peppol_message\<lparr>m_message_id := ''1'', m_messaging_id := ''m'', m_soap_envelope := Some env\<rparr>"

definition bg_answer :: "peppol_lib \<Rightarrow> envelope \<Rightarrow> exn + receipt" where
  "bg_answer lib env = for_message lib eg_dt 0 (bg_read env) eg_receiver eg_references"

definition arrives_well :: "envelope \<Rightarrow> bool" where
  "arrives_well env =
     (case dump_to_xml eg_dt (clark ns_S12 ''Envelope'') (envelope_model env) of
        Inl _ \<Rightarrow> False
      | Inr e \<Rightarrow> is_user_message e \<and> plain_children e \<and> pre_validate e = Inr (''1'', ''m'') \<and>
          find_first e PARTY_TO_PATH \<noteq> None)"

definition answer_arrives_well :: "envelope \<Rightarrow> bool" where
  "answer_arrives_well env =
     (case bg_answer (bg_lib_for eg_invoice (Inl XMLSyntaxError)) env of
        Inl _ \<Rightarrow> False
      | Inr r \<Rightarrow>
          (case r_soap_envelope r of
             None \<Rightarrow> False
           | Some answer \<Rightarrow>
               (case dump_to_xml eg_dt (clark ns_S12 ''Envelope'') (envelope_model answer) of
                  Inl _ \<Rightarrow> False
                | Inr e \<Rightarrow> distinct (map fst (id_attributes e)) \<and> \<not> is_user_message e \<and> plain_children e)))"

lemma bg_outcome:
  "case fst bg_built of
     Inl _ \<Rightarrow> False
   | Inr m \<Rightarrow>
       m_decrypted_data m = [(''as4-att-1@cid'', [1])] \<and> m_mime_attachments m \<noteq> [] \<and>
       fst (hd (m_mime_attachments m)) = ''as4-att-1@cid'' \<and>
       (case m_soap_envelope m of
          None \<Rightarrow> False
        | Some env \<Rightarrow> sendable env \<and> arrives_well env \<and> answer_arrives_well env)"
  by code_simp

lemma bg_built_ok: "bg_build bg_lib = (Inr bg_sent, snd bg_built)"
  using bg_outcome bg_build_lib [of bg_soap "Inr bg_env" eg_invoice "Inl XMLSyntaxError"]
  by (cases bg_built) (auto simp: bg_lib_def bg_sent_def bg_built_def split: sum.splits)

lemma bg_sent_fields:
  "m_decrypted_data bg_sent = [(''as4-att-1@cid'', [1])]" "m_soap_envelope bg_sent = Some bg_env"
  "dump_to_xml eg_dt (clark ns_S12 ''Envelope'') (envelope_model bg_env) = Inr bg_soap"
  "distinct (map fst (id_attributes bg_soap))" "first_payload bg_sent = Some [1]"
proof -
  obtain m env e where "fst bg_built = Inr m" "m_soap_envelope m = Some env"
    "m_decrypted_data m = [(''as4-att-1@cid'', [1])]" "m_mime_attachments m \<noteq> []"
    "fst (hd (m_mime_attachments m)) = ''as4-att-1@cid''"
    "dump_to_xml eg_dt (clark ns_S12 ''Envelope'') (envelope_model env) = Inr e"
    "distinct (map fst (id_attributes e))"
    using bg_outcome by (auto split: sum.split_asm option.split_asm dest!: sendable_dump)
  then show "m_decrypted_data bg_sent = [(''as4-att-1@cid'', [1])]" "m_soap_envelope bg_sent = Some bg_env"
    "dump_to_xml eg_dt (clark ns_S12 ''Envelope'') (envelope_model bg_env) = Inr bg_soap"
    "distinct (map fst (id_attributes bg_soap))" "first_payload bg_sent = Some [1]"
    by (auto simp: bg_sent_def bg_env_def bg_soap_def first_payload_def neq_Nil_conv)
qed

lemma bg_soap_read:
  "is_user_message bg_soap" "plain_children bg_soap" "pre_validate bg_soap = Inr (''1'', ''m'')"
  "find_first bg_soap PARTY_TO_PATH \<noteq> None"
proof -
  from bg_outcome have "arrives_well bg_env"
    by (auto simp: bg_env_def bg_sent_def split: sum.split_asm option.split_asm)
  then show "is_user_message bg_soap" "plain_children bg_soap" "pre_validate bg_soap = Inr (''1'', ''m'')"
    "find_first bg_soap PARTY_TO_PATH \<noteq> None"
    by (simp_all add: arrives_well_def bg_sent_fields)
qed

text \<open>The signal that answers it, whose making depends on no reader of the library.\<close>

definition bg_signal_env :: envelope where
  "bg_signal_env = the (r_soap_envelope (projr (bg_answer (bg_lib_for eg_invoice (Inl XMLSyntaxError)) bg_env)))"
definition bg_signal :: xml where
  "bg_signal = projr (dump_to_xml eg_dt (clark ns_S12 ''Envelope'') (envelope_model bg_signal_env))"

lemma bg_signal_built:
  obtains r where "bg_answer (bg_lib_for eg_invoice (Inl XMLSyntaxError)) bg_env = Inr r"
    "r_soap_envelope r = Some bg_signal_env"
    "dump_to_xml eg_dt (clark ns_S12 ''Envelope'') (envelope_model bg_signal_env) = Inr bg_signal"
    "distinct (map fst (id_attributes bg_signal))" "\<not> is_user_message bg_signal" "plain_children bg_signal"
proof -
  let ?answer = "bg_answer (bg_lib_for eg_invoice (Inl XMLSyntaxError)) bg_env"
  from bg_outcome have well: "answer_arrives_well bg_env"
    by (auto simp: bg_env_def bg_sent_def split: sum.split_asm option.split_asm)
  then obtain r where r: "?answer = Inr r" by (cases ?answer) (simp_all add: answer_arrives_well_def)
  with well obtain answer where answer: "r_soap_envelope r = Some answer"
    by (cases "r_soap_envelope r") (simp_all add: answer_arrives_well_def)
  with r well obtain e where e: "dump_to_xml eg_dt (clark ns_S12 ''Envelope'') (envelope_model answer) = Inr e"
    by (cases "dump_to_xml eg_dt (clark ns_S12 ''Envelope'') (envelope_model answer)")
       (simp_all add: answer_arrives_well_def)
  with r answer well have "distinct (map fst (id_attributes e))" "\<not> is_user_message e" "plain_children e"
    by (simp_all add: answer_arrives_well_def)
  with r answer e show ?thesis by (intro that [of r]) (simp_all add: bg_signal_env_def bg_signal_def)
qed

lemma reads_back_refl: "reads_back lib env env"
  by (auto simp: reads_back_def security_reads_def signature_reads_def user_message_reads_def
      intro: list.rel_refl option.rel_refl)

lemma bg_transmitted: "transmitted bg_lib eg_dt (the (m_soap_envelope bg_sent)) bg_soap bg_env"
  by (simp add: transmitted_def bg_sent_fields reads_back_refl envelope_of_def)
     (simp add: bg_lib_def bg_lib_for_def eg_lib_for_def)

lemma bg_keys: "agree_on_keys bg_lib eg_blib eg_sender eg_remote eg_ctx"
proof -
  have "signing_key bg_lib eg_sender"
    by (simp add: signing_key_def bg_lib_def bg_lib_for_def eg_lib_for_def eg_sender_def eg_key_def
        create_peppol_internal_party_def)
  moreover have "opens_what_is_sealed bg_lib eg_blib (ctx_local_party eg_ctx) eg_remote"
    by (simp add: opens_what_is_sealed_def bg_lib_def bg_lib_for_def eg_lib_for_def eg_ctx_def eg_receiver_def
        eg_key_def eg_blib_def create_peppol_internal_party_def credentials_rsa_public_key_def)
  moreover have "inflates_what_is_deflated bg_lib eg_blib (maximum_decompressed_size (ctx_security_policy eg_ctx))"
    by (simp add: inflates_what_is_deflated_def bg_lib_def bg_lib_for_def eg_lib_for_def eg_blib_def)
  moreover have "policy_signer_resolver (ctx_security_policy eg_ctx) from (Some (certificate_of (ip_credentials eg_sender))) =
      Inr (certificate_of (ip_credentials eg_sender))" if "identity_of_from from = ip_identity eg_sender" for "from"
    using that eg_chain
    by (simp add: eg_ctx_def eg_policy_def peppol_security_policy_def certificate_chain_def
        certificate_names_the_sender_def PEPPOL_CHAIN_DEPTH_def eg_sender_def create_peppol_internal_party_def
        identity_of_from_def identity_from_party_def chain_resolve_def eg_x509_def)
  moreover have "required_coverage (ctx_security_policy eg_ctx) \<subseteq> {''messaging'', ''body'', ''payloads''}"
    by code_simp
  ultimately show ?thesis by (simp add: agree_on_keys_def)
qed

section \<open>What the routing needs\<close>

lemma bg_usable: "refs_attachment_id_encrypted_data_id_map bg_references = []" "usable_ids bg_references"
  by (simp_all add: usable_ids_def bg_references_def eg_references_def)

lemma bg_small:
  "\<forall>(i, d)\<in>set (m_decrypted_data bg_sent). int (length d) \<le> maximum_decompressed_size (ctx_security_policy eg_ctx)"
proof -
  have "1 \<le> maximum_decompressed_size (ctx_security_policy eg_ctx)" by code_simp
  then show ?thesis by (simp add: bg_sent_fields)
qed

lemma bg_party_types:
  "identity_party_type (ip_identity eg_sender) = Some PEPPOL_PARTY_IDENTIFIER_TYPE"
  "identity_party_type (xp_identity eg_remote) = Some PEPPOL_PARTY_IDENTIFIER_TYPE"
  by (simp_all add: eg_sender_def eg_remote_def create_peppol_internal_party_def create_peppol_external_party_def)

lemma bg_header: "read_sbdh bg_lib bg_sent = Inr eg_header"
proof -
  have "parse_xml bg_lib [1] = Inr eg_wrapped" "sbdh_validation_error bg_lib x = None"
    "validate_sbd bg_lib d = Inr eg_sbd" for x d
    by (simp_all add: parse_xml_def sbdh_validation_error_def bg_lib_def bg_lib_for_def eg_lib_for_def)
  moreover have "find_first eg_wrapped [clark ns_sbdh ''StandardBusinessDocumentHeader''] \<noteq> None" by code_simp
  ultimately show ?thesis by (auto simp: read_sbdh_def bg_sent_fields eg_header_def)
qed

lemma bg_accepted: "accept_recipient eg_ctx (pb_recipient eg_args) = Inr ()"
  by code_simp

section \<open>Built signals\<close>

definition bg_receipt :: "exn + receipt" where
  "bg_receipt = for_message eg_lib eg_dt 0 eg_message eg_receiver eg_references"

definition bg_rejected :: message where
  "bg_rejected = empty_message\<lparr>m_message_id := ''1'',
     m_parse_error := Some (make_error SignatureRequiredException '''')\<rparr>"

lemma bg_receipt_outcome:
  "case bg_receipt of
     Inl _ \<Rightarrow> False
   | Inr r \<Rightarrow> (case r_soap_envelope r of None \<Rightarrow> False | Some env \<Rightarrow> sendable env)"
  by code_simp

lemma bg_receipt_built:
  obtains r env e where "for_message eg_lib eg_dt 0 eg_message eg_receiver eg_references = Inr r"
    "r_soap_envelope r = Some env" "dump_to_xml eg_dt (clark ns_S12 ''Envelope'') (envelope_model env) = Inr e"
    "distinct (map fst (id_attributes e))"
  using bg_receipt_outcome
  by (auto simp: bg_receipt_def split: sum.split_asm option.split_asm dest!: sendable_dump)

lemma bg_error_outcome:
  "case for_message eg_lib eg_dt 0 bg_rejected eg_receiver eg_references of
     Inl _ \<Rightarrow> False
   | Inr r \<Rightarrow> (case r_soap_envelope r of None \<Rightarrow> False | Some env \<Rightarrow> sendable env)"
  by code_simp

lemma bg_error_built: "returns (for_message eg_lib eg_dt 0 bg_rejected eg_receiver eg_references)"
  using bg_error_outcome by (auto simp: returns_iff split: sum.split_asm)

lemma bg_signing_key: "signing_key eg_lib eg_receiver"
  by (simp add: signing_key_def eg_lib_def eg_lib_for_def eg_receiver_def eg_key_def create_peppol_internal_party_def)

end
