(* ===== verification/Delivery.thy ===== *)
theory Delivery
  imports PeppolRoundTrip
begin

text \<open>
  What a sender may conclude: the sending exchange of \<^verbatim>\<open>as4/core/exchange.py\<close> refines an abstract
  protocol with four verdicts, and an honest exchange ends in the good one: a message the Peppol
  builder of \<^verbatim>\<open>as4/profiles/peppol/message.py\<close> makes, accepted by its receiver and answered with the
  receipt of \<^verbatim>\<open>as4/core/receipt.py\<close>, is acknowledged.
\<close>

section \<open>The abstract protocol\<close>

datatype verdict = Open | Delivered "comparable_reference set" | Refused | Unproven

record delivery =
  d_message_id :: string
  d_signed :: "comparable_reference set"
  d_verdict :: verdict

text \<open>
  \<open>S c r\<close> says that \<open>c\<close> signed the signal \<open>r\<close>.  The sender may start over or wait at any time; a verdict
  needs a signal that the remote party signed and that names the message.
\<close>

inductive delivery_step ::
  "(certificate \<Rightarrow> receipt \<Rightarrow> bool) \<Rightarrow> certificate \<Rightarrow> comparable_reference list option \<Rightarrow>
   delivery \<Rightarrow> delivery \<Rightarrow> bool"
  for S c required where
  prepare: "delivery_step S c required d \<lparr>d_message_id = i, d_signed = R, d_verdict = Open\<rparr>"
| wait: "delivery_step S c required d d"
| reopen: "delivery_step S c required d (d\<lparr>d_verdict := Open\<rparr>)"
| deliver: "S c r \<Longrightarrow> r_original_message_id r = Some (d_message_id d) \<Longrightarrow> receipt_error r = Inr None \<Longrightarrow>
    set (acknowledged_references r) \<subseteq> d_signed d \<Longrightarrow>
    (case required of None \<Rightarrow> d_signed d | Some rs \<Rightarrow> set rs) \<subseteq> set (acknowledged_references r) \<Longrightarrow>
    delivery_step S c required d (d\<lparr>d_verdict := Delivered (set (acknowledged_references r))\<rparr>)"
| refuse: "S c r \<Longrightarrow> r_original_message_id r = Some (d_message_id d) \<Longrightarrow> receipt_error r = Inr (Some e) \<Longrightarrow>
    delivery_step S c required d (d\<lparr>d_verdict := Refused\<rparr>)"
| dispute: "S c r \<Longrightarrow> r_original_message_id r = Some (d_message_id d) \<Longrightarrow> receipt_error r = Inr None \<Longrightarrow>
    delivery_step S c required d (d\<lparr>d_verdict := Unproven\<rparr>)"

definition delivery_verdict :: "('y, 'b) sending_exchange \<Rightarrow> verdict" where
  "delivery_verdict x =
     (case ex_state x of
        ACKNOWLEDGED \<Rightarrow>
          (case ex_receipt x of Some r \<Rightarrow> Delivered (set (acknowledged_references r)) | None \<Rightarrow> Open)
      | REJECTED \<Rightarrow> Refused
      | FAILED \<Rightarrow> Unproven
      | _ \<Rightarrow> Open)"

definition delivery_of :: "('y, 'b) sending_exchange \<Rightarrow> delivery" where
  "delivery_of x =
     \<lparr>d_message_id = ex_message_id x, d_signed = set (ex_signed_references x), d_verdict = delivery_verdict x\<rparr>"

lemma delivery_of_identifiers [simp]: "delivery_of (x\<lparr>ex_identifiers := ids\<rparr>) = delivery_of x"
  by (simp add: delivery_of_def delivery_verdict_def cong: exchange_state.case_cong)

lemma delivery_of_built:
  "ex_state x = BUILT \<Longrightarrow> delivery_of x =
    \<lparr>d_message_id = ex_message_id x, d_signed = set (ex_signed_references x), d_verdict = Open\<rparr>"
  by (simp add: delivery_of_def delivery_verdict_def)

context receipt_verifier
begin

lemma step_refines:
  assumes "sending_step x x'" and "ex_profile x = p"
  shows "delivery_step signed_by (expected_signer x) (ex_required_references x) (delivery_of x) (delivery_of x')"
  using assms(1)
proof (cases rule: sending_step.cases)
  case (step_build lib mime dt t payload args r)
  from build_effect [OF this] show ?thesis
    by (elim disjE exE conjE)
       (auto simp: delivery_of_built intro: delivery_step.wait delivery_step.prepare)
next
  case step_sent
  then have "delivery_of x' = (delivery_of x)\<lparr>d_verdict := Open\<rparr>"
    by (simp add: delivery_of_def delivery_verdict_def mark_sent_def)
  then show ?thesis by (simp add: delivery_step.reopen)
next
  case (step_signal d out)
  then show ?thesis
  proof (cases rule: signal_effect)
    case refused
    then show ?thesis by (simp add: delivery_step.wait)
  next
    case (recorded r state unproven)
    from recorded(1) assms(2) have signed: "signed_by (expected_signer x) r"
      by (auto intro: parsed_receipt_is_signed)
    have id: "r_original_message_id r = Some (d_message_id (delivery_of x))"
      using recorded(2) by (simp add: delivery_of_def)
    have x': "delivery_of x' = (delivery_of x)\<lparr>d_verdict := delivery_verdict x'\<rparr>"
      using recorded(5) by (simp add: delivery_of_def)
    from recorded(3) consider e where "receipt_error r = Inr (Some e)" "state = REJECTED"
      | "receipt_error r = Inr None" "state = ACKNOWLEDGED"
        "verify_non_repudiation r (ex_signed_references x) (ex_required_references x) = Inr ()"
      | "receipt_error r = Inr None" "state = FAILED"
      by (auto simp: verdict_eq_Inr)
    then show ?thesis
    proof cases
      case 1
      with recorded(5) have "delivery_verdict x' = Refused" by (simp add: delivery_verdict_def)
      with x' refuse [of signed_by _ r, OF signed id 1(1)] show ?thesis by simp
    next
      case 2
      with recorded(5) have "delivery_verdict x' = Delivered (set (acknowledged_references r))"
        by (simp add: delivery_verdict_def)
      moreover have "set (acknowledged_references r) \<subseteq> d_signed (delivery_of x)"
        "(case ex_required_references x of None \<Rightarrow> d_signed (delivery_of x) | Some rs \<Rightarrow> set rs)
          \<subseteq> set (acknowledged_references r)"
        using 2(3) by (auto simp: verify_non_repudiation_eq_Inr delivery_of_def split: option.splits)
      ultimately show ?thesis using x' deliver [of signed_by _ r, OF signed id 2(1)] by simp
    next
      case 3
      with recorded(5) have "delivery_verdict x' = Unproven" by (simp add: delivery_verdict_def)
      with x' dispute [of signed_by _ r, OF signed id 3(1)] show ?thesis by simp
    qed
  qed
qed

lemma reachable_refines:
  assumes "sending_reachable x0 x" and "ex_profile x0 = p"
  shows "rtranclp (delivery_step signed_by (expected_signer x0) (ex_required_references x0))
    (delivery_of x0) (delivery_of x)"
  using assms
proof (induction rule: sending_reachable.induct)
  case reach_start
  show ?case by simp
next
  case (reach_step x x')
  note kept = reachable_keeps_parties [OF reach_step(1)]
  from step_refines [OF reach_step(2)] reach_step(4) kept
  have "delivery_step signed_by (expected_signer x0) (ex_required_references x0) (delivery_of x) (delivery_of x')"
    by (simp add: expected_signer_def)
  with reach_step show ?case by (auto intro: rtranclp.rtrancl_into_rtrancl)
qed

end

text \<open>
  C5.  The Peppol sending exchange refines the abstract protocol: whatever methods are called, the
  exchange has gone through steps of the protocol, in which a verdict is given only on a signal
  signed with the remote party's certificate that names the message, and \<open>Delivered\<close> only with
  acknowledged references that were all signed and include all that are required.
\<close>

theorem sending_exchange_refines_delivery:
  assumes "sending_reachable (new_sending_exchange (peppol_profile E) local remote ids now required) x"
  shows "rtranclp (delivery_step (receipt_signed_by (env_lib E)) (certificate_of (xp_credentials remote)) required)
    \<lparr>d_message_id = refs_message_id ids, d_signed = {}, d_verdict = Open\<rparr> (delivery_of x)"
  using peppol_receipts.reachable_refines [OF assms]
  by (simp add: new_sending_exchange_def default_message_ids_from_identifiers_def expected_signer_def
      delivery_of_def delivery_verdict_def)

section \<open>The signal as the sender reads it\<close>

definition error_reading :: "error_element \<Rightarrow> string \<times> string \<times> string option" where
  "error_reading e =
     (err_error_code e, err_severity e, map_option (\<lambda>d. py_strip (ed_value d)) (err_error_detail e))"

definition signal_reading ::
  "signal_message \<Rightarrow> string option \<times> (string \<times> string \<times> string option) list \<times>
   (string \<times> string option list \<times> string list \<times> string \<times> string) list option option" where
  "signal_reading s =
     (map_option rtm_value (mi_ref_to_message_id (sgm_message_info s)), map error_reading (sgm_errors s),
      map_option (\<lambda>r. map_option (\<lambda>i. map reference_reading (concat (map mpnri_references
          (nri_message_part_nr_information i)))) (rcpt_non_repudiation_information r)) (sgm_receipt s))"

definition signal_transmitted ::
  "'z message_lib_scheme \<Rightarrow> datetime_lib \<Rightarrow> envelope \<Rightarrow> xml \<Rightarrow> envelope \<Rightarrow> bool" where
  "signal_transmitted lib dt env e env' \<longleftrightarrow>
     dump_to_xml dt (clark ns_S12 ''Envelope'') (envelope_model env) = Inr e \<and>
     distinct (map fst (id_attributes e)) \<and> envelope_of lib e = Inr env' \<and>
     security_reads lib (hdr_security (env_header env')) (hdr_security (env_header env)) \<and>
     map signal_reading (msg_signal_messages (hdr_messaging (env_header env'))) =
       map signal_reading (msg_signal_messages (hdr_messaging (env_header env)))"

definition comparable_of ::
  "string \<times> string option list \<times> string list \<times> string \<times> string \<Rightarrow> comparable_reference" where
  "comparable_of reading =
     (let (uri, transforms, namespaces, algorithm, value) = reading in
      \<lparr>cmp_uri = uri,
       cmp_transform_algorithms = sorted_strings [s. Some s \<leftarrow> transforms, s \<noteq> ''''],
       cmp_digest_algorithm = algorithm, cmp_digest_value = py_strip value\<rparr>)"

lemma from_reference_of_reading: "from_reference r = comparable_of (reference_reading r)"
  by (simp add: reference_reading_def from_reference_def comparable_of_def reference_uri_def)

lemma from_reference_readings:
  assumes "map reference_reading rs' = map reference_reading rs"
  shows "map from_reference rs' = map from_reference rs"
proof -
  have read: "map from_reference xs = map comparable_of (map reference_reading xs)" for xs
    by (simp add: from_reference_of_reading)
  show ?thesis by (simp only: read assms)
qed

lemma signed_references_read:
  assumes "security_reads lib (hdr_security (env_header env')) (hdr_security (env_header env))"
    and "m_soap_envelope m' = Some env'" and "m_soap_envelope m = Some env"
  shows "signed_references m' = signed_references m"
  using assms
  by (auto simp: security_reads_def signed_references_def signature_references_def signature_reads_def
      rel_option_iff split: option.splits intro: from_reference_readings)

lemma same_readings: "map f xs = map f ys \<longleftrightarrow> list_all2 (\<lambda>x y. f x = f y) xs ys"
  by (auto simp: list_all2_conv_all_nth list_eq_iff_nth_eq)

lemma find_token_reads:
  assumes "map token_reading (sec_binary_security_tokens sec') = map token_reading (sec_binary_security_tokens sec)"
  shows "map_option token_reading (find_token sec' uri) = map_option token_reading (find_token sec uri)"
  using assms unfolding same_readings find_token_def
  by (induction rule: list_all2_induct) (auto simp: token_reading_def)

lemma token_of_signature_reads:
  assumes "security_reads lib sec' sec" and "signature_reads lib s' s"
    and "token_of_signature lib sec s = Inr (Some c)"
  shows "token_of_signature lib sec' s' = Inr (Some c)"
proof -
  from assms(3) obtain uri bst where bst: "signature_token_uri s = Some uri" "find_token sec uri = Some bst"
    "token_certificate lib bst = Inr c"
    by (auto simp: token_of_signature_def result_simps Option.bind_eq_Some_conv split: option.splits)
  from assms(1) find_token_reads [of sec' sec uri] bst(2) obtain bst' where
    "find_token sec' uri = Some bst'" "token_reading bst' = token_reading bst"
    by (auto simp: security_reads_def)
  with bst(1,3) assms(2) token_reads [of bst' bst lib] show ?thesis
    by (simp add: token_of_signature_def signature_reads_def)
qed

lemma reference_matches_reads:
  assumes "reference_reading r' = reference_reading r"
  shows "reference_matches lib ids r' = reference_matches lib ids r"
  unfolding reference_matches_def reference_reads [OF assms] ..

lemma signed_signal_reads:
  assumes "signed_signal lib env e c"
    and "security_reads lib (hdr_security (env_header env')) (hdr_security (env_header env))"
  shows "signed_signal lib env' e c"
proof -
  from assms(1) obtain s where s: "sec_signature (hdr_security (env_header env)) = Some s"
    "token_of_signature lib (hdr_security (env_header env)) s = Inr (Some c)"
    "signature_verify lib s c = Inr ()" "distinct (map fst (id_attributes e))"
    "covers_messaging_element s (id_attributes e)"
    "\<forall>r\<in>set (si_references (sig_signed_info s)). reference_matches lib (id_attributes e) r"
    by (auto simp: signed_signal_def)
  from assms(2) s(1) obtain s' where s': "sec_signature (hdr_security (env_header env')) = Some s'"
    "signature_reads lib s' s"
    by (auto simp: security_reads_def option_rel_Some2)
  have "\<forall>r\<in>set (si_references (sig_signed_info s')). reference_matches lib (id_attributes e) r"
    using s(6) signature_reads_ball [OF s'(2), of "reference_matches lib (id_attributes e)"] reference_matches_reads
    by blast
  moreover have "covers_messaging_element s' (id_attributes e)"
    using s(5)
    unfolding covers_messaging_element_def covers_messaging [symmetric, of _ _ "{}"] signature_reads_checks(2) [OF s'(2)] .
  ultimately show ?thesis
    using s s' token_of_signature_reads [OF assms(2) s'(2) s(2)] signature_reads_checks(1) [OF s'(2)]
    unfolding signed_signal_def by auto
qed


text \<open>The receipt as it is built, and what its sender reads of it.\<close>

lemma built_receipt_acknowledges:
  assumes "for_message lib dt now m receiver references = Inr r" and "parse_successful m"
    and "signing_key lib receiver" and "refs_messaging_id references \<noteq> ''''" and "refs_body_id references \<noteq> ''''"
    and "signal_transmitted lib dt (the (r_soap_envelope r)) e env'" and "parse_xml lib d = Inr e"
    and "m_message_id m \<noteq> ''''"
  shows "\<exists>r'. receipt_parse lib d (certificate_of (ip_credentials receiver)) = Inr r' \<and>
    r_original_message_id r' = Some (m_message_id m) \<and> receipt_error r' = Inr None \<and>
    verify_non_repudiation r' (signed_references m) None = Inr ()"
proof -
  let ?args = "\<lparr>rb_referenced_message_id = m_message_id m, rb_referenced_messaging_id = m_messaging_id m,
      rb_local_party = receiver, rb_non_repudiated_references = signature_references m\<rparr>"
  let ?signal = "get_success_signal_message now ?args references"
  from assms(1,2) obtain env where r: "r_soap_envelope r = Some env"
    and env: "signal_envelope lib dt receiver references ?signal = Inr env"
    by (auto simp: for_message_def parse_successful_def create_non_repudiation_receipt_def
        get_success_soap_envelope_def result_simps)
  from assms(6) r have sent: "dump_to_xml dt (clark ns_S12 ''Envelope'') (envelope_model env) = Inr e"
    "distinct (map fst (id_attributes e))" "envelope_of lib e = Inr env'"
    "security_reads lib (hdr_security (env_header env')) (hdr_security (env_header env))"
    "map signal_reading (msg_signal_messages (hdr_messaging (env_header env'))) =
       map signal_reading (msg_signal_messages (hdr_messaging (env_header env)))"
    by (simp_all add: signal_transmitted_def)
  have signed: "signed_signal lib env' e (certificate_of (ip_credentials receiver))"
    by (rule signed_signal_reads [OF built_signal_signed [OF assms(3) env sent(1,2) assms(4,5)] sent(4)])
  from sent(5) signal_envelope_messaging [OF env] obtain s
    where s: "msg_signal_messages (hdr_messaging (env_header env')) = [s]"
      "signal_reading s = signal_reading ?signal"
    by (auto simp: get_messaging_def)
  from s(2) obtain i element info where info: "mi_ref_to_message_id (sgm_message_info s) = Some i" "rtm_value i = m_message_id m"
    "sgm_errors s = []" "sgm_receipt s = Some element" "rcpt_non_repudiation_information element = Some info"
    "map reference_reading (concat (map mpnri_references (nri_message_part_nr_information info))) =
       map reference_reading (signature_references m)"
    by (auto simp: signal_reading_def get_success_signal_message_def new_message_info_def map_from_reference_parts comp_def)
  let ?r = "\<lparr>r_soap_envelope = Some env', r_original_message_id = original_message_id_of (Some s),
      r_references = None, r_profile_name = None\<rparr>"
  have signal: "get_signal_message (hdr_messaging (env_header env')) = Inr (Some s)"
    using s(1) by (simp add: get_signal_message_def only_one_def)
  have original: "r_original_message_id ?r = Some (m_message_id m)"
    using info(1,2) by (simp add: original_message_id_of_def)
  have "receipt_error ?r = Inr None" "receipt_receipt ?r = Inr (Some element)"
    using signal info by (simp_all add: receipt_error_def receipt_errors_def receipt_receipt_def receipt_signal_def)
  moreover from this(2) have "acknowledged_references ?r = signed_references m"
    using from_reference_readings [OF info(6)] info(5)
    by (simp add: acknowledged_references_def non_repudiated_references_def signed_references_def)
  moreover have "receipt_parse lib d (certificate_of (ip_credentials receiver)) = Inr ?r"
    unfolding receipt_parse_eq_Inr
    using assms(7,8) sent(3) signal signed original by (intro exI [of _ e] exI [of _ env'] exI [of _ "Some s"]) simp
  ultimately show ?thesis using original by (auto simp: verify_non_repudiation_eq_Inr)
qed


section \<open>An honest exchange\<close>

text \<open>The message of the exchange as its receiver reads it from the wire.\<close>

definition message_arrives ::
  "'z message_lib_scheme \<Rightarrow> datetime_lib \<Rightarrow> peppol_sending_exchange \<Rightarrow> bytes \<Rightarrow> xml \<Rightarrow> envelope \<Rightarrow> bool" where
  "message_arrives lib dt x soap e env' \<longleftrightarrow>
     parse_xml lib soap = Inr e \<and> transmitted lib dt (the (m_soap_envelope (the (ex_message x)))) e env' \<and>
     pre_validate e = Inr (ex_message_id x, ex_messaging_id x) \<and>
     returns (get_addressed_to lib (find_first e PARTY_TO_PATH))"

lemma exchange_built:
  assumes "exchange_build xlib mime dt t payload args
      (new_sending_exchange (peppol_profile E) local_party remote references now required) = (Inr request, x)"
  obtains m references' where
    "peppol_build_message (env_lib E) (env_builder E) (env_dt E) (env_build_clock E) (env_uuids E)
       payload local_party remote args references = (Inr m, references')"
    "ex_message x = Some m" "ex_message_id x = m_message_id m" "ex_signed_references x = signed_references m"
    "ex_profile x = peppol_profile E" "expected_signer x = certificate_of (xp_credentials remote)"
    "ex_required_references x = required"
proof -
  obtain built references' where build: "peppol_build_message (env_lib E) (env_builder E) (env_dt E)
      (env_build_clock E) (env_uuids E) payload local_party remote args references = (built, references')"
    by (cases "peppol_build_message (env_lib E) (env_builder E) (env_dt E)
      (env_build_clock E) (env_uuids E) payload local_party remote args references")
  with assms that show ?thesis
    by (cases built)
       (auto simp: exchange_build_def new_sending_exchange_def default_message_ids_from_identifiers_def
          peppol_profile_def expected_signer_def Let_def andThen_eq_Inr split: sum.splits)
qed

definition answer_arrives ::
  "'z message_lib_scheme \<Rightarrow> datetime_lib \<Rightarrow> 'm message_scheme \<Rightarrow> internal_party \<Rightarrow> as4_references \<Rightarrow> bytes \<Rightarrow> bool" where
  "answer_arrives lib dt m receiver references signal \<longleftrightarrow>
     (\<exists>now r e env. for_message lib dt now m receiver references = Inr r \<and>
       signal_transmitted lib dt (the (r_soap_envelope r)) e env \<and> parse_xml lib signal = Inr e)"

text \<open>
  C4.  An honest exchange succeeds: when the message the exchange built arrives, and its receiver shares
  the keys and the Peppol identifiers with the sender and serves the recipient, then parsing returns a
  message that the receiver accepts, for the recipient the sender meant, and on any signal the receiver
  answers it with the sender's exchange ends ACKNOWLEDGED.  That envelopes and the business header are read
  as they were written is a hypothesis (\<open>message_arrives\<close>, \<open>answer_arrives\<close>, \<open>header_reads\<close>), and so is
  the agreement on keys and coverage (\<open>agree_on_keys\<close>), which speaks of the session key and the nonce
  this message drew and of no others.
\<close>

theorem honest_exchange_is_acknowledged:
  assumes "exchange_build xlib mime dt t payload args
      (new_sending_exchange (peppol_profile E) local_party remote references now None) = (Inr request, x)"
    and "refs_attachment_id_encrypted_data_id_map references = []" and "usable_ids references"
    and "ex_message_id x \<noteq> ''''"
    and "agree_on_keys (env_lib E) (env_builder E) local_party remote ctx"
    and "identity_party_type (ip_identity local_party) = Some PEPPOL_PARTY_IDENTIFIER_TYPE"
    and "identity_party_type (xp_identity remote) = Some PEPPOL_PARTY_IDENTIFIER_TYPE"
    and "get_standard_business_document (fst (env_build_clock E)) args = Inr sbd"
    and "ex_message x = Some m" and "read_sbdh (env_lib E) m = Inr h"
    and "header_reads h (sbdh_document_standard_business_document_header sbd)"
    and "accept_recipient ctx (pb_recipient args) = Inr ()"
    and "\<forall>(i, d)\<in>set (m_decrypted_data m). int (length d) \<le> maximum_decompressed_size (ctx_security_policy ctx)"
    and "message_arrives (env_lib E) (env_dt E) x soap e env'"
    and "signing_key (env_lib E) (ctx_local_party ctx)"
    and "certificate_of (ip_credentials (ctx_local_party ctx)) = certificate_of (xp_credentials remote)"
    and "refs_messaging_id answer_references \<noteq> ''''" and "refs_body_id answer_references \<noteq> ''''"
  shows "\<exists>m'. parse_peppol (env_lib E) ctx soap (m_mime_attachments m) = Inr m' \<and> parse_successful m' \<and>
    p_recipient m' = Some (pb_recipient args) \<and>
    (\<forall>signal. answer_arrives (env_lib E) dt' m' (ctx_local_party ctx) answer_references signal \<longrightarrow>
       (\<exists>x'. receive_signal signal x = (Inr (), x') \<and> sending_successful x'))"
proof -
  from exchange_built [OF assms(1)] assms(9) obtain references' where
    built: "peppol_build_message (env_lib E) (env_builder E) (env_dt E) (env_build_clock E) (env_uuids E)
       payload local_party remote args references = (Inr m, references')"
    and x: "ex_message_id x = m_message_id m" "ex_signed_references x = signed_references m"
      "ex_profile x = peppol_profile E" "expected_signer x = certificate_of (xp_credentials remote)"
      "ex_required_references x = None" by auto
  from assms(9,14) have sent: "parse_xml (env_lib E) soap = Inr e"
    "transmitted (env_lib E) (env_dt E) (the (m_soap_envelope m)) e env'"
    "pre_validate e = Inr (ex_message_id x, ex_messaging_id x)"
    "returns (get_addressed_to (env_lib E) (find_first e PARTY_TO_PATH))"
    by (simp_all add: message_arrives_def)
  from sent(4) obtain to where to: "get_addressed_to (env_lib E) (find_first e PARTY_TO_PATH) = Inr to"
    by (auto simp: returns_iff)
  from built assms(2) obtain env where env: "m_soap_envelope m = Some env"
    and recipient: "p_recipient m = Some (pb_recipient args)" by (rule peppol_build_message_parts)
  note routed = built_message_routed [OF built assms(2,3,5) sent(2) assms(13,6-8,10-12)]
  obtain m' where parsed: "parse_peppol (env_lib E) ctx soap (m_mime_attachments m) = Inr m'"
    and m': "parse_successful m'" "m_message_id m' = ex_message_id x"
    "m_soap_envelope m' = Some env'" "p_recipient m' = p_recipient m"
    by (auto simp: parse_peppol_def parse_def parse_body_def Let_def sent(1,3) to routed parse_successful_def)
  have same: "signed_references m' = signed_references m"
    by (rule signed_references_read [where lib = "env_lib E", OF _ m'(3) env])
       (use sent(2) env in \<open>simp add: transmitted_def reads_back_def\<close>)
  have named: "m_message_id m' \<noteq> ''''" using assms(4) m'(2) by simp
  have "\<exists>x'. receive_signal signal x = (Inr (), x') \<and> sending_successful x'"
    if answer: "answer_arrives (env_lib E) dt' m' (ctx_local_party ctx) answer_references signal" for signal
  proof -
    from answer obtain now' r e' env'' where
      "for_message (env_lib E) dt' now' m' (ctx_local_party ctx) answer_references = Inr r"
      "signal_transmitted (env_lib E) dt' (the (r_soap_envelope r)) e' env''" "parse_xml (env_lib E) signal = Inr e'"
      by (auto simp: answer_arrives_def)
    from built_receipt_acknowledges [OF this(1) m'(1) assms(15,17,18) this(2,3) named] obtain r' where
      r': "receipt_parse (env_lib E) signal (certificate_of (xp_credentials remote)) = Inr r'"
        "r_original_message_id r' = Some (ex_message_id x)" "receipt_error r' = Inr None"
        "verify_non_repudiation r' (signed_references m) None = Inr ()"
      using assms(16) m'(2) same by auto
    then have "receive_signal signal x = (Inr (), x\<lparr>ex_receipt := Some r', ex_state := ACKNOWLEDGED\<rparr>)"
      using x by (simp add: receive_signal_def signal_verdict_def peppol_profile_def)
    then show ?thesis by (simp add: sending_successful_def)
  qed
  with parsed m' recipient show ?thesis by auto
qed

text \<open>
  C40.  The identifiers a fresh \<open>AS4References\<close> draws, and the pair it draws for the attachment, name
  the elements of the envelope apart and are usable for building, the UUIDs being of 36 characters and
  without repetition.
\<close>

theorem fresh_references_are_usable:
  assumes "inj_on us {..<12}" and "\<forall>n<12. length (us n) = 36"
    and "encrypted_data_attachment_mapping (\<lambda>n. us (n + 10)) (default_references us) = (p, r)"
  shows "distinct (element_ids r) \<and> '''' \<notin> set (element_ids r) \<and> usable_ids r"
proof -
  have drawn: "(us i = us j) = (i = j)" if "i < 12" "j < 12" for i j
    using inj_on_eq_iff [OF assms(1)] that by simp
  from assms(2) have long: "i < 12 \<Longrightarrow> length (us i) = 36" for i by simp
  from assms(3) show ?thesis
    by (auto simp: drawn long usable_ids_def encrypted_data_attachment_mapping_def Let_def element_ids_def
        default_references_def default_id_defs dest: arg_cong [of _ _ length])
qed

end
