(* ===== verification/Refusals.thy ===== *)
theory Refusals
  imports Delivery
begin

text \<open>
  What a refusal does: every error the Peppol parser stores in a message can be told to the sender,
  and the sending exchange of a refused message ends REJECTED with the error the receiver stored
  (\<^verbatim>\<open>as4/profiles/peppol/message.py\<close>, \<^verbatim>\<open>as4/core/receipt.py\<close>, \<^verbatim>\<open>as4/core/exchange.py\<close>).
\<close>

section \<open>Refusals reach the sender\<close>

text \<open>What an acceptor is documented to raise.\<close>

definition refusing_acceptor :: "participant_acceptor option \<Rightarrow> bool" where
  "refusing_acceptor acceptor \<longleftrightarrow>
     (\<forall>f r e. acceptor = Some f \<longrightarrow> f r = Inl e \<longrightarrow> (\<exists>s. e = ParticipantNotServicedError s) \<or> is_receiptable e)"

lemma tellable_peppol [simp]:
  "tellable (peppol_party_identifier_error s i)" "tellable (from_pydantic_error PeppolSBDHException d)"
  by (simp_all add: tellable_text peppol_party_identifier_error_def from_pydantic_error_def)

lemma tellable_not_serviced [simp]: "tellable (make_error PeppolNotServicedException '''')"
  by code_simp

text \<open>What the header checks raise: an error that can be told, or what validation reports.\<close>

definition header_refusal :: "exn \<Rightarrow> bool" where
  "header_refusal e \<longleftrightarrow> is_receiptable e \<or> (\<exists>d ds. e = ValidationError (d # ds))"

lemma header_refusal_told: "header_refusal e \<Longrightarrow> told (sbdh_validation_failed e)"
  by (auto simp: header_refusal_def sbdh_validation_failed_def is_receiptable_def told_def caught_error_def)

lemma party_identifiers_raise: "verify_party_identifiers env = Inl e \<Longrightarrow> is_receiptable e"
  by (auto simp: verify_party_identifiers_def verify_party_identifier_def user_message_of_def result_simps
      dest!: for_each_raises_in user_message_raises dest: raised_receiptable split: option.splits)

lemma read_sbdh_raises:
  "reports_validation (validate_sbd lib) \<Longrightarrow> read_sbdh lib m = Inl e \<Longrightarrow> header_refusal e"
  by (auto simp: read_sbdh_def header_refusal_def sbdh_error_def tellable_text result_simps parse_xml_def
      reports_validation_def split: option.splits if_splits)

lemma participants_raise: "verify_participants_agree ps s r = Inl e \<Longrightarrow> is_receiptable e"
  by (auto simp: verify_participants_agree_def verify_participant_def sbdh_error_def tellable_text result_simps
      dest!: for_each_raises_in split: option.splits if_splits)

lemma message_properties_raise: "message_properties_of m = Inl e \<Longrightarrow> is_receiptable e"
  by (auto simp: message_properties_of_def user_message_of_def result_simps dest: user_message_raises split: option.splits)

lemma accept_recipient_raises:
  assumes "refusing_acceptor (ctx_accept_participant ctx)" and "accept_recipient ctx r = Inl e"
  shows "is_receiptable e"
proof -
  from assms(2) obtain f e' where f: "ctx_accept_participant ctx = Some f" "f r = Inl e'"
    and e: "e = (case e' of ParticipantNotServicedError _ \<Rightarrow> receiptable_exn PeppolNotServicedException | _ \<Rightarrow> e')"
    by (auto simp: accept_recipient_def rethrow_eq_Inl split: option.splits)
  from assms(1) f consider s where "e' = ParticipantNotServicedError s" | "is_receiptable e'"
    by (auto simp: refusing_acceptor_def)
  then show ?thesis using e by cases (auto simp: is_receiptable_def receiptable_exn_def)
qed

lemma store_scopes_raises: "fst (store_scopes lib h m) = Inl e \<Longrightarrow> is_receiptable e"
  by (auto simp: store_scopes_def Let_def sbdh_error_def tellable_text MANDATORY_SBDH_SCOPE_TYPE_VALUES_def
      map_of_eq_None_iff split: if_splits option.splits)

lemma peppol_process_raises:
  assumes "reports_validation (validate_sbd lib)" and "refusing_acceptor (ctx_accept_participant ctx)"
    and "fst (peppol_process lib ctx e attachments m) = Inl y"
  shows "fst (process lib ctx e attachments m) = Inl y \<or> told y"
proof -
  obtain r m1 where run: "process lib ctx e attachments m = (r, m1)" by (cases "process lib ctx e attachments m")
  have "header_refusal x" if "fst (process_sbdh lib ctx m1) = Inl x" for x
    using that
    by (auto simp: process_sbdh_def Let_def attempt_raises result_simps header_refusal_def
        dest: party_identifiers_raise participants_raise message_properties_raise
          accept_recipient_raises [OF assms(2)] store_scopes_raises
          read_sbdh_raises [OF assms(1), unfolded header_refusal_def] split: if_splits)
  with run assms(3) show ?thesis
    by (cases "process_sbdh lib ctx m1") (auto simp: peppol_process_def header_refusal_told split: sum.splits)
qed

lemma peppol_error_is_tellable:
  assumes "documented_lib lib" and "reports_validation (validate_sbd lib)"
    and "documented_key (private_key_of (ip_credentials (ctx_local_party ctx)))"
    and "refusing_resolver (policy_signer_resolver (ctx_security_policy ctx))"
    and "refusing_acceptor (ctx_accept_participant ctx)"
    and "parse_peppol lib ctx soap attachments = Inr m" and "m_parse_error m = Some err"
  shows "tellable err"
  using assms(1,6) [unfolded parse_peppol_def] assms(7)
proof (rule peppol.stored_error_is_raised)
  fix e y and m0 :: peppol_message
  assume raised: "fst (peppol_process lib ctx e attachments m0) = Inl y" and stored: "caught_error y = Inr err"
  from peppol_process_raises [OF assms(2,5) raised] process_raises [OF assms(1,3,4)] malformed_escapes
  have "told y \<or> caught_error y = Inl y" by blast
  with stored show ?thesis by (auto simp: told_def)
qed

text \<open>The detail of an error as the reader of the signal finds it.\<close>

lemma error_detail_is_read:
  assumes "dump_to_xml dt (clark ns_eb3 ''Error'') (error_element_model element) = Inr e"
    and "err_error_detail element = Some d"
  shows "\<exists>c. dict_get (element_to_dict e) (Key (clark ns_eb3 ''ErrorDetail'')) = Some (PyDicts [c]) \<and>
    dict_get c (Key ''#text'') = (if py_strip (ed_value d) = '''' then None else Some (PyStr (py_strip (ed_value d))))"
proof -
  let ?E = "clark ns_eb3 ''ErrorDetail''"
  let ?m = "error_detail_element_model d"
  have "\<exists>xs. list_all2 (\<lambda>m x. dump_to_xml dt ?E m = Inr x) [?m] xs \<and>
      dict_get (element_to_dict e) (Key ?E) = Some (PyDicts (map element_to_dict xs))"
  proof (rule dump_models_read [OF assms(1) [unfolded error_element_model_def]])
    show "declared ?E (AnnOptional (AnnAnnotated AnnModel [OtherMetadata])) (CModel ?m) \<in> set
       [declared (clark ns_eb3 ''Description'') (AnnOptional (AnnAnnotated AnnModel [OtherMetadata]))
          (opt_content (model_content description_element_model) (err_description element)),
        declared ?E (AnnOptional (AnnAnnotated AnnModel [OtherMetadata]))
          (opt_content (model_content error_detail_element_model) (err_error_detail element)),
        declared ''@category'' (AnnOptional AnnStr) (opt_content CStr (err_category element)),
        declared ''@refToMessageInError'' (AnnOptional AnnStr) (opt_content CStr (err_ref_to_message_in_error element)),
        declared ''@errorCode'' AnnStr (CStr (err_error_code element)),
        declared ''@origin'' (AnnOptional AnnStr) (opt_content CStr (err_origin element)),
        declared ''@severity'' AnnStr (CStr (err_severity element)),
        declared ''@shortDescription'' (AnnOptional AnnStr) (opt_content CStr (err_short_description element))]"
      using assms(2) by (simp add: opt_content_def model_content_def)
    show "plain_tag ?E" by (simp add: plain_tag_def clark_def)
  qed (simp_all add: declared_def clark_def)
  then obtain x where x: "dump_to_xml dt ?E ?m = Inr x"
    "dict_get (element_to_dict e) (Key ?E) = Some (PyDicts [element_to_dict x])"
    by (auto simp: list_all2_Cons1)
  from x(1) have "children x = []" "text_of x = Some (ed_value d)"
    by (auto simp: error_detail_element_model_def declared_def dump_fields.simps store_serialised_def startswith_def set_text_def)
  with element_to_dict_text [of x] x(2) show ?thesis by auto
qed

lemma py_strip_blank: "py_strip s = '''' \<longleftrightarrow> (\<forall>c\<in>set s. is_space c)"
proof (cases "dropWhile is_space s")
  case Nil
  then show ?thesis by (auto simp: py_strip_def strip_by_def dropWhile_eq_Nil_conv dest: set_dropWhileD)
next
  case (Cons c cs)
  then have "\<not> is_space c" "c \<in> set s"
    using hd_dropWhile [of is_space s] set_dropWhileD [of c is_space s] by auto
  with Cons show ?thesis by (auto simp: py_strip_def strip_by_def dropWhile_eq_Nil_conv)
qed

text \<open>The error signal of a message, from its parse error.\<close>

lemma error_envelope_of_message:
  assumes "for_message lib dt now m party references = Inr r" and "m_parse_error m = Some err"
  obtains env s element where "r_soap_envelope r = Some env" "signal_envelope lib dt party references s = Inr env"
    "original_message_id_of (Some s) = (if m_message_id m = '''' then None else Some (m_message_id m))"
    "sgm_errors s = [element]" "map_option ed_value (err_error_detail element) = Some (detail err)"
    "map error_reading (sgm_errors s) = [(the (error_code err), the (severity err), Some (py_strip (detail err)))]"
    "error_code err \<noteq> None" "severity err \<noteq> None"
proof -
  from assms obtain code short desc sev cat env where attrs: "error_code err = Some code"
    "short_description err = Some short" "description err = Some desc" "severity err = Some sev"
    "category err = Some cat" and r: "r_soap_envelope r = Some env"
    and env: "signal_envelope lib dt party references (get_error_signal_message now
       \<lparr>rb_referenced_message_id = m_message_id m, rb_referenced_messaging_id = m_messaging_id m,
        rb_local_party = party, rb_error_code = code, rb_error_short_description = short,
        rb_error_severity = sev, rb_error_detail = detail err, rb_error_description = desc,
        rb_error_category = cat\<rparr> references) = Inr env"
    by (auto simp: for_message_def create_error_signal_from_exception_def create_error_signal_def
        get_error_soap_envelope_def class_attribute_def result_simps split: option.splits)
  from that [OF r env] attrs show ?thesis
    by (simp add: original_message_id_of_def get_error_signal_message_def get_error_ref_to_message_id_def
        new_message_info_def error_reading_def)
qed

lemma error_signal_of_message:
  assumes "for_message lib dt now m party references = Inr r" and "m_parse_error m = Some err"
  shows "\<exists>element. receipt_error r = Inr (Some element) \<and> map_option ed_value (err_error_detail element) = Some (detail err)"
  using assms
  by (rule error_envelope_of_message)
     (auto simp: receipt_error_def receipt_errors_def receipt_signal_def get_messaging_def get_signal_message_def
        only_one_def signal_envelope_messaging)

text \<open>
  C7.  Every refusal can be told.  With libraries, a key and callbacks that raise what they are
  documented to raise, a parse error that the Peppol parser stores has every attribute an error signal is
  built from, and a detail that is not blank.  So the reader of whichever signal \<open>for_message\<close> builds of
  the message finds the detail in it, where a blank one would be read as a missing ErrorDetail text and
  the whole signal would be refused.
\<close>

theorem peppol_refusals_can_be_told:
  assumes "documented_lib lib" and "reports_validation (validate_sbd lib)"
    and "documented_key (private_key_of (ip_credentials (ctx_local_party ctx)))"
    and "refusing_resolver (policy_signer_resolver (ctx_security_policy ctx))"
    and "refusing_acceptor (ctx_accept_participant ctx)"
    and "parse_peppol lib ctx soap attachments = Inr m" and "m_parse_error m = Some err"
  shows "reportable err \<and> py_strip (detail err) \<noteq> '''' \<and>
    (\<forall>dt now party references r element e. for_message lib dt now m party references = Inr r \<longrightarrow>
       receipt_error r = Inr (Some element) \<longrightarrow>
       dump_to_xml dt (clark ns_eb3 ''Error'') (error_element_model element) = Inr e \<longrightarrow>
       (\<exists>c. dict_get (element_to_dict e) (Key (clark ns_eb3 ''ErrorDetail'')) = Some (PyDicts [c]) \<and>
          dict_get c (Key ''#text'') = Some (PyStr (py_strip (detail err)))))"
proof -
  have told: "tellable err" by (rule peppol_error_is_tellable [OF assms])
  then have blank: "py_strip (detail err) \<noteq> ''''" by (auto simp: tellable_def py_strip_blank)
  have "\<exists>c. dict_get (element_to_dict e) (Key (clark ns_eb3 ''ErrorDetail'')) = Some (PyDicts [c]) \<and>
      dict_get c (Key ''#text'') = Some (PyStr (py_strip (detail err)))"
    if "for_message lib dt now m party references = Inr r" "receipt_error r = Inr (Some element)"
      "dump_to_xml dt (clark ns_eb3 ''Error'') (error_element_model element) = Inr e"
    for dt now party references r element e
  proof -
    from error_signal_of_message [OF that(1) assms(7)] that(2) obtain d where
      "err_error_detail element = Some d" "ed_value d = detail err" by auto
    with error_detail_is_read [OF that(3)] blank show ?thesis by auto
  qed
  with told blank show ?thesis by (simp add: tellable_def)
qed

section \<open>A refused exchange\<close>

text \<open>
  C6.  A refused message is known to be refused: when a receiver answers a message that ended in a
  parse error, and its signal arrives, the sending exchange ends REJECTED and holds the code, the
  severity and the detail of that error.
\<close>

theorem refused_message_is_rejected:
  assumes "ex_profile x = peppol_profile E" and "expected_signer x = certificate_of (ip_credentials receiver)"
    and "m_parse_error m = Some err" and "m_message_id m = ex_message_id x" and "ex_message_id x \<noteq> ''''"
    and "signing_key (env_lib E) receiver"
    and "refs_messaging_id references \<noteq> ''''" and "refs_body_id references \<noteq> ''''"
    and "answer_arrives (env_lib E) dt m receiver references signal"
  shows "\<exists>x' r element. receive_signal signal x = (Inr (), x') \<and> ex_state x' = REJECTED \<and>
    ex_receipt x' = Some r \<and> receipt_error r = Inr (Some element) \<and>
    Some (err_error_code element) = error_code err \<and> Some (err_severity element) = severity err \<and>
    map_option (\<lambda>d. py_strip (ed_value d)) (err_error_detail element) = Some (py_strip (detail err))"
proof -
  from assms(9) obtain now r e env' where
    built: "for_message (env_lib E) dt now m receiver references = Inr r"
    and arrived: "signal_transmitted (env_lib E) dt (the (r_soap_envelope r)) e env'"
    and parsed: "parse_xml (env_lib E) signal = Inr e"
    by (auto simp: answer_arrives_def)
  obtain env s where
    r: "r_soap_envelope r = Some env" and env: "signal_envelope (env_lib E) dt receiver references s = Inr env"
    and original: "original_message_id_of (Some s) = (if m_message_id m = '''' then None else Some (m_message_id m))"
    and errors: "map error_reading (sgm_errors s) =
      [(the (error_code err), the (severity err), Some (py_strip (detail err)))]"
      "error_code err \<noteq> None" "severity err \<noteq> None"
    by (rule error_envelope_of_message [OF built assms(3)])
  from original have s: "original_message_id_of (Some s) = Some (ex_message_id x)" by (simp add: assms(4,5))
  from arrived r have sent: "dump_to_xml dt (clark ns_S12 ''Envelope'') (envelope_model env) = Inr e"
    "distinct (map fst (id_attributes e))" "envelope_of (env_lib E) e = Inr env'"
    "security_reads (env_lib E) (hdr_security (env_header env')) (hdr_security (env_header env))"
    "map signal_reading (msg_signal_messages (hdr_messaging (env_header env'))) =
       map signal_reading (msg_signal_messages (hdr_messaging (env_header env)))"
    by (simp_all add: signal_transmitted_def)
  have signed: "signed_signal (env_lib E) env' e (certificate_of (ip_credentials receiver))"
    by (rule signed_signal_reads [OF built_signal_signed [OF assms(6) env sent(1,2) assms(7,8)] sent(4)])
  from sent(5) signal_envelope_messaging [OF env] obtain s'
    where s': "msg_signal_messages (hdr_messaging (env_header env')) = [s']" "signal_reading s' = signal_reading s"
    by (auto simp: get_messaging_def)
  from s' s errors(1) have read: "original_message_id_of (Some s') = Some (ex_message_id x)"
    "map error_reading (sgm_errors s') = [(the (error_code err), the (severity err), Some (py_strip (detail err)))]"
    by (auto simp: signal_reading_def original_message_id_of_def)
  from read(2) obtain element where element: "sgm_errors s' = [element]"
    "error_reading element = (the (error_code err), the (severity err), Some (py_strip (detail err)))"
    by auto
  let ?r = "\<lparr>r_soap_envelope = Some env', r_original_message_id = original_message_id_of (Some s'),
      r_references = None, r_profile_name = None\<rparr>"
  have signal: "get_signal_message (hdr_messaging (env_header env')) = Inr (Some s')"
    using s'(1) by (simp add: get_signal_message_def only_one_def)
  then have error: "receipt_error ?r = Inr (Some element)"
    using element(1) by (simp add: receipt_error_def receipt_errors_def receipt_signal_def)
  have "receipt_parse (env_lib E) signal (certificate_of (ip_credentials receiver)) = Inr ?r"
    unfolding receipt_parse_eq_Inr
    using parsed sent(3) signal signed error by (intro exI [of _ e] exI [of _ env'] exI [of _ "Some s'"]) simp
  with assms(1,2) read(1) error have "receive_signal signal x = (Inr (), x\<lparr>ex_receipt := Some ?r, ex_state := REJECTED\<rparr>)"
    by (simp add: receive_signal_def signal_verdict_def peppol_profile_def)
  with error element(2) errors(2,3) show ?thesis by (auto simp: error_reading_def)
qed

end
