(* ===== verification/PeppolPki.thy ===== *)
theory PeppolPki
  imports PeppolAssurance
begin

text \<open>
  The certificates of \<^verbatim>\<open>as4/profiles/peppol/pki.py\<close> and the two security policies
  \<^verbatim>\<open>as4/profiles/peppol/profile.py\<close> builds from them.  The texts are those of the source;
  \<^verbatim>\<open>x509.load_pem_x509_certificate\<close> is a parameter.
\<close>

section \<open>The certificates\<close>

definition pem_text :: "string list \<Rightarrow> string" where
  "pem_text ls = concat (map (\<lambda>l. l @ [CHR 0x0A]) ls)"

definition PEPPOL_ROOT_CA_G3_PEM :: string where
  "PEPPOL_ROOT_CA_G3_PEM = pem_text
    [''-----BEGIN CERTIFICATE-----'',
     ''MIIFXDCCA0SgAwIBAgIUIsQBNHXUt+CXK5zXYzrdJEr8AcAwDQYJKoZIhvcNAQEL'',
     ''BQAwRjELMAkGA1UEBhMCQkUxGTAXBgNVBAoTEE9wZW5QRVBQT0wgQUlTQkwxHDAa'',
     ''BgNVBAMTE1BFUFBPTCBSb290IENBIC0gRzMwHhcNMjUwMTE0MTgwMTEwWhcNMzUw'',
     ''MTE0MTc1OTQwWjBGMQswCQYDVQQGEwJCRTEZMBcGA1UEChMQT3BlblBFUFBPTCBB'',
     ''SVNCTDEcMBoGA1UEAxMTUEVQUE9MIFJvb3QgQ0EgLSBHMzCCAiIwDQYJKoZIhvcN'',
     ''AQEBBQADggIPADCCAgoCggIBAMjkcoKwACKWUNAsyeOf8AU6hQGi4CRaJV5N7LnV'',
     ''XL1AxJ6S2oBT/NxIaoF4ZBLxGqz3sTZyvb+rswlpSUNwY8+gkFHOmIo9PFsVk8jB'',
     ''T3/W73ZGxHzR4sXGmiN3asmP0zWWrSO9rADzThEBKwc4lJBhhUI6Y8KKp/vZvjHX'',
     ''XuXVs7iaruQbfRUOnRGDvevEkJ+Ns8LxOivq8TXMB106BhwuCm0AE97rkZBNqX4W'',
     ''naUm9fDaW/nUpUV3DkcJGMXw7MypxrxWjesxbLjTkV5bcJHzIbLQo02IsQik1VF3'',
     ''ttPlpJ0omCQ23AKFzTlVOKo+1rp+gmaYhJPv95J92oU+nBuMQNgIanObWaGUPkM0'',
     ''xfsn0BtcOeYtSWZna1MRdryJiPdoWzrwulPUf5OzbU8pctPQM9UEa2gZ8YEDOiYi'',
     ''6k2FQ8WAcYJcsvUenQNkMKvdclOE0RWAoVWlYWOSh6eNEwS3V0SpEeAmYmwsPXQH'',
     ''ij63RRYN7KFH3umdsnewxau8CYypkrWT4abGfZWhTVUzs7Zc6eC00a8zsra19U12'',
     ''F1uAfRKASCxWAjauWVkoXS7lWZ7QAj9ROKF4M4EdszWS/+7vhTV0bP6DwrGgQ1ea'',
     ''ei05UoPQDAGqViOYkZXU7fiuItYBhtvlwtvfe4Qt9OFe6Ekb7MxURDJX7/yXCWeS'',
     ''y9SBAgMBAAGjQjBAMA8GA1UdEwEB/wQFMAMBAf8wHQYDVR0OBBYEFMzujOyikp5J'',
     ''u1+EP7ZpJEZVfq1mMA4GA1UdDwEB/wQEAwIBhjANBgkqhkiG9w0BAQsFAAOCAgEA'',
     ''Y/R05/0me44zDd6Pc1TMWHNn/J1vC6ydp8kpZ1mNLgwh8QlnxI0FcPmIoXLDFaP8'',
     ''lTbHIZ+ImmKoKrhhI4C1JKDuytgNh8YuTZqCvwyJKzjGEqXVJyju6y76/tBZcdl8'',
     ''p42Clvfs5Jm+4GwPGjSVbbaOAO9gisvTuJJ11p9coe48YpbZOqJCMLhAUgzv5Uuu'',
     ''DCb79eoTUv30P61vBsRVukkm8CO6v6Y1uEzDPJNcwYq9flNY78hCexqRIzUcZHxr'',
     ''AELFFvcMcxyAyKJ7PvlPlGNzHVZfkt3sPLj0KT4zbOkCrK3TJEMe8N2VVH6fsGEo'',
     ''3nrGlk8fJpVVymGStNgdqWIoZlH52xIQy9jICgTKGhZRzjZ+rGlg8i/Scz8DtS6Z'',
     ''Ba8on9iHRSiNvPmeF0pEm8Uh5q4KeD+S03YeuCdqyR2obsm9/lZxc151577AKoma'',
     ''D3GaS6yrl4xICiAyBjANFD6AqnmuVxnj0Ifsg+wHNITExbSav8EjhczfvQkj+ZCH'',
     ''ZPaQX39SrvXqjaHrBOgBzV9Bm2N3Q9h4b+Vvvy14gyYKF86367kWMSgBdRzanYQh'',
     ''sMt/xlo48vQKBHimL7kZBuAairWnYTeBsgDv4Vh2EiOTBlUIsGHThHJ5wKnaI6qP'',
     ''TkzxlPjeEjaGIVTYD7ZYAzKrFUvnW+tYK2XiH+leObc='',
     ''-----END CERTIFICATE-----'']"

definition PEPPOL_AP_CA_G3_PEM :: string where
  "PEPPOL_AP_CA_G3_PEM = pem_text
    [''-----BEGIN CERTIFICATE-----'',
     ''MIIGUjCCBDqgAwIBAgIUMx9lQttDmPkaFO+nmLKO85v0nvowDQYJKoZIhvcNAQEL'',
     ''BQAwRjELMAkGA1UEBhMCQkUxGTAXBgNVBAoTEE9wZW5QRVBQT0wgQUlTQkwxHDAa'',
     ''BgNVBAMTE1BFUFBPTCBSb290IENBIC0gRzMwHhcNMjUwMTE0MTgwNDUxWhcNMzUw'',
     ''MTEzMTc1OTQwWjBOMQswCQYDVQQGEwJCRTEZMBcGA1UEChMQT3BlblBFUFBPTCBB'',
     ''SVNCTDEkMCIGA1UEAxMbUEVQUE9MIEFDQ0VTUyBQT0lOVCBDQSAtIEczMIICIjAN'',
     ''BgkqhkiG9w0BAQEFAAOCAg8AMIICCgKCAgEAnYHtmOL395qTaKVqRSzhjyVew/IZ'',
     ''Wlaz+2fS4Xhyzn32TNHuoj+UeTk2Xj/wPtynZ96re9eCTYCHRsSPvtOgoS/kIF6K'',
     ''hiFuZTFl/3QwNgeTDu2oFaWjEJZzRGopL7QXBQ2LHHRKUFrDctfT6bQlEu5qUOKk'',
     ''U8jE91tP3j79rFcwzMgOnWRtWikbdLYAPQCk4ROwWPqP8V2UNbqx4IleGkkVGKWA'',
     ''sZr5ZrQB9N5WxH3wpbUZAI2EaJ80I9PAGp72OJPuxFOHxll8r99u67i1rDAOilvl'',
     ''Lspze/u7xFuv7AnxyAhW/J6QJ1bsykno37ClwIPo3Fa9xulbuj3awd6f/KYJIrmr'',
     ''ArhgCn1QzK3l7jZ+f5RcROP4Ejx++Y40i8y7H3xsnfQfbcTVGCM3pYJJTLWbzcwt'',
     ''Hnw/jyqVbJXpkwSgqaGM42m8imghdioZPvvbtL4r/mKTHwtcG8DT0KbIB+kwnO1m'',
     ''2Z487WWsX/MhfAXYjRvPT1BjvpDP170veZwGiqm7/PuiJl99lUxSSccjF5me3n2o'',
     ''7kawE/FBBfkZYZGSr3asJkuIn1IUvBQPc1S2I3PkU2TfqLaDrWqidG4PbgzsMu8L'',
     ''UzWTQrfAcijm1NJAbjkSYA72Lrr8cUIp/bowoJoUasby3UTby/sYuY0eLOpT90ik'',
     ''O3t0xKlazzwRrx0CAwEAAaOCAS4wggEqMBIGA1UdEwEB/wQIMAYBAf8CAQEwHQYD'',
     ''VR0OBBYEFPwyVkiry8G4+YOaL4ALKMz3/+rRMB8GA1UdIwQYMBaAFMzujOyikp5J'',
     ''u1+EP7ZpJEZVfq1mMA4GA1UdDwEB/wQEAwIBhjB/BggrBgEFBQcBAQRzMHEwKwYI'',
     ''KwYBBQUHMAGGH2h0dHA6Ly9vY3NwLm9uZS5ubC5kaWdpY2VydC5jb20wQgYIKwYB'',
     ''BQUHMAKGNmh0dHA6Ly9jYWNlcnRzLm9uZS5ubC5kaWdpY2VydC5jb20vUEVQUE9M'',
     ''Um9vdENBLUczLmNydDBDBgNVHR8EPDA6MDigNqA0hjJodHRwOi8vY3JsLm9uZS5u'',
     ''bC5kaWdpY2VydC5jb20vUEVQUE9MUm9vdENBLUczLmNybDANBgkqhkiG9w0BAQsF'',
     ''AAOCAgEARh7lWcI/Zw7kopkddKuN4puJp1ZjhHV773HdithdvI28Mo81tjUbOWFU'',
     ''PPeiGFeR31+h+G5lzWkmo+xH/gpnMRIzoj85URKxoaNDiBWDqWBjhCTR6b/6bOtK'',
     ''KMSsdcpJzyP7GMXMWzFQIjmqpvOQFU/Xt3fZYoSqsVHlAzuenbidhUKti91LjVg/'',
     ''aWgJXKH4bbqdL6X5dZblVE4uqWzwUfryVMJkNVD6y2FWOj3pNz0fT6QQDIQih8iV'',
     ''E3fNlW3YykKyGE86lLYvafs5xDJga1Kepaoy5puNgrUTSd0Bhc6yEb4ImdlOegXB'',
     ''C+ycKqHslMKrzm69IRsUtxPxlGMOxB8hnRhjFdGwIVktjG3MD8amet7dGOsXravz'',
     ''lJpr4Lz1b94Ie0BvCkfpFyARgTdJj7pC2efA13jdeBqhPgaEgcjqBaqe8ZcI/HqZ'',
     ''Mls70LTz+Ry8y8FngXbFobf7I3ZWow0wUZG22FDhj94qd+LY8rjTYMQGsAyWc/Hh'',
     ''Be32cYNjxCdtw/LVhbG6p+QoXgGWC12Mq84Uinr46f9aewZ66oqrMIc297tX9wvY'',
     ''+IwHAVort2ScCnokQS4eXkOYbkgC6cXtcR8dcuv75rgvNkJ/SB1F8b94QGht5UQe'',
     ''ROxR0ofeQqQCtVxF9HEucpQssF/wJSs04f+CAt1vTFGeIvcbMvA='',
     ''-----END CERTIFICATE-----'']"

definition PEPPOL_SMP_CA_G3_PEM :: string where
  "PEPPOL_SMP_CA_G3_PEM = pem_text
    [''-----BEGIN CERTIFICATE-----'',
     ''MIIGYDCCBEigAwIBAgIUS0daVPMYerMw5VCKfJFwwXnoq6EwDQYJKoZIhvcNAQEL'',
     ''BQAwRjELMAkGA1UEBhMCQkUxGTAXBgNVBAoTEE9wZW5QRVBQT0wgQUlTQkwxHDAa'',
     ''BgNVBAMTE1BFUFBPTCBSb290IENBIC0gRzMwHhcNMjUwMTE0MTgxMDQ4WhcNMzUw'',
     ''MTEzMTc1OTQwWjBcMQswCQYDVQQGEwJCRTEZMBcGA1UEChMQT3BlblBFUFBPTCBB'',
     ''SVNCTDEyMDAGA1UEAxMpUEVQUE9MIFNFUlZJQ0UgTUVUQURBVEEgUFVCTElTSEVS'',
     ''IENBIC0gRzMwggIiMA0GCSqGSIb3DQEBAQUAA4ICDwAwggIKAoICAQDVmMiHUchr'',
     ''dLqW8Rl0x/xR5Hq9WJpXrwlpM3EBl+7Zg4bZF2tiBoxG0FuUtqU4MvJ9xpckQE/d'',
     ''97X6WqwFoY4vO3sht7VWdPG6tnsHSZG3OUKHTEjQxbJzMATP+R9S5UCz/FqwZviD'',
     ''sLTbxdXJGWG5FNEATPur4F1zji1QXZzihfT89sPehVy+S0uGkH+tpL3q/UcCVOQD'',
     ''4fFDgmBYR007rBMr6Rs5Z3pwUE7q5xM5dIBEN6Y1fw9TKQeQOpTAw0agdZGf7J4N'',
     ''oXihrljP6N1o5N1D6SupFeNx8RqIhZ+HBV99qM1vXJFVALBHvRZbRqiJi863/wZL'',
     ''pRD/ZzDnNG6YTTmw+1ZSm15rBdX7XBmtvjcrzBr660deZjBKJo8IzWNGk38th2Kr'',
     ''GC3uMsbQfHOdPkcLmdq/bOn199xsaVj/9Y3jPUz+nUj3aB3ackOq7Gd8b+J5u/Z1'',
     ''FvKj3BicFSjOFa4F9uMAlQ1/oRIwsnYkXL/YFewhcnf7//4dlXIJmgwCYxufWgQ+'',
     ''M+xuLMSoxMv00+GEN8i7ob8R3xek/Zs7QwAVe4X7OfqqcO3ep80SAuWRDWj+S8tT'',
     ''01J+PyvvwjcqJ+DH9hwsAtchiYUmgxfj43nks3kq1CsxDogLouK13XW9purettj2'',
     ''L1wxVpH5F5WzvCQa28EY0SZc5kIaEazGtQIDAQABo4IBLjCCASowEgYDVR0TAQH/'',
     ''BAgwBgEB/wIBATAdBgNVHQ4EFgQUHdzChVxWg83oCMf6kpNDxeH2jtEwHwYDVR0j'',
     ''BBgwFoAUzO6M7KKSnkm7X4Q/tmkkRlV+rWYwDgYDVR0PAQH/BAQDAgGGMH8GCCsG'',
     ''AQUFBwEBBHMwcTArBggrBgEFBQcwAYYfaHR0cDovL29jc3Aub25lLm5sLmRpZ2lj'',
     ''ZXJ0LmNvbTBCBggrBgEFBQcwAoY2aHR0cDovL2NhY2VydHMub25lLm5sLmRpZ2lj'',
     ''ZXJ0LmNvbS9QRVBQT0xSb290Q0EtRzMuY3J0MEMGA1UdHwQ8MDowOKA2oDSGMmh0'',
     ''dHA6Ly9jcmwub25lLm5sLmRpZ2ljZXJ0LmNvbS9QRVBQT0xSb290Q0EtRzMuY3Js'',
     ''MA0GCSqGSIb3DQEBCwUAA4ICAQCyCfSUH/bBWcZEe2vtq+NgQpVD4NXKkmnCsUNx'',
     ''TGtwbBxPdHZQd8xctFxaN8UFIr5EQl3/QZtIGsQ6d+bVlxjkuA8XBnSM0ztGdZ0g'',
     ''RgRrgUKG+2vdb5mZ4ceenc4VnT1pCran8K9sjuVa1Qhv65ZEyHCSbrG4ib5i07Zq'',
     ''TQADT/ORsDmJ5iEWjLbvmUxXgbCfPqd72SGhWbADTPS09IuTClrbrA0r3d5nKsqA'',
     ''rRM+IvUCM2UbRMgGV5zd0vI+0WC1I+kfd7kHJccvkr16wxYKN0kEZDhwdugOyPeL'',
     ''LXJ8u4KYWJTFCFTQvhpm2uZ74IjJltOTBaowf+CLiBAEnyK5sP1SDeEy3iLExtiW'',
     ''Dtasdz9JLx1OnrqNwjS8dTtSTcagJg4kLUXWT6a2B4wuiETufOQWtZ8Z1RBJwFLO'',
     ''zwTd7LjEMONXf5t4HRFt6e7eORmWzapyMUxjddhXJ4PVr2RVXf3E3yCry6YIWvzV'',
     ''DJ/rbbqXH56/+k7zwzpGwEFcraZaqlWemaQuYuNgY4FzhejWsOKhymjL021fSJuM'',
     ''XFxEWgktxAezCqm1nhvKWHPZwtax6yDyKHQ/SnUJkRnmExD9klpOpgmbH7SqWdXc'',
     ''5fub9xFh3OgmCgGsrWgvTB6gvys9YjYBzlR6GCzxolZSuLz6EfE4ZedEd+m/gaHC'',
     ''IaAEQg=='',
     ''-----END CERTIFICATE-----'']"

definition PEPPOL_ROOT_TEST_CA_G3_PEM :: string where
  "PEPPOL_ROOT_TEST_CA_G3_PEM = pem_text
    [''-----BEGIN CERTIFICATE-----'',
     ''MIIFljCCA36gAwIBAgIUYX5IfEf3HiTviR3QlGk86F6FBR4wDQYJKoZIhvcNAQEL'',
     ''BQAwYzELMAkGA1UEBhMCQkUxGTAXBgNVBAoTEE9wZW5QRVBQT0wgQUlTQkwxFjAU'',
     ''BgNVBAsTDUZPUiBURVNUIE9OTFkxITAfBgNVBAMTGFBFUFBPTCBSb290IFRFU1Qg'',
     ''Q0EgLSBHMzAeFw0yNTAxMTQxNzQ5NTVaFw0zNTAxMTQxNzQ3MzlaMGMxCzAJBgNV'',
     ''BAYTAkJFMRkwFwYDVQQKExBPcGVuUEVQUE9MIEFJU0JMMRYwFAYDVQQLEw1GT1Ig'',
     ''VEVTVCBPTkxZMSEwHwYDVQQDExhQRVBQT0wgUm9vdCBURVNUIENBIC0gRzMwggIi'',
     ''MA0GCSqGSIb3DQEBAQUAA4ICDwAwggIKAoICAQC+q+EpAlKZoWP8KZhGGKCCSdsg'',
     ''oP7TUrcDwOfHXi/KZlRpH/vNU/MLaKMZVSzplpgGQoUo4zBruQ85lTGCTzIYmqsQ'',
     ''J108WkcCHAKYi/TfVg90VxU6g9mtdQ5wRwu8sjnEjjWzOzn2uD7lhTNKlIBK40Fe'',
     ''5ZDCDcnSLOSOkZfvF6BIv97MnYiVTiV35cA7fKFC9a8Vn+c/3roLAai1OWqVX2D5'',
     ''1GyLA3tP7uLgDlIn74cwCLWs8byTUvn6UTpkKqkfVlhdpVvpINofUdYRP9VnAz7C'',
     ''iJSMQKEm0Ddil53pLwnfq53CCwly09a7qVvOxWFOWLH/h/XyW95johSIJUa5KBJW'',
     ''NsviJmTrJBBuHn51tLQGXoHB8bbq29f7knEWt4GmgzYYXOyrGi8bUDFblgIib4AN'',
     ''Fu6+qal3S2PwbedQzW2ExVkDGqWYB0I6xPqw4FjAkyDR5RIZwVfh1OvCI+0pTnBS'',
     ''ZjJJhkjzJqvhEtWnZZE+U1BPlKyf9s/TIJESEesFEGxfnOI+sxwa3+dA5NindPPn'',
     ''amDA1+1RacIKcABJrdx0CdH4ZoIo5jTcwKmgPgiVZthibxNVYqmwm+UIHtlkon9L'',
     ''Q0DU2ChiC625zRTF+dYSxgY/erxlT+MHGqf+C7nJTr0SxTqeUiDhzDXWfSmcqEGg'',
     ''iTMc3isTk3th5UKE5wIDAQABo0IwQDAPBgNVHRMBAf8EBTADAQH/MB0GA1UdDgQW'',
     ''BBRuVI3kEi67/iBozD9XuFAFbl58xDAOBgNVHQ8BAf8EBAMCAYYwDQYJKoZIhvcN'',
     ''AQELBQADggIBAHskOTT6fMRsixR2C42NOcspc4dSl87CxoBP+1ntvoNO8Cr9GwRN'',
     ''ki5e8cgrPU3Cub8yFCJzPe56fXE63HeUknoyWzohK7Kqb7Ow278TNbWyC6iZ82bM'',
     ''QbdWPlfjvEtKtmVga8u1aHelWC4GhKs+G5zU81fqN1JzYQMkbYv3d0bhlPlxkBXJ'',
     ''jkltwvaLm1wGQlwcGwKu4Dn47ogq/adS+oumT5E0PcY1rIZbi6rc3mNZfyh0axP4'',
     ''pNKhTO24CEN2SBtE2Bv1o6GdNxmiTjY+kxdzLwY4sRfUX0GFbIEoCkRhnOjs2gsR'',
     ''X+y/x2hvvJaxqbJE04fapUf36F1rR07o8XcP72IKzI1hZPnfqKtNs7GWIizZpKCz'',
     ''NGCKKXRpSEC7YVrtEsLK3pSH+yCkRWKadclIIg2RNnoeAoJlaVbijb434hqmD+L2'',
     ''rQOTkImHF06nWqTOGfO8QfkUjwxl2h424BhLE/sgI+3jWWThjvymNA2FGIwLD+wG'',
     ''2B7cuqlRQ9VRbcpa1VeRhozyLFZffnUkGR5aWpw7EKt4TORBwEawU9TaI7g0hGkl'',
     ''I73GYCM5QWwIAIlAvR7hboli20iu4QkrclHqoDsS0+2Cn61sQX5NMXVEKyBLe3c3'',
     ''txIEvEdT+lep1u01xHKfJO6oJxQQK88tcLB/+28Cis2jpR9H3TSy6oHd'',
     ''-----END CERTIFICATE-----'']"

definition PEPPOL_AP_TEST_CA_G3_PEM :: string where
  "PEPPOL_AP_TEST_CA_G3_PEM = pem_text
    [''-----BEGIN CERTIFICATE-----'',
     ''MIIGlTCCBH2gAwIBAgIUbxhv5DkySfIVjlcmMccb3ohA53QwDQYJKoZIhvcNAQEL'',
     ''BQAwYzELMAkGA1UEBhMCQkUxGTAXBgNVBAoTEE9wZW5QRVBQT0wgQUlTQkwxFjAU'',
     ''BgNVBAsTDUZPUiBURVNUIE9OTFkxITAfBgNVBAMTGFBFUFBPTCBSb290IFRFU1Qg'',
     ''Q0EgLSBHMzAeFw0yNTAxMTQxNzUzMDJaFw0zNTAxMTMxNzQ3MzlaMGsxCzAJBgNV'',
     ''BAYTAkJFMRkwFwYDVQQKExBPcGVuUEVQUE9MIEFJU0JMMRYwFAYDVQQLEw1GT1Ig'',
     ''VEVTVCBPTkxZMSkwJwYDVQQDEyBQRVBQT0wgQUNDRVNTIFBPSU5UIFRFU1QgQ0Eg'',
     ''LSBHMzCCAiIwDQYJKoZIhvcNAQEBBQADggIPADCCAgoCggIBAJ5+YqcELAJJlH96'',
     ''2mIVx0e+inbirHX5T+0fzPjuq7MK8C+GllA9v+Za1pYyc8BuwcRO5m9NF4WPVAjY'',
     ''wr9DtAXLFVAd89ft6awNOWzj8mbn/sIGhq0aFm4dwcg4bQhBLYDKg1KL1tm0keFE'',
     ''bhVGbEelG6Lx21TGfqBuGJZwJfdsWwWTgnGcqKbqsN4td8ASbgyQkBuQT+fffIxD'',
     ''sNo30yBHtQARCAFQDULLtkOtRuKNn55xae4E1q6yaLL6PDPd21KbsZV6tDWqDY4A'',
     ''xBDsXkTyl7c9Mehw/hH0r0sp83D7RlBj3qTj1p8xqCxrKzQtr3ffZqPaQOD1Sb6g'',
     ''l+6nV653IxKmNe2VHhbagMH2dsG6/5RffJaI6mlbL5Nr2yczA5EoGFBwqRZHe9w7'',
     ''9VbWXk9r52RzZqNkpL1HRUYsApi1vKSXy9cop/eCnK6unSoMatQ695oTp5j0D1y9'',
     ''X13rc+slHBc2beDj7ytSIEjLjobVnkCFyN58FSROD45xR8BKiIG+/oPFE9KYh6Vj'',
     ''EtLiM+itd/X4xIEQwmHfP3lTxZYtKSLzI8eM5EutmBZWpWdOzFfyGt22Qq7zxtxz'',
     ''htA3fBApQHhsirbh1doWXhJO4TGkXJUT+OCqMMFRyKiSw/cjFNXiGN8RgWlia7W8'',
     ''UvVDfUBdYbngKogtpLvmYmI20kaxAgMBAAGjggE3MIIBMzASBgNVHRMBAf8ECDAG'',
     ''AQH/AgEBMB0GA1UdDgQWBBSzzETvdq+Byd/zX6WeiHGtn6D3cDAfBgNVHSMEGDAW'',
     ''gBRuVI3kEi67/iBozD9XuFAFbl58xDAOBgNVHQ8BAf8EBAMCAYYwgYMGCCsGAQUF'',
     ''BwEBBHcwdTArBggrBgEFBQcwAYYfaHR0cDovL29jc3Aub25lLm5sLmRpZ2ljZXJ0'',
     ''LmNvbTBGBggrBgEFBQcwAoY6aHR0cDovL2NhY2VydHMub25lLm5sLmRpZ2ljZXJ0'',
     ''LmNvbS9QRVBQT0xSb290VEVTVENBLUczLmNydDBHBgNVHR8EQDA+MDygOqA4hjZo'',
     ''dHRwOi8vY3JsLm9uZS5ubC5kaWdpY2VydC5jb20vUEVQUE9MUm9vdFRFU1RDQS1H'',
     ''My5jcmwwDQYJKoZIhvcNAQELBQADggIBAEmODwQ9D8igiTxfA08yR4Lyo66dTvt6'',
     ''9Nl5bMSfOyegJVzZdu+BBxIVb+aSnFNyjt2yDoAJSXGqIAK5WSZ3W9ok+RkxgqT4'',
     ''vkAGyrLZDJHcUo6VRWlv3QmKuvSTIfVrmN7reG3i6xCZyb1HtBrvV2L1BvV4t+zR'',
     ''8b2yvTxew581Y3kGuXopmsFiE29fntd8xI6gHzKWeLSY6HgnRzj+KN+xQrmVERUQ'',
     ''SD9Rztg/if6CbYtlwIhOxNmnG0fJMGBgN6ELYW6WDqHoj1d0G1PmGA+IoPMCWW/U'',
     ''PsarMqwYG/1TpxY55ukBip2XZQfkZ4ws2UmZmVU5WVjkVGIu7ocs9nI/fI5N9WxZ'',
     ''k6g/s3HXkyvKT+ebIERJm9o0DB7dq7ZUBBUskAy7lvc80EeuJUS8TUhYol0MculY'',
     ''kL0qqSbr1DJCdSASNzOjHQ8c+EjG4oOHIhpNnA2ZV0FaTZfpIiVII8IT5h8Sr5Cp'',
     ''jcijTbzRIiC/5+MaS+TLc2SNOml2y0iI8h65zInBXQIKBMqQ2CC0Lz52FfZI3QnQ'',
     ''Os8YanFT1H7w3AzJ4ZvMNyugHuSUJOnDmjZZ0iGdkTACdet4iqlEKm6igSpryVGu'',
     ''IeLinavXfO803JP67A9MnwIVgUXWOFkDUrA/YC4clz0s+Ep8J2ClcDGQNK0/IA3O'',
     ''K/YPl6iVIyQg'',
     ''-----END CERTIFICATE-----'']"

definition PEPPOL_SMP_TEST_CA_G3_PEM :: string where
  "PEPPOL_SMP_TEST_CA_G3_PEM = pem_text
    [''-----BEGIN CERTIFICATE-----'',
     ''MIIGozCCBIugAwIBAgIUaSBYxFUfRVbdFTXCMpPseAhLQZcwDQYJKoZIhvcNAQEL'',
     ''BQAwYzELMAkGA1UEBhMCQkUxGTAXBgNVBAoTEE9wZW5QRVBQT0wgQUlTQkwxFjAU'',
     ''BgNVBAsTDUZPUiBURVNUIE9OTFkxITAfBgNVBAMTGFBFUFBPTCBSb290IFRFU1Qg'',
     ''Q0EgLSBHMzAeFw0yNTAxMTQxNzU4MzhaFw0zNTAxMTMxNzQ3MzlaMHkxCzAJBgNV'',
     ''BAYTAkJFMRkwFwYDVQQKExBPcGVuUEVQUE9MIEFJU0JMMRYwFAYDVQQLEw1GT1Ig'',
     ''VEVTVCBPTkxZMTcwNQYDVQQDEy5QRVBQT0wgU0VSVklDRSBNRVRBREFUQSBQVUJM'',
     ''SVNIRVIgVEVTVCBDQSAtIEczMIICIjANBgkqhkiG9w0BAQEFAAOCAg8AMIICCgKC'',
     ''AgEAwSXXzEzRb0Qvn+5ByItKGXY4vlsqIT6jFJ3C/u1mRIcJF6zkNsJIJtnyBGWP'',
     ''i5IDEkq5/ytJCyETM3HZNgn58k9v9jQMheQBdSRjXbKfaLAGsqK4ZNnUgOV2l6mq'',
     ''ClLJDnDmrcDsx+eQYQizIM7ah1d4VsneGX+3nD6AyJkyGUsMPFihPMeBZ7S3b/uN'',
     ''R3s/x6KCFafotnUmZ/St/tpOXUed97FZl3al36JZ+BRFCV4MqIDAMq0a5SyvjLHf'',
     ''cLSp7j45FOsKU9qU0DLpRCnF39BltdOHTtPAzz5Js+HFA/6k7qrt+dfSBwJDwXKe'',
     ''rL+gA2kUS9nMQV0tMmiUSfhEqxwfl+ldR0zQyytx3BNPEznjAK+1RWVPAgGQSy77'',
     ''O8EInfzHGjXcp7UbTl2uUnw0iVCkNvbzqR4849r3KFtgMjbHh0AFjBXkUXpvSdKA'',
     ''8dGQH7HVMB6uRWd4wdyVLGzPupMr5Z5DcEc/7YTjBXyGifpuu27T5n2MYL1r9S2N'',
     ''fb2aBjGIZ+m84TYyoTVpaiqslIPzuPovoGY/qSzkmY7Hxmo531Blj5p93qcm25mT'',
     ''TgpUTeAgp1tfM6ZV5hsgjweVBKTCHUlgyIGrcFomBbnFhC7ASL9R8lWQMLiYdNdC'',
     ''S7nFXI7heFRWBFtVhlVcxte2mHJ5TtLzdbAdh58AORLNgEcCAwEAAaOCATcwggEz'',
     ''MBIGA1UdEwEB/wQIMAYBAf8CAQEwHQYDVR0OBBYEFFfYTziXbNVLl0fkHTK/aJsF'',
     ''pEhrMB8GA1UdIwQYMBaAFG5UjeQSLrv+IGjMP1e4UAVuXnzEMA4GA1UdDwEB/wQE'',
     ''AwIBhjCBgwYIKwYBBQUHAQEEdzB1MCsGCCsGAQUFBzABhh9odHRwOi8vb2NzcC5v'',
     ''bmUubmwuZGlnaWNlcnQuY29tMEYGCCsGAQUFBzAChjpodHRwOi8vY2FjZXJ0cy5v'',
     ''bmUubmwuZGlnaWNlcnQuY29tL1BFUFBPTFJvb3RURVNUQ0EtRzMuY3J0MEcGA1Ud'',
     ''HwRAMD4wPKA6oDiGNmh0dHA6Ly9jcmwub25lLm5sLmRpZ2ljZXJ0LmNvbS9QRVBQ'',
     ''T0xSb290VEVTVENBLUczLmNybDANBgkqhkiG9w0BAQsFAAOCAgEAE+qJqwbEUaYX'',
     ''MSWbJRZOEEXB8yAmQjk3zWICIqO+8t/aT7ZyF4s1Ht7seNFs73vPgCpWfq0+u9Cu'',
     ''yPMfWckssW7BasKGgK6u6YJbQopTamA9tlnB/+QsTanqh0gsodjZbFvQS5khY/G2'',
     ''gjqLhOsfW/B0T9SCI7p0uLjmh1SycRMb8cF2/2TIqHcw8H/uUAaehm46mMhtlUMi'',
     ''/XbDCIYogF6g2q08yAOeHzSL/KEaRECLjgYWZ104MULGFdwybC6C0+MPsnM9SBcp'',
     ''LwP4/EUkW06uBFGMHsa6dMbuTUI6QaHBBIEs7DEs0saNzBStW2tPs2Qj4I6IUlTe'',
     ''aRJCaCMGK9SoPDEUpVJ6R/L7K2ZbTVkFT5N8vIIzhuutKSTQ7c9FOn1WMJN2WzPu'',
     ''pViaWBFii9vl9U5GEDTmbTGKasttTht5ob9DBC2Ji2Qv7KFyfZd1uAhB+amLieUW'',
     ''ZRnrGuiMP5uIWaxCgFy4Xef3z+5BMNQlXBC6O2tt7dzhcrGx9cg4YP5VlJIeQ7ee'',
     ''HxqeyIbASYBCClwdYUvzN0bxoHyXL/ZvPQPV+wGyTGALpwHGTRf21ixq2Ny6XZyP'',
     ''79XtVdEnmQJJRm15UHc0QbRTyTjJx/udFw/H5HB7+u1sHKb6abIVKLCuAqaU/xYb'',
     ''4mOAGMLUomVPSjyE3/77Rh0fMKjZol0='',
     ''-----END CERTIFICATE-----'']"

definition PEPPOL_ROOT_CA_G3 :: "(string \<Rightarrow> certificate) \<Rightarrow> certificate" where
  "PEPPOL_ROOT_CA_G3 load_pem = load_pem PEPPOL_ROOT_CA_G3_PEM"

definition PEPPOL_AP_CA_G3 :: "(string \<Rightarrow> certificate) \<Rightarrow> certificate" where
  "PEPPOL_AP_CA_G3 load_pem = load_pem PEPPOL_AP_CA_G3_PEM"

definition PEPPOL_SMP_CA_G3 :: "(string \<Rightarrow> certificate) \<Rightarrow> certificate" where
  "PEPPOL_SMP_CA_G3 load_pem = load_pem PEPPOL_SMP_CA_G3_PEM"

definition PEPPOL_ROOT_TEST_CA_G3 :: "(string \<Rightarrow> certificate) \<Rightarrow> certificate" where
  "PEPPOL_ROOT_TEST_CA_G3 load_pem = load_pem PEPPOL_ROOT_TEST_CA_G3_PEM"

definition PEPPOL_AP_TEST_CA_G3 :: "(string \<Rightarrow> certificate) \<Rightarrow> certificate" where
  "PEPPOL_AP_TEST_CA_G3 load_pem = load_pem PEPPOL_AP_TEST_CA_G3_PEM"

definition PEPPOL_SMP_TEST_CA_G3 :: "(string \<Rightarrow> certificate) \<Rightarrow> certificate" where
  "PEPPOL_SMP_TEST_CA_G3 load_pem = load_pem PEPPOL_SMP_TEST_CA_G3_PEM"

section \<open>The policies\<close>

definition PEPPOL_PROD_SECURITY_POLICY ::
  "(string \<Rightarrow> certificate) \<Rightarrow> x509_lib \<Rightarrow> datetime \<Rightarrow> exn + security_policy" where
  "PEPPOL_PROD_SECURITY_POLICY load_pem x509 now =
     peppol_security_policy x509 now [PEPPOL_ROOT_CA_G3 load_pem] [PEPPOL_AP_CA_G3 load_pem] None"

definition PEPPOL_TEST_SECURITY_POLICY ::
  "(string \<Rightarrow> certificate) \<Rightarrow> x509_lib \<Rightarrow> datetime \<Rightarrow> exn + security_policy" where
  "PEPPOL_TEST_SECURITY_POLICY load_pem x509 now =
     peppol_security_policy x509 now [PEPPOL_ROOT_TEST_CA_G3 load_pem] [PEPPOL_AP_TEST_CA_G3 load_pem] None"

section \<open>Who signs in production\<close>

text \<open>With one anchor and one intermediate there are two shapes of a chain.\<close>

lemma one_intermediate:
  assumes "anchored_path lib c [root] [intermediate] path"
  shows "path = [c, root] \<and> issues lib c root \<or>
    path = [c, intermediate, root] \<and> issues lib c intermediate \<and> issues lib intermediate root"
proof -
  from assms obtain front where path: "path = front @ [root]" and part: "partial_path lib c [intermediate] front"
    and issued: "issues lib (last front) root"
    by (auto simp: anchored_path_def)
  from part obtain rest where front: "front = c # rest" and rest: "distinct rest" "set rest \<subseteq> {intermediate}"
    by (cases front) (auto simp: partial_path_def)
  from rest have "rest = [] \<or> rest = [intermediate]"
    by (cases rest; cases "tl rest") auto
  with path front part issued show ?thesis by (auto simp: partial_path_def)
qed

lemma chain_of_one_intermediate:
  assumes "chain_trust x509 now [root] [intermediate] revoked d pf c"
  shows "\<exists>path. path \<in> {[c, root], [c, intermediate, root]} \<and> successively (issues x509) path \<and>
    (\<forall>x\<in>set path. not_valid_before x509 x \<le> now \<and> now \<le> not_valid_after x509 x)"
proof -
  from assms obtain path where "anchored_path x509 c [root] [intermediate] path"
    "\<forall>x\<in>set path. not_valid_before x509 x \<le> now \<and> now \<le> not_valid_after x509 x"
    by (auto simp: chain_trust_def)
  with one_intermediate show ?thesis by (intro exI [of _ path]) fastforce
qed

text \<open>The texts of the production and of the test certificates differ in their second lines.\<close>

lemma pem_text_neq: "length l = length l' \<Longrightarrow> l \<noteq> l' \<Longrightarrow> pem_text (x # l # ls) \<noteq> pem_text (x # l' # ls')"
  by (simp add: pem_text_def)

lemma root_pems_differ: "PEPPOL_ROOT_CA_G3_PEM \<noteq> PEPPOL_ROOT_TEST_CA_G3_PEM"
  unfolding PEPPOL_ROOT_CA_G3_PEM_def PEPPOL_ROOT_TEST_CA_G3_PEM_def by (rule pem_text_neq) simp_all

lemma root_and_ap_pems_differ: "PEPPOL_ROOT_CA_G3_PEM \<noteq> PEPPOL_AP_TEST_CA_G3_PEM"
  unfolding PEPPOL_ROOT_CA_G3_PEM_def PEPPOL_AP_TEST_CA_G3_PEM_def by (rule pem_text_neq) simp_all

lemma ap_and_root_pems_differ: "PEPPOL_AP_CA_G3_PEM \<noteq> PEPPOL_ROOT_TEST_CA_G3_PEM"
  unfolding PEPPOL_AP_CA_G3_PEM_def PEPPOL_ROOT_TEST_CA_G3_PEM_def by (rule pem_text_neq) simp_all

lemma ap_pems_differ: "PEPPOL_AP_CA_G3_PEM \<noteq> PEPPOL_AP_TEST_CA_G3_PEM"
  unfolding PEPPOL_AP_CA_G3_PEM_def PEPPOL_AP_TEST_CA_G3_PEM_def by (rule pem_text_neq) simp_all

lemmas pems_differ = root_pems_differ root_and_ap_pems_differ ap_and_root_pems_differ ap_pems_differ

text \<open>
  C12.  In production a Peppol message is signed by a certificate that the Peppol root or the Peppol
  access point CA issued, all certificates of the chain being valid now, and that names the party in
  eb:From.  No issuer in the chain is a certificate of the test PKI; of the signer's own certificate the
  statement says only that one of the two production certificates issued it.
\<close>

theorem production_signer_has_production_chain:
  assumes "PEPPOL_PROD_SECURITY_POLICY load_pem x509 now = Inr (ctx_security_policy ctx)"
    and "parse_peppol lib ctx soap attachments = Inr m" and "m_signer_certificate m = Some c"
    and "inj_on load_pem {PEPPOL_ROOT_CA_G3_PEM, PEPPOL_AP_CA_G3_PEM, PEPPOL_ROOT_TEST_CA_G3_PEM, PEPPOL_AP_TEST_CA_G3_PEM}"
  shows "\<exists>env um chain. m_soap_envelope m = Some env \<and> user_message_of env = Inr (Some um) \<and>
    pid_value (pf_party_id (pi_party_from (um_party_info um))) \<in> set (common_names x509 c) \<and>
    chain \<in> {[c, PEPPOL_ROOT_CA_G3 load_pem], [c, PEPPOL_AP_CA_G3 load_pem, PEPPOL_ROOT_CA_G3 load_pem]} \<and>
    successively (issues x509) chain \<and>
    (\<forall>x\<in>set chain. not_valid_before x509 x \<le> now \<and> now \<le> not_valid_after x509 x) \<and>
    set (tl chain) \<inter> {PEPPOL_ROOT_TEST_CA_G3 load_pem, PEPPOL_AP_TEST_CA_G3 load_pem} = {}"
proof -
  from peppol_signer_chains [OF assms(1) [unfolded PEPPOL_PROD_SECURITY_POLICY_def] assms(2,3)] obtain env um
    where um: "m_soap_envelope m = Some env" "user_message_of env = Inr (Some um)"
      "pid_value (pf_party_id (pi_party_from (um_party_info um))) \<in> set (common_names x509 c)"
    and trust: "chain_trust x509 now [PEPPOL_ROOT_CA_G3 load_pem] [PEPPOL_AP_CA_G3 load_pem] None 3
      (pi_party_from (um_party_info um)) c" by blast
  have apart: "{PEPPOL_ROOT_CA_G3 load_pem, PEPPOL_AP_CA_G3 load_pem} \<inter>
      {PEPPOL_ROOT_TEST_CA_G3 load_pem, PEPPOL_AP_TEST_CA_G3 load_pem} = {}"
    using assms(4) pems_differ
    by (auto simp: inj_on_def PEPPOL_ROOT_CA_G3_def PEPPOL_AP_CA_G3_def PEPPOL_ROOT_TEST_CA_G3_def
        PEPPOL_AP_TEST_CA_G3_def)
  from chain_of_one_intermediate [OF trust] obtain chain where chain:
    "chain \<in> {[c, PEPPOL_ROOT_CA_G3 load_pem], [c, PEPPOL_AP_CA_G3 load_pem, PEPPOL_ROOT_CA_G3 load_pem]}"
    "successively (issues x509) chain"
    "\<forall>x\<in>set chain. not_valid_before x509 x \<le> now \<and> now \<le> not_valid_after x509 x" by blast
  from chain(1) have "set (tl chain) \<subseteq> {PEPPOL_ROOT_CA_G3 load_pem, PEPPOL_AP_CA_G3 load_pem}" by auto
  with um chain apart show ?thesis by (intro exI [of _ env] exI [of _ um] exI [of _ chain]) blast
qed

end
