(* ===== verification/Witnesses.thy ===== *)
theory Witnesses
  imports BuiltExamples Refusals PeppolPki
begin

text \<open>
  The properties with hypotheses, applied at a concrete input where the hypotheses hold: the exchange of
  \<^theory_text>\<open>Examples\<close>.
\<close>

section \<open>Receiving\<close>

theorem accepted_message_is_authentic_witness:
  "\<exists>e env um s c decrypted.
    parse_xml eg_lib [2] = Inr e \<and> envelope_of eg_lib e = Inr env \<and> m_soap_envelope eg_message = Some env \<and>
    user_message_of env = Inr (Some um) \<and> m_signer_certificate eg_message = Some c \<and>
    distinct (map fst (id_attributes e)) \<and>
    verified_signature eg_lib (ctx_security_policy eg_ctx) (hdr_security (env_header env)) um (id_attributes e) s c \<and>
    get_decrypted_data eg_lib eg_ctx (hdr_security (env_header env)) eg_attachments = Inr decrypted \<and>
    (\<forall>r\<in>set (si_references (sig_signed_info s)). names_attachment r \<longrightarrow> attachment_signed eg_lib decrypted r)"
  by (rule accepted_message_is_authentic [OF eg_parsed eg_parsed_fields(1) eg_policy_asks(1,2)])

text \<open>A message that declares its one attachment twice, and a library in which each inflation shows.\<close>

definition eg_twice_um :: user_message where
  "eg_twice_um = eg_um\<lparr>um_payload_info := map_option (\<lambda>pl. pl\<lparr>pl_part_info := [eg_part, eg_part]\<rparr>) (um_payload_info eg_um)\<rparr>"

definition eg_twice_env :: envelope where
  "eg_twice_env = eg_env\<lparr>env_header := \<lparr>etree_element = None, hdr_security = eg_security,
     hdr_messaging = get_user_messaging eg_references eg_twice_um\<rparr>\<rparr>"

definition eg_twice_lib :: peppol_lib where
  "eg_twice_lib = (eg_lib_for eg_soap eg_wrapped (Inr eg_twice_env) eg_sbd)\<lparr>gzip_read := (\<lambda>d n. Inr (1 # d))\<rparr>"

definition eg_twice_message :: message where
  "eg_twice_message = projr (parse_message eg_twice_lib eg_ctx [2] eg_attachments)"

lemma eg_twice_outcome:
  "case parse_message eg_twice_lib eg_ctx [2] eg_attachments of
     Inl _ \<Rightarrow> False
   | Inr m \<Rightarrow> parse_successful m \<and> m_soap_envelope m = Some eg_twice_env \<and> m_decrypted_data m = [(''a'', [1, 1, 5])]"
  by code_simp

lemma eg_twice_parsed:
  "parse_message eg_twice_lib eg_ctx [2] eg_attachments = Inr eg_twice_message"
  "parse_successful eg_twice_message" "m_soap_envelope eg_twice_message = Some eg_twice_env"
  "m_decrypted_data eg_twice_message = [(''a'', [1, 1, 5])]"
  using eg_twice_outcome by (auto simp: eg_twice_message_def split: sum.split_asm)

lemma eg_twice_parts:
  "user_message_of eg_twice_env = Inr (Some eg_twice_um)"
  "um_payload_info eg_twice_um = Some (eg_payload_info\<lparr>pl_part_info := [eg_part, eg_part]\<rparr>)"
  by (simp_all add: eg_twice_env_def eg_env_def user_message_of_def get_user_message_def get_user_messaging_def only_one_def
      eg_twice_um_def eg_parts)

lemma eg_twice_declared: "eg_part \<in> set (declared_parts [eg_part, eg_part])"
proof -
  have "eg_part \<in> set (declared_parts (pl_part_info eg_payload_info))" by (rule eg_declared)
  then show ?thesis by (simp add: declared_parts_def)
qed

theorem accepted_payload_is_signed_witness:
  "\<exists>s r decrypted content.
    sec_signature (hdr_security (env_header eg_twice_env)) = Some s \<and> r \<in> set (si_references (sig_signed_info s)) \<and>
    reference_uri r = or_empty (part_href eg_part) \<and>
    get_decrypted_data eg_twice_lib eg_ctx (hdr_security (env_header eg_twice_env)) eg_attachments = Inr decrypted \<and>
    dict_get decrypted ''a'' = Some content \<and> digest_matches_bytes eg_twice_lib r content = Inr True \<and>
    inflations eg_twice_lib (maximum_decompressed_size (ctx_security_policy eg_ctx))
      (parts_named ''a'' [eg_part, eg_part]) content = Inr [1, 1, 5] \<and>
    dict_get (m_decrypted_data eg_twice_message) ''a'' = Some [1, 1, 5]"
  using accepted_payload_is_signed [OF eg_twice_parsed(1,2) eg_policy_asks(1-3) eg_twice_parsed(3) eg_twice_parts(1,2),
      of eg_part] eg_twice_declared
  by (simp add: eg_parts(3) eg_twice_parsed(4))

theorem signer_only_after_verification_witness:
  "\<exists>e env um s. parse_xml eg_lib [2] = Inr e \<and> envelope_of eg_lib e = Inr env \<and>
    m_soap_envelope eg_message = Some env \<and> user_message_of env = Inr (Some um) \<and>
    verified_signature eg_lib (ctx_security_policy eg_ctx) (hdr_security (env_header env)) um (id_attributes e) s eg_cert \<and>
    get_remote_party eg_message = Inr \<lparr>xp_identity = identity_of_from (pi_party_from (um_party_info um)),
      xp_credentials = \<lparr>certificate_of = eg_cert\<rparr>\<rparr>"
  by (rule signer_only_after_verification [OF eg_parsed eg_parsed_fields(3)])

theorem no_unauthenticated_plaintext_witness:
  "m_decrypted_data eg_message = [(''a'', [1])] \<and> m_signer_certificate eg_message \<noteq> None \<and>
    fst ` set (m_decrypted_data eg_message) \<subseteq> fst ` set eg_attachments"
  using no_unauthenticated_plaintext [OF eg_parsed eg_policy_asks(1)] eg_parsed_fields(3,4) by simp

theorem header_messaging_is_signed_witness:
  "\<exists>t env s r. find_first eg_soap MESSAGING_PATH = Some t \<and> m_soap_envelope eg_message = Some env \<and>
    sec_signature (hdr_security (env_header env)) = Some s \<and> r \<in> set (si_references (sig_signed_info s)) \<and>
    names_element (id_attributes eg_soap) r t \<and> digest_matches eg_lib r t = Inr True"
proof (rule header_messaging_is_signed [OF eg_parsed eg_parsed_fields(1) eg_policy_asks(1,2,4)])
  show "parse_xml eg_lib [2] = Inr eg_soap" by (simp add: eg_lib_def eg_lib_for_def parse_xml_def)
  show "\<forall>t\<in>set (iter eg_soap). \<forall>t'\<in>set (iter eg_soap). tag t = Clark (clark ns_eb3 ''Messaging'') \<longrightarrow>
      tag t' = Clark (clark ns_eb3 ''Messaging'') \<longrightarrow> t = t'"
    by code_simp
qed

definition eg_bad_lib :: peppol_lib where
  "eg_bad_lib = eg_lib\<lparr>load_der_x509 := (\<lambda>_. Inl (InvalidVersion ''3''))\<rparr>"

definition eg_open_resolver :: signer_resolver where
  "eg_open_resolver party_from embedded = (case embedded of None \<Rightarrow> Inl no_certificate | Some c \<Rightarrow> Inr c)"

definition eg_open_ctx :: parse_context where
  "eg_open_ctx = eg_ctx\<lparr>ctx_security_policy := eg_policy\<lparr>policy_signer_resolver := eg_open_resolver\<rparr>\<rparr>"

lemma eg_documented:
  "documented_lib eg_bad_lib" "documented_lib eg_lib" "documented_key eg_key"
  by (simp_all add: documented_lib_def documented_cipher_def documented_certificates_def documented_key_def
      eg_bad_lib_def eg_lib_def eg_lib_for_def reports_validation_def eg_key_def)

theorem parse_lets_out_only_malformed_signatures_witness:
  "\<exists>e env s. parse_xml eg_bad_lib [2] = Inr e \<and> envelope_of eg_bad_lib e = Inr env \<and>
    sec_signature (hdr_security (env_header env)) = Some s \<and>
    malformed_signature eg_bad_lib (ctx_security_policy eg_open_ctx) env s (InvalidVersion ''3'')"
proof (rule parse_lets_out_only_malformed_signatures [OF eg_documented(1)])
  show "documented_key (private_key_of (ip_credentials (ctx_local_party eg_open_ctx)))"
    by (simp add: eg_open_ctx_def eg_ctx_def eg_receiver_def create_peppol_internal_party_def eg_documented)
  show "refusing_resolver (policy_signer_resolver (ctx_security_policy eg_open_ctx))"
    by (auto simp: eg_open_ctx_def eg_open_resolver_def refusing_resolver_def no_certificate_def split: option.splits)
  show "parse_message eg_bad_lib eg_open_ctx [2] eg_attachments = Inl (InvalidVersion ''3'')"
    by code_simp
qed

theorem parse_keeps_the_message_ids_witness:
  "(m_message_id eg_message, m_messaging_id eg_message) =
    (case andThen (parse_xml eg_lib [2]) pre_validate of Inl _ \<Rightarrow> ('''', '''') | Inr ids \<Rightarrow> ids)"
  by (rule parse_keeps_the_message_ids [OF eg_parsed])

theorem accepted_parts_within_cap_witness:
  "int (length [1 :: 8 word, 1, 5]) \<le> maximum_decompressed_size (ctx_security_policy eg_ctx)"
  by (rule accepted_parts_within_cap [OF eg_twice_parsed(1-3) eg_twice_parts(1,2) _ eg_parts(4)])
     (use eg_twice_declared in \<open>simp_all add: eg_parts(3) eg_twice_parsed(4)\<close>)

text \<open>Two receivers of a message with two encrypted attachments, of which the second does not arrive.\<close>

definition eg_two_references :: as4_references where
  "eg_two_references = eg_references\<lparr>refs_attachment_id_encrypted_data_id_map := [(''a'', ''d''), (''b'', ''e'')]\<rparr>"

definition eg_two_security :: security where
  "eg_two_security = eg_security
     \<lparr>sec_encrypted_key := Some (get_encrypted_key eg_two_references [1, 3]),
      sec_encrypted_data := Some (get_encrypted_data_models eg_two_references)\<rparr>"

definition eg_strict_lib :: peppol_lib where
  "eg_strict_lib = eg_lib\<lparr>aesgcm_decrypt := (\<lambda>k n d. if k = [3] then Inr d else Inl InvalidTag)\<rparr>"

definition eg_other_lib :: peppol_lib where
  "eg_other_lib = eg_lib\<lparr>aesgcm_decrypt := (\<lambda>k n d. Inr (k @ d))\<rparr>"

definition eg_other_key :: private_key where
  "eg_other_key = \<lparr>key_sign = (\<lambda>d p h. Inr [0]), key_decrypt = (\<lambda>c p. Inr [7])\<rparr>"

definition eg_other_ctx :: parse_context where
  "eg_other_ctx = eg_ctx\<lparr>ctx_local_party := create_peppol_internal_party ''POP3'' (Certificate [3]) eg_other_key\<rparr>"

lemma eg_two_opened:
  "get_decrypted_data eg_strict_lib eg_ctx eg_two_security (eg_attachments @ [(''b'', replicate 12 0)]) =
    Inr [(''a'', [5]), (''b'', [])]"
  "get_decrypted_data eg_other_lib eg_other_ctx eg_two_security (eg_attachments @ [(''b'', replicate 12 0)]) =
    Inr [(''a'', [7, 5]), (''b'', [7])]"
  by code_simp+

theorem decryption_is_no_oracle_witness:
  "get_decrypted_data eg_strict_lib eg_ctx eg_two_security eg_attachments =
     Inl (Receiptable (encrypted_attachment_not_found ''b'')) \<and>
   get_decrypted_data eg_other_lib eg_other_ctx eg_two_security eg_attachments =
     Inl (Receiptable (encrypted_attachment_not_found ''b'')) \<and>
   get_decrypted_data eg_strict_lib eg_ctx eg_two_security (eg_attachments @ [(''b'', replicate 12 0)]) =
     Inr [(''a'', [5]), (''b'', [])] \<and>
   get_decrypted_data eg_other_lib eg_other_ctx eg_two_security (eg_attachments @ [(''b'', replicate 12 0)]) =
     Inr [(''a'', [7, 5]), (''b'', [7])]"
proof -
  have cipher: "documented_cipher eg_strict_lib" by (simp add: documented_cipher_def eg_strict_lib_def)
  have key: "documented_key (private_key_of (ip_credentials (ctx_local_party eg_ctx)))"
    by (simp add: documented_key_def eg_ctx_def eg_receiver_def create_peppol_internal_party_def eg_key_def)
  have fails: "get_decrypted_data eg_strict_lib eg_ctx eg_two_security eg_attachments =
      Inl (Receiptable (encrypted_attachment_not_found ''b''))" by code_simp
  have other: "Receiptable (encrypted_attachment_not_found ''b'') \<noteq> receiptable_exn DecryptionFailedException"
    by (simp add: receiptable_exn_def make_error_def encrypted_attachment_not_found_def Let_def)
  have "decrypts_all eg_other_lib" by (simp add: decrypts_all_def eg_other_lib_def)
  moreover have "opens_all (private_key_of (ip_credentials (ctx_local_party eg_other_ctx)))"
    by (simp add: opens_all_def eg_other_ctx_def create_peppol_internal_party_def eg_other_key_def)
  moreover have "encrypt_required (ctx_security_policy eg_other_ctx) = encrypt_required (ctx_security_policy eg_ctx)"
    by (simp add: eg_other_ctx_def)
  ultimately show ?thesis
    using decryption_is_no_oracle [OF cipher key fails other] fails eg_two_opened by blast
qed

section \<open>The Peppol profile\<close>

theorem accepted_peppol_message_witness:
  "\<exists>env um h. m_soap_envelope eg_received = Some env \<and> user_message_of env = Inr (Some um) \<and>
    peppol_party_types um \<and> read_sbdh eg_lib eg_received = Inr h \<and>
    p_sender eg_received = Some (sbdh_identifier_value (header_sender h)) \<and>
    p_recipient eg_received = Some (sbdh_identifier_value (header_recipient h)) \<and>
    (verify_participants (ctx_security_policy eg_ctx) \<longrightarrow>
       property_names (um_message_properties um) ORIGINAL_SENDER (header_sender h) \<and>
       property_names (um_message_properties um) FINAL_RECIPIENT (header_recipient h)) \<and>
    (\<forall>f. ctx_accept_participant eg_ctx = Some f \<longrightarrow> f (sbdh_identifier_value (header_recipient h)) = Inr ()) \<and>
    scopes_stored h eg_received"
  by (rule accepted_peppol_message [OF eg_peppol_parsed eg_peppol_fields(1)])

theorem routing_header_is_signed_witness:
  "\<exists>s r decrypted content payload c. sec_signature (hdr_security (env_header eg_env)) = Some s \<and>
    m_signer_certificate eg_received = Some c \<and> signature_verify eg_lib s c = Inr () \<and>
    r \<in> set (si_references (sig_signed_info s)) \<and> reference_uri r = or_empty (part_href eg_part) \<and>
    get_decrypted_data eg_lib eg_ctx (hdr_security (env_header eg_env)) eg_attachments = Inr decrypted \<and>
    dict_get decrypted (part_identifier eg_part) = Some content \<and> digest_matches_bytes eg_lib r content = Inr True \<and>
    inflations eg_lib (maximum_decompressed_size (ctx_security_policy eg_ctx))
      (parts_named (part_identifier eg_part) (pl_part_info eg_payload_info)) content = Inr payload \<and>
    first_payload eg_received = Some payload"
  by (rule routing_header_is_signed [OF eg_peppol_parsed eg_peppol_fields(1) eg_policy_asks(1-3) eg_peppol_fields(2)
        eg_user_message eg_parts(1) eg_declared])
     (simp add: eg_peppol_fields eg_attachments_def eg_parts)

theorem peppol_signer_is_trusted_witness:
  "\<exists>env um. m_soap_envelope eg_received = Some env \<and> user_message_of env = Inr (Some um) \<and>
    chain_trust eg_x509 0 [Certificate [9]] [] None 3 (pi_party_from (um_party_info um)) eg_cert \<and>
    pid_value (pf_party_id (pi_party_from (um_party_info um))) \<in> set (common_names eg_x509 eg_cert)"
  by (rule peppol_signer_is_trusted [where ctx = eg_ctx, OF _ eg_peppol_parsed eg_peppol_fields(3)])
     (simp add: eg_ctx_def eg_policy_def peppol_security_policy_def certificate_chain_def)

definition eg_refusing_ctx :: parse_context where
  "eg_refusing_ctx = eg_ctx\<lparr>ctx_accept_participant := Some (\<lambda>r. Inl (ParticipantNotServicedError r))\<rparr>"

theorem unserviced_recipient_witness:
  "\<exists>m' err. process_sbdh eg_lib eg_refusing_ctx eg_received = (Inl (Receiptable err), m') \<and>
    error_code err = Some ''EBMS:0004'' \<and> detail err = ''PEPPOL:NOT_SERVICED'' \<and>
    p_recipient m' = Some ''0192:2''"
proof -
  have accept: "ctx_accept_participant eg_refusing_ctx = Some (\<lambda>r. Inl (ParticipantNotServicedError r))"
    and policy: "ctx_security_policy eg_refusing_ctx = ctx_security_policy eg_ctx"
    by (simp_all add: eg_refusing_ctx_def)
  have checks: "verify_party_identifiers (m_soap_envelope eg_received) = Inr ()"
    "read_sbdh eg_lib eg_received = Inr eg_header"
    "\<not> verify_participants (ctx_security_policy eg_refusing_ctx) \<or>
      (\<exists>ps. message_properties_of eg_received = Inr ps \<and>
        verify_participants_agree ps (header_sender eg_header) (header_recipient eg_header) = Inr ())"
    unfolding policy using eg_peppol_checks by auto
  show ?thesis
    using unserviced_recipient [OF checks accept refl] by (simp add: eg_header_names)
qed


section \<open>Signals\<close>

theorem receipt_parse_iff_witness: "receipt_parse eg_signal_lib [2] (Certificate [2]) = Inr eg_ack"
proof (rule iffD2 [OF receipt_parse_iff], intro exI conjI)
  show "parse_xml eg_signal_lib [2] = Inr eg_soap" "envelope_of eg_signal_lib eg_soap = Inr eg_signal_env"
    by (simp_all add: eg_signal_lib_def eg_lib_for_def parse_xml_def envelope_of_def)
  show "get_signal_message (hdr_messaging (env_header eg_signal_env)) = Inr (Some eg_signal)"
    by (simp add: eg_signal_env_def get_messaging_def get_signal_message_def only_one_def)
  show "eg_ack = \<lparr>r_soap_envelope = Some eg_signal_env, r_original_message_id = original_message_id_of (Some eg_signal),
      r_references = None, r_profile_name = None\<rparr>"
    by code_simp
  show "receipt_error eg_ack = Inr None \<longrightarrow> or_empty (r_original_message_id eg_ack) \<noteq> ''''"
    by (simp add: eg_ack_def)
  show "signed_signal eg_signal_lib eg_signal_env eg_soap (Certificate [2])"
    using eg_signal_parsed [unfolded receipt_parse_eq_Inr]
    by (auto simp: eg_signal_lib_def eg_lib_for_def parse_xml_def envelope_of_def)
qed

theorem receipt_for_message_acknowledges_witness:
  "\<exists>r :: receipt. non_repudiated_references r = Inr (signed_references eg_message) \<and>
    verify_non_repudiation r (signed_references eg_message) None = Inr ()"
  by (rule bg_receipt_built, rule exI, rule receipt_for_message_acknowledges [OF _ eg_parsed_fields(1)])

theorem error_signal_for_message_witness:
  "\<exists>(r :: receipt) element. receipt_error r = Inr (Some element) \<and> receipt_success r = Inr False \<and>
    err_error_code element = ''EBMS:0103''"
proof -
  from bg_error_built obtain r where r: "for_message eg_lib eg_dt 0 bg_rejected eg_receiver eg_references = Inr r"
    by (auto simp: returns_iff)
  have "m_parse_error bg_rejected = Some (make_error SignatureRequiredException '''')" by (simp add: bg_rejected_def)
  from error_signal_for_message [OF r this] obtain element where
    "receipt_error r = Inr (Some element)" "receipt_success r = Inr False"
    "Some (err_error_code element) = error_code (make_error SignatureRequiredException '''')" by blast
  moreover have "error_code (make_error SignatureRequiredException '''') = Some ''EBMS:0103''" by code_simp
  ultimately show ?thesis by auto
qed

theorem built_signal_verifies_witness:
  "\<exists>(r :: receipt) e. verify_receipt_signature eg_lib r e (certificate_of (ip_credentials eg_receiver)) = Inr ()"
proof (rule bg_receipt_built)
  fix r env e
  assume built: "for_message eg_lib eg_dt 0 eg_message eg_receiver eg_references = Inr r"
    "r_soap_envelope r = Some env" "dump_to_xml eg_dt (clark ns_S12 ''Envelope'') (envelope_model env) = Inr e"
    "distinct (map fst (id_attributes e))"
  then have "\<exists>signal. signal_envelope eg_lib eg_dt eg_receiver eg_references signal = Inr env"
    using eg_parsed_fields(1)
    by (auto simp: for_message_def parse_successful_def create_non_repudiation_receipt_def
        get_success_soap_envelope_def result_simps)
  then obtain signal where "signal_envelope eg_lib eg_dt eg_receiver eg_references signal = Inr env" by blast
  moreover have "refs_messaging_id eg_references \<noteq> ''''" "refs_body_id eg_references \<noteq> ''''"
    by (simp_all add: eg_references_def)
  ultimately show ?thesis
    using built_signal_verifies [OF bg_signing_key _ built(3,4) _ _ built(2)] by blast
qed

section \<open>Exchanges\<close>

theorem sending_verdict_is_proven_witness: "ex_state eg_end = ACKNOWLEDGED \<and> verdict_is_proven eg_end"
  using sending_verdict_is_proven [OF eg_end_reached] by (simp add: eg_end_def)

definition eg_receiving :: peppol_receiving_exchange where
  "eg_receiving = new_receiving_exchange (peppol_profile (eg_environment\<lparr>env_lib := eg_lib\<rparr>)) eg_receiver eg_references 0 None"

theorem receiving_signal_is_for_message_witness:
  "\<exists>x r. receive_message eg_received eg_receiving = (Inr (), x) \<and> signal_is_for_message x \<and>
    ex_message x = Some eg_received \<and> ex_receipt x = Some r \<and> ex_state x = RECEIVED \<and>
    for_message eg_lib eg_dt 0 eg_received eg_receiver eg_references = Inr r"
proof -
  have "(m_message_id eg_received, m_messaging_id eg_received) = (m_message_id eg_message, m_messaging_id eg_message)"
    unfolding peppol.ids_are_kept [OF eg_peppol_parsed [unfolded parse_peppol_def]]
      core.ids_are_kept [OF eg_parsed [unfolded parse_message_def]] ..
  moreover have "m_parse_error eg_received = None" "m_parse_error eg_message = None"
    using eg_peppol_fields(1) eg_parsed_fields(1) by (simp_all add: parse_successful_def)
  moreover have "signature_references eg_received = signature_references eg_message"
    by (simp add: signature_references_def eg_peppol_fields eg_parsed_fields)
  ultimately have "for_message eg_lib eg_dt 0 eg_received eg_receiver eg_references =
      for_message eg_lib eg_dt 0 eg_message eg_receiver eg_references"
    by (simp add: for_message_def)
  then obtain r where r: "for_message eg_lib eg_dt 0 eg_received eg_receiver eg_references = Inr r"
    by (metis bg_receipt_built)
  have fields: "profile_for_message (ex_profile eg_receiving) = for_message eg_lib eg_dt 0"
    "ex_local_party eg_receiving = eg_receiver" "ex_identifiers eg_receiving = eg_references"
    by (simp_all add: eg_receiving_def new_receiving_exchange_def peppol_profile_def eg_environment_def)
  have "get_remote_party eg_received = Inr \<lparr>xp_identity = identity_of_from (pi_party_from (um_party_info eg_um)),
      xp_credentials = \<lparr>certificate_of = eg_cert\<rparr>\<rparr>"
    by (simp add: get_remote_party_def eg_peppol_fields eg_user_message)
  then obtain x where x: "receive_message eg_received eg_receiving = (Inr (), x)" "ex_message x = Some eg_received"
    "ex_receipt x = Some r" "ex_state x = RECEIVED"
    using eg_peppol_fields(1) r by (simp add: receive_message_unfold known_remote_party_def fields)
  from receiving_signal_is_for_message [OF rreach_step [OF rreach_start step_message [OF x(1) [unfolded eg_receiving_def]]]]
  show ?thesis using x r by blast
qed

theorem peppol_acknowledgement_is_proof_witness:
  "\<exists>r. ex_receipt eg_end = Some r \<and>
    receipt_signed_by (env_lib eg_environment) (certificate_of (xp_credentials eg_remote)) r \<and>
    r_original_message_id r = Some (ex_message_id eg_end) \<and>
    set (acknowledged_references r) = set (ex_signed_references eg_end)"
  by (rule peppol_acknowledgement_is_proof [OF eg_end_reached]) (simp add: sending_successful_def eg_end_def)

section \<open>Document identifiers\<close>

theorem identifier_value_of_parsed_witness:
  "\<exists>d. from_identifier_value ''i::Invoice##c::2.1'' = Inr d \<and> identifier_value d = ''i::Invoice##c::2.1''"
proof -
  have "returns (from_identifier_value ''i::Invoice##c::2.1'')" by code_simp
  then obtain d where d: "from_identifier_value ''i::Invoice##c::2.1'' = Inr d" by (auto simp: returns_iff)
  moreover have "first_line ''i::Invoice##c::2.1'' = ''i::Invoice##c::2.1''" by code_simp
  ultimately show ?thesis using identifier_value_of_parsed [OF d] by auto
qed

theorem parse_identifier_value_witness:
  "from_identifier_value (identifier_value (pb_document_type_identifier eg_args)) =
    Inr (pb_document_type_identifier eg_args)"
  by (rule parse_identifier_value) code_simp+

section \<open>Sending and receiving\<close>

theorem built_message_is_received_witness:
  "\<exists>m'. process bg_lib eg_ctx bg_soap (m_mime_attachments bg_sent) empty_message = (Inr (), m') \<and>
    m_signer_certificate m' = Some (certificate_of (ip_credentials eg_sender)) \<and>
    m_decrypted_data m' = m_decrypted_data bg_sent"
  by (rule built_message_is_received [OF bg_built_ok [unfolded bg_build_def] bg_usable bg_keys bg_transmitted bg_small])

theorem built_message_is_routed_witness:
  "\<exists>m'. peppol_process bg_lib eg_ctx bg_soap (m_mime_attachments bg_sent) empty_peppol_message = (Inr (), m') \<and>
    m_decrypted_data m' = m_decrypted_data bg_sent \<and>
    m_signer_certificate m' = Some (certificate_of (ip_credentials eg_sender)) \<and>
    p_sender m' = p_sender bg_sent \<and> p_recipient m' = p_recipient bg_sent \<and>
    p_document_type_identifier_value m' = p_document_type_identifier_value bg_sent \<and>
    p_document_type_identifier_scheme m' = p_document_type_identifier_scheme bg_sent \<and>
    p_process_identifier m' = p_process_identifier bg_sent"
  by (rule built_message_is_routed [OF bg_built_ok [unfolded bg_build_def] bg_usable bg_keys bg_transmitted bg_small
        bg_party_types _ bg_header])
     (simp_all add: eg_sbd_built header_reads_def bg_accepted eg_header_def)

section \<open>Trust\<close>

lemma eg_x509_refuses: "refuses_only eg_x509"
  by (simp add: refuses_only_def eg_x509_def is_issue_refusal_def)

lemma eg_path: "anchored_path eg_x509 eg_cert [Certificate [9]] [Certificate [8]] [eg_cert, Certificate [9]]"
proof -
  have "issues eg_x509 eg_cert (Certificate [9])" by (simp add: issues_def eg_x509_def can_issue_certificates_def)
  then show ?thesis by (auto simp: anchored_path_def partial_path_def intro!: exI [of _ "[eg_cert]"])
qed

theorem chain_search_decides_witness:
  "\<exists>path. path_to_anchor eg_x509 eg_cert [Certificate [9]] [] 3 = Inr path \<and>
    anchored_path eg_x509 eg_cert [Certificate [9]] [] path \<and> int (length path) \<le> 3"
proof -
  have "returns (path_to_anchor eg_x509 eg_cert [Certificate [9]] [] 3)" by code_simp
  then show ?thesis
    using chain_search_decides [OF eg_x509_refuses, of eg_cert "[Certificate [9]]" "[]" 3] by auto
qed

theorem chain_is_found_witness:
  "\<exists>found. path_to_anchor eg_x509 eg_cert [Certificate [9]] [Certificate [8]] 3 = Inr found \<and>
    anchored_path eg_x509 eg_cert [Certificate [9]] [Certificate [8]] found \<and> int (length found) \<le> 3"
proof (rule chain_is_found [OF eg_x509_refuses _ eg_path])
  show "one_issuer eg_x509 ([Certificate [9]] @ [Certificate [8]])"
    by (auto simp: one_issuer_def issues_def eg_x509_def)
qed simp

text \<open>A trust store in which the production root is the certificate that issues.\<close>

definition eg_load_pem :: "string \<Rightarrow> certificate" where
  "eg_load_pem pem =
     Certificate (if pem = PEPPOL_ROOT_CA_G3_PEM then [9] else 0 # map (\<lambda>c. of_nat (of_char c)) pem)"

lemma eg_production_policy: "PEPPOL_PROD_SECURITY_POLICY eg_load_pem eg_x509 0 = Inr (ctx_security_policy eg_ctx)"
proof -
  have issuer: "issuer_of eg_x509 c [Certificate [9]] = Inr (Some (Certificate [9]))" for c
    by (simp add: eg_x509_def can_issue_certificates_def)
  have "path_to_anchor eg_x509 c [Certificate [9]] cs 3 = Inr [c, Certificate [9]]" for c cs
    by (simp add: path_to_anchor_def path_loop.simps issuer del: issuer_of.simps)
  then have "chain_resolve eg_x509 0 [Certificate [9]] cs None 3 = chain_resolve eg_x509 0 [Certificate [9]] [] None 3"
    for cs
    by (intro ext) (simp add: chain_resolve_def cong: option.case_cong)
  from this [of "[PEPPOL_AP_CA_G3 eg_load_pem]"] show ?thesis
    by (simp add: PEPPOL_PROD_SECURITY_POLICY_def PEPPOL_ROOT_CA_G3_def eg_load_pem_def eg_ctx_def eg_policy_def
        peppol_security_policy_def certificate_chain_def PEPPOL_CHAIN_DEPTH_def)
qed

lemma eg_load_pem_inj:
  "inj_on eg_load_pem {PEPPOL_ROOT_CA_G3_PEM, PEPPOL_AP_CA_G3_PEM, PEPPOL_ROOT_TEST_CA_G3_PEM, PEPPOL_AP_TEST_CA_G3_PEM}"
proof -
  have "map (\<lambda>c. of_nat (of_char c) :: 8 word) s = map (\<lambda>c. of_nat (of_char c)) t \<longleftrightarrow> s = t" for s t :: string
    by (rule inj_map_eq_map) (auto intro!: injI simp: word_of_nat_eq_iff take_bit_nat_eq_self)
  then show ?thesis by (auto simp: inj_on_def eg_load_pem_def)
qed

theorem production_signer_has_production_chain_witness:
  "\<exists>env um chain. m_soap_envelope eg_received = Some env \<and> user_message_of env = Inr (Some um) \<and>
    pid_value (pf_party_id (pi_party_from (um_party_info um))) \<in> set (common_names eg_x509 eg_cert) \<and>
    chain \<in> {[eg_cert, PEPPOL_ROOT_CA_G3 eg_load_pem],
      [eg_cert, PEPPOL_AP_CA_G3 eg_load_pem, PEPPOL_ROOT_CA_G3 eg_load_pem]} \<and>
    successively (issues eg_x509) chain \<and>
    (\<forall>x\<in>set chain. not_valid_before eg_x509 x \<le> 0 \<and> 0 \<le> not_valid_after eg_x509 x) \<and>
    set (tl chain) \<inter> {PEPPOL_ROOT_TEST_CA_G3 eg_load_pem, PEPPOL_AP_TEST_CA_G3 eg_load_pem} = {}"
  by (rule production_signer_has_production_chain [OF eg_production_policy eg_peppol_parsed eg_peppol_fields(3)
        eg_load_pem_inj])

section \<open>Policies, profiles and delivery\<close>

definition eg_default_ctx :: parse_context where
  "eg_default_ctx = eg_ctx\<lparr>ctx_security_policy := default_security_policy\<rparr>"

definition eg_unsigned_lib :: peppol_lib where
  "eg_unsigned_lib = eg_lib
     \<lparr>validate_envelope := (\<lambda>_. Inr (eg_env\<lparr>env_header := \<lparr>etree_element = None,
        hdr_security = eg_security\<lparr>sec_signature := None\<rparr>, hdr_messaging = get_user_messaging eg_references eg_um\<rparr>\<rparr>))\<rparr>"

theorem default_policy_trusts_nobody_witness:
  "\<exists>m. parse_message eg_unsigned_lib eg_default_ctx [2] eg_attachments = Inr m \<and> \<not> parse_successful m \<and>
    m_signer_certificate m = None \<and> m_decrypted_data m = []"
proof -
  have "returns (parse_message eg_unsigned_lib eg_default_ctx [2] eg_attachments)" by code_simp
  then obtain m where m: "parse_message eg_unsigned_lib eg_default_ctx [2] eg_attachments = Inr m"
    by (auto simp: returns_iff)
  have "ctx_security_policy eg_default_ctx = default_security_policy" by (simp add: eg_default_ctx_def)
  from default_policy_trusts_nobody [OF m this] m show ?thesis by blast
qed

theorem peppol_parse_refines_core_witness:
  "\<exists>m0. parse_message eg_lib eg_ctx [2] eg_attachments = Inr m0 \<and>
    message.truncate eg_received = m0\<lparr>m_parse_error := m_parse_error eg_received\<rparr> \<and>
    (parse_successful m0 \<or> m_parse_error m0 = m_parse_error eg_received)"
  by (rule peppol_parse_refines_core [OF eg_peppol_parsed])

theorem sending_exchange_refines_delivery_witness:
  "rtranclp (delivery_step (receipt_signed_by (env_lib eg_environment)) (certificate_of (xp_credentials eg_remote)) None)
    \<lparr>d_message_id = refs_message_id eg_references, d_signed = {}, d_verdict = Open\<rparr> (delivery_of eg_end) \<and>
    d_verdict (delivery_of eg_end) = Delivered {}"
proof -
  have "acknowledged_references eg_ack = []" by code_simp
  then have "d_verdict (delivery_of eg_end) = Delivered {}"
    by (simp add: delivery_of_def delivery_verdict_def eg_end_def)
  with sending_exchange_refines_delivery [OF eg_end_reached] show ?thesis by simp
qed

definition eg_uuids :: uuid_supply where
  "eg_uuids n = replicate 35 CHR ''0'' @ [char_of (n + 65)]"

theorem fresh_references_are_usable_witness:
  "distinct (element_ids (snd (encrypted_data_attachment_mapping (\<lambda>n. eg_uuids (n + 10)) (default_references eg_uuids)))) \<and>
   '''' \<notin> set (element_ids (snd (encrypted_data_attachment_mapping (\<lambda>n. eg_uuids (n + 10)) (default_references eg_uuids)))) \<and>
   usable_ids (snd (encrypted_data_attachment_mapping (\<lambda>n. eg_uuids (n + 10)) (default_references eg_uuids)))"
proof (rule fresh_references_are_usable)
  have "distinct (map eg_uuids [0..<12])" by code_simp
  then show "inj_on eg_uuids {..<12}" by (simp only: distinct_map set_upt atLeast0LessThan)
  show "\<forall>n<12. length (eg_uuids n) = 36" by (simp add: eg_uuids_def)
qed (rule prod.collapse [symmetric])

section \<open>Element models\<close>

theorem dumped_models_are_read_back_witness:
  "\<exists>e xs. dump_to_xml eg_dt (clark ns_eb3 ''MessageProperties'')
      (message_properties_model (the (um_message_properties eg_um))) = Inr e \<and>
    list_all2 (\<lambda>m x. dump_to_xml eg_dt (clark ns_eb3 ''Property'') m = Inr x)
      (map property_model (mp_properties (the (um_message_properties eg_um)))) xs \<and>
    dict_get (element_to_dict e) (Key (clark ns_eb3 ''Property'')) = Some (PyDicts (map element_to_dict xs))"
proof -
  let ?ps = "mp_properties (the (um_message_properties eg_um))"
  have "returns (dump_to_xml eg_dt (clark ns_eb3 ''MessageProperties'')
      (message_properties_model (the (um_message_properties eg_um))))" by code_simp
  then obtain e where e: "dump_to_xml eg_dt (clark ns_eb3 ''MessageProperties'')
      (message_properties_model (the (um_message_properties eg_um))) = Inr e" by (auto simp: returns_iff)
  have models: "field_models (determine_serialiser_method (AnnList AnnModel)) (model_list property_model ps) =
      Some (map property_model ps)" for ps
    by (simp add: model_list_def comp_def) (induction ps; simp)
  have "\<exists>xs. list_all2 (\<lambda>m x. dump_to_xml eg_dt (clark ns_eb3 ''Property'') m = Inr x) (map property_model ?ps) xs \<and>
      dict_get (element_to_dict e) (Key (clark ns_eb3 ''Property'')) = Some (PyDicts (map element_to_dict xs))"
  proof (rule dumped_models_are_read_back [OF e [unfolded message_properties_model_def] _ _ models])
    show "map property_model ?ps \<noteq> []" by code_simp
    show "plain_tag (clark ns_eb3 ''Property'')" by code_simp
  qed simp_all
  with e show ?thesis by blast
qed

section \<open>Refusals\<close>

lemma eg_refusal_outcome:
  "case parse_peppol eg_unsigned_lib eg_ctx [2] eg_attachments of
     Inl _ \<Rightarrow> False
   | Inr m \<Rightarrow>
       m_parse_error m = Some (make_error SignatureRequiredException '''') \<and>
       (case for_message eg_unsigned_lib eg_dt 0 m eg_receiver eg_references of
          Inl _ \<Rightarrow> False
        | Inr r \<Rightarrow>
            (case receipt_error r of
               Inr (Some element) \<Rightarrow>
                 returns (dump_to_xml eg_dt (clark ns_eb3 ''Error'') (error_element_model element))
             | _ \<Rightarrow> False))"
  by code_simp

theorem peppol_refusals_can_be_told_witness:
  "\<exists>m r element e c.
    parse_peppol eg_unsigned_lib eg_ctx [2] eg_attachments = Inr m \<and>
    for_message eg_unsigned_lib eg_dt 0 m eg_receiver eg_references = Inr r \<and> receipt_error r = Inr (Some element) \<and>
    dump_to_xml eg_dt (clark ns_eb3 ''Error'') (error_element_model element) = Inr e \<and>
    reportable (make_error SignatureRequiredException '''') \<and>
    py_strip (detail (make_error SignatureRequiredException '''')) \<noteq> '''' \<and>
    dict_get (element_to_dict e) (Key (clark ns_eb3 ''ErrorDetail'')) = Some (PyDicts [c]) \<and>
    dict_get c (Key ''#text'') = Some (PyStr (py_strip (detail (make_error SignatureRequiredException ''''))))"
proof -
  obtain m r element e where run: "parse_peppol eg_unsigned_lib eg_ctx [2] eg_attachments = Inr m"
    "m_parse_error m = Some (make_error SignatureRequiredException '''')"
    "for_message eg_unsigned_lib eg_dt 0 m eg_receiver eg_references = Inr r" "receipt_error r = Inr (Some element)"
    "dump_to_xml eg_dt (clark ns_eb3 ''Error'') (error_element_model element) = Inr e"
    using eg_refusal_outcome by (auto simp: returns_iff split: sum.split_asm option.split_asm)
  have lib: "documented_lib eg_unsigned_lib" "reports_validation (validate_sbd eg_unsigned_lib)"
    using eg_documented(2)
    by (simp_all add: documented_lib_def documented_cipher_def documented_certificates_def reports_validation_def
        eg_unsigned_lib_def eg_lib_def eg_lib_for_def)
  have key: "documented_key (private_key_of (ip_credentials (ctx_local_party eg_ctx)))"
    by (simp add: eg_ctx_def eg_receiver_def create_peppol_internal_party_def eg_documented)
  have refused: "path_loop eg_x509 leaf anchors intermediates d path = Inl y \<Longrightarrow> \<exists>t. y = UntrustedSignerError t"
    for leaf anchors intermediates d path y
    using path_loop_decides [OF eg_x509_refuses, of leaf anchors intermediates d path] by auto
  have resolver: "refusing_resolver (policy_signer_resolver (ctx_security_policy eg_ctx))"
    by (auto dest: refused simp: refusing_resolver_def eg_ctx_def eg_policy_def peppol_security_policy_def certificate_chain_def
        certificate_names_the_sender_def chain_resolve_def no_certificate_def path_to_anchor_def result_simps
        check_path_certificate_def for_each_eq_Inl Let_def
        split: option.splits if_splits)
  have acceptor: "refusing_acceptor (ctx_accept_participant eg_ctx)"
    by (auto simp: refusing_acceptor_def eg_ctx_def split: if_splits)
  from peppol_refusals_can_be_told [OF lib key resolver acceptor run(1,2)] run show ?thesis by blast
qed

text \<open>The signal that refuses a message, and the sender's library that reads it.\<close>

definition rx_env :: envelope where
  "rx_env = the (r_soap_envelope (projr (for_message eg_lib eg_dt 0 bg_rejected eg_receiver eg_references)))"
definition rx_signal :: xml where
  "rx_signal = projr (dump_to_xml eg_dt (clark ns_S12 ''Envelope'') (envelope_model rx_env))"
definition rx_lib :: peppol_lib where "rx_lib = eg_lib_for rx_signal eg_wrapped (Inr rx_env) eg_sbd"
definition rx_start :: peppol_sending_exchange where
  "rx_start = new_sending_exchange (peppol_profile (eg_environment\<lparr>env_lib := rx_lib\<rparr>)) eg_sender eg_remote eg_references 0 None"

lemma rx_answer:
  "for_message rx_lib eg_dt 0 bg_rejected eg_receiver eg_references =
   for_message eg_lib eg_dt 0 bg_rejected eg_receiver eg_references"
proof -
  have "exclusive_c14n rx_lib = (\<lambda>_ _. [0])" "hash_bytes rx_lib = (\<lambda>_ d. d)"
    "exclusive_c14n eg_lib = (\<lambda>_ _. [0])" "hash_bytes eg_lib = (\<lambda>_ d. d)"
    by (simp_all add: rx_lib_def eg_lib_def eg_lib_for_def)
  note fields = this
  show ?thesis
    unfolding for_message_def create_error_signal_from_exception_def create_error_signal_def
      create_non_repudiation_receipt_def get_success_soap_envelope_def get_error_soap_envelope_def
      signal_envelope_def get_signed_info_def get_messaging_digest_reference_def get_body_digest_reference_def
      get_signature_def signed_info_canonicalized_def for_element_def compute_digest_def canonicalize_def fields
    by (rule refl)
qed

lemma rx_arrives: "answer_arrives rx_lib eg_dt bg_rejected eg_receiver eg_references [2]"
proof -
  from bg_error_outcome obtain r where r: "for_message eg_lib eg_dt 0 bg_rejected eg_receiver eg_references = Inr r"
    "r_soap_envelope r = Some rx_env" "sendable rx_env"
    by (auto simp: rx_env_def split: sum.split_asm option.split_asm)
  from sendable_dump [OF r(3)] have "dump_to_xml eg_dt (clark ns_S12 ''Envelope'') (envelope_model rx_env) = Inr rx_signal"
    "distinct (map fst (id_attributes rx_signal))"
    by (auto simp: rx_signal_def)
  moreover have "envelope_of rx_lib rx_signal = Inr rx_env" "parse_xml rx_lib [2] = Inr rx_signal"
    by (simp_all add: envelope_of_def parse_xml_def rx_lib_def eg_lib_for_def)
  ultimately show ?thesis
    using r(1,2) rx_answer
    by (auto simp: answer_arrives_def signal_transmitted_def security_reads_def signature_reads_def
        intro!: exI [of _ 0] exI [of _ r] exI [of _ rx_signal] exI [of _ rx_env] option.rel_refl)
qed

theorem refused_message_is_rejected_witness:
  "\<exists>x' r element. receive_signal [2] rx_start = (Inr (), x') \<and> ex_state x' = REJECTED \<and>
    ex_receipt x' = Some r \<and> receipt_error r = Inr (Some element) \<and> err_error_code element = ''EBMS:0103''"
proof -
  have fields: "ex_profile rx_start = peppol_profile (eg_environment\<lparr>env_lib := rx_lib\<rparr>)"
    "expected_signer rx_start = certificate_of (ip_credentials eg_receiver)"
    "m_parse_error bg_rejected = Some (make_error SignatureRequiredException '''')"
    "m_message_id bg_rejected = ex_message_id rx_start" "ex_message_id rx_start \<noteq> ''''"
    "refs_messaging_id eg_references \<noteq> ''''" "refs_body_id eg_references \<noteq> ''''"
    by (simp_all add: rx_start_def new_sending_exchange_def default_message_ids_from_identifiers_def expected_signer_def
        eg_remote_def eg_receiver_def create_peppol_internal_party_def create_peppol_external_party_def
        bg_rejected_def eg_references_def)
  have key: "signing_key (env_lib (eg_environment\<lparr>env_lib := rx_lib\<rparr>)) eg_receiver"
    using bg_signing_key by (simp add: signing_key_def rx_lib_def eg_lib_def eg_lib_for_def)
  have "answer_arrives (env_lib (eg_environment\<lparr>env_lib := rx_lib\<rparr>)) eg_dt bg_rejected eg_receiver eg_references [2]"
    using rx_arrives by simp
  from refused_message_is_rejected [OF fields(1-5) key fields(6,7) this] obtain x' r element where
    "receive_signal [2] rx_start = (Inr (), x')" "ex_state x' = REJECTED" "ex_receipt x' = Some r"
    "receipt_error r = Inr (Some element)" "Some (err_error_code element) = error_code (make_error SignatureRequiredException '''')"
    by blast
  moreover have "error_code (make_error SignatureRequiredException '''') = Some ''EBMS:0103''" by code_simp
  ultimately show ?thesis by auto
qed

end
