(* ===== verification/HonestExample.thy ===== *)
theory HonestExample
  imports BuiltExamples Delivery
begin

text \<open>
  An honest exchange of the parties of \<^theory_text>\<open>Examples\<close>, from the built message to the acknowledgement:
  the bytes \<open>[2]\<close> carry the envelope, \<open>[4]\<close> the signal that answers it.
\<close>

definition hx_lib :: peppol_lib where
  "hx_lib = bg_lib
     \<lparr>fromstring := (\<lambda>d. if d = [4] then Some bg_signal else fromstring bg_lib d),
      validate_envelope := (\<lambda>d. case dict_get d (Key ''*etree_element'') of
          Some (PyElement e) \<Rightarrow> Inr (if is_user_message e then bg_env else bg_signal_env)
        | _ \<Rightarrow> Inl XMLSyntaxError)\<rparr>"

definition hx_environment :: peppol_environment where
  "hx_environment =
     \<lparr>env_lib = hx_lib, env_builder = eg_blib, env_dt = eg_dt, env_now = 0, env_build_clock = (0, 0),
      env_uuids = show_nat\<rparr>"

definition hx_transport :: transport where
  "hx_transport = \<lparr>clock_text = '''', message_uuid = '''', installed_version = None\<rparr>"

definition hx_start :: peppol_sending_exchange where
  "hx_start = new_sending_exchange (peppol_profile hx_environment) eg_sender eg_remote bg_references 0 None"

definition hx_request :: "(string, string) dict \<times> bytes" where
  "hx_request = projr (fst (exchange_build hx_lib eg_blib eg_dt hx_transport [] eg_args hx_start))"

definition hx_built :: peppol_sending_exchange where
  "hx_built = snd (exchange_build hx_lib eg_blib eg_dt hx_transport [] eg_args hx_start)"

section \<open>The library agrees with the one of the built examples\<close>

lemma hx_lib_fields:
  "tostring hx_lib = (\<lambda>_. [1])" "exclusive_c14n hx_lib = (\<lambda>_ _. [0])" "hash_bytes hx_lib = (\<lambda>_ d. d)"
  "cert_public_key hx_lib = (\<lambda>_. Inr (RSA (RSAPublicKey 3 5)))" "fromstring hx_lib [] = Some eg_invoice"
  by (simp_all add: hx_lib_def bg_lib_def bg_lib_fields)

lemma hx_build: "bg_build hx_lib = bg_build bg_lib"
  unfolding bg_lib_def bg_build_def peppol_build_message_def seal_payload_def get_soap_envelope_def
    get_message_signed_info_def message_copies
    get_messaging_digest_reference_def get_body_digest_reference_def get_payload_digest_reference_def
    get_signature_def signed_info_canonicalized_def for_element_def for_bytes_def compute_digest_def canonicalize_def
    credentials_rsa_public_key_def parse_xml_def payload_digest_references.simps bg_lib_fields hx_lib_fields
  by (rule refl)

lemma hx_answer: "bg_answer hx_lib env = bg_answer (bg_lib_for soap answer) env"
  unfolding bg_answer_def for_message_def create_error_signal_from_exception_def create_error_signal_def
    create_non_repudiation_receipt_def
    get_success_soap_envelope_def get_error_soap_envelope_def signal_envelope_def get_signed_info_def
    get_messaging_digest_reference_def get_body_digest_reference_def
    get_signature_def signed_info_canonicalized_def for_element_def compute_digest_def canonicalize_def
    bg_lib_fields hx_lib_fields
  by (rule refl)

lemma hx_parses:
  "parse_xml hx_lib [2] = Inr bg_soap" "parse_xml hx_lib [4] = Inr bg_signal" "parse_xml hx_lib [1] = Inr eg_wrapped"
  by (simp_all add: parse_xml_def hx_lib_def bg_lib_def bg_lib_for_def eg_lib_for_def)

lemma hx_envelope:
  "plain_children e \<Longrightarrow> envelope_of hx_lib e = Inr (if is_user_message e then bg_env else bg_signal_env)"
  by (simp add: envelope_of_def hx_lib_def plain_children_def list_all_iff element_to_dict_tree)

lemma hx_keys: "agree_on_keys hx_lib eg_blib eg_sender eg_remote eg_ctx"
  using bg_keys
  by (simp add: agree_on_keys_def signing_key_def opens_what_is_sealed_def inflates_what_is_deflated_def
      credentials_rsa_public_key_def hx_lib_def)

lemma hx_header: "read_sbdh hx_lib bg_sent = Inr eg_header"
proof -
  have "sbdh_validation_error hx_lib x = None" "validate_sbd hx_lib d = Inr eg_sbd" for x d
    by (simp_all add: sbdh_validation_error_def hx_lib_def bg_lib_def bg_lib_for_def eg_lib_for_def)
  moreover have "find_first eg_wrapped [clark ns_sbdh ''StandardBusinessDocumentHeader''] \<noteq> None" by code_simp
  ultimately show ?thesis by (auto simp: read_sbdh_def bg_sent_fields eg_header_def hx_parses)
qed

lemma hx_signing: "signing_key hx_lib eg_receiver"
  using bg_signing_key
  by (simp add: signing_key_def hx_lib_def bg_lib_def bg_lib_for_def eg_lib_def eg_lib_for_def)

section \<open>Building and receiving\<close>

lemma built_message_ids:
  assumes "peppol_build_message lib blib dt nows us payload local_party remote args references = (Inr m, references')"
  shows "m_message_id m = refs_message_id references" "m_messaging_id m = refs_messaging_id references"
  using assms
  by (auto simp: peppol_build_message_def new_peppol_message_def encrypted_data_attachment_mapping_def andThen_eq_Inr Let_def
      split: sum.splits prod.splits if_split_asm)

lemma bg_sent_ids: "m_message_id bg_sent = ''1''" "m_messaging_id bg_sent = ''m''"
  using built_message_ids [OF bg_built_ok [unfolded bg_build_def]]
  by (simp_all add: bg_references_def eg_references_def)

lemma hx_exchange:
  "exchange_build hx_lib eg_blib eg_dt hx_transport [] eg_args hx_start = (Inr hx_request, hx_built)"
  "ex_message hx_built = Some bg_sent" "ex_message_id hx_built = ''1''" "ex_messaging_id hx_built = ''m''"
proof -
  have "profile_build_message (ex_profile hx_start) [] (ex_local_party hx_start) (sx_remote_party hx_start) eg_args
      (ex_identifiers hx_start) = (Inr bg_sent, snd bg_built)"
    using bg_built_ok hx_build
    by (simp add: hx_start_def new_sending_exchange_def default_message_ids_from_identifiers_def peppol_profile_def
        hx_environment_def bg_build_def)
  moreover obtain rq where "message_request_data hx_lib eg_blib eg_dt bg_sent = Inr rq"
    by (simp add: message_request_data_def require_soap_envelope_def bg_sent_fields)
  ultimately have "\<exists>request x. exchange_build hx_lib eg_blib eg_dt hx_transport [] eg_args hx_start = (Inr request, x) \<and>
      ex_message x = Some bg_sent \<and> ex_message_id x = ''1'' \<and> ex_messaging_id x = ''m''"
    by (cases rq) (simp add: exchange_build_def bg_sent_ids)
  then show "exchange_build hx_lib eg_blib eg_dt hx_transport [] eg_args hx_start = (Inr hx_request, hx_built)"
    "ex_message hx_built = Some bg_sent" "ex_message_id hx_built = ''1''" "ex_messaging_id hx_built = ''m''"
    by (auto simp: hx_request_def hx_built_def)
qed

lemma hx_transmitted: "transmitted hx_lib eg_dt (the (m_soap_envelope bg_sent)) bg_soap bg_env"
  by (simp add: transmitted_def bg_sent_fields reads_back_refl hx_envelope bg_soap_read)

lemma hx_arrives: "message_arrives hx_lib eg_dt hx_built [2] bg_soap bg_env"
proof -
  obtain p where "find_first bg_soap PARTY_TO_PATH = Some p" using bg_soap_read(4) by auto
  then have "returns (get_addressed_to hx_lib (find_first bg_soap PARTY_TO_PATH))"
    by (simp add: get_addressed_to_def hx_lib_def bg_lib_def bg_lib_for_def eg_lib_for_def)
  then show ?thesis
    by (simp add: message_arrives_def hx_parses hx_exchange hx_transmitted bg_soap_read)
qed

lemma hx_answer_arrives:
  assumes "m_message_id m = ''1''" and "m_messaging_id m = ''m''" and "m_soap_envelope m = Some bg_env"
    and "parse_successful m"
  shows "answer_arrives hx_lib eg_dt m eg_receiver eg_references [4]"
proof -
  obtain r where r: "bg_answer hx_lib bg_env = Inr r" "r_soap_envelope r = Some bg_signal_env"
    "dump_to_xml eg_dt (clark ns_S12 ''Envelope'') (envelope_model bg_signal_env) = Inr bg_signal"
    "distinct (map fst (id_attributes bg_signal))" "\<not> is_user_message bg_signal" "plain_children bg_signal"
    using bg_signal_built unfolding hx_answer [of _ eg_invoice "Inl XMLSyntaxError"] by blast
  have "for_message hx_lib eg_dt 0 m eg_receiver eg_references = bg_answer hx_lib bg_env"
    using assms
    by (simp add: bg_answer_def bg_read_def for_message_def signature_references_def parse_successful_def
        empty_peppol_message_def empty_message_def message.defs)
  with r show ?thesis
    by (auto simp: answer_arrives_def signal_transmitted_def hx_parses hx_envelope security_reads_def signature_reads_def
        intro!: exI [of _ 0] exI [of _ r] exI [of _ bg_signal] exI [of _ bg_signal_env] option.rel_refl)
qed

lemma hx_received:
  assumes "parse_peppol hx_lib eg_ctx [2] (m_mime_attachments bg_sent) = Inr m'"
  shows "m_message_id m' = ''1''" "m_messaging_id m' = ''m''" "m_soap_envelope m' = Some bg_env"
proof -
  obtain to where to: "get_addressed_to hx_lib (find_first bg_soap PARTY_TO_PATH) = Inr to"
    using hx_arrives by (auto simp: message_arrives_def returns_iff)
  have built: "peppol_build_message hx_lib eg_blib eg_dt (0, 0) show_nat [] eg_sender eg_remote eg_args bg_references =
      (Inr bg_sent, snd bg_built)"
    using bg_built_ok hx_build by (simp add: bg_build_def)
  have sbd: "get_standard_business_document (fst (0, 0)) eg_args = Inr eg_sbd"
    "header_reads eg_header (sbdh_document_standard_business_document_header eg_sbd)"
    by (simp_all add: eg_sbd_built header_reads_def eg_header_def)
  note routed = built_message_routed [OF built bg_usable hx_keys hx_transmitted bg_small bg_party_types sbd(1)
      hx_header sbd(2) bg_accepted]
  from assms show "m_message_id m' = ''1''" "m_messaging_id m' = ''m''" "m_soap_envelope m' = Some bg_env"
    by (auto simp: parse_peppol_def parse_def parse_body_def Let_def hx_parses bg_soap_read(3) to routed)
qed

section \<open>The exchange\<close>

theorem honest_exchange_is_acknowledged_witness:
  "\<exists>m' x'. parse_peppol hx_lib eg_ctx [2] (m_mime_attachments bg_sent) = Inr m' \<and> parse_successful m' \<and>
    p_recipient m' = Some ''0192:2'' \<and> receive_signal [4] hx_built = (Inr (), x') \<and> sending_successful x'"
proof -
  have E: "env_lib hx_environment = hx_lib" "env_builder hx_environment = eg_blib" "env_dt hx_environment = eg_dt"
    "env_build_clock hx_environment = (0, 0)"
    by (simp_all add: hx_environment_def)
  have "\<exists>m'. parse_peppol (env_lib hx_environment) eg_ctx [2] (m_mime_attachments bg_sent) = Inr m' \<and>
      parse_successful m' \<and> p_recipient m' = Some (pb_recipient eg_args) \<and>
      (\<forall>signal. answer_arrives (env_lib hx_environment) eg_dt m' (ctx_local_party eg_ctx) eg_references signal \<longrightarrow>
         (\<exists>x'. receive_signal signal hx_built = (Inr (), x') \<and> sending_successful x'))"
  proof (rule honest_exchange_is_acknowledged [OF hx_exchange(1) [unfolded hx_start_def] bg_usable])
    show "ex_message_id hx_built \<noteq> ''''" "ex_message hx_built = Some bg_sent" by (simp_all add: hx_exchange)
    show "agree_on_keys (env_lib hx_environment) (env_builder hx_environment) eg_sender eg_remote eg_ctx"
      by (simp add: E hx_keys)
    show "get_standard_business_document (fst (env_build_clock hx_environment)) eg_args = Inr eg_sbd"
      by (simp add: E eg_sbd_built)
    show "read_sbdh (env_lib hx_environment) bg_sent = Inr eg_header" by (simp add: E hx_header)
    show "header_reads eg_header (sbdh_document_standard_business_document_header eg_sbd)"
      by (simp add: header_reads_def eg_header_def)
    show "message_arrives (env_lib hx_environment) (env_dt hx_environment) hx_built [2] bg_soap bg_env"
      by (simp add: E hx_arrives)
    show "signing_key (env_lib hx_environment) (ctx_local_party eg_ctx)" by (simp add: E eg_ctx_def hx_signing)
    show "certificate_of (ip_credentials (ctx_local_party eg_ctx)) = certificate_of (xp_credentials eg_remote)"
      by (simp add: eg_ctx_def eg_receiver_def eg_remote_def create_peppol_internal_party_def
          create_peppol_external_party_def)
    show "refs_messaging_id eg_references \<noteq> ''''" "refs_body_id eg_references \<noteq> ''''"
      by (simp_all add: eg_references_def)
  qed (rule bg_party_types bg_accepted bg_small)+
  then obtain m' where m': "parse_peppol hx_lib eg_ctx [2] (m_mime_attachments bg_sent) = Inr m'" "parse_successful m'"
    "p_recipient m' = Some ''0192:2''"
    and answered: "answer_arrives hx_lib eg_dt m' eg_receiver eg_references [4] \<Longrightarrow>
      \<exists>x'. receive_signal [4] hx_built = (Inr (), x') \<and> sending_successful x'"
    by (auto simp: E eg_args_def eg_ctx_def)
  have "answer_arrives hx_lib eg_dt m' eg_receiver eg_references [4]"
    by (rule hx_answer_arrives) (use hx_received [OF m'(1)] m'(2) in simp_all)
  with m' answered show ?thesis by blast
qed

end
