(* ===== verification/Spec2Isabelle.thy ===== *)
theory Spec2Isabelle
  imports Witnesses HonestExample
begin

text \<open>
  \<^bold>\<open>The program.\<close>  \<^verbatim>\<open>as4\<close> is a Python library for the AS4 messaging protocol (ebMS 3.0 user messages
  and signals over SOAP, signed with XML Signature, encrypted with XML Encryption) with the Peppol
  profile on top.  A sender builds a message from a business document, keeps an \<open>AS4SendingExchange\<close>
  while it waits for the answer, and judges the signal that comes back.  A receiver parses a
  message, keeps an \<open>AS4ReceivingExchange\<close>, and answers with a receipt or an error signal.  The code
  is under \<^verbatim>\<open>src/as4/\<close>; file names below are relative to it.

  \<^bold>\<open>How the parts interact.\<close>  \<open>AS4Profile\<close> (\<^verbatim>\<open>core/profiles.py\<close>) bundles the functions the exchanges
  of \<^verbatim>\<open>core/exchange.py\<close> call: pack and unpack a MIME message, build a message, build and parse a
  receipt.  Unpacking goes through \<^verbatim>\<open>utils/mime_handler.py\<close> to \<open>AS4Message.parse\<close>
  (\<^verbatim>\<open>core/message.py\<close>), whose template method \<open>process\<close> the Peppol message overrides
  (\<^verbatim>\<open>profiles/peppol/message.py\<close>).  Parsing validates the envelope against the element models of
  \<^verbatim>\<open>models/\<close>, asks the signer resolver of the security policy (\<^verbatim>\<open>core/context.py\<close>,
  \<^verbatim>\<open>core/trust.py\<close>) which certificate may sign, verifies signature, coverage and digests
  (\<^verbatim>\<open>models/dsig/\<close>), decrypts and inflates the payloads.  Every refusal a partner may be told about
  is a class of \<^verbatim>\<open>errors.py\<close> and is stored in the message instead of raised.  A receipt
  (\<^verbatim>\<open>core/receipt.py\<close>) quotes the signed references of the message, which is what the sender
  compares in \<open>verify_non_repudiation\<close>.

  \<^bold>\<open>Theories, in the order of import.\<close>
  \<^item> \<open>Prelude\<close>: the result type \<open>exn + 'a\<close> of fallible code with its bind \<open>andThen\<close>, \<open>for_each\<close> (a loop
    of checks), \<open>rethrow\<close> (an \<^verbatim>\<open>except\<close> clause) and \<open>attempt\<close> (a step that keeps the fields stored so
    far); dictionaries as association lists in insertion order; Python string functions; the
    collection \<open>result_simps\<close> of the inversion rules all component proofs share.
  \<^item> \<open>Errors\<close>: \<^verbatim>\<open>errors.py\<close>, \<^verbatim>\<open>profiles/peppol/exceptions.py\<close>, and the storing of errors and
    certificates of \<^verbatim>\<open>core/serialisation.py\<close>.  \<open>Base64\<close>: the codec the code calls from the standard
    library, on \<open>8 word\<close> bytes.  \<open>Xml\<close>: element trees, \<^verbatim>\<open>utils/xml_parser.py\<close>, and
    \<open>index_elements_by_id\<close> of \<^verbatim>\<open>core/common.py\<close>.
  \<^item> \<open>Elements\<close>: \<^verbatim>\<open>models/common.py\<close>, the conversion between models and trees.  \<open>Dsig\<close>, \<open>Wsse\<close>
    (with \<^verbatim>\<open>models/xenc\<close>), \<open>Ebms\<close> (with \<^verbatim>\<open>models/ebbp\<close> and \<^verbatim>\<open>models/soap\<close>): one record per model class,
    one \<open>..._model\<close> function saying how it is dumped, and the methods of the classes.
  \<^item> \<open>Context\<close>, \<open>Trust\<close>, \<open>References\<close>: \<^verbatim>\<open>core/common.py\<close> and \<^verbatim>\<open>core/context.py\<close>, \<^verbatim>\<open>core/trust.py\<close>,
    \<^verbatim>\<open>core/references.py\<close>.  The locale \<open>trusting_resolver\<close> is the contract of a signer resolver;
    pinned certificates, certificate chains and the Peppol wrapper are its interpretations.
  \<^item> \<open>Message\<close>: \<^verbatim>\<open>core/message.py\<close>, every method.  \<open>Processing\<close> holds the characterisation of each
    check, \<open>Parsing\<close> the theorems about \<open>parse\<close> (under the locale of its template method
    \<open>process\<close>).
  \<^item> \<open>Receipt\<close>: \<^verbatim>\<open>core/receipt.py\<close>, both directions.  \<open>Mime\<close>: \<^verbatim>\<open>utils/mime_handler.py\<close> and
    \<^verbatim>\<open>utils/cipher_handler.py\<close>.  \<open>Exchange\<close>: \<^verbatim>\<open>core/profiles.py\<close> and \<^verbatim>\<open>core/exchange.py\<close>, whose methods
    are also the steps of two state machines (\<open>sending_step\<close>, \<open>receiving_step\<close>).
  \<^item> \<open>DocumentIdentifier\<close>, \<open>PeppolMessage\<close>, \<open>PeppolBuilder\<close>, \<open>PeppolProfile\<close>: the Peppol profile.
    \<open>PeppolAssurance\<close> proves what an accepted Peppol message and an acknowledged exchange mean, and
    \<open>PeppolRoundTrip\<close> that a message built for a receiver is accepted and routed by it.  \<open>PeppolPki\<close>:
    \<^verbatim>\<open>profiles/peppol/pki.py\<close> and the production and test policies built from it.
  \<^item> \<open>Delivery\<close>: the abstract protocol of a sender waiting for proof of delivery (\<open>delivery_step\<close>, with
    the verdicts \<open>Open\<close>, \<open>Delivered\<close>, \<open>Refused\<close>, \<open>Unproven\<close>), the simulation that the sending exchange
    implements it, and the composition of builder, wire, parser, receipt builder and exchange into
    one statement: an honest exchange ends acknowledged.
  \<^item> \<open>Refusals\<close>: the dual.  Every error the Peppol parser stores can be told in a signal, and the sending
    exchange of a refused message ends REJECTED with that error.
  \<^item> \<open>Examples\<close>, \<open>BuiltExamples\<close>, \<open>HonestExample\<close>: one hand-written exchange, one message and signal
    produced by the builders, and the whole exchange between the two, evaluated in the kernel.
    \<open>Witnesses\<close>: for each property with hypotheses, its use on them.

  \<^bold>\<open>State and errors.\<close>  An object is a record; a method that assigns fields returns the updated record
  beside its result, also when it raises, because \<open>parse\<close> keeps the fields stored before the error.
  The exceptions the code raises or catches are constructors of \<open>exn\<close>; \<open>Receiptable\<close> errors carry the
  instance attributes of \<open>BaseAS4ReceiptableError\<close>.  Integers are unbounded as in Python.

  \<^bold>\<open>Parameters.\<close>  Code that is not in the repository is a field of a library record that the
  definitions take as argument: the XML reader, writer and canonicaliser (\<open>xml_lib\<close>, \<open>dsig_lib\<close>), the
  hash functions, RSA, AES-GCM and X.509 of \<open>cryptography\<close> (\<open>x509_lib\<close>, \<open>dsig_lib\<close>, \<open>message_lib\<close>, \<open>builder_lib\<close>; sealing
  may raise as opening may, and so may reading a certificate or its public key), zlib and gzip, pydantic
  validation of an element dictionary to a record (\<open>validate_...\<close>), the XML schema check of the Peppol
  header, the multipart encoder, UUIDs and the clock.  Security theorems assume nothing about them:
  they say that the library's verdict was asked for and was positive.  The round trips name what they need:
  \<open>opens_what_is_sealed\<close> (of the session key and the nonce this message drew, for what sealing returned),
  \<open>inflates_what_is_deflated\<close>, \<open>signing_key\<close>, \<open>agree_on_keys\<close>, and that what is dumped is validated to models
  with the same readings, which the model does not derive because pydantic's validation is a parameter
  (\<open>reads_back\<close>, \<open>transmitted\<close>, \<open>signal_transmitted\<close>, \<open>header_reads\<close>; what \<open>dump_to_xml\<close> and
  \<open>element_to_dict\<close> do to lists of models is proved in \<open>Elements\<close>).  The theorems on errors name the exceptions
  the libraries are documented to raise: \<open>documented_lib\<close> with \<open>documented_cipher\<close> (ValueError, InvalidTag) and
  \<open>documented_certificates\<close> (ValueError and InvalidVersion of a certificate, ValueError and
  UnsupportedAlgorithm of a public key), \<open>documented_key\<close>, \<open>refusing_resolver\<close>, \<open>refusing_acceptor\<close>,
  \<open>refuses_only\<close> (an issuance check raises nothing but refusals).

  \<^bold>\<open>Parts that share an href.\<close>  The loop of \<open>process\<close> decompresses once for every declared part, so two parts
  with one href put the same attachment through two decompressions.  The theorems on payloads follow the
  code there: \<open>inflations\<close> over \<open>parts_named\<close> is one decompression after the other.

  \<^bold>\<open>Loops and bounds.\<close>  No definition uses fuel.  The certificate chain loop ends because its path
  grows towards \<open>maximum_depth\<close> (a measure); all other loops recurse over a list or a tree.

  \<^bold>\<open>Groups of theorems.\<close>  Acceptance (what \<open>parse\<close> returning without error implies: trusted signer,
  valid signature, coverage, digests, size cap); completeness (what a peer builds is accepted);
  failure (which errors leave \<open>parse\<close>, that a failed decryption tells the sender nothing about the
  key, that no plaintext is kept without a verified signature); signals (a receipt is accepted exactly
  when its signature and its references are right, and acknowledges what was received); the exchange state machines
  (invariants of all reachable states, refinement of the abstract protocol, and that an honest
  exchange succeeds); trust (chains are anchored, valid and short, the search ends and misses
  nothing, the default policy trusts nobody); codecs, identifiers, element models and stored errors
  (round trips); refinement of the core parser by the Peppol parser.

  \<^bold>\<open>Not modelled.\<close>  The package \<^verbatim>\<open>__init__\<close> files and \<^verbatim>\<open>peppol.py\<close> only re-export the library, and
  \<^verbatim>\<open>src/examples/\<close> only calls it.  Behind the SBDH check of \<^verbatim>\<open>resources/schemas/vendor/sbdh\<close> is lxml on
  bundled XSD files: its verdict and its error log are parameters, and the lock around the one call
  has no effect in a sequential model.  Pydantic's validation and the generated constructors of the
  models are parameters (see above).  Logging is absent from the code.
\<close>

end
